(* ===== verification/Prelude.thy ===== *)
theory Prelude
  imports Complex_Main "HOL-Library.Multiset"
begin

text \<open>
  Shared vocabulary of the development.  The application is React code whose numbers are
  JavaScript doubles; the model reads them as exact rationals (\<open>money\<close>), so rounding of
  binary floating point is not modelled, but the non-finite results that JavaScript produces
  instead of raising (\<open>Infinity\<close>, \<open>-Infinity\<close>, \<open>NaN\<close> after a division by zero) are:
  they are the values of \<open>jsnum\<close>.  The idioms the components repeat are named once here:
  \<open>parseFloat(v) || d\<close> (\<open>js_or\<close>), \<open>xs.reduce((s, x) => s + f(x), 0)\<close> (\<open>js_sum\<close>),
  \<open>xs.map(x => p(x) ? {...x, ...} : x)\<close> (\<open>map_where\<close>), \<open>Math.round\<close> (\<open>js_round\<close>),
  \<open>s.toLowerCase()\<close> (\<open>js_lower\<close>) \<open>s.includes(t)\<close> (\<open>js_includes\<close>) and \<open>xs.join(sep)\<close> (\<open>js_join\<close>).
\<close>

named_theorems js_simps "evaluation rules of the JavaScript primitives of the model"

type_synonym money = rat

subsection \<open>JavaScript numbers\<close>

datatype jsnum = Num rat | PosInf | NegInf | NaN

text \<open>\<open>a / b\<close>: a division by zero gives \<open>\<plusminus>Infinity\<close>, or \<open>NaN\<close> for \<open>0 / 0\<close>.\<close>

definition js_div :: "rat \<Rightarrow> rat \<Rightarrow> jsnum" where
  "js_div a b =
     (if b \<noteq> 0 then Num (a / b)
      else if a > 0 then PosInf else if a < 0 then NegInf else NaN)"

text \<open>\<open>x * c\<close> for a number \<open>x\<close> and a constant \<open>c\<close>.\<close>

fun js_mul :: "jsnum \<Rightarrow> rat \<Rightarrow> jsnum" where
  "js_mul (Num x) c = Num (x * c)"
| "js_mul PosInf c = (if c > 0 then PosInf else if c < 0 then NegInf else NaN)"
| "js_mul NegInf c = (if c > 0 then NegInf else if c < 0 then PosInf else NaN)"
| "js_mul NaN c = NaN"

text \<open>\<open>Math.round\<close>: the nearest integer, halves rounded up (towards \<open>+\<infinity>\<close>).\<close>

fun js_round :: "jsnum \<Rightarrow> jsnum" where
  "js_round (Num x) = Num (of_int \<lfloor>x + 1/2\<rfloor>)"
| "js_round v = v"

text \<open>\<open>x <= c\<close> and \<open>x > c\<close>: every comparison with \<open>NaN\<close> is false.\<close>

fun js_le :: "jsnum \<Rightarrow> rat \<Rightarrow> bool" where
  "js_le (Num x) c = (x \<le> c)"
| "js_le PosInf c = False"
| "js_le NegInf c = True"
| "js_le NaN c = False"

fun js_gt :: "jsnum \<Rightarrow> rat \<Rightarrow> bool" where
  "js_gt (Num x) c = (x > c)"
| "js_gt PosInf c = True"
| "js_gt NegInf c = False"
| "js_gt NaN c = False"

text \<open>\<open>Math.min(x, c)\<close>: \<open>NaN\<close> if either argument is \<open>NaN\<close>.\<close>

fun js_min :: "jsnum \<Rightarrow> rat \<Rightarrow> jsnum" where
  "js_min (Num x) c = Num (min x c)"
| "js_min PosInf c = Num c"
| "js_min NegInf c = NegInf"
| "js_min NaN c = NaN"

text \<open>
  \<open>parseFloat(v) || d\<close>: the parsed value, or \<open>d\<close> when the parse failed (\<open>NaN\<close>, here
  \<open>None\<close>) or gave \<open>0\<close>, both of which are falsy.
\<close>

definition js_or :: "rat option \<Rightarrow> rat \<Rightarrow> rat" where
  "js_or v d = (case v of None \<Rightarrow> d | Some x \<Rightarrow> (if x = 0 then d else x))"

text \<open>\<open>xs.reduce((sum, x) => sum + f(x), 0)\<close>.\<close>

definition js_sum :: "('a \<Rightarrow> rat) \<Rightarrow> 'a list \<Rightarrow> rat" where
  "js_sum f xs = foldl (\<lambda>s x. s + f x) 0 xs"

text \<open>\<open>xs.map(x => p(x) ? g(x) : x)\<close>, the update idiom of every list held in React state.\<close>

definition map_where :: "('a \<Rightarrow> bool) \<Rightarrow> ('a \<Rightarrow> 'a) \<Rightarrow> 'a list \<Rightarrow> 'a list" where
  "map_where p g xs = map (\<lambda>x. if p x then g x else x) xs"

subsection \<open>Strings\<close>

text \<open>\<open>toLowerCase\<close> on the ASCII letters, the only letters of the application's data.\<close>

definition js_lower_char :: "char \<Rightarrow> char" where
  "js_lower_char c =
     (if (65::nat) \<le> of_char c \<and> of_char c \<le> (90::nat) then char_of (of_char c + (32::nat)) else c)"

definition js_lower :: "string \<Rightarrow> string" where
  "js_lower s = map js_lower_char s"

text \<open>\<open>s.includes(t)\<close>: \<open>t\<close> occurs in \<open>s\<close> as a contiguous substring.\<close>

fun js_includes :: "string \<Rightarrow> string \<Rightarrow> bool" where
  "js_includes [] t = (t = [])"
| "js_includes (c # s) t = (take (length t) (c # s) = t \<or> js_includes s t)"


text \<open>
  The class \<open>\s\<close> of JavaScript regular expressions on single-byte characters (tab, line
  feed, vertical tab, form feed, carriage return, space, no-break space), which is also what
  \<open>trim\<close> and \<open>parseFloat\<close> skip.
\<close>

definition js_space :: "char \<Rightarrow> bool" where
  "js_space c = (of_char c \<in> {9, 10, 11, 12, 13, 32, 160::nat})"

text \<open>
  Decimal numerals.  \<open>parseFloat(s)\<close> on the strings a number input produces: leading
  white space, an optional sign, digits and an optional fraction; what follows is ignored,
  and a string without a digit is \<open>NaN\<close> (\<open>None\<close>).  Exponents and the literal
  \<open>Infinity\<close> are not read.  \<open>String(n)\<close> of a natural number is \<open>show_nat\<close>, and
  \<open>s.padStart(k, c)\<close> is \<open>pad_start\<close>.
\<close>

definition is_digit :: "char \<Rightarrow> bool" where
  "is_digit c = (48 \<le> (of_char c :: nat) \<and> (of_char c :: nat) \<le> 57)"

definition digits_val :: "string \<Rightarrow> nat" where
  "digits_val ds = foldl (\<lambda>n d. 10 * n + (of_char d - 48)) 0 ds"

definition parseFloat_str :: "string \<Rightarrow> rat option" where
  "parseFloat_str s =
     (let s1 = dropWhile js_space s;
          (sg, s2) = (case s1 of [] \<Rightarrow> (1, [])
                      | c # r \<Rightarrow> if c = CHR ''-'' then (-1, r) else if c = CHR ''+'' then (1, r) else (1, s1));
          ip = takeWhile is_digit s2;
          fp = (case dropWhile is_digit s2 of [] \<Rightarrow> []
                | c # r \<Rightarrow> if c = CHR ''.'' then takeWhile is_digit r else [])
      in if ip = [] \<and> fp = [] then None
         else Some (sg * (of_nat (digits_val ip) + of_nat (digits_val fp) / 10 ^ length fp)))"

text \<open>\<open>s.trim()\<close>.\<close>

definition js_trim :: "string \<Rightarrow> string" where
  "js_trim s = rev (dropWhile js_space (rev (dropWhile js_space s)))"

text \<open>
  A form value: a string typed into an input or a number from the mock data.  Its
  truthiness (\<open>!v\<close>) and \<open>parseFloat(v)\<close> are what the guards and the totals use.
\<close>

datatype jsval = JStr string | JNum rat

fun js_truthy :: "jsval \<Rightarrow> bool" where
  "js_truthy (JStr s) = (s \<noteq> [])"
| "js_truthy (JNum x) = (x \<noteq> 0)"

fun js_parseFloat :: "jsval \<Rightarrow> rat option" where
  "js_parseFloat (JStr s) = parseFloat_str s"
| "js_parseFloat (JNum x) = Some x"

text \<open>
  \<open>parseInt(s)\<close>: leading white space, an optional sign and the longest run of digits;
  \<open>NaN\<close> (\<open>None\<close>) without a digit.
\<close>

definition parseInt_str :: "string \<Rightarrow> int option" where
  "parseInt_str s =
     (let s1 = dropWhile js_space s;
          (sg, s2) = (case s1 of [] \<Rightarrow> (1, [])
                      | c # r \<Rightarrow> if c = CHR ''-'' then (-1, r) else if c = CHR ''+'' then (1, r) else (1, s1));
          ip = takeWhile is_digit s2
      in if ip = [] then None else Some (sg * int (digits_val ip)))"

fun show_nat :: "nat \<Rightarrow> string" where
  "show_nat n = (if n < 10 then [char_of (48 + n)] else show_nat (n div 10) @ [char_of (48 + n mod 10)])"

declare show_nat.simps [simp del]

definition pad_start :: "nat \<Rightarrow> char \<Rightarrow> string \<Rightarrow> string" where
  "pad_start k c s = replicate (k - length s) c @ s"

text \<open>
  \<open>value.toFixed(1)\<close> on a number: the integer \<open>n\<close> nearest to \<open>10 * |value|\<close>, the
  larger one on a tie, written with one decimal; a negative value gets a minus sign.
\<close>

definition toFixed1 :: "rat \<Rightarrow> string" where
  "toFixed1 v =
     (let n = nat \<lfloor>\<bar>v\<bar> * 10 + 1/2\<rfloor>
      in (if v < 0 then ''-'' else []) @ show_nat (n div 10) @ ''.'' @ show_nat (n mod 10))"

text \<open>\<open>String(q)\<close> of an integer.\<close>

definition show_int :: "int \<Rightarrow> string" where
  "show_int q = (if q < 0 then ''-'' @ show_nat (nat (- q)) else show_nat (nat q))"

text \<open>\<open>a % b\<close> on integers: the remainder takes the sign of the dividend.\<close>

definition js_rem :: "int \<Rightarrow> int \<Rightarrow> int" where
  "js_rem a b = sgn a * (\<bar>a\<bar> mod \<bar>b\<bar>)"

text \<open>\<open>xs.join(sep)\<close> on a list of strings.\<close>

fun js_join :: "string \<Rightarrow> string list \<Rightarrow> string" where
  "js_join sep [] = []"
| "js_join sep [x] = x"
| "js_join sep (x # y # xs) = x @ sep @ js_join sep (y # xs)"

subsection \<open>Shared lemmas\<close>

lemma js_sum_acc: "foldl (\<lambda>s x. s + f x) a xs = a + sum_list (map f xs)"
  by (induction xs arbitrary: a) (simp_all add: algebra_simps)

lemma js_sum_eq [simp]: "js_sum f xs = sum_list (map f xs)"
  by (simp add: js_sum_def js_sum_acc)

lemma js_or_simps [simp, js_simps]:
  "js_or None d = d"
  "js_or (Some 0) d = d"
  "x \<noteq> 0 \<Longrightarrow> js_or (Some x) d = x"
  by (simp_all add: js_or_def)

lemma js_or_Some_zero [simp, js_simps]: "js_or (Some x) 0 = x"
  by (simp add: js_or_def)

lemma js_or_nonzero: "d \<noteq> 0 \<Longrightarrow> js_or v d \<noteq> 0"
  by (simp add: js_or_def split: option.splits)

lemma js_div_nonzero [simp, js_simps]: "b \<noteq> 0 \<Longrightarrow> js_div a b = Num (a / b)"
  by (simp add: js_div_def)

lemma js_div_zero [js_simps]:
  "js_div a 0 = (if a > 0 then PosInf else if a < 0 then NegInf else NaN)"
  by (simp add: js_div_def)

lemma js_round_mono: "x \<le> y \<Longrightarrow> \<lfloor>x + 1/2\<rfloor> \<le> \<lfloor>y + (1/2 :: rat)\<rfloor>"
  by (simp add: floor_mono)

lemma js_round_of_int [simp]: "js_round (Num (of_int n)) = Num (of_int n)"
  by (simp add: floor_eq_iff)

lemma map_where_length [simp]: "length (map_where p g xs) = length xs"
  by (simp add: map_where_def)

lemma map_where_Nil [simp]: "map_where p g [] = []"
  by (simp add: map_where_def)

lemma map_where_Cons [simp]:
  "map_where p g (x # xs) = (if p x then g x else x) # map_where p g xs"
  by (simp add: map_where_def)

lemma map_where_append [simp]:
  "map_where p g (xs @ ys) = map_where p g xs @ map_where p g ys"
  by (simp add: map_where_def)

lemma map_where_no_match: "\<forall>x\<in>set xs. \<not> p x \<Longrightarrow> map_where p g xs = xs"
  by (induction xs) auto

lemma map_where_map:
  "(\<And>x. p x \<Longrightarrow> f (g x) = f x) \<Longrightarrow> map f (map_where p g xs) = map f xs"
  by (induction xs) auto

lemma js_includes_Nil [simp]: "js_includes s []"
  by (cases s) simp_all

lemma js_includes_self: "js_includes s s"
  by (cases s) simp_all

lemma find_append_eq: "find P (xs @ ys) = (case find P xs of None \<Rightarrow> find P ys | Some x \<Rightarrow> Some x)"
  by (induction xs) auto

lemma find_SomeD: "find P xs = Some x \<Longrightarrow> x \<in> set xs \<and> P x"
  by (induction xs) (auto split: if_splits)

lemma map_where_setD:
  "x \<in> set (map_where p g xs) \<Longrightarrow> x \<in> set xs \<or> (\<exists>y\<in>set xs. p y \<and> x = g y)"
  by (induction xs) auto

lemma digits_val_snoc [simp]: "digits_val (ds @ [d]) = 10 * digits_val ds + (of_char d - 48)"
  by (simp add: digits_val_def)

lemma digits_val_Nil [simp]: "digits_val [] = 0"
  by (simp add: digits_val_def)

lemma of_char_digit: "d < 10 \<Longrightarrow> (of_char (char_of (48 + d)) :: nat) = 48 + d"
  by (simp add: of_char_of)

lemma show_nat_digits: "\<forall>c\<in>set (show_nat n). is_digit c"
  by (induction n rule: show_nat.induct) (subst show_nat.simps, auto simp: is_digit_def of_char_digit)

lemma digits_val_single: "d < 10 \<Longrightarrow> digits_val [char_of (48 + d)] = d"
  by (simp add: digits_val_def of_char_digit)

lemma show_nat_val: "digits_val (show_nat n) = n"
  by (induction n rule: show_nat.induct) (subst show_nat.simps, auto simp: of_char_digit digits_val_single)

lemma show_nat_ne [simp]: "show_nat n \<noteq> []"
  by (subst show_nat.simps) simp

lemma digits_val_zeros: "digits_val (replicate k CHR ''0'' @ s) = digits_val s"
proof -
  have "foldl (\<lambda>n d. 10 * n + (of_char d - 48)) (0::nat) (replicate k CHR ''0'') = 0"
    by (induction k) simp_all
  then show ?thesis by (simp add: digits_val_def)
qed

lemma pad_show_inj:
  "pad_start k CHR ''0'' (show_nat m) = pad_start k CHR ''0'' (show_nat n) \<Longrightarrow> m = n"
  by (metis digits_val_zeros pad_start_def show_nat_val)

lemma parseFloat_show: "parseFloat_str (show_nat n) = Some (of_nat n)"
proof -
  obtain c r where cr: "show_nat n = c # r" by (cases "show_nat n") auto
  have d: "is_digit c" "\<forall>x\<in>set r. is_digit x" using show_nat_digits [of n] cr by simp_all
  then have "\<not> js_space c" "c \<noteq> CHR ''-''" "c \<noteq> CHR ''+''" by (auto simp: js_space_def is_digit_def)
  moreover have tw: "takeWhile is_digit r = r" and dw: "dropWhile is_digit r = []" using d(2) by simp_all
  ultimately have "parseFloat_str (c # r) = Some (of_nat (digits_val (c # r)))"
    using d(1) by (simp add: parseFloat_str_def Let_def tw dw)
  then show ?thesis using cr show_nat_val [of n] by simp
qed


lemma length_show_nat: "n < 10 ^ k \<Longrightarrow> 0 < k \<Longrightarrow> length (show_nat n) \<le> k"
proof (induction n arbitrary: k rule: show_nat.induct)
  case (1 n)
  show ?case
  proof (cases "n < 10")
    case True then show ?thesis using "1.prems" by (subst show_nat.simps) simp
  next
    case False
    then have "2 \<le> k" using "1.prems" by (cases k; cases "k - 1") auto
    moreover have "n div 10 < 10 ^ (k - 1)"
      using "1.prems"(1) \<open>2 \<le> k\<close> by (cases k) (auto simp: less_mult_imp_div_less mult.commute)
    ultimately have "length (show_nat (n div 10)) \<le> k - 1" using "1.IH" False by simp
    then show ?thesis using False \<open>2 \<le> k\<close> by (subst show_nat.simps) simp
  qed
qed

lemma pad_show_length: "n < 10 ^ k \<Longrightarrow> 0 < k \<Longrightarrow> length (pad_start k c (show_nat n)) = k"
  using length_show_nat [of n k] by (simp add: pad_start_def)

lemma pad_show_val: "digits_val (pad_start k CHR ''0'' (show_nat n)) = n"
  by (simp add: pad_start_def digits_val_zeros show_nat_val)

lemma pad_show_digits: "list_all is_digit (pad_start k CHR ''0'' (show_nat n))"
  using show_nat_digits [of n] by (auto simp: pad_start_def list_all_iff is_digit_def set_replicate_conv_if)

lemma foldl_fixed: "(\<And>e. e \<in> set es \<Longrightarrow> f s e = s) \<Longrightarrow> foldl f s es = s"
  by (induction es) auto

lemma find_filter_conv: "find P xs = (case filter P xs of [] \<Rightarrow> None | x # _ \<Rightarrow> Some x)"
  by (induction xs) auto

lemma find_key_perm:
  assumes "distinct (map f xs)" and "mset ys = mset xs"
  shows "find (\<lambda>x. f x = k) ys = find (\<lambda>x. f x = k) xs"
proof -
  have l: "length (filter (\<lambda>x. f x = k) xs) \<le> 1"
    using assms(1) by (induction xs) (auto simp: filter_empty_conv image_iff)
  have m: "mset (filter (\<lambda>x. f x = k) ys) = mset (filter (\<lambda>x. f x = k) xs)"
    using assms(2) by simp
  then have "filter (\<lambda>x. f x = k) ys = filter (\<lambda>x. f x = k) xs"
    using l by (cases "filter (\<lambda>x. f x = k) xs"; cases "filter (\<lambda>x. f x = k) ys") auto
  then show ?thesis by (simp add: find_filter_conv)
qed

lemma find_distinct_key:
  "distinct (map f xs) \<Longrightarrow> x \<in> set xs \<Longrightarrow> find (\<lambda>y. f y = f x) xs = Some x"
  by (induction xs) (auto simp: image_iff)

end
