(* ===== verification/Cart.thy ===== *)
theory Cart
  imports Prelude
begin

text \<open>
  The point-of-sale cart (src/src/pages/point-of-sale-interface/index.jsx and
  components/ShoppingCart.jsx, components/ProductGrid.jsx).  The page keeps the cart as the
  React state \<open>cartItems\<close>, a list of products each extended by a quantity and a note;
  every handler is a functional update \<open>setCartItems(prev => ...)\<close>, modelled as a function
  from the old list to the new one.  The UI reaches the handlers through the events of
  \<open>cart_event\<close> (a product card or its plus button, the plus/minus/trash/note buttons of a
  cart line, the clear-all button), and \<open>cart_step\<close> is the whole effect of one event.
\<close>

subsection \<open>Products and cart lines\<close>

text \<open>
  A product of the mock catalogue \<open>allProducts\<close>; the display-only fields (image, original
  price, popular/new badges) are left out.
\<close>

record product =
  prod_id :: nat
  name :: string
  description :: string
  price :: money
  category :: string
  available :: bool
  stock :: int

text \<open>A cart line is \<open>{...product, quantity, notes}\<close>: the product record extended.\<close>

record cart_item = product +
  quantity :: int
  item_notes :: string

definition all_products :: "product list" where
  "all_products =
    [\<lparr>prod_id = 1, name = ''Nasi Gudeg Jogja'', description = ''Nasi gudeg khas Jogja dengan ayam kampung dan telur'', price = 25000, category = ''makanan-utama'', available = True, stock = 15\<rparr>,
     \<lparr>prod_id = 2, name = ''Ayam Bakar Taliwang'', description = ''Ayam bakar bumbu taliwang pedas dengan plecing kangkung'', price = 35000, category = ''makanan-utama'', available = True, stock = 8\<rparr>,
     \<lparr>prod_id = 3, name = ''Rendang Daging Sapi'', description = ''Rendang daging sapi empuk dengan bumbu rempah tradisional'', price = 45000, category = ''makanan-utama'', available = True, stock = 12\<rparr>,
     \<lparr>prod_id = 4, name = ''Soto Ayam Lamongan'', description = ''Soto ayam kuah bening dengan telur dan kerupuk'', price = 20000, category = ''makanan-utama'', available = False, stock = 0\<rparr>,
     \<lparr>prod_id = 5, name = ''Es Teh Manis'', description = ''Es teh manis segar dengan gula aren'', price = 8000, category = ''minuman'', available = True, stock = 25\<rparr>,
     \<lparr>prod_id = 6, name = ''Jus Alpukat'', description = ''Jus alpukat segar dengan susu kental manis'', price = 15000, category = ''minuman'', available = True, stock = 18\<rparr>,
     \<lparr>prod_id = 7, name = ''Kopi Tubruk'', description = ''Kopi tubruk tradisional dengan gula batu'', price = 12000, category = ''minuman'', available = True, stock = 30\<rparr>,
     \<lparr>prod_id = 8, name = ''Es Cendol'', description = ''Es cendol dengan santan dan gula merah'', price = 10000, category = ''dessert'', available = True, stock = 20\<rparr>,
     \<lparr>prod_id = 9, name = ''Klepon'', description = ''Klepon isi gula merah dengan kelapa parut'', price = 15000, category = ''dessert'', available = True, stock = 12\<rparr>,
     \<lparr>prod_id = 10, name = ''Kerupuk Udang'', description = ''Kerupuk udang renyah sebagai pelengkap'', price = 5000, category = ''appetizer'', available = True, stock = 50\<rparr>]"

text \<open>\<open>filteredProducts\<close>: the products of the selected category.\<close>

definition filteredProducts :: "string \<Rightarrow> product list" where
  "filteredProducts selectedCategory = filter (\<lambda>p. category p = selectedCategory) all_products"

text \<open>ProductGrid's search: name or description contains the term, case-insensitively.\<close>

definition grid_filteredProducts :: "string \<Rightarrow> product list \<Rightarrow> product list" where
  "grid_filteredProducts searchTerm products =
     filter (\<lambda>p. js_includes (js_lower (name p)) (js_lower searchTerm) \<or>
                 js_includes (js_lower (description p)) (js_lower searchTerm)) products"

subsection \<open>The cart handlers of the page\<close>

definition new_cart_item :: "product \<Rightarrow> cart_item" where
  "new_cart_item p = product.extend p (cart_item.fields 1 [])"

definition handleAddToCart :: "product \<Rightarrow> cart_item list \<Rightarrow> cart_item list" where
  "handleAddToCart p prevItems =
     (if find (\<lambda>i. prod_id i = prod_id p) prevItems \<noteq> None
      then map_where (\<lambda>i. prod_id i = prod_id p) (\<lambda>i. i\<lparr>quantity := quantity i + 1\<rparr>) prevItems
      else prevItems @ [new_cart_item p])"

definition handleUpdateQuantity :: "nat \<Rightarrow> int \<Rightarrow> cart_item list \<Rightarrow> cart_item list" where
  "handleUpdateQuantity itemId newQuantity prevItems =
     map_where (\<lambda>i. prod_id i = itemId) (\<lambda>i. i\<lparr>quantity := newQuantity\<rparr>) prevItems"

definition handleRemoveItem :: "nat \<Rightarrow> cart_item list \<Rightarrow> cart_item list" where
  "handleRemoveItem itemId prevItems = filter (\<lambda>i. prod_id i \<noteq> itemId) prevItems"

definition handleAddNote :: "nat \<Rightarrow> string \<Rightarrow> cart_item list \<Rightarrow> cart_item list" where
  "handleAddNote itemId note prevItems =
     map_where (\<lambda>i. prod_id i = itemId) (\<lambda>i. i\<lparr>item_notes := note\<rparr>) prevItems"

text \<open>ShoppingCart's \<open>handleQuantityChange\<close>: a quantity of zero or less removes the line.\<close>

definition handleQuantityChange :: "nat \<Rightarrow> int \<Rightarrow> cart_item list \<Rightarrow> cart_item list" where
  "handleQuantityChange itemId newQuantity items =
     (if newQuantity \<le> 0 then handleRemoveItem itemId items
      else handleUpdateQuantity itemId newQuantity items)"

text \<open>
  The clear-all button runs \<open>cartItems.forEach(item => onRemoveItem(item.id))\<close>: one
  queued functional update per rendered line, applied in order.
\<close>

definition clear_cart :: "cart_item list \<Rightarrow> cart_item list" where
  "clear_cart items = fold (\<lambda>i acc. handleRemoveItem (prod_id i) acc) items items"

subsection \<open>UI events\<close>

datatype cart_event =
    SelectProduct product          \<comment> \<open>a product card, or its plus button\<close>
  | Plus nat                       \<comment> \<open>the plus button of a cart line\<close>
  | Minus nat                      \<comment> \<open>the minus button of a cart line\<close>
  | Trash nat                      \<comment> \<open>the trash button of a cart line\<close>
  | EditNote nat "string option"   \<comment> \<open>the note prompt: \<open>None\<close> when cancelled\<close>
  | ClearAll

text \<open>The line the buttons of item \<open>k\<close> belong to, and its quantity (0 when absent).\<close>

definition cart_line :: "nat \<Rightarrow> cart_item list \<Rightarrow> cart_item option" where
  "cart_line k items = find (\<lambda>i. prod_id i = k) items"

definition qty_of :: "nat \<Rightarrow> cart_item list \<Rightarrow> int" where
  "qty_of k items = (case cart_line k items of None \<Rightarrow> 0 | Some i \<Rightarrow> quantity i)"

fun cart_step :: "cart_item list \<Rightarrow> cart_event \<Rightarrow> cart_item list" where
  "cart_step items (SelectProduct p) = (if available p then handleAddToCart p items else items)"
| "cart_step items (Plus k) =
     (case cart_line k items of None \<Rightarrow> items
      | Some i \<Rightarrow> handleQuantityChange k (quantity i + 1) items)"
| "cart_step items (Minus k) =
     (case cart_line k items of None \<Rightarrow> items
      | Some i \<Rightarrow> handleQuantityChange k (quantity i - 1) items)"
| "cart_step items (Trash k) = handleRemoveItem k items"
| "cart_step items (EditNote k r) =
     (case r of None \<Rightarrow> items | Some note \<Rightarrow> handleAddNote k note items)"
| "cart_step items ClearAll = clear_cart items"

definition cart_run :: "cart_item list \<Rightarrow> cart_event list \<Rightarrow> cart_item list" where
  "cart_run items es = foldl cart_step items es"

subsection \<open>Invariant and abstract view\<close>

text \<open>A well-formed cart has one line per product and only positive quantities.\<close>

definition cart_wf :: "cart_item list \<Rightarrow> bool" where
  "cart_wf items \<longleftrightarrow> distinct (map prod_id items) \<and> (\<forall>i\<in>set items. 0 < quantity i)"

text \<open>
  The abstract cart is a bag: how many of each product.  \<open>cart_abs_step\<close> is what each
  event promises on the bag.
\<close>

definition cart_counts :: "cart_item list \<Rightarrow> nat \<Rightarrow> int" where
  "cart_counts items = (\<lambda>k. qty_of k items)"

fun cart_abs_step :: "(nat \<Rightarrow> int) \<Rightarrow> cart_event \<Rightarrow> (nat \<Rightarrow> int)" where
  "cart_abs_step m (SelectProduct p) =
     (if available p then m(prod_id p := m (prod_id p) + 1) else m)"
| "cart_abs_step m (Plus k) = (if 0 < m k then m(k := m k + 1) else m)"
| "cart_abs_step m (Minus k) = (if 0 < m k then m(k := m k - 1) else m)"
| "cart_abs_step m (Trash k) = m(k := 0)"
| "cart_abs_step m (EditNote k r) = m"
| "cart_abs_step m ClearAll = (\<lambda>_. 0)"

subsection \<open>Lemmas\<close>

lemma find_map_where_id:
  assumes "\<And>i. prod_id (g i) = prod_id i"
  shows "find (\<lambda>i. prod_id i = k) (map_where (\<lambda>i. prod_id i = j) g xs) =
         map_option (\<lambda>i. if k = j then g i else i) (find (\<lambda>i. prod_id i = k) xs)"
  by (induction xs) (auto simp: assms)

lemma find_filter_id:
  "find (\<lambda>i. prod_id i = k) (filter (\<lambda>i. prod_id i \<noteq> j) xs) =
   (if k = j then None else find (\<lambda>i. prod_id i = k) xs)"
  by (induction xs) auto

lemma map_prod_id_map_where:
  "(\<And>i. prod_id (g i) = prod_id i) \<Longrightarrow> map prod_id (map_where p g xs) = map prod_id xs"
  by (rule map_where_map) simp

lemma new_cart_item_simps [simp]:
  "prod_id (new_cart_item p) = prod_id p" "price (new_cart_item p) = price p"
  "quantity (new_cart_item p) = 1" "item_notes (new_cart_item p) = []"
  by (simp_all add: new_cart_item_def product.defs cart_item.defs)

lemma clear_cart_filter:
  "fold (\<lambda>i acc. handleRemoveItem (prod_id i) acc) ys xs = filter (\<lambda>x. prod_id x \<notin> set (map prod_id ys)) xs"
  by (induction ys arbitrary: xs) (auto simp: handleRemoveItem_def intro: filter_cong)

lemma clear_cart_Nil [simp]: "clear_cart items = []"
  by (simp add: clear_cart_def clear_cart_filter filter_empty_conv)

lemma cart_line_add:
  "cart_line k (handleAddToCart p items) =
   (case cart_line k items of
      None \<Rightarrow> (if k = prod_id p then Some (new_cart_item p) else None)
    | Some i \<Rightarrow> Some (if k = prod_id p then i\<lparr>quantity := quantity i + 1\<rparr> else i))"
proof (cases "find (\<lambda>i. prod_id i = prod_id p) items")
  case None
  then show ?thesis
    by (auto simp: handleAddToCart_def cart_line_def find_append_eq split: option.splits)
next
  case (Some a)
  then show ?thesis
    by (auto simp: handleAddToCart_def cart_line_def find_map_where_id split: option.splits)
qed

lemma cart_line_update:
  "cart_line k (handleUpdateQuantity j q items) =
   map_option (\<lambda>i. if k = j then i\<lparr>quantity := q\<rparr> else i) (cart_line k items)"
  by (simp add: handleUpdateQuantity_def cart_line_def find_map_where_id)

lemma cart_line_remove:
  "cart_line k (handleRemoveItem j items) = (if k = j then None else cart_line k items)"
  by (simp add: handleRemoveItem_def cart_line_def find_filter_id)

lemma cart_line_note:
  "cart_line k (handleAddNote j n items) =
   map_option (\<lambda>i. if k = j then i\<lparr>item_notes := n\<rparr> else i) (cart_line k items)"
  by (simp add: handleAddNote_def cart_line_def find_map_where_id)

lemma cart_line_in_set: "cart_line k items = Some i \<Longrightarrow> i \<in> set items \<and> prod_id i = k"
  using find_SomeD [of "\<lambda>i. prod_id i = k" items i] by (simp add: cart_line_def)

lemma cart_line_None: "cart_line k items = None \<longleftrightarrow> k \<notin> set (map prod_id items)"
  by (auto simp: cart_line_def find_None_iff)

lemma qty_of_add:
  "qty_of k (handleAddToCart p items) = (if k = prod_id p then qty_of k items + 1 else qty_of k items)"
  by (simp add: qty_of_def cart_line_add split: option.splits)

lemma qty_of_update:
  "qty_of k (handleUpdateQuantity j q items) =
   (if k = j \<and> cart_line k items \<noteq> None then q else qty_of k items)"
  by (auto simp: qty_of_def cart_line_update split: option.splits)

lemma qty_of_remove: "qty_of k (handleRemoveItem j items) = (if k = j then 0 else qty_of k items)"
  by (simp add: qty_of_def cart_line_remove)

lemma qty_of_note: "qty_of k (handleAddNote j n items) = qty_of k items"
  by (simp add: qty_of_def cart_line_note split: option.splits)

lemma cart_wf_Nil [simp]: "cart_wf []"
  by (simp add: cart_wf_def)

lemma cart_wf_add: "cart_wf items \<Longrightarrow> cart_wf (handleAddToCart p items)"
  by (auto simp: cart_wf_def handleAddToCart_def map_prod_id_map_where find_None_iff
      dest!: map_where_setD)

lemma cart_wf_update: "cart_wf items \<Longrightarrow> 0 < q \<Longrightarrow> cart_wf (handleUpdateQuantity k q items)"
  by (auto simp: cart_wf_def handleUpdateQuantity_def map_prod_id_map_where dest!: map_where_setD)

lemma cart_wf_remove: "cart_wf items \<Longrightarrow> cart_wf (handleRemoveItem k items)"
  by (auto simp: cart_wf_def handleRemoveItem_def distinct_map_filter)

lemma cart_wf_note: "cart_wf items \<Longrightarrow> cart_wf (handleAddNote k n items)"
  by (auto simp: cart_wf_def handleAddNote_def map_prod_id_map_where dest!: map_where_setD)

lemma cart_wf_quantity_change: "cart_wf items \<Longrightarrow> cart_wf (handleQuantityChange k q items)"
  by (simp add: handleQuantityChange_def cart_wf_update cart_wf_remove)

lemma cart_step_wf: "cart_wf items \<Longrightarrow> cart_wf (cart_step items e)"
  by (cases e) (auto simp: cart_wf_add cart_wf_quantity_change cart_wf_remove cart_wf_note
      split: option.splits)


lemma qty_of_pos: "cart_wf items \<Longrightarrow> cart_line k items = Some i \<Longrightarrow> quantity i = qty_of k items \<and> 0 < quantity i"
  by (auto simp: qty_of_def cart_wf_def dest: cart_line_in_set)

lemma qty_of_absent: "cart_line k items = None \<Longrightarrow> qty_of k items = 0"
  by (simp add: qty_of_def)

lemma quantity_change_counts:
  "cart_line k items = Some i \<Longrightarrow>
   cart_counts (handleQuantityChange k q items) = (cart_counts items)(k := max 0 q)"
  by (auto simp: cart_counts_def handleQuantityChange_def qty_of_remove qty_of_update)

theorem cart_step_refines:
  "cart_wf items \<Longrightarrow> cart_counts (cart_step items e) = cart_abs_step (cart_counts items) e"
proof (cases e)
  case (SelectProduct p)
  then show ?thesis by (auto simp: cart_counts_def qty_of_add)
next
  case (Plus k)
  assume wf: "cart_wf items"
  show ?thesis
  proof (cases "cart_line k items")
    case None
    then show ?thesis using Plus by (simp add: cart_counts_def qty_of_absent)
  next
    case (Some i)
    then show ?thesis using Plus qty_of_pos [OF wf Some]
      by (simp add: quantity_change_counts) (simp add: cart_counts_def)
  qed
next
  case (Minus k)
  assume wf: "cart_wf items"
  show ?thesis
  proof (cases "cart_line k items")
    case None
    then show ?thesis using Minus by (simp add: cart_counts_def qty_of_absent)
  next
    case (Some i)
    then show ?thesis using Minus qty_of_pos [OF wf Some]
      by (simp add: quantity_change_counts) (simp add: cart_counts_def)
  qed
next
  case (Trash k)
  then show ?thesis by (auto simp: cart_counts_def qty_of_remove)
next
  case (EditNote k r)
  then show ?thesis by (auto simp: cart_counts_def qty_of_note split: option.splits)
next
  case ClearAll
  then show ?thesis by (simp add: cart_counts_def qty_of_def cart_line_def)
qed



subsection \<open>Properties\<close>

text \<open>
  C3: Cart well-formedness is an invariant of the UI.  Starting from a well-formed cart,
  every run of UI events (product selections, plus/minus/trash/note buttons, clear-all)
  leaves a cart with one line per product and only positive quantities.
\<close>

theorem cart_run_wf: "cart_wf items \<Longrightarrow> cart_wf (cart_run items es)"
  unfolding cart_run_def by (induction es arbitrary: items) (simp_all add: cart_step_wf)

theorem cart_run_wf_witness:
  "cart_wf (cart_run [] [SelectProduct (all_products ! 0), SelectProduct (all_products ! 2), Plus 1, Minus 3])"
  using cart_run_wf [OF cart_wf_Nil] by blast

text \<open>
  C2: The cart refines a bag of product counts.  On a well-formed cart, the quantities per
  product after any run of UI events are those computed by the abstract step
  \<open>cart_abs_step\<close>: a selection of an available product adds one, plus adds one, minus takes
  one away (the line disappears at zero), trash and clear-all set counts to zero, notes
  change nothing.
\<close>

theorem cart_run_refines:
  "cart_wf items \<Longrightarrow> cart_counts (cart_run items es) = foldl cart_abs_step (cart_counts items) es"
  unfolding cart_run_def
  by (induction es arbitrary: items) (simp_all add: cart_step_wf cart_step_refines)

theorem cart_run_refines_witness:
  "cart_counts (cart_run [] [SelectProduct (all_products ! 0), SelectProduct (all_products ! 0), Minus 1]) 1 = 1"
proof -
  have "cart_counts (cart_run [] [SelectProduct (all_products ! 0), SelectProduct (all_products ! 0), Minus 1]) =
        foldl cart_abs_step (cart_counts []) [SelectProduct (all_products ! 0), SelectProduct (all_products ! 0), Minus 1]"
    by (rule cart_run_refines [OF cart_wf_Nil])
  then show ?thesis by (simp add: all_products_def cart_counts_def qty_of_def cart_line_def)
qed

text \<open>
  Adding a product to the cart never consults its stock.  Each selection of an
  available product raises its cart quantity by one, whatever the product's \<open>stock\<close>; so a
  cart can hold more of a product than is in stock (Ayam Bakar Taliwang: 9 in the cart,
  8 in stock).
\<close>

theorem select_ignores_stock:
  "available p \<Longrightarrow>
   qty_of (prod_id p) (cart_run items (replicate n (SelectProduct p))) = qty_of (prod_id p) items + int n"
proof (induction n arbitrary: items)
  case 0
  then show ?case by (simp add: cart_run_def)
next
  case (Suc n)
  have "cart_run items (replicate (Suc n) (SelectProduct p)) =
        cart_run (handleAddToCart p items) (replicate n (SelectProduct p))"
    using Suc.prems by (simp add: cart_run_def)
  then show ?case using Suc by (simp add: qty_of_add)
qed

theorem select_ignores_stock_witness:
  "available (all_products ! 1) \<and>
   qty_of 2 (cart_run [] (replicate 9 (SelectProduct (all_products ! 1)))) = 9 \<and>
   stock (all_products ! 1) = 8"
proof -
  have a: "available (all_products ! 1)" by (simp add: all_products_def)
  have "qty_of (prod_id (all_products ! 1)) (cart_run [] (replicate 9 (SelectProduct (all_products ! 1)))) =
        qty_of (prod_id (all_products ! 1)) [] + int 9"
    by (rule select_ignores_stock [OF a])
  then show ?thesis using a by (simp add: all_products_def qty_of_def cart_line_def)
qed

end
