(* ===== verification/Pricing.thy ===== *)
theory Pricing
  imports Cart
begin

text \<open>
  Order totals of the cart summary (src/src/pages/point-of-sale-interface/components/
  ShoppingCart.jsx, lines 21--25): subtotal, PPN tax of 11\%, service charge of 5\% and
  grand total, recomputed on every render from \<open>cartItems\<close>.  The spec's PricingCalculator
  (spec section 4.1) is stated as the abstract contract \<open>pricing_calculator\<close>, which rejects
  negative inputs; \<open>cart_totals\<close> is shown to implement it on the carts the UI can build.
\<close>

record order_totals =
  subtotal :: money
  tax :: money
  serviceCharge :: money
  total :: money

definition taxRate :: money where
  "taxRate = 11/100"

definition cart_totals :: "cart_item list \<Rightarrow> order_totals" where
  "cart_totals cartItems =
     (let subtotal = js_sum (\<lambda>item. price item * of_int (quantity item)) cartItems;
          tax = subtotal * taxRate;
          serviceCharge = subtotal * (5/100);
          total = subtotal + tax + serviceCharge
      in \<lparr>subtotal = subtotal, tax = tax, serviceCharge = serviceCharge, total = total\<rparr>)"

subsection \<open>The spec's contract\<close>

datatype pricing_error = InvalidInput

text \<open>
  PricingCalculator of the spec: line items \<open>(unitPrice, quantity)\<close>, a tax rate and a
  service-charge rate; \<open>InvalidInput\<close> on a negative price or quantity.
\<close>

definition pricing_calculator ::
  "(money \<times> int) list \<Rightarrow> money \<Rightarrow> money \<Rightarrow> pricing_error + order_totals" where
  "pricing_calculator lines taxr servr =
     (if \<exists>(p, q)\<in>set lines. p < 0 \<or> q < 0 then Inl InvalidInput
      else let s = sum_list (map (\<lambda>(p, q). p * of_int q) lines)
           in Inr \<lparr>subtotal = s, tax = s * taxr, serviceCharge = s * servr,
                   total = s + s * taxr + s * servr\<rparr>)"

definition line_of :: "cart_item \<Rightarrow> money \<times> int" where
  "line_of i = (price i, quantity i)"

subsection \<open>Lemmas\<close>

lemma cart_totals_simps [simp]:
  "subtotal (cart_totals items) = (\<Sum>i\<leftarrow>items. price i * of_int (quantity i))"
  "tax (cart_totals items) = subtotal (cart_totals items) * (11/100)"
  "serviceCharge (cart_totals items) = subtotal (cart_totals items) * (5/100)"
  "total (cart_totals items) =
     subtotal (cart_totals items) + tax (cart_totals items) + serviceCharge (cart_totals items)"
  by (simp_all add: cart_totals_def taxRate_def Let_def)

lemma sum_list_map_where:
  "(\<Sum>x\<leftarrow>map_where P g xs. f x) = (\<Sum>x\<leftarrow>xs. f x) + (\<Sum>x\<leftarrow>filter P xs. f (g x) - f x)"
  for f :: "'a \<Rightarrow> 'b::ab_group_add"
  by (induction xs) (simp_all add: algebra_simps)

lemma filter_single_id:
  "distinct (map prod_id xs) \<Longrightarrow> x \<in> set xs \<Longrightarrow> filter (\<lambda>i. prod_id i = prod_id x) xs = [x]"
proof (induction xs)
  case Nil
  then show ?case by simp
next
  case (Cons y ys)
  then show ?case by (auto simp: filter_empty_conv image_iff)
qed

subsection \<open>Properties\<close>

text \<open>
  The grand total of the cart is the subtotal times 1.16: PPN 11\% and service charge
  5\% are both taken on the subtotal and added to it (spec section 8, first property).
\<close>

theorem cart_total_factor: "total (cart_totals items) = subtotal (cart_totals items) * (29/25)"
  by simp

text \<open>
  C21: The cart summary implements the spec's PricingCalculator.  On a well-formed cart
  whose prices are not negative, the calculator with tax rate 0.11 and service rate 0.05
  does not reject the lines and returns exactly the totals ShoppingCart displays.
\<close>

theorem cart_totals_refines:
  assumes "cart_wf items" and "\<forall>i\<in>set items. 0 \<le> price i"
  shows "pricing_calculator (map line_of items) taxRate (5/100) = Inr (cart_totals items)"
proof -
  have "\<not> (\<exists>(p, q)\<in>set (map line_of items). p < 0 \<or> q < 0)"
    using assms by (fastforce simp: cart_wf_def line_of_def)
  moreover have "(\<Sum>(p, q)\<leftarrow>map line_of items. p * of_int q) = (\<Sum>i\<leftarrow>items. price i * of_int (quantity i))"
    by (simp add: line_of_def comp_def)
  ultimately show ?thesis
    by (simp add: pricing_calculator_def cart_totals_def taxRate_def Let_def)
qed

theorem cart_totals_refines_witness:
  "pricing_calculator (map line_of [new_cart_item (all_products ! 0)]) taxRate (5/100) =
   Inr \<lparr>subtotal = 25000, tax = 2750, serviceCharge = 1250, total = 29000\<rparr>"
proof -
  have wf: "cart_wf [new_cart_item (all_products ! 0)]" by (simp add: cart_wf_def)
  have nn: "\<forall>i\<in>set [new_cart_item (all_products ! 0)]. 0 \<le> price i" by (simp add: all_products_def)
  show ?thesis using cart_totals_refines [OF wf nn] by (simp add: all_products_def cart_totals_def taxRate_def)
qed

text \<open>
  Adding a product to a cart with one line per product raises the subtotal by exactly
  the product's price, whether the product was already in the cart or not.
\<close>

theorem add_subtotal:
  assumes "distinct (map prod_id items)"
    and "\<forall>i\<in>set items. prod_id i = prod_id p \<longrightarrow> price i = price p"
  shows "subtotal (cart_totals (handleAddToCart p items)) = subtotal (cart_totals items) + price p"
proof (cases "find (\<lambda>i. prod_id i = prod_id p) items")
  case None
  then show ?thesis by (simp add: handleAddToCart_def)
next
  case (Some x)
  then have x: "x \<in> set items" "prod_id x = prod_id p" using find_SomeD [OF Some] by simp_all
  then have "filter (\<lambda>i. prod_id i = prod_id p) items = [x]"
    using filter_single_id [OF assms(1) x(1)] by simp
  with Some x assms(2) show ?thesis
    by (simp add: handleAddToCart_def sum_list_map_where algebra_simps)
qed

theorem add_subtotal_witness:
  "subtotal (cart_totals (handleAddToCart (all_products ! 1) [new_cart_item (all_products ! 1)])) = 70000"
proof -
  have d: "distinct (map prod_id [new_cart_item (all_products ! 1)])" by simp
  have c: "\<forall>i\<in>set [new_cart_item (all_products ! 1)]. prod_id i = prod_id (all_products ! 1) \<longrightarrow>
             price i = price (all_products ! 1)" by simp
  show ?thesis using add_subtotal [OF d c] by (simp add: all_products_def)
qed

text \<open>
  On a well-formed cart with non-negative prices the subtotal is not negative and the
  grand total is at least the subtotal.
\<close>

theorem cart_totals_bounds:
  assumes "cart_wf items" and "\<forall>i\<in>set items. 0 \<le> price i"
  shows "0 \<le> subtotal (cart_totals items) \<and> subtotal (cart_totals items) \<le> total (cart_totals items)"
proof -
  have "0 \<le> (\<Sum>i\<leftarrow>items. price i * of_int (quantity i))"
    using assms by (intro sum_list_nonneg) (auto simp: cart_wf_def)
  then show ?thesis by simp
qed

theorem cart_totals_bounds_witness:
  "0 \<le> subtotal (cart_totals [new_cart_item (all_products ! 4)]) \<and>
   subtotal (cart_totals [new_cart_item (all_products ! 4)]) \<le> total (cart_totals [new_cart_item (all_products ! 4)])"
proof -
  have wf: "cart_wf [new_cart_item (all_products ! 4)]" by (simp add: cart_wf_def)
  have nn: "\<forall>i\<in>set [new_cart_item (all_products ! 4)]. 0 \<le> price i" by (simp add: all_products_def)
  show ?thesis by (rule cart_totals_bounds [OF wf nn])
qed

end
