(* ===== verification/Payment.thy ===== *)
theory Payment
  imports Pricing
begin

text \<open>
  Payment at the point of sale: the payment section of the cart
  (src/src/pages/point-of-sale-interface/components/ShoppingCart.jsx) and the payment
  dialog (components/PaymentModal.jsx).  Both keep their own React state: a payment
  method and the amount typed in the number input \<open>customerMoney\<close>, whose value is the
  empty string or a numeral; here \<open>None\<close> or \<open>Some v\<close>.  The dialog also keeps the card
  number, formatted on every keystroke, and a \<open>processing\<close> flag.  The spec's
  PaymentReconciler (spec section 4.2) is the abstract contract \<open>payment_reconciler\<close>.
\<close>

datatype pay_method = Cash | Card | Qris | Gopay | Ovo

text \<open>The method list of both components: id and label.\<close>

definition paymentMethods :: "(pay_method \<times> string) list" where
  "paymentMethods =
     [(Cash, ''Tunai''), (Card, ''Kartu Kredit/Debit''), (Qris, ''QRIS''), (Gopay, ''GoPay''),
      (Ovo, ''OVO'')]"

subsection \<open>The cart's payment section\<close>

text \<open>\<open>change\<close>: \<open>Math.max(0, parseFloat(customerMoney) - total)\<close> for cash with an amount.\<close>

definition cart_change :: "pay_method \<Rightarrow> rat option \<Rightarrow> money \<Rightarrow> money" where
  "cart_change paymentMethod customerMoney cartTotal =
     (case customerMoney of
        None \<Rightarrow> 0
      | Some v \<Rightarrow> (if paymentMethod = Cash then max 0 (v - cartTotal) else 0))"

text \<open>The \<open>disabled\<close> condition of the cart's process button.\<close>

definition cart_process_disabled :: "pay_method \<Rightarrow> rat option \<Rightarrow> money \<Rightarrow> bool" where
  "cart_process_disabled paymentMethod customerMoney cartTotal =
     (paymentMethod = Cash \<and> (case customerMoney of None \<Rightarrow> True | Some v \<Rightarrow> v < cartTotal))"

text \<open>
  The object handed from cart to dialog to page.  The cart fills the order fields; the
  dialog spreads it and adds \<open>change\<close>, \<open>cardNumber\<close> and \<open>transactionId\<close>
  (\<open>None\<close> where a field is absent or \<open>null\<close>).  Timestamps are not modelled.
\<close>

record payment_data =
  pd_items :: "cart_item list"
  pd_subtotal :: money
  pd_tax :: money
  pd_serviceCharge :: money
  pd_total :: money
  pd_paymentMethod :: pay_method
  pd_customerMoney :: money
  pd_change :: "money option"
  pd_cardNumber :: "string option"
  pd_transactionId :: "nat option"

text \<open>
  ShoppingCart's \<open>handleProcessPayment\<close>: nothing for an empty cart (the early return),
  otherwise the payment data passed to \<open>onProcessPayment\<close>; the cash amount is
  \<open>parseFloat(customerMoney) || 0\<close>.
\<close>

definition cart_handleProcessPayment ::
  "cart_item list \<Rightarrow> pay_method \<Rightarrow> rat option \<Rightarrow> payment_data option" where
  "cart_handleProcessPayment cartItems paymentMethod customerMoney =
     (if cartItems = [] then None
      else let t = cart_totals cartItems in
        Some \<lparr>pd_items = cartItems, pd_subtotal = subtotal t, pd_tax = tax t,
              pd_serviceCharge = serviceCharge t, pd_total = total t,
              pd_paymentMethod = paymentMethod,
              pd_customerMoney = (if paymentMethod = Cash then js_or customerMoney 0 else total t),
              pd_change = None, pd_cardNumber = None, pd_transactionId = None\<rparr>)"

subsection \<open>The payment dialog\<close>

record modal_state =
  m_paymentMethod :: pay_method
  m_customerMoney :: "rat option"
  m_cardNumber :: string
  m_processing :: bool

definition modal_init :: modal_state where
  "modal_init = \<lparr>m_paymentMethod = Cash, m_customerMoney = None, m_cardNumber = [],
                 m_processing = False\<rparr>"

definition modal_change :: "modal_state \<Rightarrow> payment_data \<Rightarrow> money" where
  "modal_change ms orderData =
     (case m_customerMoney ms of
        None \<Rightarrow> 0
      | Some v \<Rightarrow> (if m_paymentMethod ms = Cash then max 0 (v - pd_total orderData) else 0))"

definition canProcessPayment :: "modal_state \<Rightarrow> payment_data \<Rightarrow> bool" where
  "canProcessPayment ms orderData =
     (case m_paymentMethod ms of
        Cash \<Rightarrow> (case m_customerMoney ms of None \<Rightarrow> False | Some v \<Rightarrow> pd_total orderData \<le> v)
      | Card \<Rightarrow> m_cardNumber ms \<noteq> [] \<and> 16 \<le> length (m_cardNumber ms)
      | _ \<Rightarrow> True)"

text \<open>
  The card input's \<open>onChange\<close>:
  \<open>value.replace(/\s/g, '').replace(/(.{4})/g, '$1 ').trim()\<close>.  \<open>js_space\<close> (prelude) is
  the class \<open>\s\<close>, which is also what \<open>trim\<close> removes.  After the first
  replacement no line terminator is left, so \<open>.\<close> matches every character.
\<close>

definition strip_ws :: "string \<Rightarrow> string" where
  "strip_ws s = filter (\<lambda>c. \<not> js_space c) s"

fun group4 :: "string \<Rightarrow> string" where
  "group4 s = (if length s < 4 then s else take 4 s @ CHR '' '' # group4 (drop 4 s))"

declare group4.simps [simp del]

definition format_card :: "string \<Rightarrow> string" where
  "format_card value = js_trim (group4 (strip_ws value))"

text \<open>
  The data \<open>handleConfirmPayment\<close> builds after its two-second wait, from the dialog's
  state as the click's render saw it, with transaction id \<open>now\<close> (\<open>TXN${Date.now()}\<close>).
\<close>

definition modal_payment_data :: "modal_state \<Rightarrow> payment_data \<Rightarrow> nat \<Rightarrow> payment_data" where
  "modal_payment_data ms orderData now =
     orderData\<lparr>pd_paymentMethod := m_paymentMethod ms,
               pd_customerMoney :=
                 (if m_paymentMethod ms = Cash
                  then (case m_customerMoney ms of Some v \<Rightarrow> v | None \<Rightarrow> 0)
                  else pd_total orderData),
               pd_change := Some (modal_change ms orderData),
               pd_cardNumber := (if m_paymentMethod ms = Card then Some (m_cardNumber ms) else None),
               pd_transactionId := Some now\<rparr>"

subsection \<open>The spec's contract\<close>

text \<open>PaymentReconciler: change \<open>max(0, tendered - total)\<close>, sufficient iff \<open>tendered \<ge> total\<close>.\<close>

text \<open>An order of the given total with no lines, as the spec's examples use.\<close>

definition spec_order :: "money \<Rightarrow> payment_data" where
  "spec_order t = \<lparr>pd_items = [], pd_subtotal = t, pd_tax = 0, pd_serviceCharge = 0, pd_total = t,
     pd_paymentMethod = Cash, pd_customerMoney = 0, pd_change = None, pd_cardNumber = None,
     pd_transactionId = None\<rparr>"

definition payment_reconciler :: "money \<Rightarrow> money \<Rightarrow> money \<times> bool" where
  "payment_reconciler tendered due = (max 0 (tendered - due), due \<le> tendered)"

subsection \<open>Lemmas\<close>

text \<open>\<open>sep4\<close> joins the 4-character chunks of a string with single spaces: the reference the
  regular-expression pipeline is compared with.\<close>

fun sep4 :: "string \<Rightarrow> string" where
  "sep4 s = (if length s \<le> 4 then s else take 4 s @ CHR '' '' # sep4 (drop 4 s))"

declare sep4.simps [simp del]

lemma group4_sep4:
  "group4 s = (if 4 \<le> length s \<and> length s mod 4 = 0 then sep4 s @ '' '' else sep4 s)"
proof (induction s rule: group4.induct)
  case (1 s)
  show ?case
  proof (cases "length s < 4")
    case True
    then show ?thesis by (simp add: group4.simps [of s] sep4.simps [of s])
  next
    case False
    note IH = "1.IH" [OF False]
    show ?thesis
    proof (cases "length s = 4")
      case True
      then show ?thesis by (simp add: group4.simps [of s] sep4.simps [of s] group4.simps [of "[]"])
    next
      case False
      with \<open>\<not> length s < 4\<close> have "4 < length s" by simp
      moreover have "(4 \<le> length s - 4 \<and> (length s - 4) mod 4 = 0) \<longleftrightarrow> length s mod 4 = 0"
        using \<open>4 < length s\<close> by presburger
      ultimately show ?thesis
        using IH by (simp add: group4.simps [of s] sep4.simps [of s])
    qed
  qed
qed

lemma sep4_Nil [simp]: "sep4 [] = []"
  by (simp add: sep4.simps)

lemma sep4_hd_last:
  "s \<noteq> [] \<Longrightarrow> sep4 s \<noteq> [] \<and> hd (sep4 s) = hd s \<and> last (sep4 s) = last s"
proof (induction s rule: sep4.induct)
  case (1 s)
  show ?case
  proof (cases "length s \<le> 4")
    case True
    then show ?thesis using "1.prems" by (simp add: sep4.simps [of s])
  next
    case False
    then have "drop 4 s \<noteq> []" by simp
    with "1.IH" False show ?thesis
      by (auto simp: sep4.simps [of s] hd_append last_drop)
  qed
qed

lemma strip_ws_sep4: "strip_ws (sep4 s) = strip_ws s"
proof (induction s rule: sep4.induct)
  case (1 s)
  have sp: "js_space CHR '' ''" by (simp add: js_space_def)
  show ?case
  proof (cases "length s \<le> 4")
    case True
    then show ?thesis by (simp add: sep4.simps [of s])
  next
    case False
    then have "strip_ws (sep4 s) = strip_ws (take 4 s) @ strip_ws (sep4 (drop 4 s))"
      using sp by (simp add: sep4.simps [of s] strip_ws_def)
    also have "\<dots> = strip_ws (take 4 s @ drop 4 s)"
      using "1.IH" False by (simp add: strip_ws_def del: append_take_drop_id)
    finally show ?thesis by simp
  qed
qed

lemma strip_ws_no_space: "c \<in> set (strip_ws s) \<Longrightarrow> \<not> js_space c"
  by (simp add: strip_ws_def)

lemma strip_ws_idem [simp]: "strip_ws (strip_ws s) = strip_ws s"
  by (simp add: strip_ws_def)

lemma dropWhile_keep: "xs \<noteq> [] \<Longrightarrow> \<not> P (hd xs) \<Longrightarrow> dropWhile P xs = xs"
  by (cases xs) simp_all

lemma js_trim_sep4:
  assumes "\<forall>c\<in>set s. \<not> js_space c"
  shows "js_trim (sep4 s) = sep4 s" and "js_trim (sep4 s @ '' '') = sep4 s"
proof -
  have sp: "js_space CHR '' ''" by (simp add: js_space_def)
  show "js_trim (sep4 s) = sep4 s"
  proof (cases "s = []")
    case True
    then show ?thesis by (simp add: js_trim_def)
  next
    case False
    with sep4_hd_last [OF False] assms have h: "sep4 s \<noteq> []" "\<not> js_space (hd (sep4 s))"
      "\<not> js_space (hd (rev (sep4 s)))"
      by (simp_all add: hd_rev)
    then show ?thesis by (simp add: js_trim_def dropWhile_keep)
  qed
  show "js_trim (sep4 s @ '' '') = sep4 s"
  proof (cases "s = []")
    case True
    then show ?thesis using sp by (simp add: js_trim_def)
  next
    case False
    with sep4_hd_last [OF False] assms have h: "sep4 s \<noteq> []" "\<not> js_space (hd (sep4 s))"
      "\<not> js_space (hd (rev (sep4 s)))"
      by (simp_all add: hd_rev)
    then show ?thesis using sp by (simp add: js_trim_def dropWhile_keep)
  qed
qed

lemma format_card_sep4: "format_card s = sep4 (strip_ws s)"
  using js_trim_sep4 [of "strip_ws s"] strip_ws_no_space [of _ s]
  by (simp add: format_card_def group4_sep4)

lemma card_len_threshold: "16 \<le> n + (n - 1) div 4 \<longleftrightarrow> 13 \<le> (n::nat)"
  by linarith

lemma div4_shift: "4 < n \<Longrightarrow> (n - 1) div 4 = (n - 5) div 4 + (1::nat)"
proof -
  assume "4 < n"
  then have e: "n - 1 = (n - 5) + 4" by arith
  have "((n - 5) + 4) div 4 = (n - 5) div 4 + (1::nat)" by (rule div_add_self2) simp
  with e show ?thesis by (simp only:)
qed

lemma length_sep4: "s \<noteq> [] \<Longrightarrow> length (sep4 s) = length s + (length s - 1) div 4"
proof (induction s rule: sep4.induct)
  case (1 s)
  show ?case
  proof (cases "length s \<le> 4")
    case True
    then show ?thesis using "1.prems" by (simp add: sep4.simps [of s])
  next
    case False
    then have "drop 4 s \<noteq> []" by simp
    with "1.IH" False have "length (sep4 (drop 4 s)) = (length s - 4) + (length s - 4 - 1) div 4"
      by simp
    then show ?thesis using False div4_shift [of "length s"] by (simp add: sep4.simps [of s])
  qed
qed

subsection \<open>Properties\<close>

text \<open>
  Formatting a card number loses no digit: removing the whitespace from the formatted
  value gives back the typed value without its whitespace.
\<close>

theorem format_card_roundtrip: "strip_ws (format_card s) = strip_ws s"
  by (simp add: format_card_sep4 strip_ws_sep4)

text \<open>
  Formatting is idempotent: re-running the \<open>onChange\<close> transformation on an
  already formatted card number (as happens on every keystroke) changes nothing.
\<close>

theorem format_card_idem: "format_card (format_card s) = format_card s"
proof -
  have "format_card (format_card s) = sep4 (strip_ws (format_card s))"
    by (rule format_card_sep4)
  also have "\<dots> = sep4 (strip_ws s)"
    by (simp only: format_card_sep4 strip_ws_sep4 strip_ws_idem)
  also have "\<dots> = format_card s"
    by (simp only: format_card_sep4)
  finally show ?thesis .
qed

text \<open>
  With the card method selected, the dialog accepts a card number as soon as it has
  13 non-space characters, not 16: \<open>canProcessPayment\<close> checks \<open>length >= 16\<close> on the
  formatted value, whose grouping spaces count towards the 16.
\<close>

theorem card_accepts_13:
  "canProcessPayment (ms\<lparr>m_paymentMethod := Card, m_cardNumber := format_card raw\<rparr>) d \<longleftrightarrow>
   13 \<le> length (strip_ws raw)"
proof (cases "strip_ws raw = []")
  case True
  then show ?thesis by (simp add: canProcessPayment_def format_card_sep4)
next
  case False
  then show ?thesis
    using card_len_threshold [of "length (strip_ws raw)"] sep4_hd_last [OF False]
    by (simp add: canProcessPayment_def format_card_sep4 length_sep4)
qed

theorem card_accepts_13_witness:
  "canProcessPayment (modal_init\<lparr>m_paymentMethod := Card, m_cardNumber := format_card ''1234567890123''\<rparr>) (spec_order 0) \<and>
   format_card ''1234567890123'' = ''1234 5678 9012 3''"
proof -
  have "strip_ws ''1234567890123'' = ''1234567890123''" by (simp add: strip_ws_def js_space_def)
  then show ?thesis using card_accepts_13 [where ms = modal_init and raw = "''1234567890123''" and d = "spec_order 0"]
    by (simp add: format_card_sep4 sep4.simps)
qed

text \<open>
  The change the dialog shows is never negative, so its warning "Uang tidak mencukupi"
  (rendered only when \<open>change < 0\<close>) can never appear: an insufficient cash amount shows a
  change of 0 instead.
\<close>

theorem modal_change_nonneg: "0 \<le> modal_change ms orderData"
  by (simp add: modal_change_def split: option.splits)

text \<open>
  C22: For cash with an amount typed, the dialog implements the spec's PaymentReconciler:
  its change is \<open>max(0, tendered - total)\<close> and its confirm button is enabled exactly when
  the payment is sufficient.
\<close>

theorem modal_refines_reconciler:
  "m_paymentMethod ms = Cash \<Longrightarrow> m_customerMoney ms = Some v \<Longrightarrow>
   (modal_change ms orderData, canProcessPayment ms orderData) = payment_reconciler v (pd_total orderData)"
  by (simp add: modal_change_def canProcessPayment_def payment_reconciler_def)

theorem modal_refines_reconciler_witness:
  "(modal_change (modal_init\<lparr>m_customerMoney := Some 50000\<rparr>) (spec_order 45000),
    canProcessPayment (modal_init\<lparr>m_customerMoney := Some 50000\<rparr>) (spec_order 45000)) = (5000, True) \<and>
   (modal_change (modal_init\<lparr>m_customerMoney := Some 40000\<rparr>) (spec_order 45000),
    canProcessPayment (modal_init\<lparr>m_customerMoney := Some 40000\<rparr>) (spec_order 45000)) = (0, False)"
  using modal_refines_reconciler [of "modal_init\<lparr>m_customerMoney := Some 50000\<rparr>" 50000 "spec_order 45000"]
    modal_refines_reconciler [of "modal_init\<lparr>m_customerMoney := Some 40000\<rparr>" 40000 "spec_order 45000"]
  by (simp_all add: modal_init_def payment_reconciler_def spec_order_def)

end
