(* ===== verification/POS.thy ===== *)
theory POS
  imports Payment
begin

text \<open>
  The point-of-sale page (src/src/pages/point-of-sale-interface/index.jsx) composed with its
  cart and its payment dialog.  The page's state is \<open>pos_state\<close>: the cart, the cart's own
  payment-method and amount inputs, whether the dialog is open, the order handed to it,
  the dialog's state, and two things the source keeps implicitly: the confirmation in
  flight (PaymentModal's \<open>handleConfirmPayment\<close> awaits a two-second timer; its closure
  holds the dialog state and order of the render in which the button was clicked) and the
  receipts, one per call of the page's \<open>handleConfirmPayment\<close> (the alert it shows).
  \<open>pos_step\<close> is one UI event or the timer firing; each event is guarded by what the page
  renders at that moment (the dialog is a full-screen overlay that blocks the page while
  open; the cart's payment section and button exist only for a non-empty cart; the
  dialog's confirm button is disabled while it cannot process or is processing).
\<close>

record pos_state =
  cartItems :: "cart_item list"
  cart_paymentMethod :: pay_method
  cart_customerMoney :: "rat option"
  showPaymentModal :: bool
  orderData :: "payment_data option"
  modal :: modal_state
  pending :: "(modal_state \<times> payment_data) option"
  receipts :: "payment_data list"

definition pos_init :: pos_state where
  "pos_init = \<lparr>cartItems = [], cart_paymentMethod = Cash, cart_customerMoney = None,
     showPaymentModal = False, orderData = None, modal = modal_init, pending = None,
     receipts = []\<rparr>"

datatype pos_event =
    CartUI cart_event
  | CartMethod pay_method
  | CartMoney "rat option"
  | CartProcess
  | ModalMethod pay_method
  | ModalMoney "rat option"
  | ModalCard string
  | ModalConfirm
  | ModalClose
  | PaymentDone nat   \<comment> \<open>the dialog's two-second wait ends at time \<open>now\<close>\<close>

subsection \<open>Handlers\<close>

text \<open>The page's \<open>handleProcessPayment\<close>: keep the order, open the dialog.\<close>

definition pos_handleProcessPayment :: "payment_data \<Rightarrow> pos_state \<Rightarrow> pos_state" where
  "pos_handleProcessPayment paymentData s =
     s\<lparr>orderData := Some paymentData, showPaymentModal := True\<rparr>"

text \<open>The page's \<open>handleConfirmPayment\<close>: clear the cart and announce the payment.\<close>

definition pos_handleConfirmPayment :: "payment_data \<Rightarrow> pos_state \<Rightarrow> pos_state" where
  "pos_handleConfirmPayment paymentData s =
     s\<lparr>cartItems := [], receipts := receipts s @ [paymentData]\<rparr>"

text \<open>
  The dialog's \<open>handleConfirmPayment\<close>, up to its \<open>await\<close>: \<open>processing\<close> is set and the
  closure's view of the dialog and order is what the rest of the handler will use.
\<close>

definition modal_confirm_start :: "payment_data \<Rightarrow> pos_state \<Rightarrow> pos_state" where
  "modal_confirm_start od s =
     s\<lparr>modal := (modal s)\<lparr>m_processing := True\<rparr>, pending := Some (modal s, od)\<rparr>"

text \<open>
  The rest of it, when the timer fires: build the payment data, call the page's confirm
  handler, clear \<open>processing\<close>, close the dialog and reset its form.
\<close>

definition modal_confirm_finish :: "nat \<Rightarrow> pos_state \<Rightarrow> pos_state" where
  "modal_confirm_finish now s =
     (case pending s of
        None \<Rightarrow> s
      | Some (ms, od) \<Rightarrow>
          let s1 = pos_handleConfirmPayment (modal_payment_data ms od now) s;
              s2 = s1\<lparr>modal := (modal s1)\<lparr>m_processing := False\<rparr>\<rparr>;
              s3 = s2\<lparr>showPaymentModal := False\<rparr>
          in s3\<lparr>modal := (modal s3)\<lparr>m_customerMoney := None, m_cardNumber := [],
                                     m_paymentMethod := Cash\<rparr>,
                pending := None\<rparr>)"

subsection \<open>Events\<close>

fun pos_step :: "pos_state \<Rightarrow> pos_event \<Rightarrow> pos_state" where
  "pos_step s (CartUI e) =
     (if showPaymentModal s then s else s\<lparr>cartItems := cart_step (cartItems s) e\<rparr>)"
| "pos_step s (CartMethod m) =
     (if showPaymentModal s \<or> cartItems s = [] then s else s\<lparr>cart_paymentMethod := m\<rparr>)"
| "pos_step s (CartMoney v) =
     (if showPaymentModal s \<or> cartItems s = [] then s else s\<lparr>cart_customerMoney := v\<rparr>)"
| "pos_step s CartProcess =
     (if showPaymentModal s \<or> cartItems s = [] \<or>
         cart_process_disabled (cart_paymentMethod s) (cart_customerMoney s) (total (cart_totals (cartItems s)))
      then s
      else (case cart_handleProcessPayment (cartItems s) (cart_paymentMethod s) (cart_customerMoney s) of
              None \<Rightarrow> s
            | Some pd \<Rightarrow> (pos_handleProcessPayment pd s)\<lparr>cart_customerMoney := None\<rparr>))"
| "pos_step s (ModalMethod m) =
     (if showPaymentModal s \<and> orderData s \<noteq> None
      then s\<lparr>modal := (modal s)\<lparr>m_paymentMethod := m\<rparr>\<rparr> else s)"
| "pos_step s (ModalMoney v) =
     (if showPaymentModal s \<and> orderData s \<noteq> None
      then s\<lparr>modal := (modal s)\<lparr>m_customerMoney := v\<rparr>\<rparr> else s)"
| "pos_step s (ModalCard raw) =
     (if showPaymentModal s \<and> orderData s \<noteq> None \<and> length raw \<le> 19
      then s\<lparr>modal := (modal s)\<lparr>m_cardNumber := format_card raw\<rparr>\<rparr> else s)"
| "pos_step s ModalConfirm =
     (case orderData s of
        None \<Rightarrow> s
      | Some od \<Rightarrow>
          (if showPaymentModal s \<and> canProcessPayment (modal s) od \<and> \<not> m_processing (modal s)
           then modal_confirm_start od s else s))"
| "pos_step s ModalClose = (if showPaymentModal s then s\<lparr>showPaymentModal := False\<rparr> else s)"
| "pos_step s (PaymentDone now) = modal_confirm_finish now s"

definition pos_run :: "pos_state \<Rightarrow> pos_event list \<Rightarrow> pos_state" where
  "pos_run s es = foldl pos_step s es"

subsection \<open>Invariant\<close>

definition cash_ok :: "payment_data \<Rightarrow> bool" where
  "cash_ok d \<longleftrightarrow> (pd_paymentMethod d = Cash \<longrightarrow>
     pd_total d \<le> pd_customerMoney d \<and> pd_change d = Some (pd_customerMoney d - pd_total d))"

definition pos_inv :: "pos_state \<Rightarrow> bool" where
  "pos_inv s \<longleftrightarrow> (\<forall>d\<in>set (receipts s). cash_ok d) \<and>
     (\<forall>ms od. pending s = Some (ms, od) \<longrightarrow> canProcessPayment ms od) \<and>
     (m_processing (modal s) \<longleftrightarrow> pending s \<noteq> None)"

subsection \<open>Lemmas\<close>

lemmas pos_eval = pos_run_def pos_init_def modal_init_def all_products_def cart_process_disabled_def
  cart_handleProcessPayment_def pos_handleProcessPayment_def canProcessPayment_def modal_confirm_start_def
  modal_confirm_finish_def pos_handleConfirmPayment_def modal_payment_data_def modal_change_def
  handleAddToCart_def new_cart_item_def product.defs cart_item.defs Let_def

lemma modal_payment_data_cash_ok:
  "canProcessPayment ms od \<Longrightarrow> cash_ok (modal_payment_data ms od now)"
  by (auto simp: cash_ok_def modal_payment_data_def canProcessPayment_def modal_change_def
      split: option.splits pay_method.splits)

lemma pos_inv_init: "pos_inv pos_init"
  by (simp add: pos_inv_def pos_init_def modal_init_def)

lemma pos_step_inv: "pos_inv s \<Longrightarrow> pos_inv (pos_step s e)"
proof (cases e)
  case (PaymentDone now)
  assume inv: "pos_inv s"
  show ?thesis
  proof (cases "pending s")
    case None
    then show ?thesis using inv PaymentDone by (simp add: modal_confirm_finish_def)
  next
    case (Some p)
    then obtain ms od where p: "pending s = Some (ms, od)" by (cases p) auto
    with inv have "canProcessPayment ms od" by (simp add: pos_inv_def)
    then have "cash_ok (modal_payment_data ms od now)" by (rule modal_payment_data_cash_ok)
    with inv p PaymentDone show ?thesis
      by (simp add: modal_confirm_finish_def pos_handleConfirmPayment_def pos_inv_def Let_def)
  qed
qed (auto simp: pos_inv_def modal_confirm_start_def pos_handleProcessPayment_def
      split: option.splits)

lemma pos_run_inv: "pos_inv s \<Longrightarrow> pos_inv (pos_run s es)"
  unfolding pos_run_def by (induction es arbitrary: s) (simp_all add: pos_step_inv)

text \<open>
  C4: Every cash payment the page confirms was sufficient and its change is exact: for any
  run of UI events from the initial page, each receipt paid in cash has an amount at least
  its total and change equal to amount minus total.  This holds although the dialog
  builds the receipt after a delay, from the state captured at the click.
\<close>

theorem pos_cash_receipts_sufficient:
  "d \<in> set (receipts (pos_run pos_init es)) \<Longrightarrow> pd_paymentMethod d = Cash \<Longrightarrow>
   pd_total d \<le> pd_customerMoney d \<and> pd_change d = Some (pd_customerMoney d - pd_total d)"
  using pos_run_inv [OF pos_inv_init, of es] by (auto simp: pos_inv_def cash_ok_def)

text \<open>
  C24: At most one payment is in flight: in any reachable page state with a confirmation
  pending, a further click on the confirm button changes nothing, because the dialog's
  \<open>processing\<close> flag is set exactly while a confirmation is pending.
\<close>

theorem pos_single_flight:
  "pending (pos_run pos_init es) \<noteq> None \<Longrightarrow> pos_step (pos_run pos_init es) ModalConfirm = pos_run pos_init es"
  using pos_run_inv [OF pos_inv_init, of es] by (auto simp: pos_inv_def split: option.splits)

theorem pos_cash_receipts_sufficient_witness:
  "pd_total (hd (receipts (pos_run pos_init
      [CartUI (SelectProduct (all_products ! 0)), CartMethod Qris, CartProcess, ModalMoney (Some 30000),
       ModalConfirm, PaymentDone 1]))) \<le> 30000"
proof -
  let ?s = "pos_run pos_init
      [CartUI (SelectProduct (all_products ! 0)), CartMethod Qris, CartProcess, ModalMoney (Some 30000),
       ModalConfirm, PaymentDone 1]"
  have r: "hd (receipts ?s) \<in> set (receipts ?s)" and c: "pd_paymentMethod (hd (receipts ?s)) = Cash"
    and m: "pd_customerMoney (hd (receipts ?s)) = 30000"
    by (simp_all add: pos_eval)
  show ?thesis using pos_cash_receipts_sufficient [OF r c] m by simp
qed

theorem pos_single_flight_witness:
  "pending (pos_run pos_init [CartUI (SelectProduct (all_products ! 0)), CartMethod Qris, CartProcess, ModalMethod Qris, ModalConfirm]) \<noteq> None \<and>
   pos_step (pos_run pos_init [CartUI (SelectProduct (all_products ! 0)), CartMethod Qris, CartProcess, ModalMethod Qris, ModalConfirm]) ModalConfirm =
   pos_run pos_init [CartUI (SelectProduct (all_products ! 0)), CartMethod Qris, CartProcess, ModalMethod Qris, ModalConfirm]"
proof -
  have p: "pending (pos_run pos_init [CartUI (SelectProduct (all_products ! 0)), CartMethod Qris, CartProcess, ModalMethod Qris, ModalConfirm]) \<noteq> None"
    by (simp add: pos_eval)
  show ?thesis using pos_single_flight [OF p] p by simp
qed


text \<open>
  C23: Cancelling the dialog does not cancel a confirmation in flight, and the confirmation
  clears the whole cart when it lands.  In any state with a confirmation pending, closing
  the dialog keeps it pending and hands the cart back to the cashier; when the two-second
  wait ends the cart is emptied, whatever it holds by then, while the receipt records only
  the items of the order the dialog was opened with: items added after closing leave the
  cart without being paid.
\<close>

theorem cancelled_payment_clears_later_items:
  assumes "pending s = Some (ms, od)"
  shows "pending (pos_step s ModalClose) = Some (ms, od) \<and>
         cartItems (pos_step (pos_step s ModalClose) (CartUI e)) = cart_step (cartItems s) e \<and>
         pending (pos_step (pos_step s ModalClose) (CartUI e)) = Some (ms, od) \<and>
         cartItems (pos_step s (PaymentDone now)) = [] \<and>
         receipts (pos_step s (PaymentDone now)) = receipts s @ [modal_payment_data ms od now] \<and>
         pd_items (modal_payment_data ms od now) = pd_items od"
  using assms
  by (simp add: modal_confirm_finish_def pos_handleConfirmPayment_def modal_payment_data_def Let_def)

text \<open>
  The recorded payment takes its method and amount from the dialog's state at the click,
  whatever was chosen in the cart's own payment section: the cart's choice is discarded
  (in the witness the cart chose QRIS and the receipt says cash).
\<close>

theorem receipt_from_dialog:
  "pending s = Some (ms, od) \<Longrightarrow>
   \<exists>d. receipts (pos_step s (PaymentDone now)) = receipts s @ [d] \<and>
       pd_paymentMethod d = m_paymentMethod ms \<and> pd_items d = pd_items od \<and> pd_total d = pd_total od"
  by (simp add: modal_confirm_finish_def pos_handleConfirmPayment_def modal_payment_data_def Let_def)

theorem receipt_from_dialog_witness:
  "pd_paymentMethod (the (orderData (pos_run pos_init
      [CartUI (SelectProduct (all_products ! 0)), CartMethod Qris, CartProcess, ModalMoney (Some 30000), ModalConfirm]))) = Qris \<and>
   map pd_paymentMethod (receipts (pos_step (pos_run pos_init
      [CartUI (SelectProduct (all_products ! 0)), CartMethod Qris, CartProcess, ModalMoney (Some 30000), ModalConfirm])
      (PaymentDone 1))) = [Cash]"
proof -
  let ?s = "pos_run pos_init
      [CartUI (SelectProduct (all_products ! 0)), CartMethod Qris, CartProcess, ModalMoney (Some 30000), ModalConfirm]"
  have p: "pending ?s = Some (m_customerMoney_update (\<lambda>_. Some 30000) modal_init, the (orderData ?s))"
    by (simp add: pos_eval)
  have "receipts ?s = []" by (simp add: pos_eval)
  moreover have "m_paymentMethod (m_customerMoney_update (\<lambda>_. Some 30000) modal_init) = Cash"
    by (simp add: modal_init_def)
  moreover note receipt_from_dialog [OF p, of 1]
  moreover have "pd_paymentMethod (the (orderData ?s)) = Qris" by (simp add: pos_eval)
  ultimately show ?thesis by auto
qed

theorem cancelled_payment_clears_later_items_witness:
  "map prod_id (cartItems (pos_run pos_init
      [CartUI (SelectProduct (all_products ! 0)), CartMethod Qris, CartProcess, ModalMethod Qris,
       ModalConfirm, ModalClose, CartUI (SelectProduct (all_products ! 4))])) = [1, 5] \<and>
   cartItems (pos_run pos_init
      [CartUI (SelectProduct (all_products ! 0)), CartMethod Qris, CartProcess, ModalMethod Qris,
       ModalConfirm, ModalClose, CartUI (SelectProduct (all_products ! 4)), PaymentDone 1]) = [] \<and>
   map (map prod_id \<circ> pd_items) (receipts (pos_run pos_init
      [CartUI (SelectProduct (all_products ! 0)), CartMethod Qris, CartProcess, ModalMethod Qris,
       ModalConfirm, ModalClose, CartUI (SelectProduct (all_products ! 4)), PaymentDone 1])) = [[1]]"
proof -
  let ?s = "pos_run pos_init [CartUI (SelectProduct (all_products ! 0)), CartMethod Qris, CartProcess,
              ModalMethod Qris, ModalConfirm, ModalClose, CartUI (SelectProduct (all_products ! 4))]"
  obtain ms od where p: "pending ?s = Some (ms, od)"
    by (cases "pending ?s") (auto simp: pos_eval)
  have run: "pos_run pos_init [CartUI (SelectProduct (all_products ! 0)), CartMethod Qris, CartProcess, ModalMethod Qris,
       ModalConfirm, ModalClose, CartUI (SelectProduct (all_products ! 4)), PaymentDone 1] = pos_step ?s (PaymentDone 1)"
    by (simp add: pos_run_def)
  have t: "cartItems (pos_step ?s (PaymentDone 1)) = []"
    "receipts (pos_step ?s (PaymentDone 1)) = receipts ?s @ [modal_payment_data ms od 1]"
    "pd_items (modal_payment_data ms od 1) = pd_items od"
    using cancelled_payment_clears_later_items [OF p] by simp_all
  have "map prod_id (cartItems ?s) = [1, 5] \<and> receipts ?s = [] \<and> map prod_id (pd_items od) = [1]"
    using p by (simp add: pos_eval) (elim conjE; hypsubst; simp)
  then show ?thesis unfolding run using t by simp
qed

end
