(* ===== verification/CartView.thy ===== *)
theory CartView
  imports POS
begin

text \<open>
  What the cart renders (src/src/pages/point-of-sale-interface/components/ShoppingCart.jsx)
  for a state of POS's \<open>pos_state\<close>: the header with its count and clear button, one line
  per cart item with its buttons, and, for a non-empty cart, the summary, the payment
  methods, the cash input with the change, and the process button.  The clicks are POS's
  \<open>CartUI\<close>, \<open>CartMethod\<close>, \<open>CartMoney\<close> and \<open>CartProcess\<close> events; \<open>formatPrice\<close> (Intl) is
  not modelled and product images are not part of the model.
\<close>

record cart_line_view =
  lv_id :: nat
  lv_name :: string
  lv_price :: money
  lv_quantity :: int
  lv_note :: "string option"
  lv_noteButton :: string

text \<open>A line: the note box only for a non-empty note, and the note button's caption.\<close>

definition cart_line_view :: "cart_item \<Rightarrow> cart_line_view" where
  "cart_line_view item =
     \<lparr>lv_id = prod_id item, lv_name = name item, lv_price = price item, lv_quantity = quantity item,
      lv_note = (if item_notes item = [] then None else Some (item_notes item)),
      lv_noteButton = (if item_notes item = [] then ''Tambah Catatan'' else ''Edit Catatan'')\<rparr>"

definition method_icon :: "pay_method \<Rightarrow> string" where
  "method_icon m =
     (case m of Cash \<Rightarrow> ''Banknote'' | Card \<Rightarrow> ''CreditCard'' | Qris \<Rightarrow> ''QrCode'' | Gopay \<Rightarrow> ''Smartphone''
      | Ovo \<Rightarrow> ''Wallet'')"

record cart_view =
  sv_count :: string
  sv_clearButton :: bool
  sv_lines :: "cart_line_view list"
  sv_summary :: "order_totals option"
  sv_methods :: "(string \<times> string \<times> bool) list"
  sv_cash :: "(rat option \<times> (money \<times> string) option) option"
  sv_process :: "bool option"

text \<open>
  The cart for a state: the summary, methods and process button (with its \<open>disabled\<close>)
  only for a non-empty cart; the cash input only for cash, and the change line only once
  an amount is typed, coloured by \<open>change >= 0\<close>.
\<close>

definition cart_view :: "pos_state \<Rightarrow> cart_view" where
  "cart_view s =
     (let items = cartItems s; t = cart_totals items; m = cart_paymentMethod s; money = cart_customerMoney s;
          change = cart_change m money (total t) in
      \<lparr>sv_count = show_nat (length items) @ '' item'', sv_clearButton = (items \<noteq> []),
       sv_lines = map cart_line_view items,
       sv_summary = (if items = [] then None else Some t),
       sv_methods = (if items = [] then [] else map (\<lambda>(k, l). (l, method_icon k, m = k)) paymentMethods),
       sv_cash = (if items \<noteq> [] \<and> m = Cash
                  then Some (money, map_option (\<lambda>v. (change, if 0 \<le> change then ''text-success'' else ''text-error'')) money)
                  else None),
       sv_process = (if items = [] then None else Some (cart_process_disabled m money (total t)))\<rparr>)"

subsection \<open>Properties\<close>


lemma cart_change_nonneg: "0 \<le> cart_change m v t"
  by (simp add: cart_change_def split: option.splits)


text \<open>
  C40: The change line is always green: \<open>change\<close> is clamped at zero, so the red branch of its
  colour is dead and an amount below the total shows "Kembalian" of zero in green.
\<close>

theorem change_never_red:
  assumes "sv_cash (cart_view s) = Some (v, Some (c, colour))"
  shows "colour = ''text-success'' \<and> 0 \<le> c"
  using assms cart_change_nonneg by (auto simp: cart_view_def Let_def split: if_splits)

text \<open>
  The header counts lines, not portions: a product added twice is one line of quantity
  two, shown as "1 item".
\<close>

theorem count_counts_lines:
  "sv_count (cart_view (pos_run pos_init [CartUI (SelectProduct (all_products ! 0)), CartUI (SelectProduct (all_products ! 0))])) = ''1 item'' \<and>
   map lv_quantity (sv_lines (cart_view (pos_run pos_init [CartUI (SelectProduct (all_products ! 0)), CartUI (SelectProduct (all_products ! 0))]))) = [2]"
proof -
  have "show_nat (Suc 0) = ''1''" by code_simp
  then show ?thesis by (simp add: pos_eval cart_view_def cart_line_view_def)
qed


theorem change_never_red_witness:
  "sv_cash (cart_view (pos_run pos_init [CartUI (SelectProduct (all_products ! 0)), CartMoney (Some 1000)])) =
     Some (Some 1000, Some (0, ''text-success'')) \<and> (0::rat) \<le> 0"
proof -
  have h: "sv_cash (cart_view (pos_run pos_init [CartUI (SelectProduct (all_products ! 0)), CartMoney (Some 1000)])) =
     Some (Some 1000, Some (0, ''text-success''))"
    by (simp add: pos_eval cart_view_def cart_totals_def taxRate_def cart_change_def)
  show ?thesis using change_never_red [OF h] h by simp
qed

end
