(* ===== verification/POSCatalog.thy ===== *)
theory POSCatalog
  imports POS
begin

text \<open>
  The point of sale's catalogue and header around the cart and payment of POS
  (src/src/pages/point-of-sale-interface/index.jsx, components/CategorySidebar.jsx,
  ProductGrid.jsx, POSHeader.jsx): the selected category and the search term of the page,
  the grid's short highlight of a product just added, the header's clock and shift timer,
  and its drawer and reprint buttons, which only raise an alert.  A product can be added
  only from its card in the grid, i.e. while it is of the selected category and matches the
  search; the payment dialog covers the whole page while it is open.
\<close>

record category =
  cat_id :: string
  cat_name :: string
  cat_icon :: string
  cat_itemCount :: nat

definition categories :: "category list" where
  "categories =
    [\<lparr>cat_id = ''makanan-utama'', cat_name = ''Makanan Utama'', cat_icon = ''ChefHat'', cat_itemCount = 12\<rparr>,
     \<lparr>cat_id = ''minuman'', cat_name = ''Minuman'', cat_icon = ''Coffee'', cat_itemCount = 8\<rparr>,
     \<lparr>cat_id = ''dessert'', cat_name = ''Dessert'', cat_icon = ''IceCream'', cat_itemCount = 6\<rparr>,
     \<lparr>cat_id = ''appetizer'', cat_name = ''Appetizer'', cat_icon = ''Utensils'', cat_itemCount = 5\<rparr>,
     \<lparr>cat_id = ''snack'', cat_name = ''Snack'', cat_icon = ''Cookie'', cat_itemCount = 10\<rparr>]"

text \<open>The sidebar button's variant (the mobile tabs use \<open>outline\<close> for the others).\<close>

definition category_variant :: "string \<Rightarrow> category \<Rightarrow> string" where
  "category_variant selectedCategory c = (if selectedCategory = cat_id c then ''default'' else ''ghost'')"

text \<open>The products the grid shows: the page's category filter, then the grid's search.\<close>

definition shown_products :: "string \<Rightarrow> string \<Rightarrow> product list" where
  "shown_products selectedCategory searchTerm = grid_filteredProducts searchTerm (filteredProducts selectedCategory)"

subsection \<open>The header's shift timer\<close>

text \<open>
  \<open>getShiftDuration\<close>: \<open>Math.floor(diff / 3600000)\<close> hours and
  \<open>Math.floor((diff % 3600000) / 60000)\<close> minutes (\<open>js_rem\<close>).
\<close>

definition getShiftDuration :: "int \<Rightarrow> int \<Rightarrow> string" where
  "getShiftDuration currentTime shiftStartTime =
     (let diff = currentTime - shiftStartTime;
          hours = diff div 3600000;
          minutes = js_rem diff 3600000 div 60000
      in show_int hours @ ''j '' @ show_int minutes @ ''m'')"

subsection \<open>The page around the cart\<close>

record pos_catalog =
  pc_pos :: pos_state
  selectedCategory :: string
  searchTerm :: string
  highlighted :: "nat option"
  currentTime :: int
  shiftStartTime :: int
  pc_alerts :: "string list"

text \<open>Mounting at time \<open>t0\<close>: the shift is taken to have started four hours earlier.\<close>

definition catalog_init :: "int \<Rightarrow> pos_catalog" where
  "catalog_init t0 =
     \<lparr>pc_pos = pos_init, selectedCategory = ''makanan-utama'', searchTerm = [], highlighted = None,
      currentTime = t0, shiftStartTime = t0 - 4 * 60 * 60 * 1000, pc_alerts = []\<rparr>"

datatype catalog_event =
    CategoryClick string | SearchInput string | ProductClick nat | HighlightEnd
  | ClockTick int | DrawerBtn | ReprintBtn | PosEv pos_event

fun is_select :: "pos_event \<Rightarrow> bool" where
  "is_select (CartUI (SelectProduct p)) = True"
| "is_select e = False"

text \<open>
  One event.  A product card (or its plus button) adds the product when it is shown and
  available and highlights it until the 300 ms timer ends; the clock ticks every second
  whatever is open; every other control of the page is covered by the open payment dialog.
  Cart events that select a product come only through the grid.
\<close>

fun catalog_step :: "pos_catalog \<Rightarrow> catalog_event \<Rightarrow> pos_catalog" where
  "catalog_step c (CategoryClick k) =
     (if \<not> showPaymentModal (pc_pos c) \<and> k \<in> cat_id ` set categories then c\<lparr>selectedCategory := k\<rparr> else c)"
| "catalog_step c (SearchInput v) = (if \<not> showPaymentModal (pc_pos c) then c\<lparr>searchTerm := v\<rparr> else c)"
| "catalog_step c (ProductClick pid) =
     (if showPaymentModal (pc_pos c) then c else
      case find (\<lambda>p. prod_id p = pid) (shown_products (selectedCategory c) (searchTerm c)) of
        Some p \<Rightarrow> if available p then c\<lparr>pc_pos := pos_step (pc_pos c) (CartUI (SelectProduct p)), highlighted := Some pid\<rparr>
                  else c
      | None \<Rightarrow> c)"
| "catalog_step c HighlightEnd = c\<lparr>highlighted := None\<rparr>"
| "catalog_step c (ClockTick now) = c\<lparr>currentTime := now\<rparr>"
| "catalog_step c DrawerBtn =
     (if \<not> showPaymentModal (pc_pos c) then c\<lparr>pc_alerts := pc_alerts c @ [''Laci kasir dibuka'']\<rparr> else c)"
| "catalog_step c ReprintBtn =
     (if \<not> showPaymentModal (pc_pos c) then c\<lparr>pc_alerts := pc_alerts c @ [''Mencetak ulang struk terakhir...'']\<rparr> else c)"
| "catalog_step c (PosEv e) = (if is_select e then c else c\<lparr>pc_pos := pos_step (pc_pos c) e\<rparr>)"

definition catalog_run :: "pos_catalog \<Rightarrow> catalog_event list \<Rightarrow> pos_catalog" where
  "catalog_run c es = foldl catalog_step c es"

text \<open>
  The header's right-hand side for the \<open>cashierName\<close> prop: the cashier, the shift box and
  the three action buttons (title and icon); the drawer and reprint buttons are
  \<open>DrawerBtn\<close> and \<open>ReprintBtn\<close>, the report button the page's \<open>navigate('/dashboard')\<close>
  (Navigation's \<open>PosViewReports\<close>).  The clock's text is Intl formatting.
\<close>

record pos_header_view =
  ph_cashier :: string
  ph_shift :: string
  ph_shiftStart :: int
  ph_buttons :: "(string \<times> string) list"

definition pos_header_view :: "string \<Rightarrow> pos_catalog \<Rightarrow> pos_header_view" where
  "pos_header_view cashierName c =
     \<lparr>ph_cashier = cashierName, ph_shift = ''Shift: '' @ getShiftDuration (currentTime c) (shiftStartTime c),
      ph_shiftStart = shiftStartTime c,
      ph_buttons = [(''Buka Laci Kasir'', ''DollarSign''), (''Cetak Ulang Struk Terakhir'', ''Printer''),
                    (''Lihat Laporan'', ''BarChart3'')]\<rparr>"

subsection \<open>Properties\<close>

text \<open>
  The sidebar's item counts are constants that disagree with the products: it lists
  12, 8, 6, 5 and 10 items, while the grid holds 4, 3, 2, 1 and 0 products of these
  categories.  In the Snack category no click on the grid adds anything.
\<close>

theorem snack_category_empty:
  assumes "selectedCategory c = ''snack''"
  shows "catalog_step c (ProductClick pid) = c \<and>
         map cat_itemCount categories = [12, 8, 6, 5, 10] \<and>
         map (\<lambda>k. length (filteredProducts (cat_id k))) categories = [4, 3, 2, 1, 0]"
proof -
  have "filteredProducts ''snack'' = []" by (simp add: filteredProducts_def all_products_def)
  then have "shown_products (selectedCategory c) (searchTerm c) = []"
    using assms by (simp add: shown_products_def grid_filteredProducts_def)
  then show ?thesis by (simp add: categories_def filteredProducts_def all_products_def)
qed

theorem snack_category_empty_witness:
  "catalog_step (catalog_step (catalog_init 0) (CategoryClick ''snack'')) (ProductClick 1) =
     catalog_step (catalog_init 0) (CategoryClick ''snack'')"
proof -
  have "selectedCategory (catalog_step (catalog_init 0) (CategoryClick ''snack'')) = ''snack''"
    by (simp add: catalog_init_def pos_init_def categories_def)
  from snack_category_empty [OF this, of 1] show ?thesis by simp
qed

text \<open>The shift timer: at mount it reads four hours; for a non-negative elapsed time its
  minutes stay below sixty and hours and minutes make up the whole minutes elapsed.\<close>

theorem shift_duration:
  "getShiftDuration (currentTime (catalog_init t0)) (shiftStartTime (catalog_init t0)) = ''4j 0m''"
  "0 \<le> d \<Longrightarrow> js_rem d 3600000 div 60000 < 60 \<and> 0 \<le> js_rem d 3600000 div 60000 \<and>
     60 * (d div 3600000) + js_rem d 3600000 div 60000 = d div 60000"
proof -
  have c: "char_of (52 :: nat) = CHR ''4''" "char_of (48 :: nat) = CHR ''0''" by code_simp+
  show "getShiftDuration (currentTime (catalog_init t0)) (shiftStartTime (catalog_init t0)) = ''4j 0m''"
    using c by (simp add: getShiftDuration_def catalog_init_def js_rem_def show_int_def show_nat.simps)
  assume "0 \<le> d"
  then have r: "js_rem d 3600000 = d mod 3600000" by (cases "d = 0") (simp_all add: js_rem_def)
  define q where "q = d div 60000"
  have m: "d mod 3600000 = d mod 60000 + (q mod 60) * 60000"
    using zmod_zmult2_eq [of 60 d 60000] by (simp add: q_def)
  have "d mod 3600000 div 60000 = q mod 60 + d mod 60000 div 60000"
    unfolding m by (rule div_mult_self1) simp
  then have mm: "d mod 3600000 div 60000 = q mod 60" by simp
  have h: "d div 3600000 = q div 60"
    using zdiv_zmult2_eq [of 60 d 60000] by (simp add: q_def)
  have "d mod 3600000 div 60000 < 60" "0 \<le> d mod 3600000 div 60000"
    "60 * (d div 3600000) + d mod 3600000 div 60000 = d div 60000"
    unfolding mm h by (simp_all add: q_def)
  then show "js_rem d 3600000 div 60000 < 60 \<and> 0 \<le> js_rem d 3600000 div 60000 \<and>
     60 * (d div 3600000) + js_rem d 3600000 div 60000 = d div 60000" using r by simp
qed

text \<open>At mount the header shows a shift of four hours and no minutes.\<close>

theorem header_shift_at_mount: "ph_shift (pos_header_view n (catalog_init t0)) = ''Shift: 4j 0m''"
  using shift_duration(1) [of t0] by (simp add: pos_header_view_def)

end
