(* ===== verification/Stock.thy ===== *)
theory Stock
  imports Prelude
begin

text \<open>
  Stock levels against their minimum: the dashboard's low-stock panel
  (src/src/pages/dashboard/components/LowStockAlert.jsx), whose percentage divides by the
  minimum without a guard, and the stock bands of the reorder suggestions
  (src/src/pages/purchase-orders/components/ReorderSuggestions.jsx).  The spec's
  StockStatusClassifier (spec section 4.3), with its fallback of 100\% for a zero minimum,
  is the abstract \<open>spec_percentage\<close> and \<open>spec_classify\<close>.
\<close>

subsection \<open>The low-stock panel\<close>

record low_stock_item =
  ls_id :: nat
  ls_name :: string
  ls_currentStock :: rat
  ls_minStock :: rat
  ls_unit :: string
  ls_category :: string
  ls_urgency :: string
  ls_supplier :: string

definition lowStockItems :: "low_stock_item list" where
  "lowStockItems =
    [\<lparr>ls_id = 1, ls_name = ''Tomat'', ls_currentStock = 5, ls_minStock = 20, ls_unit = ''kg'',
      ls_category = ''Sayuran'', ls_urgency = ''critical'', ls_supplier = ''Toko Sayur Segar''\<rparr>,
     \<lparr>ls_id = 2, ls_name = ''Beras Premium'', ls_currentStock = 8, ls_minStock = 25, ls_unit = ''kg'',
      ls_category = ''Bahan Pokok'', ls_urgency = ''high'', ls_supplier = ''CV Beras Jaya''\<rparr>,
     \<lparr>ls_id = 3, ls_name = ''Minyak Goreng'', ls_currentStock = 12, ls_minStock = 30, ls_unit = ''liter'',
      ls_category = ''Minyak'', ls_urgency = ''medium'', ls_supplier = ''Distributor Minyak''\<rparr>,
     \<lparr>ls_id = 4, ls_name = ''Gula Pasir'', ls_currentStock = 15, ls_minStock = 40, ls_unit = ''kg'',
      ls_category = ''Bumbu'', ls_urgency = ''medium'', ls_supplier = ''Toko Grosir Manis''\<rparr>,
     \<lparr>ls_id = 5, ls_name = ''Telur Ayam'', ls_currentStock = 3, ls_minStock = 10, ls_unit = ''kg'',
      ls_category = ''Protein'', ls_urgency = ''critical'', ls_supplier = ''Peternakan Sejahtera''\<rparr>]"

text \<open>\<open>getUrgencyConfig\<close>: icon and label of an urgency; anything else is "Sedang".\<close>

definition getUrgencyConfig :: "string \<Rightarrow> string \<times> string" where
  "getUrgencyConfig urgency =
     (if urgency = ''critical'' then (''AlertTriangle'', ''Kritis'')
      else if urgency = ''high'' then (''AlertCircle'', ''Tinggi'')
      else (''Info'', ''Sedang''))"

text \<open>\<open>getStockPercentage\<close>: \<open>Math.round((current / min) * 100)\<close>, with no guard for \<open>min = 0\<close>.\<close>

definition getStockPercentage :: "rat \<Rightarrow> rat \<Rightarrow> jsnum" where
  "getStockPercentage current minimum = js_round (js_mul (js_div current minimum) 100)"

datatype band = BandError | BandWarning | BandSuccess

text \<open>The progress bar: its colour class and its width \<open>Math.min(stockPercentage, 100)\<close>.\<close>

definition stock_bar_color :: "jsnum \<Rightarrow> band" where
  "stock_bar_color stockPercentage =
     (if js_le stockPercentage 25 then BandError
      else if js_le stockPercentage 50 then BandWarning else BandSuccess)"

definition stock_bar_width :: "jsnum \<Rightarrow> jsnum" where
  "stock_bar_width stockPercentage = js_min stockPercentage 100"

text \<open>The counter in the panel's header: the items whose urgency is critical.\<close>

definition critical_count :: "low_stock_item list \<Rightarrow> nat" where
  "critical_count items = length (filter (\<lambda>item. ls_urgency item = ''critical'') items)"

subsection \<open>The reorder suggestions' bands\<close>

text \<open>
  The stock bar of a suggestion: colour by \<open>currentStock <= minStock * 0.5\<close> and
  \<open><= minStock * 0.8\<close>, label \<open>Math.round((currentStock / minStock) * 100)\<close>; and the
  colour of the days left.
\<close>

definition reorder_stock_color :: "rat \<Rightarrow> rat \<Rightarrow> band" where
  "reorder_stock_color currentStock minStock =
     (if currentStock \<le> minStock * (5/10) then BandError
      else if currentStock \<le> minStock * (8/10) then BandWarning else BandSuccess)"

definition reorder_stock_label :: "rat \<Rightarrow> rat \<Rightarrow> jsnum" where
  "reorder_stock_label currentStock minStock = js_round (js_mul (js_div currentStock minStock) 100)"

definition days_left_color :: "rat \<Rightarrow> band" where
  "days_left_color daysLeft =
     (if daysLeft \<le> 2 then BandError else if daysLeft \<le> 5 then BandWarning else BandSuccess)"

subsection \<open>The spec's classifier\<close>

datatype stock_status = CRITICAL | LOW | ADEQUATE

definition spec_percentage :: "rat \<Rightarrow> rat \<Rightarrow> int" where
  "spec_percentage currentStock minStock =
     (if 0 < minStock then \<lfloor>currentStock / minStock * 100 + 1/2\<rfloor> else 100)"

definition spec_classify :: "rat \<Rightarrow> rat \<Rightarrow> stock_status" where
  "spec_classify currentStock minStock =
     (let p = spec_percentage currentStock minStock in
      if p \<le> 25 then CRITICAL else if p \<le> 100 then LOW else ADEQUATE)"

text \<open>Severity order of the bands, worst first.\<close>

fun band_rank :: "band \<Rightarrow> nat" where
  "band_rank BandError = 0"
| "band_rank BandWarning = 1"
| "band_rank BandSuccess = 2"

subsection \<open>Properties\<close>

lemma getStockPercentage_spec:
  "0 < minStock \<Longrightarrow> getStockPercentage c minStock = Num (of_int (spec_percentage c minStock))"
  by (simp add: getStockPercentage_def spec_percentage_def)


text \<open>
  For a positive minimum the panel's percentage is the spec's: the rounded share of
  the minimum that is in stock.
\<close>

theorem getStockPercentage_pos:
  "0 < minStock \<Longrightarrow> getStockPercentage c minStock = Num (of_int (spec_percentage c minStock))"
  by (rule getStockPercentage_spec)

text \<open>
  C32: For a zero minimum the panel's percentage is not a number: \<open>Infinity\<close> for stock on
  hand and \<open>NaN\<close> for none, where the spec prescribes the fallback 100; every comparison
  with it fails, so the bar is drawn in the success colour.
\<close>

theorem getStockPercentage_zero_min:
  "0 \<le> c \<Longrightarrow> getStockPercentage c 0 \<in> {PosInf, NaN} \<and>
     stock_bar_color (getStockPercentage c 0) = BandSuccess \<and> spec_percentage c 0 = 100"
  by (auto simp: getStockPercentage_def js_div_def stock_bar_color_def spec_percentage_def)

lemma pct_mono:
  "0 < minStock \<Longrightarrow> c1 \<le> c2 \<Longrightarrow> \<lfloor>c1 / minStock * 100 + 1/2\<rfloor> \<le> \<lfloor>c2 / minStock * 100 + (1/2::rat)\<rfloor>"
  by (intro floor_mono add_right_mono mult_right_mono divide_right_mono) simp_all

lemma band_of_int_mono:
  "(p::int) \<le> q \<Longrightarrow> band_rank (stock_bar_color (Num (of_int p))) \<le> band_rank (stock_bar_color (Num (of_int q)))"
  by (simp add: stock_bar_color_def)

lemma spec_percentage_mono:
  "0 < minStock \<Longrightarrow> c1 \<le> c2 \<Longrightarrow> spec_percentage c1 minStock \<le> spec_percentage c2 minStock"
  using pct_mono [of minStock c1 c2] by (simp add: spec_percentage_def)

text \<open>
  The panel's bar colour is monotone in the stock: for a fixed positive minimum, more
  stock never gives a more alarming colour (spec 4.3: status never improves as stock
  decreases).
\<close>

theorem stock_bar_color_mono:
  assumes "0 < minStock" and "c1 \<le> c2"
  shows "band_rank (stock_bar_color (getStockPercentage c1 minStock)) \<le>
         band_rank (stock_bar_color (getStockPercentage c2 minStock))"
  using band_of_int_mono [OF spec_percentage_mono [OF assms]]
  by (simp only: getStockPercentage_spec [OF assms(1)])


text \<open>
  For non-negative stock and a positive minimum the bar's width is a number between 0
  and 100 (percent).
\<close>

theorem stock_bar_width_bounds:
  assumes "0 \<le> c" and "0 < minStock"
  shows "\<exists>w. stock_bar_width (getStockPercentage c minStock) = Num w \<and> 0 \<le> w \<and> w \<le> 100"
proof -
  have "0 \<le> c / minStock * 100 + 1/2" using assms by simp
  then have "0 \<le> \<lfloor>c / minStock * 100 + (1/2::rat)\<rfloor>" by simp
  then show ?thesis using assms(2)
    by (simp add: getStockPercentage_def stock_bar_width_def)
qed

text \<open>
  On the panel's data the bars and the urgency labels disagree for Telur Ayam (3 of a
  minimum of 10): it is labelled critical but its 30\% bar is drawn as a warning, like the
  medium items; the header counts two critical items.
\<close>

theorem lowStock_bands:
  "map (\<lambda>i. stock_bar_color (getStockPercentage (ls_currentStock i) (ls_minStock i))) lowStockItems =
     [BandError, BandWarning, BandWarning, BandWarning, BandWarning] \<and>
   map ls_urgency lowStockItems = [''critical'', ''high'', ''medium'', ''medium'', ''critical''] \<and>
   critical_count lowStockItems = 2"
  by (simp add: lowStockItems_def getStockPercentage_def stock_bar_color_def critical_count_def) code_simp?


theorem getStockPercentage_pos_witness: "getStockPercentage 5 20 = Num 25 \<and> getStockPercentage 18 20 = Num 90"
proof -
  have "getStockPercentage 5 20 = Num (of_int (spec_percentage 5 20))"
    by (rule getStockPercentage_pos) simp
  moreover have "getStockPercentage 18 20 = Num (of_int (spec_percentage 18 20))"
    by (rule getStockPercentage_pos) simp
  ultimately show ?thesis by (simp add: spec_percentage_def) code_simp
qed

theorem getStockPercentage_zero_min_witness:
  "getStockPercentage 5 0 = PosInf \<and> stock_bar_color (getStockPercentage 5 0) = BandSuccess"
  using getStockPercentage_zero_min [of 5] by (simp add: getStockPercentage_def js_div_def)

theorem stock_bar_color_mono_witness:
  "band_rank (stock_bar_color (getStockPercentage 5 20)) \<le> band_rank (stock_bar_color (getStockPercentage 18 20))"
  by (rule stock_bar_color_mono) simp_all

theorem stock_bar_width_bounds_witness:
  "\<exists>w. stock_bar_width (getStockPercentage 25 20) = Num w \<and> 0 \<le> w \<and> w \<le> 100"
  by (rule stock_bar_width_bounds) simp_all

end
