(* ===== verification/Kitchen.thy ===== *)
theory Kitchen
  imports Stock
begin

text \<open>
  The kitchen display's order card
  (src/src/pages/kitchen-display-system/components/OrderCard.jsx, StatusColumn.jsx) and the
  dashboard's kitchen panel (src/src/pages/dashboard/components/KitchenStatus.jsx).  An
  order moves through the statuses new, in progress, ready and completed; the card's action
  button asks its parent, through \<open>onStatusChange(order.id, getNextStatus(status))\<close>, to
  move it one status on, and is not rendered for a completed order.  The repository has no
  kitchen-display page that would hold the orders (there is neither a page component nor a
  route), so the step relation \<open>kds_step\<close> applies the requested status, which is what
  the callback's name promises.
\<close>

datatype order_status = New | InProgress | Ready | Completed

text \<open>\<open>getNextStatus\<close>: the \<open>statusFlow\<close> table; a completed order stays completed.\<close>

fun getNextStatus :: "order_status \<Rightarrow> order_status" where
  "getNextStatus New = InProgress"
| "getNextStatus InProgress = Ready"
| "getNextStatus Ready = Completed"
| "getNextStatus Completed = Completed"

fun getStatusLabel :: "order_status \<Rightarrow> string" where
  "getStatusLabel New = ''Mulai Masak''"
| "getStatusLabel InProgress = ''Siap Disajikan''"
| "getStatusLabel Ready = ''Selesai''"
| "getStatusLabel Completed = ''Selesai''"

record kitchen_item =
  ki_name :: string
  ki_quantity :: nat
  ki_completed :: bool

record kitchen_order =
  ko_id :: nat
  ko_status :: order_status
  ko_items :: "kitchen_item list"
  ko_priority :: string

text \<open>
  The card's controls.  The action button (rendered unless the order is completed) calls
  \<open>onStatusChange(order.id, getNextStatus(order.status))\<close> under the label
  \<open>getStatusLabel(order.status)\<close>; the tick box of item \<open>index\<close> (rendered only while the
  order is in progress) calls \<open>onItemToggle(order.id, index)\<close>.
\<close>

datatype card_request = StatusChange nat order_status | ItemToggle nat nat

datatype card_ui = ClickAction | ClickItem nat

definition action_button :: "kitchen_order \<Rightarrow> (string \<times> order_status) option" where
  "action_button order =
     (if ko_status order \<noteq> Completed
      then Some (getStatusLabel (ko_status order), getNextStatus (ko_status order)) else None)"

fun card_click :: "kitchen_order \<Rightarrow> card_ui \<Rightarrow> card_request option" where
  "card_click order ClickAction =
     (case action_button order of None \<Rightarrow> None
      | Some (label, next) \<Rightarrow> Some (StatusChange (ko_id order) next))"
| "card_click order (ClickItem index) =
     (if ko_status order = InProgress \<and> index < length (ko_items order)
      then Some (ItemToggle (ko_id order) index) else None)"

text \<open>The card's progress: \<open>(completedItems / totalItems) * 100\<close>.\<close>

definition progressPercentage :: "kitchen_order \<Rightarrow> jsnum" where
  "progressPercentage order =
     js_mul (js_div (of_nat (length (filter ki_completed (ko_items order))))
                    (of_nat (length (ko_items order)))) 100"

text \<open>
  The timer: \<open>Math.floor((now - createdAt) / 60000)\<close> minutes, shown as
  \<open>Math.floor(elapsedTime / 60)\<close> and \<open>elapsedTime % 60\<close>, JavaScript's remainder taking
  the sign of the dividend; and \<open>getTimeColor\<close>.
\<close>

definition elapsed_minutes :: "int \<Rightarrow> int \<Rightarrow> int" where
  "elapsed_minutes now createdAt = (now - createdAt) div 60000"

definition elapsed_display :: "int \<Rightarrow> int \<times> int" where
  "elapsed_display elapsedTime = (elapsedTime div 60, js_rem elapsedTime 60)"

definition getTimeColor :: "int \<Rightarrow> band" where
  "getTimeColor elapsedTime =
     (if elapsedTime < 15 then BandSuccess else if elapsedTime < 30 then BandWarning else BandError)"

text \<open>The priority badge is shown for priority \<open>'high'\<close> only.\<close>

definition priority_badge :: "kitchen_order \<Rightarrow> bool" where
  "priority_badge order = (ko_priority order = ''high'')"

subsection \<open>The button-driven changes\<close>

text \<open>
  The parent's handlers do what their names say: the status change sets the order's status,
  the toggle flips the item's \<open>completed\<close> flag.  \<open>kds_step\<close> is one click on a control the
  card renders.
\<close>

definition apply_request :: "kitchen_order \<Rightarrow> card_request \<Rightarrow> kitchen_order" where
  "apply_request order r =
     (case r of StatusChange oid st \<Rightarrow> if oid = ko_id order then order\<lparr>ko_status := st\<rparr> else order
      | ItemToggle oid index \<Rightarrow>
          if oid = ko_id order
          then order\<lparr>ko_items := (ko_items order)[index :=
                 (ko_items order ! index)\<lparr>ki_completed := \<not> ki_completed (ko_items order ! index)\<rparr>]\<rparr>
          else order)"

inductive kds_step :: "kitchen_order \<Rightarrow> kitchen_order \<Rightarrow> bool" where
  click: "card_click order e = Some r \<Longrightarrow> kds_step order (apply_request order r)"

fun status_rank :: "order_status \<Rightarrow> nat" where
  "status_rank New = 0"
| "status_rank InProgress = 1"
| "status_rank Ready = 2"
| "status_rank Completed = 3"

subsection \<open>The dashboard's kitchen panel\<close>

record active_order =
  ao_id :: string
  ao_table :: string
  ao_items :: "string list"
  ao_prepTime :: rat
  ao_elapsed :: rat
  ao_priority :: string
  ao_status :: string

definition activeOrders :: "active_order list" where
  "activeOrders =
    [\<lparr>ao_id = ''ORD-006'', ao_table = ''Meja 7'', ao_items = [''Nasi Gudeg'', ''Ayam Bakar''],
      ao_prepTime = 15, ao_elapsed = 8, ao_priority = ''normal'', ao_status = ''preparing''\<rparr>,
     \<lparr>ao_id = ''ORD-007'', ao_table = ''Meja 15'', ao_items = [''Soto Ayam'', ''Kerupuk'', ''Es Teh''],
      ao_prepTime = 12, ao_elapsed = 12, ao_priority = ''high'', ao_status = ''preparing''\<rparr>,
     \<lparr>ao_id = ''ORD-008'', ao_table = ''Takeaway'', ao_items = [''Gado-gado''],
      ao_prepTime = 8, ao_elapsed = 3, ao_priority = ''normal'', ao_status = ''preparing''\<rparr>,
     \<lparr>ao_id = ''ORD-009'', ao_table = ''Meja 4'', ao_items = [''Nasi Gudeg'', ''Es Jeruk''],
      ao_prepTime = 10, ao_elapsed = 10, ao_priority = ''urgent'', ao_status = ''ready''\<rparr>]"

definition getPriorityLabel :: "string \<Rightarrow> string" where
  "getPriorityLabel priority =
     (if priority = ''urgent'' then ''Urgent'' else if priority = ''high'' then ''Tinggi'' else ''Normal'')"

definition getStatusConfigLabel :: "string \<Rightarrow> string" where
  "getStatusConfigLabel status =
     (if status = ''preparing'' then ''Dimasak'' else if status = ''ready'' then ''Siap'' else ''Menunggu'')"

text \<open>\<open>getTimeProgress\<close>: \<open>Math.min((elapsed / prepTime) * 100, 100)\<close>; \<open>isOverdue\<close>.\<close>

definition getTimeProgress :: "rat \<Rightarrow> rat \<Rightarrow> jsnum" where
  "getTimeProgress elapsed prepTime = js_min (js_mul (js_div elapsed prepTime) 100) 100"

definition isOverdue :: "rat \<Rightarrow> rat \<Rightarrow> bool" where
  "isOverdue elapsed prepTime = (elapsed > prepTime)"

text \<open>The panel's bar: error when overdue, warning above 75\%, success otherwise.\<close>

definition kitchen_bar_color :: "rat \<Rightarrow> rat \<Rightarrow> band" where
  "kitchen_bar_color elapsed prepTime =
     (if isOverdue elapsed prepTime then BandError
      else if js_gt (getTimeProgress elapsed prepTime) 75 then BandWarning else BandSuccess)"

subsection \<open>Properties\<close>

inductive_cases kds_stepE: "kds_step order order'"

lemma kds_step_cases:
  "kds_step order order' = (
     (ko_status order \<noteq> Completed \<and> order' = order\<lparr>ko_status := getNextStatus (ko_status order)\<rparr>) \<or>
     (\<exists>i. ko_status order = InProgress \<and> i < length (ko_items order) \<and>
        order' = order\<lparr>ko_items := (ko_items order)[i := (ko_items order ! i)\<lparr>ki_completed := \<not> ki_completed (ko_items order ! i)\<rparr>]\<rparr>))"
  (is "_ = ?rhs")
proof
  assume "kds_step order order'"
  then show "?rhs"
    by (cases rule: kds_stepE) (auto simp: action_button_def apply_request_def split: card_ui.splits if_splits option.splits elim!: card_click.elims)
next
  assume "?rhs"
  then show "kds_step order order'"
  proof
    assume h: "ko_status order \<noteq> Completed \<and> order' = order\<lparr>ko_status := getNextStatus (ko_status order)\<rparr>"
    have "card_click order ClickAction = Some (StatusChange (ko_id order) (getNextStatus (ko_status order)))"
      using h by (simp add: action_button_def)
    from kds_step.click [OF this] h show ?thesis by (simp add: apply_request_def)
  next
    assume "\<exists>i. ko_status order = InProgress \<and> i < length (ko_items order) \<and>
        order' = order\<lparr>ko_items := (ko_items order)[i := (ko_items order ! i)\<lparr>ki_completed := \<not> ki_completed (ko_items order ! i)\<rparr>]\<rparr>"
    then obtain i where h: "ko_status order = InProgress" "i < length (ko_items order)"
      "order' = order\<lparr>ko_items := (ko_items order)[i := (ko_items order ! i)\<lparr>ki_completed := \<not> ki_completed (ko_items order ! i)\<rparr>]\<rparr>" by blast
    have "card_click order (ClickItem i) = Some (ItemToggle (ko_id order) i)" using h by simp
    from kds_step.click [OF this] h show ?thesis by (simp add: apply_request_def)
  qed
qed

lemma next_rank: "st \<noteq> Completed \<Longrightarrow> status_rank (getNextStatus st) = Suc (status_rank st)"
  by (cases st) simp_all

lemma kds_step_rank:
  "kds_step order order' \<Longrightarrow> status_rank (ko_status order) \<le> status_rank (ko_status order') \<and>
     ko_id order' = ko_id order \<and> length (ko_items order') = length (ko_items order)"
  by (auto simp: kds_step_cases next_rank)

lemma kds_action_step:
  "ko_status order \<noteq> Completed \<Longrightarrow> kds_step order (order\<lparr>ko_status := getNextStatus (ko_status order)\<rparr>)"
  by (simp add: kds_step_cases)

lemma kds_action_relpow:
  "status_rank (ko_status order) + n = 3 \<Longrightarrow> (kds_step ^^ n) order (order\<lparr>ko_status := Completed\<rparr>)"
proof (induction n arbitrary: order)
  case 0
  then have "ko_status order = Completed" by (cases "ko_status order") simp_all
  then show ?case by simp
next
  case (Suc n)
  then have nc: "ko_status order \<noteq> Completed" by auto
  let ?o1 = "order\<lparr>ko_status := getNextStatus (ko_status order)\<rparr>"
  have "status_rank (ko_status ?o1) + n = 3" using Suc.prems next_rank [OF nc] by simp
  from Suc.IH [OF this] have "(kds_step ^^ n) ?o1 (order\<lparr>ko_status := Completed\<rparr>)" by simp
  with kds_action_step [OF nc] show ?case by (rule relpowp_Suc_I2)
qed

lemma length_filter_le_rat: "(of_nat (length (filter P xs)) :: rat) \<le> of_nat (length xs)"
  by (simp add: length_filter_le)

text \<open>
  Along any sequence of clicks on a card's controls the order's status never goes back
  (new, in progress, ready, completed), and the order keeps its id and its number of items.
\<close>

theorem kds_steps_monotone:
  "kds_step\<^sup>*\<^sup>* order order' \<Longrightarrow> status_rank (ko_status order) \<le> status_rank (ko_status order') \<and>
     ko_id order' = ko_id order \<and> length (ko_items order') = length (ko_items order)"
  by (induction rule: rtranclp_induct) (auto dest: kds_step_rank)

text \<open>
  A completed order's card offers no control: no click changes it (the action button
  is hidden and the tick boxes are shown only while the order is in progress).
\<close>

theorem kds_completed_frozen: "ko_status order = Completed \<Longrightarrow> \<not> kds_step order order'"
  by (simp add: kds_step_cases)

text \<open>
  Every order reaches completion: from status \<open>s\<close> exactly \<open>3 - rank s\<close> clicks on the
  action button complete it, changing nothing else.
\<close>

theorem kds_reaches_completed:
  "(kds_step ^^ (3 - status_rank (ko_status order))) order (order\<lparr>ko_status := Completed\<rparr>)"
proof -
  have "status_rank (ko_status order) \<le> 3" by (cases "ko_status order") simp_all
  then show ?thesis by (intro kds_action_relpow) simp
qed

text \<open>
  For an order with items the card's progress is a percentage between 0 and 100.
\<close>

theorem progress_bounds:
  assumes "ko_items order \<noteq> []"
  shows "\<exists>p. progressPercentage order = Num p \<and> 0 \<le> p \<and> p \<le> 100"
proof -
  let ?c = "(of_nat (length (filter ki_completed (ko_items order))) :: rat)"
  let ?t = "(of_nat (length (ko_items order)) :: rat)"
  have t: "0 < ?t" using assms by simp
  have "?c * 100 / ?t \<le> 100"
    using t length_filter_le_rat [of ki_completed "ko_items order"] by (simp add: pos_divide_le_eq)
  with t show ?thesis by (simp add: progressPercentage_def)
qed

text \<open>
  For an order without items the card's progress is \<open>NaN\<close> (\<open>0 / 0\<close>), and the bar's
  width is written as \<open>NaN%\<close>.
\<close>

theorem progress_empty: "ko_items order = [] \<Longrightarrow> progressPercentage order = NaN"
  by (simp add: progressPercentage_def js_div_zero)

text \<open>
  For a non-negative elapsed time the timer shows hours and minutes that give back the
  elapsed minutes, the minutes between 0 and 59.
\<close>

theorem elapsed_display_roundtrip:
  "0 \<le> e \<Longrightarrow> elapsed_display e = (h, m) \<Longrightarrow> 60 * h + m = e \<and> 0 \<le> m \<and> m < 60"
proof -
  assume "0 \<le> e" and d: "elapsed_display e = (h, m)"
  then have "js_rem e 60 = e mod 60" by (simp add: js_rem_def sgn_if)
  with d have "h = e div 60" and "m = e mod 60" by (auto simp: elapsed_display_def)
  then show ?thesis by simp
qed

text \<open>
  On the dashboard's kitchen panel, a non-negative elapsed time and a positive
  preparation time give a bar width between 0 and 100 percent.
\<close>

theorem getTimeProgress_bounds:
  assumes "0 \<le> elapsed" and "0 < prepTime"
  shows "\<exists>p. getTimeProgress elapsed prepTime = Num p \<and> 0 \<le> p \<and> p \<le> 100"
  using assms by (simp add: getTimeProgress_def)

theorem kds_steps_monotone_witness:
  "status_rank (ko_status \<lparr>ko_id = 7::nat, ko_status = New,
       ko_items = [\<lparr>ki_name = ''Nasi Gudeg'', ki_quantity = 1::nat, ki_completed = False\<rparr>], ko_priority = ''high''\<rparr>)
     \<le> status_rank (ko_status \<lparr>ko_id = 7::nat, ko_status = Ready,
       ko_items = [\<lparr>ki_name = ''Nasi Gudeg'', ki_quantity = 1::nat, ki_completed = False\<rparr>], ko_priority = ''high''\<rparr>)"
proof -
  let ?o = "\<lparr>ko_id = 7::nat, ko_status = New,
             ko_items = [\<lparr>ki_name = ''Nasi Gudeg'', ki_quantity = 1::nat, ki_completed = False\<rparr>], ko_priority = ''high''\<rparr>"
  have "kds_step ?o (?o\<lparr>ko_status := InProgress\<rparr>)" using kds_action_step [of ?o] by simp
  moreover have "kds_step (?o\<lparr>ko_status := InProgress\<rparr>) (?o\<lparr>ko_status := Ready\<rparr>)"
    using kds_action_step [of "?o\<lparr>ko_status := InProgress\<rparr>"] by simp
  ultimately have "kds_step\<^sup>*\<^sup>* ?o (?o\<lparr>ko_status := Ready\<rparr>)" by simp
  from kds_steps_monotone [OF this] show ?thesis by simp
qed

theorem kds_completed_frozen_witness:
  "\<not> kds_step \<lparr>ko_id = 7, ko_status = Completed, ko_items = [], ko_priority = ''high''\<rparr>
             \<lparr>ko_id = 7, ko_status = New, ko_items = [], ko_priority = ''high''\<rparr>"
  by (rule kds_completed_frozen) simp

theorem progress_bounds_witness:
  "\<exists>p. progressPercentage \<lparr>ko_id = 7, ko_status = InProgress,
     ko_items = [\<lparr>ki_name = ''Soto'', ki_quantity = 1, ki_completed = True\<rparr>,
                 \<lparr>ki_name = ''Es Teh'', ki_quantity = 2, ki_completed = False\<rparr>], ko_priority = ''high''\<rparr> = Num p
     \<and> 0 \<le> p \<and> p \<le> 100"
  by (rule progress_bounds) simp

theorem progress_empty_witness:
  "progressPercentage \<lparr>ko_id = 7, ko_status = InProgress, ko_items = [], ko_priority = ''high''\<rparr> = NaN"
  by (rule progress_empty) simp

theorem elapsed_display_roundtrip_witness: "60 * 1 + 25 = (85::int) \<and> elapsed_display 85 = (1, 25)"
proof -
  have "elapsed_display 85 = (1, 25)" by (simp add: elapsed_display_def js_rem_def)
  with elapsed_display_roundtrip [of 85 1 25] show ?thesis by simp
qed

theorem getTimeProgress_bounds_witness:
  "\<exists>p. getTimeProgress 8 15 = Num p \<and> 0 \<le> p \<and> p \<le> 100"
  by (rule getTimeProgress_bounds) simp_all

end
