(* ===== verification/KitchenScreen.thy ===== *)
theory KitchenScreen
  imports Kitchen
begin

text \<open>
  The kitchen display's column (src/src/pages/kitchen-display-system/components/
  StatusColumn.jsx) and header (KitchenHeader.jsx).  No page of the repository renders
  them, so they are modelled as the components they are: the column as a function of its
  props, the header's refresh button as a state machine over its \<open>isRefreshing\<close> state,
  the promises its \<open>onRefresh\<close> calls return and the one-second timers it starts.

  \<open>handleRefresh\<close> sets \<open>isRefreshing\<close>, awaits \<open>onRefresh()\<close> and, once that settles
  normally, starts a timer that clears \<open>isRefreshing\<close>; a rejection leaves the \<open>async\<close>
  handler at the \<open>await\<close>, so no timer is started.  Settling is an event with an
  \<open>unit + unit\<close> outcome (\<open>Inl\<close> a rejection).  Whether a \<open>Button\<close> with \<open>loading\<close> ignores
  clicks is decided by the Button component, which is not in the repository: it is the
  parameter \<open>blocks\<close>.  The clock (\<open>toLocaleTimeString\<close>, Intl) is not modelled.
\<close>

subsection \<open>The column\<close>

definition status_key :: "order_status \<Rightarrow> string" where
  "status_key st =
     (case st of New \<Rightarrow> ''new'' | InProgress \<Rightarrow> ''in-progress'' | Ready \<Rightarrow> ''ready'' | Completed \<Rightarrow> ''completed'')"

definition getColumnIcon :: "string \<Rightarrow> string" where
  "getColumnIcon status =
     (if status = ''new'' then ''Clock'' else if status = ''in-progress'' then ''ChefHat''
      else if status = ''ready'' then ''CheckCircle'' else if status = ''completed'' then ''Archive'' else ''Circle'')"

definition getColumnColor :: "string \<Rightarrow> string" where
  "getColumnColor color =
     (if color = ''primary'' then ''border-primary/30 bg-primary/5''
      else if color = ''warning'' then ''border-warning/30 bg-warning/5''
      else if color = ''success'' then ''border-success/30 bg-success/5''
      else if color = ''muted'' then ''border-border bg-muted/20'' else ''border-border bg-card'')"

definition getHeaderColor :: "string \<Rightarrow> string" where
  "getHeaderColor color =
     (if color = ''primary'' then ''text-primary'' else if color = ''warning'' then ''text-warning''
      else if color = ''success'' then ''text-success'' else if color = ''muted'' then ''text-muted-foreground''
      else ''text-foreground'')"

text \<open>The empty column's message: four \<open>status === ... && '...'\<close> expressions, \<open>false\<close> rendering nothing.\<close>

definition empty_message :: "string \<Rightarrow> string" where
  "empty_message status =
     (if status = ''new'' then ''Tidak ada pesanan baru'' else []) @
     (if status = ''in-progress'' then ''Tidak ada pesanan sedang diproses'' else []) @
     (if status = ''ready'' then ''Tidak ada pesanan siap disajikan'' else []) @
     (if status = ''completed'' then ''Tidak ada pesanan selesai'' else [])"

record column_view =
  cv_icon :: string
  cv_frame :: string
  cv_titleColor :: string
  cv_title :: string
  cv_badge :: string
  cv_count :: nat
  cv_empty :: "string option"
  cv_cards :: "kitchen_order list"

text \<open>The column for its props; the \<open>color\<close> prop defaults to \<open>'primary'\<close>.\<close>

definition column_view :: "string \<Rightarrow> string \<Rightarrow> kitchen_order list \<Rightarrow> string option \<Rightarrow> column_view" where
  "column_view status title orders color_prop =
     (let color = (case color_prop of None \<Rightarrow> ''primary'' | Some c \<Rightarrow> c) in
      \<lparr>cv_icon = getColumnIcon status, cv_frame = getColumnColor color, cv_titleColor = getHeaderColor color,
       cv_title = title,
       cv_badge = (if 0 < length orders then ''bg-'' @ color @ '' text-'' @ color @ ''-foreground''
                   else ''bg-muted text-muted-foreground''),
       cv_count = length orders,
       cv_empty = (if orders = [] then Some (empty_message status) else None),
       cv_cards = orders\<rparr>)"

subsection \<open>The header's refresh button\<close>

record kitchen_header =
  isRefreshing :: bool
  awaiting :: nat
  timers :: nat

definition kh_init :: kitchen_header where
  "kh_init = \<lparr>isRefreshing = False, awaiting = 0, timers = 0\<rparr>"

definition handleRefresh :: "kitchen_header \<Rightarrow> kitchen_header" where
  "handleRefresh s = s\<lparr>isRefreshing := True, awaiting := Suc (awaiting s)\<rparr>"

datatype kh_event = RefreshClick | RefreshSettled "unit + unit" | RefreshTimer

fun kh_step :: "bool \<Rightarrow> kitchen_header \<Rightarrow> kh_event \<Rightarrow> kitchen_header" where
  "kh_step blocks s RefreshClick = (if blocks \<and> isRefreshing s then s else handleRefresh s)"
| "kh_step blocks s (RefreshSettled r) =
     (if awaiting s = 0 then s
      else (case r of Inl u \<Rightarrow> s\<lparr>awaiting := awaiting s - 1\<rparr>
                    | Inr u \<Rightarrow> s\<lparr>awaiting := awaiting s - 1, timers := Suc (timers s)\<rparr>))"
| "kh_step blocks s RefreshTimer =
     (if timers s = 0 then s else s\<lparr>timers := timers s - 1, isRefreshing := False\<rparr>)"

definition kh_run :: "bool \<Rightarrow> kitchen_header \<Rightarrow> kh_event list \<Rightarrow> kitchen_header" where
  "kh_run blocks s es = foldl (kh_step blocks) s es"

inductive kh_reach :: "bool \<Rightarrow> kitchen_header \<Rightarrow> bool" for blocks :: bool where
  kh_start: "kh_reach blocks kh_init"
| kh_next: "kh_reach blocks s \<Longrightarrow> kh_reach blocks (kh_step blocks s e)"

text \<open>The sound button for the \<open>soundEnabled\<close> prop: variant, title and icon.\<close>

definition sound_button :: "bool \<Rightarrow> string \<times> string \<times> string" where
  "sound_button soundEnabled =
     (if soundEnabled then (''default'', ''Matikan Suara'', ''Volume2'') else (''outline'', ''Nyalakan Suara'', ''VolumeX''))"

subsection \<open>Properties\<close>

lemma kh_run_Cons [simp]: "kh_run b s (e # es) = kh_run b (kh_step b s e) es"
  by (simp add: kh_run_def)

lemma kh_run_Nil [simp]: "kh_run b s [] = s"
  by (simp add: kh_run_def)

lemma kh_reach_run: "kh_reach b s \<Longrightarrow> kh_reach b (kh_run b s es)"
  by (induction es arbitrary: s) (simp_all add: kh_next)

text \<open>
  C38: With a button that ignores clicks while it is loading, the header has at most one
  refresh in flight (an unsettled \<open>onRefresh\<close> promise or a pending timer), and none while
  the button is idle; proved by rule induction on the reachable states.
\<close>

theorem blocking_refresh_inv:
  "kh_reach True s \<Longrightarrow> awaiting s + timers s \<le> 1 \<and> (\<not> isRefreshing s \<longrightarrow> awaiting s = 0 \<and> timers s = 0)"
proof (induction rule: kh_reach.induct)
  case kh_start
  show ?case by (simp add: kh_init_def)
next
  case (kh_next s e)
  then show ?case
    by (cases e) (auto simp: handleRefresh_def split: sum.splits)
qed

lemma stuck_step:
  "isRefreshing s \<Longrightarrow> awaiting s = 0 \<Longrightarrow> timers s = 0 \<Longrightarrow> blocks \<or> e \<noteq> RefreshClick \<Longrightarrow>
   kh_step blocks s e = s"
  by (cases e) auto

text \<open>
  C20: A refresh whose \<open>onRefresh\<close> promise rejects leaves the button loading for good: no timer
  is started, so \<open>isRefreshing\<close> stays set whatever happens next, unless (with a button
  that still takes clicks while loading) the user starts another refresh.
\<close>

theorem refresh_failure_sticks:
  assumes "blocks \<or> RefreshClick \<notin> set es"
  shows "isRefreshing (kh_run blocks kh_init (RefreshClick # RefreshSettled (Inl ()) # es))"
proof -
  let ?s = "kh_init\<lparr>isRefreshing := True\<rparr>"
  have s: "kh_run blocks kh_init [RefreshClick, RefreshSettled (Inl ())] = ?s"
    by (simp add: kh_init_def handleRefresh_def)
  have "kh_run blocks ?s es = ?s"
    unfolding kh_run_def by (rule foldl_fixed) (use assms in \<open>auto simp: kh_init_def intro: stuck_step\<close>)
  then show ?thesis using s by (simp add: kh_run_def)
qed

text \<open>A refresh that succeeds returns the header to its idle state once its timer fires.\<close>

theorem refresh_cycle:
  "kh_run blocks kh_init [RefreshClick, RefreshSettled (Inr ()), RefreshTimer] = kh_init"
  by (simp add: kh_init_def handleRefresh_def)

text \<open>
  With a button that takes clicks while loading, two overlapping refreshes stop the spinner
  with the first timer, while the second \<open>onRefresh\<close> is still running.
\<close>

theorem overlapping_refresh_stops_early:
  "kh_run False kh_init [RefreshClick, RefreshClick, RefreshSettled (Inr ()), RefreshTimer] =
     \<lparr>isRefreshing = False, awaiting = 1, timers = 0\<rparr>"
  by (simp add: kh_init_def handleRefresh_def)

theorem refresh_failure_sticks_witness:
  "isRefreshing (kh_run True kh_init [RefreshClick, RefreshSettled (Inl ()), RefreshClick, RefreshTimer])"
  using refresh_failure_sticks [of True "[RefreshClick, RefreshTimer]"] by simp

theorem blocking_refresh_inv_witness:
  "kh_reach True (kh_run True kh_init [RefreshClick, RefreshSettled (Inr ())]) \<and>
   awaiting (kh_run True kh_init [RefreshClick, RefreshSettled (Inr ())]) +
   timers (kh_run True kh_init [RefreshClick, RefreshSettled (Inr ())]) \<le> 1"
  using blocking_refresh_inv [OF kh_reach_run [OF kh_start]] kh_reach_run [OF kh_start] by blast

text \<open>Each of the four order statuses has its own column icon and empty-column message.\<close>

theorem columns_for_statuses:
  "map (\<lambda>st. (getColumnIcon (status_key st), empty_message (status_key st))) [New, InProgress, Ready, Completed] =
     [(''Clock'', ''Tidak ada pesanan baru''), (''ChefHat'', ''Tidak ada pesanan sedang diproses''),
      (''CheckCircle'', ''Tidak ada pesanan siap disajikan''), (''Archive'', ''Tidak ada pesanan selesai'')]"
  by (simp add: getColumnIcon_def empty_message_def status_key_def)

end
