(* ===== verification/KitchenPanel.thy ===== *)
theory KitchenPanel
  imports Kitchen
begin

text \<open>
  The dashboard's kitchen panel (src/src/pages/dashboard/components/KitchenStatus.jsx) as
  what it renders: the fixed \<open>kitchenStats\<close>, and one row per order of Kitchen's
  \<open>activeOrders\<close> with its priority and status configuration, time text, items and
  progress bar.  The panel has no state and no handler; its "Tampilan Dapur" button has
  no \<open>onClick\<close>.
\<close>

record kitchen_stats =
  ks_activeOrders :: nat
  ks_avgPrepTime :: nat
  ks_completedToday :: nat
  ks_pendingOrders :: nat

definition kitchenStats :: kitchen_stats where
  "kitchenStats = \<lparr>ks_activeOrders = 12, ks_avgPrepTime = 18, ks_completedToday = 156, ks_pendingOrders = 8\<rparr>"

text \<open>\<open>getPriorityConfig\<close> and \<open>getStatusConfig\<close>: (color, background, label) and (color, icon, label).\<close>

definition getPriorityConfig :: "string \<Rightarrow> string \<times> string \<times> string" where
  "getPriorityConfig priority =
     (if priority = ''urgent'' then (''text-error'', ''bg-error/10'', ''Urgent'')
      else if priority = ''high'' then (''text-warning'', ''bg-warning/10'', ''Tinggi'')
      else (''text-primary'', ''bg-primary/10'', ''Normal''))"

definition getStatusConfig :: "string \<Rightarrow> string \<times> string \<times> string" where
  "getStatusConfig status =
     (if status = ''preparing'' then (''text-warning'', ''ChefHat'', ''Dimasak'')
      else if status = ''ready'' then (''text-success'', ''CheckCircle'', ''Siap'')
      else (''text-muted-foreground'', ''Clock'', ''Menunggu''))"

record panel_row =
  pr_id :: string
  pr_frame :: string
  pr_priority :: "string \<times> string \<times> string"
  pr_status :: "string \<times> string \<times> string"
  pr_table :: string
  pr_timeColor :: string
  pr_time :: "rat \<times> rat"
  pr_items :: string
  pr_bar :: band
  pr_width :: jsnum

definition panel_row :: "active_order \<Rightarrow> panel_row" where
  "panel_row order =
     (let overdue = isOverdue (ao_elapsed order) (ao_prepTime order) in
      \<lparr>pr_id = ao_id order,
       pr_frame = (if overdue then ''bg-error/5 border-error/20'' else ''bg-muted/20 border-border''),
       pr_priority = getPriorityConfig (ao_priority order), pr_status = getStatusConfig (ao_status order),
       pr_table = ao_table order, pr_timeColor = (if overdue then ''text-error'' else ''text-foreground''),
       pr_time = (ao_elapsed order, ao_prepTime order), pr_items = js_join '', '' (ao_items order),
       pr_bar = kitchen_bar_color (ao_elapsed order) (ao_prepTime order),
       pr_width = getTimeProgress (ao_elapsed order) (ao_prepTime order)\<rparr>)"

record kitchen_panel =
  kp_stats :: kitchen_stats
  kp_rows :: "panel_row list"

definition kitchen_panel :: kitchen_panel where
  "kitchen_panel = \<lparr>kp_stats = kitchenStats, kp_rows = map panel_row activeOrders\<rparr>"

subsection \<open>Properties\<close>

lemma config_labels:
  "snd (snd (getPriorityConfig p)) = getPriorityLabel p \<and> snd (snd (getStatusConfig st)) = getStatusConfigLabel st"
  by (simp add: getPriorityConfig_def getPriorityLabel_def getStatusConfig_def getStatusConfigLabel_def)

text \<open>
  A row is framed and timed in red exactly when its bar is red: the three places that
  show an overdue order agree.
\<close>

theorem overdue_marks_agree:
  "(pr_frame (panel_row order) = ''bg-error/5 border-error/20'') = (pr_bar (panel_row order) = BandError) \<and>
   (pr_timeColor (panel_row order) = ''text-error'') = (pr_bar (panel_row order) = BandError)"
  by (simp add: panel_row_def kitchen_bar_color_def Let_def)

text \<open>
  The panel's fixed statistics do not describe its list: it lists four active orders
  while the counter says twelve, none of them waiting while "Menunggu" says eight, and
  their mean preparation time is 11.25 minutes while the average shown is 18.
\<close>

theorem panel_stats_disagree:
  "length (kp_rows kitchen_panel) = 4 \<and> ks_activeOrders (kp_stats kitchen_panel) = 12 \<and>
   filter (\<lambda>r. snd (snd (pr_status r)) = ''Menunggu'') (kp_rows kitchen_panel) = [] \<and>
   ks_pendingOrders (kp_stats kitchen_panel) = 8 \<and>
   sum_list (map ao_prepTime activeOrders) / 4 = 1125 / 100 \<and> ks_avgPrepTime (kp_stats kitchen_panel) = 18"
  by (simp add: kitchen_panel_def kitchenStats_def activeOrders_def panel_row_def getStatusConfig_def Let_def)

text \<open>The rows of the panel: ORD-007, due exactly now, is not overdue and shows a full amber bar.\<close>

theorem panel_rows:
  "map (\<lambda>r. (pr_id r, pr_bar r, pr_width r, pr_items r)) (kp_rows kitchen_panel) =
     [(''ORD-006'', BandSuccess, Num (160 / 3), ''Nasi Gudeg, Ayam Bakar''),
      (''ORD-007'', BandWarning, Num 100, ''Soto Ayam, Kerupuk, Es Teh''),
      (''ORD-008'', BandSuccess, Num (75 / 2), ''Gado-gado''),
      (''ORD-009'', BandWarning, Num 100, ''Nasi Gudeg, Es Jeruk'')]"
  by (simp add: kitchen_panel_def activeOrders_def panel_row_def kitchen_bar_color_def getTimeProgress_def
      isOverdue_def Let_def)

end
