(* ===== verification/Reorder.thy ===== *)
theory Reorder
  imports Stock
begin

text \<open>
  The reorder suggestions tab of the purchase-orders page
  (src/src/pages/purchase-orders/components/ReorderSuggestions.jsx): the suggestion data,
  the selection of suggestions (\<open>handleItemSelect\<close>, \<open>handleSelectAll\<close>), the estimated
  cost of the selection and the list handed to the page by the create button.  The spec's
  ReorderAdvisor (spec section 4.5) is \<open>spec_daysLeft\<close> and \<open>spec_suggestedQuantity\<close>.
\<close>

record suggestion =
  sug_id :: string
  sg_materialId :: string
  sg_materialName :: string
  sg_currentStock :: rat
  sg_minStock :: rat
  sg_avgUsage :: rat
  sg_daysLeft :: rat
  suggestedQuantity :: rat
  sg_unit :: string
  lastPrice :: rat
  sg_supplier :: string
  sg_priority :: string

definition suggestions :: "suggestion list" where
  "suggestions =
    [\<lparr>sug_id = ''sug001'', sg_materialId = ''mat004'', sg_materialName = ''Tomat Segar'',
      sg_currentStock = 2, sg_minStock = 10, sg_avgUsage = 15, sg_daysLeft = 1, suggestedQuantity = 25,
      sg_unit = ''kg'', lastPrice = 8000, sg_supplier = ''PT Sumber Makmur'', sg_priority = ''high''\<rparr>,
     \<lparr>sug_id = ''sug002'', sg_materialId = ''mat006'', sg_materialName = ''Cabai Merah'',
      sg_currentStock = 3, sg_minStock = 8, sg_avgUsage = 12, sg_daysLeft = 2, suggestedQuantity = 20,
      sg_unit = ''kg'', lastPrice = 45000, sg_supplier = ''CV Berkah Jaya'', sg_priority = ''high''\<rparr>,
     \<lparr>sug_id = ''sug003'', sg_materialId = ''mat007'', sg_materialName = ''Minyak Goreng'',
      sg_currentStock = 5, sg_minStock = 12, sg_avgUsage = 8, sg_daysLeft = 4, suggestedQuantity = 15,
      sg_unit = ''liter'', lastPrice = 18000, sg_supplier = ''UD Mitra Sejahtera'', sg_priority = ''medium''\<rparr>,
     \<lparr>sug_id = ''sug004'', sg_materialId = ''mat005'', sg_materialName = ''Bawang Merah'',
      sg_currentStock = 8, sg_minStock = 15, sg_avgUsage = 10, sg_daysLeft = 5, suggestedQuantity = 20,
      sg_unit = ''kg'', lastPrice = 25000, sg_supplier = ''PT Sumber Makmur'', sg_priority = ''medium''\<rparr>,
     \<lparr>sug_id = ''sug005'', sg_materialId = ''mat009'', sg_materialName = ''Gula Pasir'',
      sg_currentStock = 12, sg_minStock = 20, sg_avgUsage = 6, sg_daysLeft = 8, suggestedQuantity = 25,
      sg_unit = ''kg'', lastPrice = 14000, sg_supplier = ''PT Bahan Pangan Nusantara'', sg_priority = ''low''\<rparr>]"

definition getPriorityText :: "string \<Rightarrow> string" where
  "getPriorityText priority =
     (if priority = ''high'' then ''Tinggi'' else if priority = ''medium'' then ''Sedang''
      else if priority = ''low'' then ''Rendah'' else priority)"

definition getPriorityColor :: "string \<Rightarrow> string" where
  "getPriorityColor priority =
     (if priority = ''high'' then ''bg-error/20 text-error'' else if priority = ''medium'' then ''bg-warning/20 text-warning''
      else if priority = ''low'' then ''bg-success/20 text-success'' else ''bg-muted/20 text-muted-foreground'')"

subsection \<open>Selection\<close>

text \<open>\<open>selectedItems\<close> is a list of suggestion ids; a click on a card toggles its id.\<close>

definition handleItemSelect :: "string \<Rightarrow> string list \<Rightarrow> string list" where
  "handleItemSelect suggestionId prev =
     (if suggestionId \<in> set prev then filter (\<lambda>i. i \<noteq> suggestionId) prev else prev @ [suggestionId])"

definition handleSelectAll :: "string list \<Rightarrow> string list" where
  "handleSelectAll selectedItems =
     (if length selectedItems = length suggestions then [] else map sug_id suggestions)"

text \<open>The select-all button's caption: "Batal Pilih Semua" (unselect all) or "Pilih Semua".\<close>

definition select_all_caption :: "string list \<Rightarrow> string" where
  "select_all_caption selectedItems =
     (if length selectedItems = length suggestions then ''Batal Pilih Semua'' else ''Pilih Semua'')"

definition selected_suggestions :: "string list \<Rightarrow> suggestion list" where
  "selected_suggestions selectedItems = filter (\<lambda>s. sug_id s \<in> set selectedItems) suggestions"

definition totalEstimatedCost :: "string list \<Rightarrow> rat" where
  "totalEstimatedCost selectedItems =
     js_sum (\<lambda>item. suggestedQuantity item * lastPrice item) (selected_suggestions selectedItems)"

datatype sug_event = SelectCard string | SelectAll | CreateOrders

text \<open>
  One event on the tab: a click on a rendered card, on select-all, or on a create button
  (rendered only while something is selected), which hands \<open>selected_suggestions\<close> to the
  page and leaves the selection as it is.
\<close>

fun sug_step :: "string list \<Rightarrow> sug_event \<Rightarrow> string list" where
  "sug_step sel (SelectCard i) = (if i \<in> set (map sug_id suggestions) then handleItemSelect i sel else sel)"
| "sug_step sel SelectAll = handleSelectAll sel"
| "sug_step sel CreateOrders = sel"

definition sug_run :: "string list \<Rightarrow> sug_event list \<Rightarrow> string list" where
  "sug_run sel es = foldl sug_step sel es"

subsection \<open>The spec's ReorderAdvisor\<close>

definition spec_daysLeft :: "rat \<Rightarrow> rat \<Rightarrow> rat" where
  "spec_daysLeft currentStock avgUsage = currentStock / avgUsage"

definition spec_suggestedQuantity :: "rat \<Rightarrow> rat \<Rightarrow> rat" where
  "spec_suggestedQuantity currentStock minStock = max 0 (minStock * 2 - currentStock)"

subsection \<open>Properties\<close>

definition sel_wf :: "string list \<Rightarrow> bool" where
  "sel_wf sel = (distinct sel \<and> set sel \<subseteq> set (map sug_id suggestions))"

lemma suggestion_ids_distinct: "distinct (map sug_id suggestions)"
  by (simp add: suggestions_def)

lemma sug_step_wf: "sel_wf sel \<Longrightarrow> sel_wf (sug_step sel e)"
  by (cases e) (auto simp: sel_wf_def handleItemSelect_def handleSelectAll_def suggestion_ids_distinct)

lemma sel_wf_length:
  assumes "sel_wf sel"
  shows "(length sel = length suggestions) = (set sel = set (map sug_id suggestions))"
proof -
  have d: "length sel = card (set sel)" using assms by (simp add: sel_wf_def distinct_card)
  have e: "length suggestions = card (set (map sug_id suggestions))"
    using distinct_card [OF suggestion_ids_distinct] by simp
  have "set sel \<subseteq> set (map sug_id suggestions)" using assms by (simp add: sel_wf_def)
  then show ?thesis using d e card_subset_eq [of "set (map sug_id suggestions)" "set sel"] by auto
qed

lemma sug_run_keeps_wf: "sel_wf sel \<Longrightarrow> sel_wf (foldl sug_step sel es)"
  by (induction es arbitrary: sel) (simp_all add: sug_step_wf)

text \<open>
  The selection stays a duplicate-free list of ids of rendered suggestions under every
  sequence of clicks.
\<close>

theorem sug_run_wf: "sel_wf sel \<Longrightarrow> sel_wf (sug_run sel es)"
  unfolding sug_run_def by (rule sug_run_keeps_wf)

text \<open>
  From the empty selection, after any sequence of clicks, the select-all button reads
  "Batal Pilih Semua" (unselect all) exactly when every suggestion is selected: the
  source's test \<open>selectedItems.length === suggestions.length\<close> is correct because the
  selection never holds duplicates or unknown ids.
\<close>

theorem select_all_caption_correct:
  "select_all_caption (sug_run [] es) = ''Batal Pilih Semua'' \<longleftrightarrow>
     (\<forall>s\<in>set suggestions. sug_id s \<in> set (sug_run [] es))"
proof -
  have "sel_wf (sug_run [] es)" unfolding sug_run_def by (rule sug_run_keeps_wf) (simp add: sel_wf_def)
  from sel_wf_length [OF this] have "(length (sug_run [] es) = length suggestions) =
      (set (map sug_id suggestions) \<subseteq> set (sug_run [] es))" using \<open>sel_wf (sug_run [] es)\<close>
    by (auto simp: sel_wf_def)
  then show ?thesis by (auto simp: select_all_caption_def)
qed

text \<open>
  The create button hands the page exactly the selected suggestions, each once.
\<close>

theorem selected_suggestions_mset:
  "sel_wf sel \<Longrightarrow> mset (map sug_id (selected_suggestions sel)) = mset sel"
proof -
  assume w: "sel_wf sel"
  have "distinct (map sug_id (selected_suggestions sel))"
    using suggestion_ids_distinct by (simp add: selected_suggestions_def distinct_map_filter)
  moreover have "set (map sug_id (selected_suggestions sel)) = set sel"
    using w by (auto simp: sel_wf_def selected_suggestions_def)
  ultimately show ?thesis using w
    by (metis sel_wf_def set_eq_iff_mset_eq_distinct)
qed

text \<open>
  The suggestions' days left and suggested quantities are stored constants that do not
  follow the spec's ReorderAdvisor (\<open>daysLeft = currentStock / avgUsage\<close>,
  \<open>suggestedQuantity = max(0, 2 * minStock - currentStock)\<close>) for any of the five items.
\<close>

theorem suggestions_vs_spec:
  "map (\<lambda>s. (sg_daysLeft s, suggestedQuantity s)) suggestions = [(1, 25), (2, 20), (4, 15), (5, 20), (8, 25)] \<and>
   map (\<lambda>s. (spec_daysLeft (sg_currentStock s) (sg_avgUsage s), spec_suggestedQuantity (sg_currentStock s) (sg_minStock s))) suggestions
     = [(2/15, 18), (1/4, 13), (5/8, 19), (4/5, 22), (2, 28)]"
  by (simp add: suggestions_def spec_daysLeft_def spec_suggestedQuantity_def)

theorem sug_run_wf_witness:
  "sel_wf (sug_run [] [SelectCard ''sug001'', SelectCard ''sug004'', SelectAll, SelectCard ''sug002''])"
  by (rule sug_run_wf) (simp add: sel_wf_def)

theorem select_all_caption_correct_witness:
  "select_all_caption (sug_run [] [SelectAll]) = ''Batal Pilih Semua''"
proof -
  have "sug_run [] [SelectAll] = map sug_id suggestions"
    by (simp add: sug_run_def handleSelectAll_def suggestions_def)
  then show ?thesis using select_all_caption_correct [of "[SelectAll]"] by simp
qed

theorem selected_suggestions_mset_witness:
  "mset (map sug_id (selected_suggestions [''sug004'', ''sug001''])) = mset [''sug004'', ''sug001'']"
  by (rule selected_suggestions_mset) (simp add: sel_wf_def suggestions_def)

end
