(* ===== verification/PurchaseOrders.thy ===== *)
theory PurchaseOrders
  imports Reorder "HOL-Library.Char_ord" "HOL-Library.List_Lexorder"
begin

text \<open>
  The purchase-orders page (src/src/pages/purchase-orders/index.jsx) with its order form
  (components/CreateOrderForm.jsx), its table (components/OrdersTable.jsx) and its details
  dialog (components/OrderDetailsModal.jsx).  An order holds its line items as JavaScript
  objects, and the form edits the objects in place (\<open>newItems[index][field] = value\<close>):
  when an existing order is edited, the form's items are the very objects of the order in
  the page's list.  The model therefore keeps the items in an explicit store
  (\<open>po_store\<close>, addresses to item values); an order and the form hold lists of addresses.
  Form inputs are JavaScript values, a string typed by the user or a number from the data
  (\<open>jsval\<close> of the prelude), whose truthiness and \<open>parseFloat\<close> the guards and totals use.  The form is
  modelled in its desktop layout, where all three steps are visible at once.
\<close>

record po_item =
  pi_materialId :: string
  pi_materialName :: string
  pi_quantity :: jsval
  pi_unit :: string
  pi_unitPrice :: jsval
  pi_total :: rat

type_synonym po_store = "nat \<Rightarrow> po_item"

record purchase_order =
  po_id :: string
  poNumber :: string
  po_supplier :: string
  supplierContact :: string
  orderDate :: string
  expectedDelivery :: string
  totalAmount :: rat
  itemCount :: nat
  po_status :: string
  po_subtotal :: rat
  po_tax :: rat
  po_notes :: string
  po_items :: "nat list"

subsection \<open>The page's initial orders\<close>

definition mk_item :: "string \<Rightarrow> string \<Rightarrow> rat \<Rightarrow> string \<Rightarrow> rat \<Rightarrow> rat \<Rightarrow> po_item" where
  "mk_item mid name q u p t =
     \<lparr>pi_materialId = mid, pi_materialName = name, pi_quantity = JNum q, pi_unit = u,
      pi_unitPrice = JNum p, pi_total = t\<rparr>"

text \<open>The fourteen item objects of the four initial orders, at addresses 0 to 13.\<close>

definition initial_items :: "po_item list" where
  "initial_items =
    [mk_item ''mat004'' ''Tomat Segar'' 25 ''kg'' 8000 200000,
     mk_item ''mat005'' ''Bawang Merah'' 15 ''kg'' 25000 375000,
     mk_item ''mat001'' ''Beras Premium'' 50 ''kg'' 15000 750000,
     mk_item ''mat008'' ''Garam Dapur'' 10 ''kg'' 5000 50000,
     mk_item ''mat009'' ''Gula Pasir'' 20 ''kg'' 14000 280000,
     mk_item ''mat002'' ''Daging Sapi Segar'' 10 ''kg'' 120000 1200000,
     mk_item ''mat003'' ''Ayam Potong'' 8 ''kg'' 35000 280000,
     mk_item ''mat006'' ''Cabai Merah'' 5 ''kg'' 45000 225000,
     mk_item ''mat007'' ''Minyak Goreng'' 20 ''liter'' 18000 360000,
     mk_item ''mat010'' ''Tepung Terigu'' 15 ''kg'' 12000 180000,
     mk_item ''mat001'' ''Beras Premium'' 30 ''kg'' 15000 450000,
     mk_item ''mat009'' ''Gula Pasir'' 25 ''kg'' 14000 350000,
     mk_item ''mat010'' ''Tepung Terigu'' 20 ''kg'' 12000 240000,
     mk_item ''mat008'' ''Garam Dapur'' 20 ''kg'' 5000 100000]"

definition blank_item :: po_item where
  "blank_item = \<lparr>pi_materialId = [], pi_materialName = [], pi_quantity = JStr [], pi_unit = [],
                  pi_unitPrice = JStr [], pi_total = 0\<rparr>"

definition initial_store :: po_store where
  "initial_store a = (if a < length initial_items then initial_items ! a else blank_item)"

definition initial_orders :: "purchase_order list" where
  "initial_orders =
    [\<lparr>po_id = ''po001'', poNumber = ''PO-2025-001'', po_supplier = ''PT Sumber Makmur'',
      supplierContact = ''021-12345678'', orderDate = ''2025-01-20'', expectedDelivery = ''2025-01-25'',
      totalAmount = 2450000, itemCount = 5, po_status = ''confirmed'', po_subtotal = 2207207, po_tax = 242793,
      po_notes = ''Pesanan rutin mingguan untuk bahan segar'', po_items = [0, 1, 2, 3, 4]\<rparr>,
     \<lparr>po_id = ''po002'', poNumber = ''PO-2025-002'', po_supplier = ''CV Berkah Jaya'',
      supplierContact = ''021-87654321'', orderDate = ''2025-01-21'', expectedDelivery = ''2025-01-26'',
      totalAmount = 1887000, itemCount = 3, po_status = ''sent'', po_subtotal = 1700000, po_tax = 187000,
      po_notes = ''Pesanan daging dan ayam untuk menu spesial'', po_items = [5, 6, 7]\<rparr>,
     \<lparr>po_id = ''po003'', poNumber = ''PO-2025-003'', po_supplier = ''UD Mitra Sejahtera'',
      supplierContact = ''021-11223344'', orderDate = ''2025-01-22'', expectedDelivery = ''2025-01-27'',
      totalAmount = 665000, itemCount = 2, po_status = ''pending'', po_subtotal = 599099, po_tax = 65901,
      po_notes = ''Pesanan minyak goreng dan tepung'', po_items = [8, 9]\<rparr>,
     \<lparr>po_id = ''po004'', poNumber = ''PO-2025-004'', po_supplier = ''PT Bahan Pangan Nusantara'',
      supplierContact = ''021-55667788'', orderDate = ''2025-01-18'', expectedDelivery = ''2025-01-23'',
      totalAmount = 1332000, itemCount = 4, po_status = ''delivered'', po_subtotal = 1200000, po_tax = 132000,
      po_notes = ''Pesanan bahan kering bulanan'', po_items = [10, 11, 12, 13]\<rparr>]"

subsection \<open>The order form\<close>

record supplier_info =
  sup_id :: string
  sup_name :: string
  sup_contact :: string

record material =
  mat_id :: string
  mat_name :: string
  mat_unit :: string
  mat_lastPrice :: rat

definition form_suppliers :: "supplier_info list" where
  "form_suppliers =
    [\<lparr>sup_id = ''sup001'', sup_name = ''PT Sumber Makmur'', sup_contact = ''021-12345678''\<rparr>,
     \<lparr>sup_id = ''sup002'', sup_name = ''CV Berkah Jaya'', sup_contact = ''021-87654321''\<rparr>,
     \<lparr>sup_id = ''sup003'', sup_name = ''UD Mitra Sejahtera'', sup_contact = ''021-11223344''\<rparr>,
     \<lparr>sup_id = ''sup004'', sup_name = ''PT Bahan Pangan Nusantara'', sup_contact = ''021-55667788''\<rparr>]"

definition materials :: "material list" where
  "materials =
    [\<lparr>mat_id = ''mat001'', mat_name = ''Beras Premium'', mat_unit = ''kg'', mat_lastPrice = 15000\<rparr>,
     \<lparr>mat_id = ''mat002'', mat_name = ''Daging Sapi Segar'', mat_unit = ''kg'', mat_lastPrice = 120000\<rparr>,
     \<lparr>mat_id = ''mat003'', mat_name = ''Ayam Potong'', mat_unit = ''kg'', mat_lastPrice = 35000\<rparr>,
     \<lparr>mat_id = ''mat004'', mat_name = ''Tomat Segar'', mat_unit = ''kg'', mat_lastPrice = 8000\<rparr>,
     \<lparr>mat_id = ''mat005'', mat_name = ''Bawang Merah'', mat_unit = ''kg'', mat_lastPrice = 25000\<rparr>,
     \<lparr>mat_id = ''mat006'', mat_name = ''Cabai Merah'', mat_unit = ''kg'', mat_lastPrice = 45000\<rparr>,
     \<lparr>mat_id = ''mat007'', mat_name = ''Minyak Goreng'', mat_unit = ''liter'', mat_lastPrice = 18000\<rparr>,
     \<lparr>mat_id = ''mat008'', mat_name = ''Garam Dapur'', mat_unit = ''kg'', mat_lastPrice = 5000\<rparr>,
     \<lparr>mat_id = ''mat009'', mat_name = ''Gula Pasir'', mat_unit = ''kg'', mat_lastPrice = 14000\<rparr>,
     \<lparr>mat_id = ''mat010'', mat_name = ''Tepung Terigu'', mat_unit = ''kg'', mat_lastPrice = 12000\<rparr>]"

record po_form =
  f_supplier :: string
  f_supplierContact :: string
  f_orderDate :: string
  f_expectedDelivery :: string
  f_notes :: string
  f_items :: "nat list"

text \<open>
  The form's state when it is mounted: blank with one fresh empty item at address
  \<open>fresh\<close>, or, through the \<open>editOrder\<close> effect, the fields of the order being edited and
  its item list (the same objects).
\<close>

definition form_mount :: "purchase_order option \<Rightarrow> string \<Rightarrow> nat \<Rightarrow> po_form" where
  "form_mount editOrder today fresh =
     (case editOrder of
        None \<Rightarrow> \<lparr>f_supplier = [], f_supplierContact = [], f_orderDate = today, f_expectedDelivery = [],
                 f_notes = [], f_items = [fresh]\<rparr>
      | Some e \<Rightarrow> \<lparr>f_supplier = po_supplier e, f_supplierContact = supplierContact e,
                   f_orderDate = orderDate e, f_expectedDelivery = expectedDelivery e,
                   f_notes = po_notes e, f_items = po_items e\<rparr>)"

definition handleSupplierChange :: "string \<Rightarrow> po_form \<Rightarrow> po_form" where
  "handleSupplierChange supplierId prev =
     (case find (\<lambda>s. sup_id s = supplierId) form_suppliers of
        None \<Rightarrow> prev\<lparr>f_supplier := [], f_supplierContact := []\<rparr>
      | Some s \<Rightarrow> prev\<lparr>f_supplier := sup_name s, f_supplierContact := sup_contact s\<rparr>)"

datatype item_field = FMaterialId | FQuantity | FUnitPrice

text \<open>
  \<open>handleItemChange(index, field, value)\<close>: writes the field of the item object at the
  index, fills name, unit and price when a known material is chosen, and recomputes the
  line total when the quantity or the price changed.  The form's list of objects itself is
  unchanged (it is copied, not the objects).
\<close>

definition handleItemChange :: "po_store \<Rightarrow> nat list \<Rightarrow> nat \<Rightarrow> item_field \<Rightarrow> string \<Rightarrow> po_store" where
  "handleItemChange store items index field value =
     (let a = items ! index;
          it1 = (case field of FMaterialId \<Rightarrow> (store a)\<lparr>pi_materialId := value\<rparr>
                 | FQuantity \<Rightarrow> (store a)\<lparr>pi_quantity := JStr value\<rparr>
                 | FUnitPrice \<Rightarrow> (store a)\<lparr>pi_unitPrice := JStr value\<rparr>);
          it2 = (if field = FMaterialId
                 then (case find (\<lambda>m. mat_id m = value) materials of None \<Rightarrow> it1
                       | Some m \<Rightarrow> it1\<lparr>pi_materialName := mat_name m, pi_unit := mat_unit m,
                                     pi_unitPrice := JNum (mat_lastPrice m)\<rparr>)
                 else it1);
          it3 = (if field = FQuantity \<or> field = FUnitPrice
                 then it2\<lparr>pi_total := js_or (js_parseFloat (pi_quantity it2)) 0 *
                                      js_or (js_parseFloat (pi_unitPrice it2)) 0\<rparr>
                 else it2)
      in store(a := it3))"

definition removeItem :: "nat \<Rightarrow> nat list \<Rightarrow> nat list" where
  "removeItem index items =
     (if length items > 1 then map snd (filter (\<lambda>(i, _). i \<noteq> index) (enumerate 0 items)) else items)"

record po_totals =
  pt_subtotal :: rat
  pt_tax :: rat
  pt_total :: rat

definition calculateTotals :: "po_store \<Rightarrow> nat list \<Rightarrow> po_totals" where
  "calculateTotals store items =
     (let subtotal = js_sum (\<lambda>a. pi_total (store a)) items;
          tax = subtotal * (11/100)
      in \<lparr>pt_subtotal = subtotal, pt_tax = tax, pt_total = subtotal + tax\<rparr>)"

datatype po_action = ActSend | ActDraft | ActPrint

text \<open>The three summary buttons' \<open>disabled\<close> conditions; printing has none.\<close>

definition item_complete :: "po_store \<Rightarrow> nat \<Rightarrow> bool" where
  "item_complete store a =
     (pi_materialId (store a) \<noteq> [] \<and> js_truthy (pi_quantity (store a)) \<and> js_truthy (pi_unitPrice (store a)))"

definition submit_disabled :: "po_store \<Rightarrow> po_form \<Rightarrow> po_action \<Rightarrow> bool" where
  "submit_disabled store f action =
     (case action of
        ActDraft \<Rightarrow> (\<exists>a\<in>set (f_items f). pi_materialId (store a) = [])
      | ActSend \<Rightarrow> f_supplier f = [] \<or> (\<exists>a\<in>set (f_items f). \<not> item_complete store a)
      | ActPrint \<Rightarrow> False)"

text \<open>
  \<open>handleSubmit(action)\<close>: the order handed to the page.  It has no id of its own (the
  page gives it one); its number is the edited order's or \<open>PO-<Date.now()>\<close>.
\<close>

definition handleSubmit :: "po_store \<Rightarrow> po_form \<Rightarrow> purchase_order option \<Rightarrow> nat \<Rightarrow> po_action \<Rightarrow> purchase_order" where
  "handleSubmit store f editOrder now action =
     (let t = calculateTotals store (f_items f)
      in \<lparr>po_id = [],
          poNumber = (case editOrder of Some e \<Rightarrow> if poNumber e \<noteq> [] then poNumber e else ''PO-'' @ show_nat now
                      | None \<Rightarrow> ''PO-'' @ show_nat now),
          po_supplier = f_supplier f, supplierContact = f_supplierContact f, orderDate = f_orderDate f,
          expectedDelivery = f_expectedDelivery f, totalAmount = pt_total t, itemCount = length (f_items f),
          po_status = (if action = ActDraft then ''draft'' else ''sent''),
          po_subtotal = pt_subtotal t, po_tax = pt_tax t, po_notes = f_notes f, po_items = f_items f\<rparr>)"

subsection \<open>The page\<close>

datatype po_tab = TabActive | TabCreate | TabReorder

record po_page =
  orders :: "purchase_order list"
  store :: po_store
  next_addr :: nat
  activeTab :: po_tab
  editingOrder :: "purchase_order option"
  selectedOrder :: "purchase_order option"
  showOrderDetails :: bool
  form :: po_form
  sug_selected :: "string list"

definition po_init :: po_page where
  "po_init = \<lparr>orders = initial_orders, store = initial_store, next_addr = length initial_items,
     activeTab = TabActive, editingOrder = None, selectedOrder = None, showOrderDetails = False,
     form = form_mount None [] 0, sug_selected = []\<rparr>"

text \<open>
  Opening the form tab mounts a fresh form (a new empty item object is allocated unless an
  order is being edited); on the open tab only the \<open>editOrder\<close> effect runs, and only when
  the edited order changes to another order.
\<close>

definition open_form :: "purchase_order option \<Rightarrow> string \<Rightarrow> po_page \<Rightarrow> po_page" where
  "open_form editOrder today s =
     (if activeTab s = TabCreate
      then (case editOrder of None \<Rightarrow> s\<lparr>editingOrder := None\<rparr>
            | Some e \<Rightarrow> if editingOrder s = Some e then s
                        else s\<lparr>editingOrder := Some e, form := form_mount (Some e) today 0\<rparr>)
      else (case editOrder of
              None \<Rightarrow> s\<lparr>editingOrder := None, activeTab := TabCreate,
                        store := (store s)(next_addr s := blank_item), next_addr := Suc (next_addr s),
                        form := form_mount None today (next_addr s)\<rparr>
            | Some e \<Rightarrow> s\<lparr>editingOrder := Some e, activeTab := TabCreate,
                          form := form_mount (Some e) today 0\<rparr>))"

definition handleViewOrder :: "purchase_order \<Rightarrow> po_page \<Rightarrow> po_page" where
  "handleViewOrder order s = s\<lparr>selectedOrder := Some order, showOrderDetails := True\<rparr>"

definition handleEditOrder :: "purchase_order \<Rightarrow> string \<Rightarrow> po_page \<Rightarrow> po_page" where
  "handleEditOrder order today s = open_form (Some order) today s"

text \<open>\<open>handleDeleteOrder\<close>, with the user's answer to \<open>window.confirm\<close>.\<close>

definition handleDeleteOrder :: "purchase_order \<Rightarrow> bool \<Rightarrow> po_page \<Rightarrow> po_page" where
  "handleDeleteOrder order confirmed s =
     (if confirmed then s\<lparr>orders := filter (\<lambda>x. po_id x \<noteq> po_id order) (orders s)\<rparr> else s)"

definition po_number :: "nat \<Rightarrow> string" where
  "po_number n = ''PO-2025-'' @ pad_start 3 CHR ''0'' (show_nat n)"

definition handleSaveOrder :: "purchase_order \<Rightarrow> nat \<Rightarrow> po_page \<Rightarrow> po_page" where
  "handleSaveOrder orderData now s =
     (case editingOrder s of
        Some e \<Rightarrow> s\<lparr>orders := map (\<lambda>order. if po_id order = po_id e then orderData\<lparr>po_id := po_id e\<rparr> else order) (orders s),
                   editingOrder := None, activeTab := TabActive\<rparr>
      | None \<Rightarrow> s\<lparr>orders := orderData\<lparr>po_id := ''po'' @ show_nat now, poNumber := po_number (length (orders s) + 1)\<rparr>
                             # orders s, activeTab := TabActive\<rparr>)"

subsection \<open>Orders from reorder suggestions\<close>

definition sug_item :: "suggestion \<Rightarrow> po_item" where
  "sug_item sg = \<lparr>pi_materialId = sg_materialId sg, pi_materialName = sg_materialName sg,
     pi_quantity = JNum (suggestedQuantity sg), pi_unit = sg_unit sg, pi_unitPrice = JNum (lastPrice sg),
     pi_total = suggestedQuantity sg * lastPrice sg\<rparr>"

text \<open>
  The \<open>reduce\<close> into an object keyed by supplier; the keys are supplier names, which are
  not integer-like, so \<open>Object.entries\<close> lists them in insertion order: an association list.
\<close>

definition group_step :: "(string \<times> po_item list) list \<Rightarrow> suggestion \<Rightarrow> (string \<times> po_item list) list" where
  "group_step acc sg =
     (if sg_supplier sg \<in> set (map fst acc)
      then map (\<lambda>(k, its). if k = sg_supplier sg then (k, its @ [sug_item sg]) else (k, its)) acc
      else acc @ [(sg_supplier sg, [sug_item sg])])"

definition group_by_supplier :: "suggestion list \<Rightarrow> (string \<times> po_item list) list" where
  "group_by_supplier sugs = foldl group_step [] sugs"

primrec alloc_items :: "po_item list \<Rightarrow> po_store \<Rightarrow> nat \<Rightarrow> nat list \<times> po_store \<times> nat" where
  "alloc_items [] st n = ([], st, n)"
| "alloc_items (x # xs) st n = (let (as, st', n') = alloc_items xs (st(n := x)) (Suc n) in (n # as, st', n'))"

text \<open>
  The \<open>forEach\<close> over the groups: the \<open>k\<close>-th group becomes an order numbered
  \<open>orders.length + k + 1\<close>, prepended by \<open>setOrders(prev => [newOrder, ...prev])\<close>.
\<close>

fun create_groups :: "(string \<times> po_item list) list \<Rightarrow> nat \<Rightarrow> nat \<Rightarrow> nat \<Rightarrow> string \<Rightarrow> string \<Rightarrow> po_page \<Rightarrow> po_page" where
  "create_groups [] k n now today later s = s"
| "create_groups ((supplier, items) # gs) k n now today later s =
     (let (addrs, st', nx) = alloc_items items (store s) (next_addr s);
          subtotal = js_sum pi_total items;
          tax = subtotal * (11/100);
          order = \<lparr>po_id = ''po'' @ show_nat now @ ''_'' @ filter (\<lambda>c. \<not> js_space c) supplier,
                   poNumber = po_number (n + k + 1), po_supplier = supplier, supplierContact = ''021-12345678'',
                   orderDate = today, expectedDelivery = later, totalAmount = subtotal + tax,
                   itemCount = length items, po_status = ''pending'', po_subtotal = subtotal, po_tax = tax,
                   po_notes = ''Pesanan otomatis berdasarkan saran sistem'', po_items = addrs\<rparr>
      in create_groups gs (Suc k) n now today later (s\<lparr>orders := order # orders s, store := st', next_addr := nx\<rparr>))"

definition handleCreateOrderFromSuggestions ::
  "suggestion list \<Rightarrow> nat \<Rightarrow> string \<Rightarrow> string \<Rightarrow> po_page \<Rightarrow> po_page" where
  "handleCreateOrderFromSuggestions sugs now today later s =
     (create_groups (group_by_supplier sugs) 0 (length (orders s)) now today later s)\<lparr>activeTab := TabActive\<rparr>"

subsection \<open>The orders table and the details dialog\<close>

definition getStatusText :: "string \<Rightarrow> string" where
  "getStatusText status =
     (if status = ''pending'' then ''Menunggu'' else if status = ''sent'' then ''Terkirim''
      else if status = ''confirmed'' then ''Dikonfirmasi'' else if status = ''delivered'' then ''Diterima''
      else if status = ''cancelled'' then ''Dibatalkan'' else status)"

definition filteredOrders :: "string \<Rightarrow> purchase_order list \<Rightarrow> purchase_order list" where
  "filteredOrders filterStatus os = filter (\<lambda>order. filterStatus = ''all'' \<or> po_status order = filterStatus) os"

datatype sort_field = SortPoNumber | SortSupplier | SortOrderDate | SortExpected | SortTotal

text \<open>
  \<open>handleSort\<close>: the same column flips the direction, another column sorts ascending.
  The table's state is the pair of column and ascending flag.
\<close>

definition ot_handleSort :: "sort_field \<Rightarrow> sort_field \<times> bool \<Rightarrow> sort_field \<times> bool" where
  "ot_handleSort field st = (if fst st = field then (field, \<not> snd st) else (field, True))"

text \<open>
  The comparator's keys: the order number and the supplier as strings (compared by
  character codes), the total as a number, and a date column as \<open>new Date(value)\<close>,
  read here on the form's
  \<open>YYYY-MM-DD\<close> strings as the number \<open>YYYYMMDD\<close>, which orders valid dates as their time
  stamps do; any other string (the empty date of a draft) is an invalid date, \<open>NaN\<close>.
\<close>

definition date_key :: "string \<Rightarrow> jsnum" where
  "date_key v =
     (if length v = 10 \<and> v ! 4 = CHR ''-'' \<and> v ! 7 = CHR ''-'' \<and>
         (\<forall>i\<in>{0, 1, 2, 3, 5, 6, 8, 9}. is_digit (v ! i))
      then Num (of_nat (digits_val (filter is_digit v))) else NaN)"

fun jsnum_less :: "jsnum \<Rightarrow> jsnum \<Rightarrow> bool" where
  "jsnum_less (Num x) (Num y) = (x < y)"
| "jsnum_less NegInf (Num y) = True"
| "jsnum_less (Num x) PosInf = True"
| "jsnum_less NegInf PosInf = True"
| "jsnum_less _ _ = False"

datatype sort_key = KStr string | KNum jsnum

fun key_less :: "sort_key \<Rightarrow> sort_key \<Rightarrow> bool" where
  "key_less (KStr a) (KStr b) = (a < b)"
| "key_less (KNum a) (KNum b) = jsnum_less a b"
| "key_less _ _ = False"

definition sort_key_of :: "sort_field \<Rightarrow> purchase_order \<Rightarrow> sort_key" where
  "sort_key_of field order =
     (case field of SortPoNumber \<Rightarrow> KStr (poNumber order)
      | SortSupplier \<Rightarrow> KStr (po_supplier order)
      | SortOrderDate \<Rightarrow> KNum (date_key (orderDate order))
      | SortExpected \<Rightarrow> KNum (date_key (expectedDelivery order))
      | SortTotal \<Rightarrow> KNum (Num (totalAmount order)))"

definition order_compare :: "sort_field \<times> bool \<Rightarrow> purchase_order \<Rightarrow> purchase_order \<Rightarrow> int" where
  "order_compare st a b =
     (let av = sort_key_of (fst st) a; bv = sort_key_of (fst st) b
      in if snd st then (if key_less bv av then 1 else -1) else (if key_less av bv then 1 else -1))"

text \<open>The dialog's buttons with a handler: edit for a pending order, cancel for a pending or sent one.\<close>

definition modal_can_edit :: "purchase_order \<Rightarrow> bool" where
  "modal_can_edit order = (po_status order = ''pending'')"

definition modal_can_delete :: "purchase_order \<Rightarrow> bool" where
  "modal_can_delete order = (po_status order = ''pending'' \<or> po_status order = ''sent'')"

subsection \<open>Events\<close>

datatype po_event =
    ShowActiveTab | ShowCreateTab string | ShowReorderTab
  | ViewRow string | EditRow string string | DeleteRow string bool
  | ModalClose | ModalEdit string | ModalDelete bool
  | SupplierSelect string | OrderDateInput string | DeliveryInput string | NotesInput string
  | ItemInput nat item_field string | AddItemE | RemoveItemE nat
  | SubmitE po_action nat | CancelE
  | SugClick sug_event | SugCreate nat string string

definition find_order :: "string \<Rightarrow> po_page \<Rightarrow> purchase_order option" where
  "find_order oid s = find (\<lambda>order. po_id order = oid) (orders s)"

definition modal_open :: "po_page \<Rightarrow> bool" where
  "modal_open s = (showOrderDetails s \<and> selectedOrder s \<noteq> None)"

text \<open>
  One event.  The details dialog covers the whole page while it is open, so the page's
  other controls only act while it is closed; a tab's controls act only on that tab.
\<close>

fun po_step :: "po_page \<Rightarrow> po_event \<Rightarrow> po_page" where
  "po_step s ModalClose =
     (if modal_open s then s\<lparr>showOrderDetails := False, selectedOrder := None\<rparr> else s)"
| "po_step s (ModalEdit today) =
     (case selectedOrder s of Some order \<Rightarrow>
        if showOrderDetails s \<and> modal_can_edit order then handleEditOrder order today s else s
      | None \<Rightarrow> s)"
| "po_step s (ModalDelete c) =
     (case selectedOrder s of Some order \<Rightarrow>
        if showOrderDetails s \<and> modal_can_delete order then handleDeleteOrder order c s else s
      | None \<Rightarrow> s)"
| "po_step s e =
     (if modal_open s then s else
      case e of
        ShowActiveTab \<Rightarrow> s\<lparr>activeTab := TabActive\<rparr>
      | ShowCreateTab today \<Rightarrow> open_form None today s
      | ShowReorderTab \<Rightarrow> (if activeTab s = TabReorder then s else s\<lparr>activeTab := TabReorder, sug_selected := []\<rparr>)
      | ViewRow oid \<Rightarrow> (case find_order oid s of Some order \<Rightarrow>
                         if activeTab s = TabActive then handleViewOrder order s else s | None \<Rightarrow> s)
      | EditRow oid today \<Rightarrow> (case find_order oid s of Some order \<Rightarrow>
                         if activeTab s = TabActive then handleEditOrder order today s else s | None \<Rightarrow> s)
      | DeleteRow oid c \<Rightarrow> (case find_order oid s of Some order \<Rightarrow>
                         if activeTab s = TabActive then handleDeleteOrder order c s else s | None \<Rightarrow> s)
      | SupplierSelect v \<Rightarrow> (if activeTab s = TabCreate then s\<lparr>form := handleSupplierChange v (form s)\<rparr> else s)
      | OrderDateInput v \<Rightarrow> (if activeTab s = TabCreate then s\<lparr>form := (form s)\<lparr>f_orderDate := v\<rparr>\<rparr> else s)
      | DeliveryInput v \<Rightarrow> (if activeTab s = TabCreate then s\<lparr>form := (form s)\<lparr>f_expectedDelivery := v\<rparr>\<rparr> else s)
      | NotesInput v \<Rightarrow> (if activeTab s = TabCreate then s\<lparr>form := (form s)\<lparr>f_notes := v\<rparr>\<rparr> else s)
      | ItemInput i field v \<Rightarrow> (if activeTab s = TabCreate \<and> i < length (f_items (form s))
                         then s\<lparr>store := handleItemChange (store s) (f_items (form s)) i field v\<rparr> else s)
      | AddItemE \<Rightarrow> (if activeTab s = TabCreate
                    then s\<lparr>store := (store s)(next_addr s := blank_item), next_addr := Suc (next_addr s),
                           form := (form s)\<lparr>f_items := f_items (form s) @ [next_addr s]\<rparr>\<rparr> else s)
      | RemoveItemE i \<Rightarrow> (if activeTab s = TabCreate \<and> i < length (f_items (form s)) \<and> 1 < length (f_items (form s))
                    then s\<lparr>form := (form s)\<lparr>f_items := removeItem i (f_items (form s))\<rparr>\<rparr> else s)
      | SubmitE action now \<Rightarrow> (if activeTab s = TabCreate \<and> \<not> submit_disabled (store s) (form s) action
                    then handleSaveOrder (handleSubmit (store s) (form s) (editingOrder s) now action) now s else s)
      | CancelE \<Rightarrow> (if activeTab s = TabCreate then s\<lparr>editingOrder := None, activeTab := TabActive\<rparr> else s)
      | SugClick se \<Rightarrow> (if activeTab s = TabReorder then s\<lparr>sug_selected := sug_step (sug_selected s) se\<rparr> else s)
      | SugCreate now today later \<Rightarrow> (if activeTab s = TabReorder \<and> sug_selected s \<noteq> []
                    then handleCreateOrderFromSuggestions (selected_suggestions (sug_selected s)) now today later s else s)
      | _ \<Rightarrow> s)"

definition po_run :: "po_page \<Rightarrow> po_event list \<Rightarrow> po_page" where
  "po_run s es = foldl po_step s es"

definition po_inv :: "po_page \<Rightarrow> bool" where
  "po_inv s = ((\<forall>x\<in>set (orders s). po_items x \<noteq> []) \<and>
     (\<forall>x. selectedOrder s = Some x \<longrightarrow> po_items x \<noteq> []) \<and>
     (activeTab s = TabCreate \<longrightarrow> f_items (form s) \<noteq> []))"

subsection \<open>Properties\<close>

lemma po_run_Cons [simp]: "po_run s (e # es) = po_run (po_step s e) es"
  by (simp add: po_run_def)

lemma po_run_Nil [simp]: "po_run s [] = s"
  by (simp add: po_run_def)

lemma open_form_edit:
  "activeTab s \<noteq> TabCreate \<Longrightarrow> open_form (Some e) today s =
     s\<lparr>editingOrder := Some e, activeTab := TabCreate, form := form_mount (Some e) today 0\<rparr>"
  by (simp add: open_form_def)

lemma modal_open_upd [simp]:
  "modal_open (s\<lparr>editingOrder := x\<rparr>) = modal_open s"
  "modal_open (s\<lparr>activeTab := t\<rparr>) = modal_open s"
  "modal_open (s\<lparr>form := f\<rparr>) = modal_open s"
  "modal_open (s\<lparr>store := st\<rparr>) = modal_open s"
  "modal_open (s\<lparr>orders := os\<rparr>) = modal_open s"
  "modal_open (s\<lparr>next_addr := n\<rparr>) = modal_open s"
  "modal_open (s\<lparr>sug_selected := sel\<rparr>) = modal_open s"
  by (simp_all add: modal_open_def)

lemma edit_row_step:
  "\<not> modal_open s \<Longrightarrow> activeTab s = TabActive \<Longrightarrow> find_order oid s = Some order \<Longrightarrow>
   po_step s (EditRow oid d) = s\<lparr>editingOrder := Some order, activeTab := TabCreate, form := form_mount (Some order) d 0\<rparr>"
  by (simp add: handleEditOrder_def open_form_def)

theorem order_compare_nonzero: "order_compare st a b \<noteq> 0"
  by (simp add: order_compare_def Let_def)

lemma map_fst_group_upd:
  "map fst (map (\<lambda>(k, its). if k = key then (k, its @ [y]) else (k, its)) acc) = map fst acc"
  by (induction acc) auto

lemma group_step_keys:
  "map fst (group_step acc x) =
     (if sg_supplier x \<in> set (map fst acc) then map fst acc else map fst acc @ [sg_supplier x])"
  by (simp only: group_step_def if_distrib [of "map fst"] map_fst_group_upd map_append list.map prod.sel)

lemma group_step_distinct:
  "distinct (map fst acc) \<Longrightarrow> distinct (map fst (group_step acc x))"
  by (simp add: group_step_keys)

lemma group_step_nonempty:
  "\<forall>(k, its)\<in>set acc. its \<noteq> [] \<Longrightarrow> \<forall>(k, its)\<in>set (group_step acc x). its \<noteq> []"
  by (fastforce simp: group_step_def split: if_splits)

lemma sum_groups_add:
  "distinct (map fst acc) \<Longrightarrow> k \<in> set (map fst acc) \<Longrightarrow>
   sum_list (map (\<lambda>(k', its). sum_list (map pi_total its))
       (map (\<lambda>(k', its). if k' = k then (k', its @ [y]) else (k', its)) acc))
   = sum_list (map (\<lambda>(k', its). sum_list (map pi_total its)) acc) + pi_total y"
proof (induction acc)
  case Nil then show ?case by simp
next
  case (Cons a acc)
  obtain k' its where a: "a = (k', its)" by (cases a)
  show ?case
  proof (cases "k' = k")
    case True
    then have "k \<notin> set (map fst acc)" using Cons.prems a by auto
    then have "map (\<lambda>(k', its). if k' = k then (k', its @ [y]) else (k', its)) acc = acc"
      by (induction acc) auto
    then show ?thesis using True a by simp
  next
    case False
    then show ?thesis using Cons a by simp
  qed
qed

lemma group_fold_props:
  "distinct (map fst acc) \<Longrightarrow>
   distinct (map fst (foldl group_step acc xs)) \<and>
   set (map fst (foldl group_step acc xs)) = set (map fst acc) \<union> sg_supplier ` set xs \<and>
   sum_list (map (\<lambda>(k, its). sum_list (map pi_total its)) (foldl group_step acc xs)) =
     sum_list (map (\<lambda>(k, its). sum_list (map pi_total its)) acc) + sum_list (map (\<lambda>x. pi_total (sug_item x)) xs)"
proof (induction xs arbitrary: acc)
  case Nil then show ?case by simp
next
  case (Cons x xs)
  have d: "distinct (map fst (group_step acc x))" using group_step_distinct [OF Cons.prems] .
  have s: "sum_list (map (\<lambda>(k, its). sum_list (map pi_total its)) (group_step acc x)) =
           sum_list (map (\<lambda>(k, its). sum_list (map pi_total its)) acc) + pi_total (sug_item x)"
    using sum_groups_add [OF Cons.prems, of "sg_supplier x" "sug_item x"]
    by (auto simp: group_step_def)
  have k: "set (map fst (group_step acc x)) = insert (sg_supplier x) (set (map fst acc))"
    by (auto simp: group_step_keys)
  show ?case using Cons.IH [OF d] s k by (auto simp: algebra_simps)
qed

lemma alloc_items_length: "alloc_items xs st n = (as, st', n') \<Longrightarrow> length as = length xs"
  by (induction xs arbitrary: as st n) (auto split: prod.splits)

lemma create_groups_fields:
  "activeTab (create_groups gs k n now today later s) = activeTab s \<and>
   selectedOrder (create_groups gs k n now today later s) = selectedOrder s \<and>
   form (create_groups gs k n now today later s) = form s"
proof (induction gs arbitrary: k s)
  case Nil then show ?case by simp
next
  case (Cons g gs)
  obtain supplier items where g: "g = (supplier, items)" by (cases g)
  obtain addrs st' nx where "alloc_items items (store s) (next_addr s) = (addrs, st', nx)"
    by (cases "alloc_items items (store s) (next_addr s)")
  then obtain ord where "create_groups (g # gs) k n now today later s =
      create_groups gs (Suc k) n now today later (s\<lparr>orders := ord # orders s, store := st', next_addr := nx\<rparr>)"
    by (simp add: g Let_def)
  then show ?case using Cons.IH by simp
qed

lemma create_groups_orders:
  "\<exists>new. orders (create_groups gs k n now today later s) = new @ orders s \<and> length new = length gs \<and>
     sum_list (map po_subtotal new) = sum_list (map (\<lambda>(k, its). sum_list (map pi_total its)) gs) \<and>
     (\<forall>x\<in>set new. totalAmount x = po_subtotal x * (111/100) \<and> po_status x = ''pending'') \<and>
     ((\<forall>(k, its)\<in>set gs. its \<noteq> []) \<longrightarrow> (\<forall>x\<in>set new. po_items x \<noteq> []))"
proof (induction gs arbitrary: k s)
  case Nil then show ?case by simp
next
  case (Cons g gs)
  obtain supplier items where g: "g = (supplier, items)" by (cases g)
  obtain addrs st' nx where a: "alloc_items items (store s) (next_addr s) = (addrs, st', nx)"
    by (cases "alloc_items items (store s) (next_addr s)")
  let ?sub = "sum_list (map pi_total items)"
  let ?o = "\<lparr>po_id = ''po'' @ show_nat now @ ''_'' @ filter (\<lambda>c. \<not> js_space c) supplier,
                   poNumber = po_number (n + k + 1), po_supplier = supplier, supplierContact = ''021-12345678'',
                   orderDate = today, expectedDelivery = later, totalAmount = ?sub + ?sub * (11/100),
                   itemCount = length items, po_status = ''pending'', po_subtotal = ?sub, po_tax = ?sub * (11/100),
                   po_notes = ''Pesanan otomatis berdasarkan saran sistem'', po_items = addrs\<rparr>"
  have c: "create_groups (g # gs) k n now today later s =
           create_groups gs (Suc k) n now today later (s\<lparr>orders := ?o # orders s, store := st', next_addr := nx\<rparr>)"
    using a by (simp add: g Let_def)
  obtain new where h: "orders (create_groups gs (Suc k) n now today later (s\<lparr>orders := ?o # orders s, store := st', next_addr := nx\<rparr>))
        = new @ ?o # orders s" "length new = length gs"
      "sum_list (map po_subtotal new) = sum_list (map (\<lambda>(k, its). sum_list (map pi_total its)) gs)"
      "\<forall>x\<in>set new. totalAmount x = po_subtotal x * (111/100) \<and> po_status x = ''pending''"
      "(\<forall>(k, its)\<in>set gs. its \<noteq> []) \<longrightarrow> (\<forall>x\<in>set new. po_items x \<noteq> [])"
    using Cons.IH [of "Suc k" "s\<lparr>orders := ?o # orders s, store := st', next_addr := nx\<rparr>"] by auto
  have "length addrs = length items" using alloc_items_length [OF a] .
  then show ?case
    by (intro exI [of _ "new @ [?o]"]) (use h c g in \<open>auto simp: algebra_simps\<close>)
qed

lemma enumerate_filter_remove:
  "map snd (filter (\<lambda>(j, _). j \<noteq> i) (enumerate n xs)) =
     (if n \<le> i \<and> i < n + length xs then take (i - n) xs @ drop (Suc (i - n)) xs else xs)"
proof (induction xs arbitrary: n)
  case Nil then show ?case by simp
next
  case (Cons x xs)
  show ?case
  proof (cases "i = n")
    case True
    have "map snd (filter (\<lambda>(j, _). j \<noteq> i) (enumerate (Suc n) xs)) = xs"
      using Cons.IH [of "Suc n"] True by simp
    then show ?thesis using True by simp
  next
    case False
    show ?thesis
    proof (cases "n < i \<and> i < n + length (x # xs)")
      case True
      then have "i - n = Suc (i - Suc n)" by (simp add: Suc_diff_Suc)
      then show ?thesis using True False Cons.IH [of "Suc n"] by simp
    next
      case F: False
      then show ?thesis using False Cons.IH [of "Suc n"] by auto
    qed
  qed
qed

lemma removeItem_nonempty: "1 < length xs \<Longrightarrow> i < length xs \<Longrightarrow> removeItem i xs \<noteq> []"
  by (auto simp: removeItem_def enumerate_filter_remove)

lemma find_order_nonempty: "po_inv s \<Longrightarrow> find_order oid s = Some x \<Longrightarrow> po_items x \<noteq> []"
  unfolding po_inv_def find_order_def by (auto dest: find_SomeD)

lemma open_form_inv:
  "po_inv s \<Longrightarrow> (\<forall>x. e = Some x \<longrightarrow> po_items x \<noteq> []) \<Longrightarrow> po_inv (open_form e d s)"
  by (auto simp: po_inv_def open_form_def form_mount_def split: option.splits)

lemma save_inv:
  "po_inv s \<Longrightarrow> po_items od \<noteq> [] \<Longrightarrow> po_inv (handleSaveOrder od now s)"
  by (auto simp: po_inv_def handleSaveOrder_def split: option.splits)

lemma create_inv:
  "po_inv s \<Longrightarrow> po_inv (handleCreateOrderFromSuggestions xs now today later s)"
proof -
  assume i: "po_inv s"
  let ?gs = "group_by_supplier xs"
  have ne: "\<forall>(k, its)\<in>set ?gs. its \<noteq> []"
  proof -
    have "\<forall>(k, its)\<in>set (foldl group_step acc ys). its \<noteq> []" if "\<forall>(k, its)\<in>set acc. its \<noteq> []" for acc ys
      using that
    proof (induction ys arbitrary: acc)
      case Nil then show ?case by simp
    next
      case (Cons a ys)
      show ?case using Cons.IH [OF group_step_nonempty [OF Cons.prems, of a]] by simp
    qed
    from this [of "[]" xs] show ?thesis by (simp add: group_by_supplier_def)
  qed
  obtain new where "orders (create_groups ?gs 0 (length (orders s)) now today later s) = new @ orders s"
      "\<forall>x\<in>set new. po_items x \<noteq> []"
    using create_groups_orders [of ?gs 0 "length (orders s)" now today later s] ne by blast
  then show ?thesis using i create_groups_fields [of ?gs 0 "length (orders s)" now today later s]
    by (auto simp: po_inv_def handleCreateOrderFromSuggestions_def)
qed

lemma f_items_handleSupplierChange [simp]: "f_items (handleSupplierChange v f) = f_items f"
  by (simp add: handleSupplierChange_def split: option.splits)

lemma po_step_inv:
  assumes i: "po_inv s"
  shows "po_inv (po_step s e)"
proof (cases e)
  case ModalClose
  then show ?thesis using i by (simp add: po_inv_def)
next
  case (ModalEdit d)
  show ?thesis
  proof (cases "selectedOrder s")
    case (Some x)
    then have "po_items x \<noteq> []" using i by (simp add: po_inv_def)
    then show ?thesis using i Some ModalEdit by (simp add: handleEditOrder_def open_form_inv)
  qed (simp add: ModalEdit i)
next
  case (ModalDelete c)
  then show ?thesis using i
    by (auto simp: po_inv_def handleDeleteOrder_def split: option.splits)
next
  case (EditRow oid d)
  show ?thesis using i EditRow find_order_nonempty [OF i, of oid]
    by (auto simp: handleEditOrder_def intro!: open_form_inv split: option.splits)
next
  case (ViewRow oid)
  show ?thesis using i ViewRow find_order_nonempty [OF i, of oid]
    by (auto simp: handleViewOrder_def po_inv_def split: option.splits)
next
  case (DeleteRow oid c)
  then show ?thesis using i
    by (auto simp: po_inv_def handleDeleteOrder_def split: option.splits)
next
  case (ShowCreateTab d)
  then show ?thesis using i by (simp add: open_form_inv)
next
  case (SubmitE a now)
  have "activeTab s = TabCreate \<Longrightarrow> po_items (handleSubmit (store s) (form s) (editingOrder s) now a) \<noteq> []"
    using i by (simp add: po_inv_def handleSubmit_def Let_def)
  then show ?thesis using SubmitE i by (simp add: save_inv)
next
  case (SugCreate now today later)
  then show ?thesis using i by (simp add: create_inv)
next
  case (RemoveItemE j)
  then show ?thesis using i by (simp add: po_inv_def removeItem_nonempty)
qed (use i in \<open>simp_all add: po_inv_def\<close>)

text \<open>
  C5: Editing an order and cancelling changes the order in the list.  From the orders tab
  with the dialog closed, "edit order, type a quantity for one of its items, cancel" leaves
  the list of orders as it was, and the edit tab closed, but the item object of the listed
  order now holds the typed quantity: the form wrote into the object it shares with the
  list, while the order's totals were not recomputed.
\<close>

theorem cancelled_edit_mutates_order:
  assumes "\<not> modal_open s" and "activeTab s = TabActive" and "find_order oid s = Some order"
    and "i < length (po_items order)"
  shows "orders (po_run s [EditRow oid today, ItemInput i FQuantity v, CancelE]) = orders s \<and>
         activeTab (po_run s [EditRow oid today, ItemInput i FQuantity v, CancelE]) = TabActive \<and>
         editingOrder (po_run s [EditRow oid today, ItemInput i FQuantity v, CancelE]) = None \<and>
         pi_quantity (store (po_run s [EditRow oid today, ItemInput i FQuantity v, CancelE]) (po_items order ! i)) = JStr v"
  using assms edit_row_step [OF assms(1-3)]
  by (simp add: form_mount_def handleItemChange_def Let_def)

text \<open>
  C33: Opening the new-order tab while an order is being edited keeps the edited order's data
  in the form (the \<open>editOrder\<close> effect does nothing for \<open>null\<close>), so saving creates a
  new order whose items are the very item objects of the edited order, which stays in the
  list unchanged.
\<close>

theorem new_order_shares_items:
  assumes "\<not> modal_open s" and "activeTab s = TabActive" and "find_order oid s = Some order"
  shows "po_items (hd (orders (po_run s [EditRow oid d, ShowCreateTab d', SubmitE ActPrint now]))) = po_items order \<and>
         tl (orders (po_run s [EditRow oid d, ShowCreateTab d', SubmitE ActPrint now])) = orders s"
proof -
  let ?s1 = "s\<lparr>editingOrder := Some order, activeTab := TabCreate, form := form_mount (Some order) d 0\<rparr>"
  have "po_step ?s1 (ShowCreateTab d') = ?s1\<lparr>editingOrder := None\<rparr>"
    using assms(1) by (simp add: open_form_def)
  then show ?thesis using assms edit_row_step [OF assms]
    by (simp add: handleSaveOrder_def handleSubmit_def submit_disabled_def Let_def form_mount_def)
qed

text \<open>
  Order numbers are not unique: they are \<open>PO-2025-<orders.length + 1>\<close>, so after a
  deletion a new order repeats the number of the last order.  From the initial page,
  deleting PO-2025-002 and saving a new order gives two orders numbered PO-2025-004.
\<close>

theorem po_number_collision:
  "map poNumber (orders (po_run po_init [DeleteRow ''po002'' True, ShowCreateTab d, SubmitE ActPrint now])) =
     [''PO-2025-004'', ''PO-2025-001'', ''PO-2025-003'', ''PO-2025-004'']"
  by (simp add: po_init_def initial_orders_def find_order_def modal_open_def handleDeleteOrder_def open_form_def
      handleSaveOrder_def handleSubmit_def submit_disabled_def Let_def po_number_def form_mount_def) code_simp

text \<open>
  Choosing a material fills in its unit price but leaves the line total as it was: a
  line whose quantity was typed before the material is chosen keeps total 0 until its
  quantity or price is typed again, and the order's subtotal leaves it out.
\<close>

theorem material_keeps_total:
  "pi_total (handleItemChange st items i FMaterialId v (items ! i)) = pi_total (st (items ! i))"
  by (simp add: handleItemChange_def Let_def split: option.splits)

text \<open>
  Cancelling an order from its details dialog removes it from the list but leaves the
  dialog open on the removed order.
\<close>

theorem modal_delete_stale:
  assumes "showOrderDetails s" and "selectedOrder s = Some order" and "modal_can_delete order"
  shows "selectedOrder (po_step s (ModalDelete True)) = Some order \<and> showOrderDetails (po_step s (ModalDelete True)) \<and>
         po_id order \<notin> po_id ` set (orders (po_step s (ModalDelete True)))"
  using assms by (auto simp: handleDeleteOrder_def)

text \<open>
  C6: Creating orders from the selected reorder suggestions adds one pending order per
  supplier in front of the list, and the new orders' subtotals add up to the estimated cost
  shown for the selection; each total is the subtotal plus 11\% tax.
\<close>

theorem create_from_suggestions:
  assumes "\<not> modal_open s" and "activeTab s = TabReorder" and "sug_selected s \<noteq> []"
  shows "\<exists>new. orders (po_step s (SugCreate now today later)) = new @ orders s \<and>
           length new = card (sg_supplier ` set (selected_suggestions (sug_selected s))) \<and>
           sum_list (map po_subtotal new) = totalEstimatedCost (sug_selected s) \<and>
           (\<forall>x\<in>set new. totalAmount x = po_subtotal x * (111/100) \<and> po_status x = ''pending'')"
proof -
  let ?xs = "selected_suggestions (sug_selected s)"
  let ?gs = "group_by_supplier ?xs"
  have g: "distinct (map fst ?gs) \<and> set (map fst ?gs) = sg_supplier ` set ?xs \<and>
           sum_list (map (\<lambda>(k, its). sum_list (map pi_total its)) ?gs) = sum_list (map (\<lambda>x. pi_total (sug_item x)) ?xs)"
    using group_fold_props [of "[]" ?xs] by (simp add: group_by_supplier_def)
  then have len: "length ?gs = card (sg_supplier ` set ?xs)"
    using distinct_card [of "map fst ?gs"] by simp
  have tot: "totalEstimatedCost (sug_selected s) = sum_list (map (\<lambda>x. pi_total (sug_item x)) ?xs)"
    by (simp add: totalEstimatedCost_def sug_item_def)
  obtain new where "orders (create_groups ?gs 0 (length (orders s)) now today later s) = new @ orders s"
     "length new = length ?gs" "sum_list (map po_subtotal new) = sum_list (map (\<lambda>(k, its). sum_list (map pi_total its)) ?gs)"
     "\<forall>x\<in>set new. totalAmount x = po_subtotal x * (111/100) \<and> po_status x = ''pending''"
    using create_groups_orders by blast
  then show ?thesis using assms g len tot
    by (intro exI [of _ new]) (simp add: handleCreateOrderFromSuggestions_def)
qed

text \<open>
  C7: On every run of the page from its initial state, the order form always shows at least
  one item line (the remove button is offered only while there are two or more), and every
  order in the list has at least one item.
\<close>

theorem po_run_inv:
  "(activeTab (po_run po_init es) = TabCreate \<longrightarrow> f_items (form (po_run po_init es)) \<noteq> []) \<and>
   (\<forall>x\<in>set (orders (po_run po_init es)). po_items x \<noteq> [])"
proof -
  have "po_inv po_init"
    by (simp add: po_inv_def po_init_def initial_orders_def)
  then have "po_inv (foldl po_step po_init es)"
    by (induction es rule: rev_induct) (simp_all add: po_step_inv)
  then show ?thesis by (simp add: po_inv_def po_run_def)
qed

text \<open>
  Saving a new order from the form (a save button that is enabled) puts one order in
  front of the list: numbered \<open>PO-2025-<n + 1>\<close> for \<open>n\<close> orders, with the form's items,
  their count, their totals' sum as subtotal, the subtotal plus 11\% as total, and status
  draft for the draft button and sent otherwise; the page returns to the orders tab.
\<close>

theorem save_new_order:
  assumes "\<not> modal_open s" and "activeTab s = TabCreate" and "editingOrder s = None"
    and "\<not> submit_disabled (store s) (form s) act"
  shows "tl (orders (po_step s (SubmitE act now))) = orders s \<and>
         po_items (hd (orders (po_step s (SubmitE act now)))) = f_items (form s) \<and>
         itemCount (hd (orders (po_step s (SubmitE act now)))) = length (f_items (form s)) \<and>
         po_subtotal (hd (orders (po_step s (SubmitE act now)))) = sum_list (map (\<lambda>a. pi_total (store s a)) (f_items (form s))) \<and>
         totalAmount (hd (orders (po_step s (SubmitE act now)))) =
           po_subtotal (hd (orders (po_step s (SubmitE act now)))) * (111/100) \<and>
         po_status (hd (orders (po_step s (SubmitE act now)))) = (if act = ActDraft then ''draft'' else ''sent'') \<and>
         poNumber (hd (orders (po_step s (SubmitE act now)))) = po_number (Suc (length (orders s))) \<and>
         activeTab (po_step s (SubmitE act now)) = TabActive"
  using assms by (simp add: handleSaveOrder_def handleSubmit_def calculateTotals_def Let_def)

theorem cancelled_edit_mutates_order_witness:
  "orders (po_run po_init [EditRow ''po001'' ''2025-02-01'', ItemInput 0 FQuantity ''30'', CancelE]) = orders po_init \<and>
   activeTab (po_run po_init [EditRow ''po001'' ''2025-02-01'', ItemInput 0 FQuantity ''30'', CancelE]) = TabActive \<and>
   editingOrder (po_run po_init [EditRow ''po001'' ''2025-02-01'', ItemInput 0 FQuantity ''30'', CancelE]) = None \<and>
   pi_quantity (store (po_run po_init [EditRow ''po001'' ''2025-02-01'', ItemInput 0 FQuantity ''30'', CancelE])
     (po_items (initial_orders ! 0) ! 0)) = JStr ''30''"
  by (rule cancelled_edit_mutates_order) (simp_all add: po_init_def modal_open_def find_order_def initial_orders_def)

theorem new_order_shares_items_witness:
  "po_items (hd (orders (po_run po_init [EditRow ''po003'' ''d'', ShowCreateTab ''d'', SubmitE ActPrint 7]))) =
     po_items (initial_orders ! 2) \<and>
   tl (orders (po_run po_init [EditRow ''po003'' ''d'', ShowCreateTab ''d'', SubmitE ActPrint 7])) = orders po_init"
  by (rule new_order_shares_items) (simp_all add: po_init_def modal_open_def find_order_def initial_orders_def)

theorem modal_delete_stale_witness:
  "selectedOrder (po_step (po_run po_init [ViewRow ''po003'']) (ModalDelete True)) = Some (initial_orders ! 2) \<and>
   showOrderDetails (po_step (po_run po_init [ViewRow ''po003'']) (ModalDelete True)) \<and>
   po_id (initial_orders ! 2) \<notin> po_id ` set (orders (po_step (po_run po_init [ViewRow ''po003'']) (ModalDelete True)))"
  by (rule modal_delete_stale)
     (simp_all add: po_init_def modal_open_def find_order_def initial_orders_def handleViewOrder_def modal_can_delete_def)

theorem create_from_suggestions_witness:
  "\<exists>new. orders (po_step (po_run po_init [ShowReorderTab, SugClick SelectAll]) (SugCreate 9 ''2025-02-01'' ''2025-02-06'')) =
            new @ orders (po_run po_init [ShowReorderTab, SugClick SelectAll]) \<and>
     length new = card (sg_supplier ` set (selected_suggestions (sug_selected (po_run po_init [ShowReorderTab, SugClick SelectAll])))) \<and>
     sum_list (map po_subtotal new) = totalEstimatedCost (sug_selected (po_run po_init [ShowReorderTab, SugClick SelectAll]))"
proof -
  have "\<not> modal_open (po_run po_init [ShowReorderTab, SugClick SelectAll])"
    "activeTab (po_run po_init [ShowReorderTab, SugClick SelectAll]) = TabReorder"
    "sug_selected (po_run po_init [ShowReorderTab, SugClick SelectAll]) \<noteq> []"
    by (simp_all add: po_init_def modal_open_def handleSelectAll_def suggestions_def)
  from create_from_suggestions [OF this, of 9 "''2025-02-01''" "''2025-02-06''"] show ?thesis by blast
qed

theorem po_run_inv_witness:
  "f_items (form (po_run po_init [ShowCreateTab ''d'', AddItemE, RemoveItemE 0])) \<noteq> []"
proof -
  have "activeTab (po_run po_init [ShowCreateTab ''d'', AddItemE, RemoveItemE 0]) = TabCreate"
    by (simp add: po_init_def modal_open_def open_form_def)
  then show ?thesis using po_run_inv [of "[ShowCreateTab ''d'', AddItemE, RemoveItemE 0]"] by simp
qed

theorem save_new_order_witness:
  "po_subtotal (hd (orders (po_step (po_init\<lparr>activeTab := TabCreate, form := \<lparr>f_supplier = ''PT Sumber Makmur'',
       f_supplierContact = ''021-12345678'', f_orderDate = ''2025-02-01'', f_expectedDelivery = ''2025-02-05'',
       f_notes = [], f_items = [0]\<rparr>\<rparr>) (SubmitE ActSend 7)))) = 200000"
proof -
  let ?s = "po_init\<lparr>activeTab := TabCreate, form := \<lparr>f_supplier = ''PT Sumber Makmur'',
       f_supplierContact = ''021-12345678'', f_orderDate = ''2025-02-01'', f_expectedDelivery = ''2025-02-05'',
       f_notes = [], f_items = [0]\<rparr>\<rparr>"
  have st: "store ?s 0 = mk_item ''mat004'' ''Tomat Segar'' 25 ''kg'' 8000 200000"
    by (simp add: po_init_def initial_store_def initial_items_def)
  have h: "\<not> modal_open ?s" "activeTab ?s = TabCreate" "editingOrder ?s = None"
    by (simp_all add: po_init_def modal_open_def)
  have "\<not> submit_disabled (store ?s) (form ?s) ActSend"
    using st by (simp add: submit_disabled_def item_complete_def mk_item_def)
  from save_new_order [OF h this, of 7] show ?thesis using st by (simp add: mk_item_def)
qed
end
