(* ===== verification/POWizard.thy ===== *)
theory POWizard
  imports PurchaseOrders
begin

text \<open>
  The order form's three steps (\<open>currentStep\<close> of
  src/src/pages/purchase-orders/components/CreateOrderForm.jsx) on top of the page of
  PurchaseOrders.  On a wide screen (\<open>lg\<close>) the sections of steps 1 and 2 and the summary
  with its three buttons are all shown, and no step button; on a narrow screen only the
  current step's section and its step buttons are shown, the summary is hidden, and orders
  are sent with step 3's \<open>Kirim Pesanan\<close> button, which has no \<open>disabled\<close> condition.  The
  step starts at 1 whenever the form mounts, i.e. whenever the page switches to its tab.
  The layout is fixed for a run.
\<close>

record po_wizard =
  wz_page :: po_page
  currentStep :: nat

definition wz_init :: po_wizard where
  "wz_init = \<lparr>wz_page = po_init, currentStep = 1\<rparr>"

datatype wz_event = PageEv po_event | NextToItems | BackToSupplier | NextToReview | BackToItems | ReviewSend nat

text \<open>Which page events a narrow screen offers at a step: the sections' controls and the summary.\<close>

fun narrow_shown :: "nat \<Rightarrow> po_event \<Rightarrow> bool" where
  "narrow_shown st (SupplierSelect v) = (st = 1)"
| "narrow_shown st (OrderDateInput v) = (st = 1)"
| "narrow_shown st (DeliveryInput v) = (st = 1)"
| "narrow_shown st (NotesInput v) = (st = 1)"
| "narrow_shown st (ItemInput i f v) = (st = 2)"
| "narrow_shown st AddItemE = (st = 2)"
| "narrow_shown st (RemoveItemE i) = (st = 2)"
| "narrow_shown st (SubmitE a now) = False"
| "narrow_shown st e = True"

definition form_shown :: "po_page \<Rightarrow> bool" where
  "form_shown s = (activeTab s = TabCreate \<and> \<not> modal_open s)"

definition items_complete :: "po_page \<Rightarrow> bool" where
  "items_complete s = list_all (item_complete (store s)) (f_items (form s))"

text \<open>
  One event.  A page event is the page's step, after which a switch to the form's tab
  mounts the form at step 1.  The step buttons, all \<open>lg:hidden\<close>: step 1's \<open>Lanjut ke
  Item\<close> (disabled without supplier or delivery date), step 2's \<open>Kembali\<close> and \<open>Review
  Pesanan\<close> (disabled while an item lacks material, quantity or price), and step 3's
  \<open>Kembali\<close> and \<open>Kirim Pesanan\<close>.
\<close>

fun wz_step :: "bool \<Rightarrow> po_wizard \<Rightarrow> wz_event \<Rightarrow> po_wizard" where
  "wz_step wide w (PageEv e) =
     (if wide \<or> \<not> form_shown (wz_page w) \<or> narrow_shown (currentStep w) e
      then (let s' = po_step (wz_page w) e
            in \<lparr>wz_page = s', currentStep = (if activeTab (wz_page w) \<noteq> TabCreate \<and> activeTab s' = TabCreate
                                               then 1 else currentStep w)\<rparr>)
      else w)"
| "wz_step wide w NextToItems =
     (if form_shown (wz_page w) \<and> \<not> wide \<and> currentStep w = 1 \<and>
         f_supplier (form (wz_page w)) \<noteq> [] \<and> f_expectedDelivery (form (wz_page w)) \<noteq> []
      then w\<lparr>currentStep := 2\<rparr> else w)"
| "wz_step wide w BackToSupplier =
     (if form_shown (wz_page w) \<and> \<not> wide \<and> currentStep w = 2 then w\<lparr>currentStep := 1\<rparr> else w)"
| "wz_step wide w NextToReview =
     (if form_shown (wz_page w) \<and> \<not> wide \<and> currentStep w = 2 \<and> items_complete (wz_page w)
      then w\<lparr>currentStep := 3\<rparr> else w)"
| "wz_step wide w BackToItems =
     (if form_shown (wz_page w) \<and> \<not> wide \<and> currentStep w = 3 then w\<lparr>currentStep := 2\<rparr> else w)"
| "wz_step wide w (ReviewSend now) =
     (if form_shown (wz_page w) \<and> \<not> wide \<and> currentStep w = 3
      then w\<lparr>wz_page := handleSaveOrder (handleSubmit (store (wz_page w)) (form (wz_page w))
                                           (editingOrder (wz_page w)) now ActSend) now (wz_page w)\<rparr>
      else w)"

definition wz_run :: "bool \<Rightarrow> po_wizard \<Rightarrow> wz_event list \<Rightarrow> po_wizard" where
  "wz_run wide w es = foldl (wz_step wide) w es"

text \<open>The page events of a run: what the wide layout passes on.\<close>

fun page_events :: "wz_event list \<Rightarrow> po_event list" where
  "page_events [] = []"
| "page_events (PageEv e # es) = e # page_events es"
| "page_events (_ # es) = page_events es"

text \<open>The narrow layout's invariant.\<close>

definition wz_inv :: "po_wizard \<Rightarrow> bool" where
  "wz_inv w =
     (activeTab (wz_page w) = TabCreate \<longrightarrow>
        (modal_open (wz_page w) \<longrightarrow> currentStep w = 1) \<and>
        (currentStep w \<noteq> 1 \<longrightarrow> f_supplier (form (wz_page w)) \<noteq> [] \<and> f_expectedDelivery (form (wz_page w)) \<noteq> []) \<and>
        (currentStep w = 3 \<longrightarrow> items_complete (wz_page w)))"

text \<open>A narrow-screen run: open the form, choose supplier and date, go to the items, fill the
  first item, go to the review.\<close>

definition narrow_run :: "wz_event list" where
  "narrow_run = [PageEv (ShowCreateTab ''2025-02-01''), PageEv (SupplierSelect ''sup001''),
     PageEv (DeliveryInput ''2025-02-05''), NextToItems, PageEv (ItemInput 0 FMaterialId ''mat001''),
     PageEv (ItemInput 0 FQuantity ''5''), NextToReview]"

subsection \<open>The narrow layout\<close>

lemma create_tab_no_modal:
  "activeTab s = TabCreate \<Longrightarrow> \<not> modal_open s \<Longrightarrow> activeTab (po_step s e) = TabCreate \<Longrightarrow>
   \<not> modal_open (po_step s e)"
  by (cases e) (auto simp: open_form_def handleSaveOrder_def modal_open_def split: option.splits)

lemma step2_keeps_supplier:
  "activeTab s = TabCreate \<Longrightarrow> \<not> modal_open s \<Longrightarrow> narrow_shown 2 e \<Longrightarrow> activeTab (po_step s e) = TabCreate \<Longrightarrow>
   f_supplier (form (po_step s e)) = f_supplier (form s) \<and>
   f_expectedDelivery (form (po_step s e)) = f_expectedDelivery (form s)"
  by (cases e) (auto simp: open_form_def handleSaveOrder_def modal_open_def split: option.splits)

lemma step3_keeps_form:
  "activeTab s = TabCreate \<Longrightarrow> \<not> modal_open s \<Longrightarrow> narrow_shown 3 e \<Longrightarrow> activeTab (po_step s e) = TabCreate \<Longrightarrow>
   form (po_step s e) = form s \<and> store (po_step s e) = store s"
  by (cases e) (auto simp: open_form_def handleSaveOrder_def modal_open_def split: option.splits)

lemma wz_inv_page_step:
  assumes i: "wz_inv w" and sh: "form_shown (wz_page w) \<longrightarrow> narrow_shown (currentStep w) e"
  shows "wz_inv (wz_step False w (PageEv e))"
proof -
  let ?s = "wz_page w" and ?st = "currentStep w"
  let ?s' = "po_step ?s e"
  have "wz_inv \<lparr>wz_page = ?s', currentStep = ?st\<rparr>"
    if tab: "activeTab ?s = TabCreate" "activeTab ?s' = TabCreate"
  proof (cases "modal_open ?s")
    case True
    then show ?thesis using i tab by (simp add: wz_inv_def)
  next
    case False
    then have shown: "narrow_shown ?st e" using sh tab by (simp add: form_shown_def)
    have m: "\<not> modal_open ?s'" using create_tab_no_modal [OF tab(1) False tab(2)] .
    consider "?st = 1" | "?st = 2" | "?st \<noteq> 1" "?st \<noteq> 2" by blast
    then show ?thesis
    proof cases
      case 1 then show ?thesis using m tab by (simp add: wz_inv_def)
    next
      case 2
      then show ?thesis using i m tab step2_keeps_supplier [OF tab(1) False _ tab(2)] shown
        by (simp add: wz_inv_def)
    next
      case 3
      then have "narrow_shown 3 e" using shown by (cases e) simp_all
      then show ?thesis using i m tab 3 step3_keeps_form [OF tab(1) False _ tab(2)]
        by (simp add: wz_inv_def items_complete_def)
    qed
  qed
  then show ?thesis using i sh by (auto simp: wz_inv_def Let_def)
qed

lemma wz_step_inv: "wz_inv w \<Longrightarrow> wz_inv (wz_step False w e)"
proof (cases e)
  case (PageEv e')
  then show ?thesis if "wz_inv w"
  proof (cases "form_shown (wz_page w) \<longrightarrow> narrow_shown (currentStep w) e'")
    case True
    then show ?thesis using wz_inv_page_step [OF that True] PageEv by simp
  qed (use that PageEv in simp)
next
  case (ReviewSend now)
  then show ?thesis if "wz_inv w" using that by (simp add: wz_inv_def handleSaveOrder_def split: option.split)
qed (auto simp: wz_inv_def form_shown_def)

lemma wz_run_inv: "wz_inv w \<Longrightarrow> wz_inv (wz_run False w es)"
  unfolding wz_run_def by (induction es arbitrary: w) (simp_all add: wz_step_inv)

lemma wz_inv_init: "wz_inv wz_init"
  by (simp add: wz_inv_def wz_init_def po_init_def)

subsection \<open>Properties\<close>

text \<open>
  C30: On a narrow screen the unguarded send button of step 3 only ever sends a complete
  form: whenever the review step is shown, the form has a supplier and a delivery date and
  every item has material, quantity and price, so the summary's guarded send would accept it.
\<close>

theorem narrow_send_complete:
  "let w = wz_run False wz_init es
   in form_shown (wz_page w) \<and> currentStep w = 3 \<longrightarrow>
      \<not> submit_disabled (store (wz_page w)) (form (wz_page w)) ActSend \<and> f_expectedDelivery (form (wz_page w)) \<noteq> []"
  using wz_run_inv [OF wz_inv_init, of es]
  by (auto simp: Let_def wz_inv_def form_shown_def submit_disabled_def items_complete_def list_all_iff)

theorem narrow_send_complete_witness:
  "form_shown (wz_page (wz_run False wz_init narrow_run)) \<and> currentStep (wz_run False wz_init narrow_run) = 3 \<and>
   \<not> submit_disabled (store (wz_page (wz_run False wz_init narrow_run))) (form (wz_page (wz_run False wz_init narrow_run))) ActSend"
proof -
  have h: "form_shown (wz_page (wz_run False wz_init narrow_run)) \<and> currentStep (wz_run False wz_init narrow_run) = 3"
    by (simp add: narrow_run_def wz_run_def wz_init_def po_init_def form_shown_def modal_open_def open_form_def
        handleSupplierChange_def form_suppliers_def form_mount_def handleItemChange_def materials_def Let_def
        items_complete_def item_complete_def)
  then show ?thesis using narrow_send_complete [of narrow_run] by (simp add: Let_def)
qed

text \<open>
  The wide layout's send button checks the supplier and the items but not the delivery date
  that the narrow layout's first step requires: on a wide screen an order is sent with no
  expected delivery.
\<close>

theorem wide_send_without_delivery:
  "expectedDelivery (hd (orders (po_run po_init [ShowCreateTab ''2025-02-01'', SupplierSelect ''sup001'',
      ItemInput 0 FMaterialId ''mat001'', ItemInput 0 FQuantity ''5'', SubmitE ActSend 7]))) = [] \<and>
   po_status (hd (orders (po_run po_init [ShowCreateTab ''2025-02-01'', SupplierSelect ''sup001'',
      ItemInput 0 FMaterialId ''mat001'', ItemInput 0 FQuantity ''5'', SubmitE ActSend 7]))) = ''sent''"
  by (simp add: po_init_def modal_open_def open_form_def handleSupplierChange_def form_suppliers_def form_mount_def
      handleItemChange_def materials_def Let_def submit_disabled_def item_complete_def handleSaveOrder_def
      handleSubmit_def)

end
