(* ===== verification/POTable.thy ===== *)
theory POTable
  imports PurchaseOrders
begin

text \<open>
  The orders table (src/src/pages/purchase-orders/components/OrdersTable.jsx) and the
  details dialog's display (OrderDetailsModal.jsx) on top of the page of PurchaseOrders.
  The table holds its own state (sort column and direction, status filter), set to its
  defaults whenever it mounts, i.e. whenever the page switches to the orders tab.  Its row
  buttons exist only for the rows it shows, and they carry no condition on the order's
  status, unlike the dialog's buttons.
\<close>

definition getStatusColor :: "string \<Rightarrow> string" where
  "getStatusColor status =
     (if status = ''pending'' then ''bg-warning/20 text-warning''
      else if status = ''sent'' then ''bg-primary/20 text-primary''
      else if status = ''confirmed'' then ''bg-success/20 text-success''
      else if status = ''delivered'' then ''bg-success/20 text-success''
      else if status = ''cancelled'' then ''bg-error/20 text-error''
      else ''bg-muted/20 text-muted-foreground'')"

definition status_options :: "string list" where
  "status_options = [''all'', ''pending'', ''sent'', ''confirmed'', ''delivered'', ''cancelled'']"

text \<open>The dialog's quick statistic \<open>order.totalAmount / (order.itemCount || 1)\<close>.\<close>

definition average_per_item :: "purchase_order \<Rightarrow> rat" where
  "average_per_item order = totalAmount order / of_nat (if itemCount order = 0 then 1 else itemCount order)"

record po_table =
  tb_page :: po_page
  tb_sort :: "sort_field \<times> bool"
  filterStatus :: string

definition table_defaults :: "po_table \<Rightarrow> po_table" where
  "table_defaults t = t\<lparr>tb_sort := (SortOrderDate, False), filterStatus := ''all''\<rparr>"

definition tb_init :: po_table where
  "tb_init = table_defaults \<lparr>tb_page = po_init, tb_sort = (SortOrderDate, False), filterStatus = ''all''\<rparr>"

datatype tb_event =
    TbFilter string | TbSort sort_field
  | TbView string | TbEdit string string | TbDelete string bool
  | TbPage po_event

text \<open>The table is on screen on the orders tab while the details dialog is closed.\<close>

definition table_shown :: "po_page \<Rightarrow> bool" where
  "table_shown s = (activeTab s = TabActive \<and> \<not> modal_open s)"

definition row_shown :: "string \<Rightarrow> po_table \<Rightarrow> bool" where
  "row_shown oid t = (oid \<in> po_id ` set (filteredOrders (filterStatus t) (orders (tb_page t))))"

fun is_row_event :: "po_event \<Rightarrow> bool" where
  "is_row_event (ViewRow oid) = True"
| "is_row_event (EditRow oid d) = True"
| "is_row_event (DeleteRow oid c) = True"
| "is_row_event e = False"

text \<open>A page step seen from the table: the table remounts when the orders tab comes back.\<close>

definition tb_page_step :: "po_table \<Rightarrow> po_event \<Rightarrow> po_table" where
  "tb_page_step t e =
     (let s' = po_step (tb_page t) e; t' = t\<lparr>tb_page := s'\<rparr>
      in if activeTab (tb_page t) \<noteq> TabActive \<and> activeTab s' = TabActive then table_defaults t' else t')"

text \<open>
  One event: the status select, a column header, a row's view, edit or delete button (on a
  shown row), or any other control of the page.  The page's own row events are the
  table's, so they only come through the row buttons.
\<close>

fun tb_step :: "po_table \<Rightarrow> tb_event \<Rightarrow> po_table" where
  "tb_step t (TbFilter v) =
     (if table_shown (tb_page t) \<and> v \<in> set status_options then t\<lparr>filterStatus := v\<rparr> else t)"
| "tb_step t (TbSort f) = (if table_shown (tb_page t) then t\<lparr>tb_sort := ot_handleSort f (tb_sort t)\<rparr> else t)"
| "tb_step t (TbView oid) = (if table_shown (tb_page t) \<and> row_shown oid t then tb_page_step t (ViewRow oid) else t)"
| "tb_step t (TbEdit oid d) = (if table_shown (tb_page t) \<and> row_shown oid t then tb_page_step t (EditRow oid d) else t)"
| "tb_step t (TbDelete oid c) = (if table_shown (tb_page t) \<and> row_shown oid t then tb_page_step t (DeleteRow oid c) else t)"
| "tb_step t (TbPage e) = (if is_row_event e then t else tb_page_step t e)"

definition tb_run :: "po_table \<Rightarrow> tb_event list \<Rightarrow> po_table" where
  "tb_run t es = foldl tb_step t es"

lemma tb_edit_step:
  "table_shown (tb_page t) \<Longrightarrow> row_shown oid t \<Longrightarrow> find_order oid (tb_page t) = Some order \<Longrightarrow>
   tb_step t (TbEdit oid d) =
     t\<lparr>tb_page := (tb_page t)\<lparr>editingOrder := Some order, activeTab := TabCreate, form := form_mount (Some order) d 0\<rparr>\<rparr>"
  using edit_row_step [of "tb_page t" oid order d] by (simp add: table_shown_def tb_page_step_def Let_def)

lemma tb_save_edit_step:
  assumes "activeTab s = TabCreate" and "\<not> modal_open s" and "editingOrder s = Some order"
    and "\<not> submit_disabled (store s) (form s) act"
  shows "tb_step (t\<lparr>tb_page := s\<rparr>) (TbPage (SubmitE act now)) =
           table_defaults (t\<lparr>tb_page := handleSaveOrder (handleSubmit (store s) (form s) (Some order) now act) now s\<rparr>)"
  using assms by (simp add: tb_page_step_def Let_def handleSaveOrder_def)

subsection \<open>Properties\<close>

text \<open>
  C8: The table's edit button ignores the order's status.  For any shown row, editing it
  and saving with an enabled button gives that order the status of the button (draft or
  sent) whatever it was, delivered or cancelled included; every other order keeps its
  status, and the table comes back with its default filter and sort.
\<close>

theorem table_edit_resets_status:
  assumes "table_shown (tb_page t)" and "row_shown oid t" and "find_order oid (tb_page t) = Some order"
    and "\<not> submit_disabled (store (tb_page t)) (form_mount (Some order) d 0) act"
  shows "map (\<lambda>x. (po_id x, po_status x)) (orders (tb_page (tb_run t [TbEdit oid d, TbPage (SubmitE act now)]))) =
           map (\<lambda>x. (po_id x, if po_id x = po_id order then (if act = ActDraft then ''draft'' else ''sent'') else po_status x))
             (orders (tb_page t)) \<and>
         filterStatus (tb_run t [TbEdit oid d, TbPage (SubmitE act now)]) = ''all'' \<and>
         tb_sort (tb_run t [TbEdit oid d, TbPage (SubmitE act now)]) = (SortOrderDate, False)"
proof -
  let ?s = "(tb_page t)\<lparr>editingOrder := Some order, activeTab := TabCreate, form := form_mount (Some order) d 0\<rparr>"
  have m: "\<not> modal_open ?s" using assms(1) by (simp add: table_shown_def)
  have "tb_run t [TbEdit oid d, TbPage (SubmitE act now)] = tb_step (t\<lparr>tb_page := ?s\<rparr>) (TbPage (SubmitE act now))"
    by (simp only: tb_run_def foldl_Cons foldl_Nil tb_edit_step [OF assms(1-3)])
  also have "\<dots> = table_defaults (t\<lparr>tb_page := handleSaveOrder (handleSubmit (store ?s) (form ?s) (Some order) now act) now ?s\<rparr>)"
    using assms(4) m by (intro tb_save_edit_step) simp_all
  finally show ?thesis
    by (simp add: table_defaults_def handleSaveOrder_def handleSubmit_def Let_def comp_def)
qed

theorem table_edit_resets_status_witness:
  "po_status (initial_orders ! 3) = ''delivered'' \<and>
   map (\<lambda>x. (po_id x, po_status x)) (orders (tb_page (tb_run tb_init [TbEdit ''po004'' ''2025-02-01'', TbPage (SubmitE ActSend 9)]))) =
     [(''po001'', ''confirmed''), (''po002'', ''sent''), (''po003'', ''pending''), (''po004'', ''sent'')]"
proof -
  have h: "table_shown (tb_page tb_init)" "row_shown ''po004'' tb_init"
    "find_order ''po004'' (tb_page tb_init) = Some (initial_orders ! 3)"
    by (simp_all add: tb_init_def table_defaults_def table_shown_def row_shown_def po_init_def modal_open_def
        filteredOrders_def find_order_def initial_orders_def)
  have "\<not> submit_disabled (store (tb_page tb_init)) (form_mount (Some (initial_orders ! 3)) ''2025-02-01'' 0) ActSend"
    by (simp add: tb_init_def table_defaults_def po_init_def submit_disabled_def form_mount_def initial_orders_def
        initial_store_def initial_items_def item_complete_def mk_item_def)
  from table_edit_resets_status [OF h this, of 9] show ?thesis
    by (simp add: tb_init_def table_defaults_def po_init_def initial_orders_def)
qed

end
