(* ===== verification/OrderDetails.thy ===== *)
theory OrderDetails
  imports POTable
begin

text \<open>
  The purchase order's details dialog (src/src/pages/purchase-orders/components/
  OrderDetailsModal.jsx) as it is rendered for the page's \<open>selectedOrder\<close>: its status
  badge, the order's data, the item rows read from the item objects, the order history,
  the summary and the buttons.  Dates are the strings handed to \<open>formatDate\<close>
  (\<open>toLocaleDateString\<close>, Intl, not modelled) and amounts the numbers handed to
  \<open>formatCurrency\<close>.  Of the buttons only "Edit Pesanan" and "Batalkan Pesanan" have a
  handler (the page's \<open>po_step\<close> events \<open>ModalEdit\<close> and \<open>ModalDelete\<close>); the status buttons,
  print and PDF have none.
\<close>

subsection \<open>The dialog's display\<close>

definition od_statusColor :: "string \<Rightarrow> string" where
  "od_statusColor status =
     (if status = ''pending'' then ''bg-warning/20 text-warning''
      else if status = ''sent'' then ''bg-primary/20 text-primary''
      else if status = ''confirmed'' then ''bg-success/20 text-success''
      else if status = ''delivered'' then ''bg-success/20 text-success''
      else if status = ''cancelled'' then ''bg-error/20 text-error''
      else ''bg-muted/20 text-muted-foreground'')"

definition od_statusText :: "string \<Rightarrow> string" where
  "od_statusText status =
     (if status = ''pending'' then ''Menunggu'' else if status = ''sent'' then ''Terkirim''
      else if status = ''confirmed'' then ''Dikonfirmasi'' else if status = ''delivered'' then ''Diterima''
      else if status = ''cancelled'' then ''Dibatalkan'' else status)"

record hist_entry =
  h_label :: string
  h_date :: string
  h_time :: string

text \<open>The history: created, then "sent" for every status but pending, then "confirmed" for confirmed.\<close>

definition order_history :: "purchase_order \<Rightarrow> hist_entry list" where
  "order_history order =
     [\<lparr>h_label = ''Pesanan dibuat'', h_date = orderDate order, h_time = ''09:30''\<rparr>] @
     (if po_status order \<noteq> ''pending''
      then [\<lparr>h_label = ''Pesanan dikirim ke pemasok'', h_date = orderDate order, h_time = ''10:15''\<rparr>] else []) @
     (if po_status order = ''confirmed''
      then [\<lparr>h_label = ''Pesanan dikonfirmasi pemasok'', h_date = orderDate order, h_time = ''14:20''\<rparr>] else [])"

datatype modal_button = BtnEdit | BtnSend | BtnMarkConfirmed | BtnReceive | BtnPrint | BtnPdf | BtnCancel

definition modal_buttons :: "purchase_order \<Rightarrow> modal_button list" where
  "modal_buttons order =
     (if po_status order = ''pending'' then [BtnEdit, BtnSend] else []) @
     (if po_status order = ''sent'' then [BtnMarkConfirmed] else []) @
     (if po_status order = ''confirmed'' then [BtnReceive] else []) @
     [BtnPrint, BtnPdf] @
     (if po_status order = ''pending'' \<or> po_status order = ''sent'' then [BtnCancel] else [])"

text \<open>The buttons' \<open>onClick\<close>: the page event a click raises, if any.\<close>

fun button_event :: "string \<Rightarrow> bool \<Rightarrow> modal_button \<Rightarrow> po_event option" where
  "button_event today c BtnEdit = Some (ModalEdit today)"
| "button_event today c BtnCancel = Some (ModalDelete c)"
| "button_event today c b = None"

text \<open>The item rows: \<open>order.items\<close>, read through the item objects at the time of rendering.\<close>

definition modal_rows :: "po_store \<Rightarrow> purchase_order \<Rightarrow> po_item list" where
  "modal_rows st order = map st (po_items order)"

record order_summary =
  sm_subtotal :: rat
  sm_tax :: rat
  sm_total :: rat

text \<open>\<open>order.subtotal || 0\<close> and \<open>order.tax || 0\<close>: the orders' amounts are numbers, never \<open>NaN\<close>.\<close>

definition modal_summary :: "purchase_order \<Rightarrow> order_summary" where
  "modal_summary order = \<lparr>sm_subtotal = po_subtotal order, sm_tax = po_tax order, sm_total = totalAmount order\<rparr>"

record order_view =
  ov_number :: string
  ov_statusColor :: string
  ov_statusText :: string
  ov_supplier :: string
  ov_contact :: string
  ov_orderDate :: string
  ov_expected :: string
  ov_notes :: "string option"
  ov_rows :: "po_item list"
  ov_history :: "hist_entry list"
  ov_summary :: order_summary
  ov_buttons :: "modal_button list"
  ov_itemCount :: nat
  ov_average :: rat

definition order_view :: "po_store \<Rightarrow> purchase_order \<Rightarrow> order_view" where
  "order_view st order =
     \<lparr>ov_number = ''#'' @ poNumber order, ov_statusColor = od_statusColor (po_status order),
      ov_statusText = od_statusText (po_status order), ov_supplier = po_supplier order,
      ov_contact = supplierContact order, ov_orderDate = orderDate order, ov_expected = expectedDelivery order,
      ov_notes = (if po_notes order \<noteq> [] then Some (po_notes order) else None),
      ov_rows = modal_rows st order, ov_history = order_history order, ov_summary = modal_summary order,
      ov_buttons = modal_buttons order, ov_itemCount = itemCount order, ov_average = average_per_item order\<rparr>"

text \<open>The dialog renders nothing unless it is open on an order.\<close>

definition dialog_view :: "po_page \<Rightarrow> order_view option" where
  "dialog_view s = (if modal_open s then map_option (order_view (store s)) (selectedOrder s) else None)"

text \<open>A click on a button of the open dialog.\<close>

definition dialog_click :: "string \<Rightarrow> bool \<Rightarrow> modal_button \<Rightarrow> po_page \<Rightarrow> po_page" where
  "dialog_click today c b s =
     (case selectedOrder s of
        Some order \<Rightarrow>
          if showOrderDetails s \<and> b \<in> set (modal_buttons order)
          then (case button_event today c b of Some e \<Rightarrow> po_step s e | None \<Rightarrow> s) else s
      | None \<Rightarrow> s)"

text \<open>The orders a page event can add: saved from the form or created from suggestions.\<close>

definition fresh_order :: "purchase_order \<Rightarrow> bool" where
  "fresh_order x = (po_status x \<in> {''draft'', ''sent'', ''pending''} \<and> po_subtotal x + po_tax x = totalAmount x)"

definition orders_all :: "(purchase_order \<Rightarrow> bool) \<Rightarrow> po_page \<Rightarrow> bool" where
  "orders_all P s = ((\<forall>x\<in>set (orders s). P x) \<and> (\<forall>x. selectedOrder s = Some x \<longrightarrow> P x))"

subsection \<open>Properties\<close>

lemma orders_open_form [simp]: "orders (open_form e d s) = orders s"
  "selectedOrder (open_form e d s) = selectedOrder s"
  by (simp_all add: open_form_def split: option.splits)

lemma fresh_order_upd [simp]:
  "fresh_order (x\<lparr>po_id := i\<rparr>) = fresh_order x" "fresh_order (x\<lparr>poNumber := n\<rparr>) = fresh_order x"
  by (simp_all add: fresh_order_def)

lemma fresh_submit: "fresh_order (handleSubmit st f e now a)"
  by (simp add: fresh_order_def handleSubmit_def calculateTotals_def Let_def)

lemma create_groups_fresh:
  "set (orders (create_groups gs k n now today later s)) \<subseteq> set (orders s) \<union> Collect fresh_order"
proof (induction gs arbitrary: k s)
  case Nil then show ?case by simp
next
  case (Cons g gs)
  obtain supplier items where g: "g = (supplier, items)" by (cases g)
  obtain addrs st' nx where "alloc_items items (store s) (next_addr s) = (addrs, st', nx)"
    by (cases "alloc_items items (store s) (next_addr s)")
  then obtain ord where c: "create_groups (g # gs) k n now today later s =
      create_groups gs (Suc k) n now today later (s\<lparr>orders := ord # orders s, store := st', next_addr := nx\<rparr>)"
    and "fresh_order ord"
    by (simp add: g Let_def fresh_order_def)
  then show ?case using Cons.IH [of "Suc k" "s\<lparr>orders := ord # orders s, store := st', next_addr := nx\<rparr>"]
    by auto
qed

lemma save_order_fresh:
  "x \<in> set (orders (handleSaveOrder od now s)) \<Longrightarrow> x \<in> set (orders s) \<or> (\<exists>i. x = od\<lparr>po_id := i\<rparr>) \<or>
     (\<exists>i n. x = od\<lparr>po_id := i, poNumber := n\<rparr>)"
  by (auto simp: handleSaveOrder_def split: option.splits if_splits)

lemma po_step_orders:
  assumes x: "x \<in> set (orders (po_step s e))"
  shows "x \<in> set (orders s) \<or> fresh_order x"
proof (cases e)
  case (SubmitE a now)
  have "fresh_order (handleSubmit (store s) (form s) (editingOrder s) now a)" by (rule fresh_submit)
  then show ?thesis
    using x SubmitE save_order_fresh [of x "handleSubmit (store s) (form s) (editingOrder s) now a" now s]
    by (auto split: if_splits)
next
  case (SugCreate now today later)
  have "x \<in> set (orders s) \<union> Collect fresh_order"
    if "x \<in> set (orders (create_groups gs k n now today later s))" for gs k n
    using create_groups_fresh that by blast
  then show ?thesis using x SugCreate by (auto simp: handleCreateOrderFromSuggestions_def split: if_splits)
qed (use x in \<open>auto simp: handleEditOrder_def handleDeleteOrder_def handleViewOrder_def split: option.splits if_splits\<close>)


lemma po_step_selected:
  assumes "selectedOrder (po_step s e) = Some x"
  shows "selectedOrder s = Some x \<or> x \<in> set (orders s)"
proof (cases e)
  case (ViewRow oid)
  then show ?thesis using assms
    by (auto simp: handleViewOrder_def find_order_def dest: find_SomeD split: option.splits if_splits)
next
  case (SugCreate now today later)
  then show ?thesis using assms create_groups_fields
    by (auto simp: handleCreateOrderFromSuggestions_def split: if_splits)
next
  case (SubmitE a now)
  then show ?thesis using assms by (auto simp: handleSaveOrder_def split: if_splits option.splits)
qed (use assms in \<open>auto simp: handleEditOrder_def handleDeleteOrder_def split: option.splits if_splits\<close>)

lemma orders_all_step:
  "orders_all P s \<Longrightarrow> \<forall>x. fresh_order x \<longrightarrow> P x \<Longrightarrow> orders_all P (po_step s e)"
  unfolding orders_all_def using po_step_orders po_step_selected by metis

lemma orders_all_run:
  "orders_all P s \<Longrightarrow> \<forall>x. fresh_order x \<longrightarrow> P x \<Longrightarrow> orders_all P (po_run s es)"
  by (induction es arbitrary: s) (simp_all add: orders_all_step)

lemma orders_all_init: "(\<forall>x\<in>set initial_orders. P x) \<Longrightarrow> orders_all P po_init"
  by (simp add: orders_all_def po_init_def)

text \<open>
  C17: On every run of the page from its initial state, the dialog's summary adds up: the
  subtotal and the PPN it shows sum to the total it shows.  Every order the page can add
  (saved from the form, created from suggestions) has total = subtotal + tax, and so have
  the initial orders.
\<close>

theorem dialog_summary_adds_up:
  assumes "dialog_view (po_run po_init es) = Some v"
  shows "sm_subtotal (ov_summary v) + sm_tax (ov_summary v) = sm_total (ov_summary v)"
proof -
  let ?P = "\<lambda>x. po_subtotal x + po_tax x = totalAmount x"
  have "orders_all ?P (po_run po_init es)"
    by (rule orders_all_run [OF orders_all_init]) (simp_all add: initial_orders_def fresh_order_def)
  then show ?thesis using assms
    by (auto simp: dialog_view_def orders_all_def order_view_def modal_summary_def split: if_splits)
qed

text \<open>
  C16: No order ever becomes confirmed or delivered: the dialog's "Kirim ke Pemasok", "Tandai
  Dikonfirmasi" and "Terima Barang" have no handler, so on every run from the initial
  page an order with status confirmed or delivered is one of the initial mock orders.
\<close>

theorem no_order_confirmed:
  assumes "x \<in> set (orders (po_run po_init es))" and "po_status x \<in> {''confirmed'', ''delivered''}"
  shows "x \<in> set initial_orders"
proof -
  let ?P = "\<lambda>x. po_status x \<in> {''confirmed'', ''delivered''} \<longrightarrow> x \<in> set initial_orders"
  have "orders_all ?P (po_run po_init es)"
    by (rule orders_all_run [OF orders_all_init]) (auto simp: fresh_order_def)
  then show ?thesis using assms unfolding orders_all_def by blast
qed

text \<open>
  C34: An order saved as a draft is shown by the dialog as sent to the supplier: its history
  has the entry "Pesanan dikirim ke pemasok" (every status but pending gets it), its badge
  shows the raw status "draft", and it offers neither edit nor cancel, only print and PDF.
\<close>

theorem draft_shown_as_sent:
  "order_history (handleSubmit st f e now ActDraft) =
     [\<lparr>h_label = ''Pesanan dibuat'', h_date = f_orderDate f, h_time = ''09:30''\<rparr>,
      \<lparr>h_label = ''Pesanan dikirim ke pemasok'', h_date = f_orderDate f, h_time = ''10:15''\<rparr>] \<and>
   modal_buttons (handleSubmit st f e now ActDraft) = [BtnPrint, BtnPdf] \<and>
   od_statusText (po_status (handleSubmit st f e now ActDraft)) = ''draft''"
  by (simp add: order_history_def modal_buttons_def od_statusText_def handleSubmit_def Let_def)


lemma modal_buttons_guards:
  "BtnEdit \<in> set (modal_buttons order) \<longleftrightarrow> modal_can_edit order"
  "BtnCancel \<in> set (modal_buttons order) \<longleftrightarrow> modal_can_delete order"
  by (auto simp: modal_buttons_def modal_can_edit_def modal_can_delete_def)

text \<open>
  The page's guards on the dialog's events are the dialog's rendered buttons: a click on
  any button of the open dialog is the page step of the button's handler, and a button
  without a handler changes nothing.
\<close>

theorem dialog_click_is_step:
  "dialog_click today c b s = (case button_event today c b of Some e \<Rightarrow> po_step s e | None \<Rightarrow> s)"
  by (cases b) (auto simp: dialog_click_def modal_buttons_guards split: option.splits)

text \<open>
  The history of a delivered order lists its creation and its sending, but not its
  confirmation, which the history shows only while the status is confirmed.
\<close>

theorem delivered_history_skips_confirmation:
  "po_status order = ''delivered'' \<Longrightarrow>
   map h_label (order_history order) = [''Pesanan dibuat'', ''Pesanan dikirim ke pemasok'']"
  by (simp add: order_history_def)

text \<open>
  In the page's mock orders the item rows the dialog lists do not add up to the subtotal
  it shows next to them.
\<close>

theorem initial_rows_differ:
  "map (\<lambda>order. sum_list (map pi_total (modal_rows initial_store order))) initial_orders =
     [1655000, 1705000, 540000, 1140000] \<and>
   map po_subtotal initial_orders = [2207207, 1700000, 599099, 1200000]"
  by (simp add: modal_rows_def initial_store_def initial_orders_def initial_items_def mk_item_def)

lemma view_po001:
  "po_run po_init [ViewRow ''po001''] = po_init\<lparr>selectedOrder := Some (initial_orders ! 0), showOrderDetails := True\<rparr>"
proof -
  have f: "find_order ''po001'' po_init = Some (initial_orders ! 0)"
    by (simp add: find_order_def po_init_def initial_orders_def)
  have "\<not> modal_open po_init" "activeTab po_init = TabActive"
    by (simp_all add: modal_open_def po_init_def)
  then show ?thesis using f by (simp add: handleViewOrder_def)
qed

theorem dialog_summary_adds_up_witness:
  "dialog_view (po_run po_init [ViewRow ''po001'']) = Some (order_view initial_store (initial_orders ! 0)) \<and>
   sm_subtotal (ov_summary (order_view initial_store (initial_orders ! 0))) +
   sm_tax (ov_summary (order_view initial_store (initial_orders ! 0))) = 2450000"
proof -
  have v: "dialog_view (po_run po_init [ViewRow ''po001'']) = Some (order_view initial_store (initial_orders ! 0))"
    unfolding view_po001 by (simp add: dialog_view_def modal_open_def po_init_def)
  have "sm_total (ov_summary (order_view initial_store (initial_orders ! 0))) = 2450000"
    by (simp add: order_view_def modal_summary_def initial_orders_def)
  then show ?thesis using dialog_summary_adds_up [OF v] v by simp
qed

theorem no_order_confirmed_witness:
  "initial_orders ! 0 \<in> set (orders (po_run po_init [ViewRow ''po001''])) \<and>
   po_status (initial_orders ! 0) \<in> {''confirmed'', ''delivered''} \<and> initial_orders ! 0 \<in> set initial_orders"
proof -
  have m: "initial_orders ! 0 \<in> set (orders (po_run po_init [ViewRow ''po001'']))"
    unfolding view_po001 by (simp add: po_init_def initial_orders_def)
  have st: "po_status (initial_orders ! 0) \<in> {''confirmed'', ''delivered''}"
    by (simp add: initial_orders_def)
  show ?thesis using no_order_confirmed [OF m st] m st by blast
qed

theorem delivered_history_skips_confirmation_witness:
  "po_status (initial_orders ! 3) = ''delivered'' \<and>
   map h_label (order_history (initial_orders ! 3)) = [''Pesanan dibuat'', ''Pesanan dikirim ke pemasok'']"
  using delivered_history_skips_confirmation [of "initial_orders ! 3"] by (simp add: initial_orders_def)

end
