(* ===== verification/JsSort.thy ===== *)
theory JsSort
  imports Prelude "HOL-Library.Char_ord" "HOL-Library.List_Lexorder"
begin

text \<open>
  \<open>Array.prototype.sort\<close> with a comparator callback.  Since ES2019 the sort is stable; the
  model is a top-down merge sort (the merge phase of the engine's TimSort) that takes the
  right element only when the comparator says the left one is greater.  For a comparator
  derived from a key, the result is the library's \<open>sort_key\<close>; \<open>rev_ord\<close> reverses a
  linear order, which gives the descending comparators.
\<close>

fun js_merge :: "('a \<Rightarrow> 'a \<Rightarrow> int) \<Rightarrow> 'a list \<Rightarrow> 'a list \<Rightarrow> 'a list" where
  "js_merge c [] ys = ys"
| "js_merge c xs [] = xs"
| "js_merge c (x # xs) (y # ys) =
     (if 0 < c x y then y # js_merge c (x # xs) ys else x # js_merge c xs (y # ys))"

function js_sort :: "('a \<Rightarrow> 'a \<Rightarrow> int) \<Rightarrow> 'a list \<Rightarrow> 'a list" where
  "js_sort c xs =
     (if length xs \<le> 1 then xs
      else js_merge c (js_sort c (take (length xs div 2) xs)) (js_sort c (drop (length xs div 2) xs)))"
  by pat_completeness auto
termination by (relation "measure (\<lambda>(c, xs). length xs)") auto

declare js_sort.simps [simp del]

text \<open>The comparator pattern \<open>a < b ? -1 : a > b ? 1 : 0\<close> on a key.\<close>

definition key_cmp :: "('a \<Rightarrow> 'k::linorder) \<Rightarrow> 'a \<Rightarrow> 'a \<Rightarrow> int" where
  "key_cmp f a b = (if f a < f b then -1 else if f b < f a then 1 else 0)"

text \<open>
  The comparator \<open>(a, b) => f(a) - f(b)\<close> on a numeric key: the sort reads only the sign
  of the difference.
\<close>

definition diff_cmp :: "('a \<Rightarrow> 'b::linordered_idom) \<Rightarrow> 'a \<Rightarrow> 'a \<Rightarrow> int" where
  "diff_cmp f a b = (let d = f a - f b in if d < 0 then -1 else if 0 < d then 1 else 0)"

datatype 'a rev_ord = RevOrd (un_rev: 'a)

instantiation rev_ord :: (linorder) linorder
begin

definition less_eq_rev_ord :: "'a rev_ord \<Rightarrow> 'a rev_ord \<Rightarrow> bool" where
  "x \<le> y \<longleftrightarrow> un_rev y \<le> un_rev x"

definition less_rev_ord :: "'a rev_ord \<Rightarrow> 'a rev_ord \<Rightarrow> bool" where
  "x < y \<longleftrightarrow> un_rev y < un_rev x"

instance
  by standard (auto simp: less_eq_rev_ord_def less_rev_ord_def rev_ord.expand)

end

lemma rev_ord_less [simp]: "RevOrd a < RevOrd b \<longleftrightarrow> b < a"
  by (simp add: less_rev_ord_def)

lemma rev_ord_le [simp]: "RevOrd a \<le> RevOrd b \<longleftrightarrow> b \<le> a"
  by (simp add: less_eq_rev_ord_def)

subsection \<open>The merge\<close>

lemma mset_js_merge [simp]: "mset (js_merge c xs ys) = mset xs + mset ys"
  by (induction c xs ys rule: js_merge.induct) auto

lemma set_js_merge [simp]: "set (js_merge c xs ys) = set xs \<union> set ys"
  by (metis mset_js_merge set_mset_mset set_mset_union)

lemma key_cmp_pos: "0 < key_cmp f x y \<longleftrightarrow> f y < f x"
  by (auto simp: key_cmp_def)

lemma sorted_js_merge:
  "sorted (map f xs) \<Longrightarrow> sorted (map f ys) \<Longrightarrow> sorted (map f (js_merge (key_cmp f) xs ys))"
  by (induction "key_cmp f" xs ys rule: js_merge.induct) (auto simp: key_cmp_pos)

lemma filter_js_merge:
  assumes "sorted (map f xs)" and "sorted (map f ys)"
  shows "filter (\<lambda>x. f k = f x) (js_merge (key_cmp f) xs ys) =
         filter (\<lambda>x. f k = f x) xs @ filter (\<lambda>x. f k = f x) ys"
  using assms
proof (induction "key_cmp f" xs ys rule: js_merge.induct)
  case (3 x xs y ys)
  show ?case
  proof (cases "f y < f x")
    case True
    then have "filter (\<lambda>z. f k = f z) (x # xs) = []" if "f k = f y"
      using "3.prems"(1) that by (auto simp: filter_empty_conv)
    with True "3" show ?thesis by (auto simp: key_cmp_pos)
  next
    case False
    with "3" show ?thesis by (auto simp: key_cmp_pos)
  qed
qed simp_all

subsection \<open>The sort\<close>

lemma mset_js_sort [simp]: "mset (js_sort c xs) = mset xs"
proof (induction c xs rule: js_sort.induct)
  case (1 c xs)
  then show ?case
    by (subst js_sort.simps) (auto simp flip: mset_append)
qed

lemma set_js_sort [simp]: "set (js_sort c xs) = set xs"
  by (metis mset_js_sort set_mset_mset)

lemma sorted_short: "length xs \<le> 1 \<Longrightarrow> sorted (map f xs)"
  by (cases xs) auto

lemma sorted_js_sort: "sorted (map f (js_sort (key_cmp f) xs))"
  by (induction "key_cmp f" xs rule: js_sort.induct) (subst js_sort.simps, simp add: sorted_js_merge sorted_short)

lemma filter_js_sort:
  "filter (\<lambda>x. f k = f x) (js_sort (key_cmp f) xs) = filter (\<lambda>x. f k = f x) xs"
proof (induction "key_cmp f" xs rule: js_sort.induct)
  case (1 xs)
  show ?case
  proof (cases "length xs \<le> 1")
    case True then show ?thesis by (subst js_sort.simps) simp
  next
    case False
    then show ?thesis using 1
      by (subst js_sort.simps) (simp add: filter_js_merge sorted_js_sort flip: filter_append)
  qed
qed

theorem js_sort_key_cmp: "js_sort (key_cmp f) xs = sort_key f xs"
  by (rule properties_for_sort_key [symmetric]) (simp_all add: filter_js_sort sorted_js_sort)

lemma diff_cmp_key_cmp: "diff_cmp f = key_cmp f"
  by (auto simp: fun_eq_iff diff_cmp_def key_cmp_def Let_def)

lemma js_sort_diff_cmp: "js_sort (diff_cmp f) xs = sort_key f xs"
  by (simp add: diff_cmp_key_cmp js_sort_key_cmp)

lemma diff_cmp_rev: "diff_cmp f b a = key_cmp (\<lambda>x. RevOrd (f x)) a b"
  by (auto simp: diff_cmp_def key_cmp_def Let_def)

lemma sort_key_int: "sort_key (\<lambda>x. int (f x)) xs = sort_key f xs"
proof -
  have "insort_key (\<lambda>x. int (f x)) a ys = insort_key f a ys" for a ys
    by (induction ys) auto
  then show ?thesis by (induction xs) auto
qed


end
