(* ===== verification/Recipe.thy ===== *)
theory Recipe
  imports Stock JsSort
begin

text \<open>
  Recipe costing (src/src/pages/recipe-management/index.jsx and components/RecipeEditor.jsx,
  CostAnalysisModal.jsx, RecipeList.jsx).  The page holds the recipes and the selected
  recipe; the editor holds a copy of the selected recipe (\<open>formData\<close>) and two effects:
  one loads the selected recipe (or resets the form) when the selection changes, the other
  recomputes total cost, profit margin and suggested price when the ingredient list or
  the serving size changes.  Saving goes through a one-second timer, modelled as a queue of
  pending saves and a separate timer event.  The spec's RecipeCostEngine (spec section 4.4)
  is \<open>spec_cost\<close>.

  A recipe's ingredient list is a JavaScript array, and copies of a recipe (\<open>{...recipe}\<close>)
  share it: the editor loads \<open>recipe.ingredients\<close> itself, a save or a duplicate copies the
  reference.  Only the cost analysis mutates an array in place (its \<open>sort\<close>).  Each recipe
  therefore carries the identity of its array (\<open>ing_arr\<close>), and the page a counter for
  fresh identities (\<open>next_arr\<close>): every handler that builds a new array takes a fresh one.
\<close>

record ingredient =
  ing_id :: string
  ing_materialId :: string
  ing_material :: string
  ing_quantity :: jsval
  ing_purchaseUnit :: string
  ing_usageUnit :: string
  ing_conversionFactor :: rat
  ing_unitCost :: rat
  ing_totalCost :: rat

record recipe =
  rc_id :: "string option"
  menuItemId :: string
  menuItem :: string
  rc_category :: string
  rc_description :: string
  servingSize :: int
  ingredients :: "ingredient list"
  ing_arr :: nat
  instructions :: string
  prepTime :: jsval
  cookTime :: jsval
  difficulty :: string
  rc_totalCost :: rat
  sellingPrice :: rat
  profitMargin :: rat
  suggestedPrice :: rat
  lastModified :: string

record menu_item =
  mi_id :: string
  mi_name :: string
  mi_category :: string
  mi_price :: rat

record raw_material =
  rm_id :: string
  rm_name :: string
  rm_category :: string
  rm_purchaseUnit :: string
  rm_usageUnit :: string
  rm_conversionFactor :: rat
  rm_unitCost :: rat

subsection \<open>The page's data\<close>

definition menuItems :: "menu_item list" where
  "menuItems =
    [\<lparr>mi_id = ''menu-001'', mi_name = ''Nasi Gudeg Jogja'', mi_category = ''Makanan Utama'', mi_price = 25000\<rparr>,
     \<lparr>mi_id = ''menu-002'', mi_name = ''Soto Ayam Lamongan'', mi_category = ''Makanan Utama'', mi_price = 18000\<rparr>,
     \<lparr>mi_id = ''menu-003'', mi_name = ''Gado-Gado Jakarta'', mi_category = ''Makanan Utama'', mi_price = 15000\<rparr>,
     \<lparr>mi_id = ''menu-004'', mi_name = ''Es Teh Manis'', mi_category = ''Minuman'', mi_price = 5000\<rparr>,
     \<lparr>mi_id = ''menu-005'', mi_name = ''Jus Alpukat'', mi_category = ''Minuman'', mi_price = 12000\<rparr>]"

definition rawMaterials :: "raw_material list" where
  "rawMaterials =
    [\<lparr>rm_id = ''raw-001'', rm_name = ''Beras Premium'', rm_category = ''Bahan Pokok'', rm_purchaseUnit = ''kg'',
      rm_usageUnit = ''gram'', rm_conversionFactor = 1000, rm_unitCost = 12000\<rparr>,
     \<lparr>rm_id = ''raw-002'', rm_name = ''Ayam Kampung'', rm_category = ''Protein'', rm_purchaseUnit = ''kg'',
      rm_usageUnit = ''gram'', rm_conversionFactor = 1000, rm_unitCost = 35000\<rparr>,
     \<lparr>rm_id = ''raw-003'', rm_name = ''Nangka Muda'', rm_category = ''Sayuran'', rm_purchaseUnit = ''kg'',
      rm_usageUnit = ''gram'', rm_conversionFactor = 1000, rm_unitCost = 8000\<rparr>,
     \<lparr>rm_id = ''raw-004'', rm_name = ''Santan Kelapa'', rm_category = ''Bumbu'', rm_purchaseUnit = ''liter'',
      rm_usageUnit = ''ml'', rm_conversionFactor = 1000, rm_unitCost = 15000\<rparr>,
     \<lparr>rm_id = ''raw-005'', rm_name = ''Gula Merah'', rm_category = ''Bumbu'', rm_purchaseUnit = ''kg'',
      rm_usageUnit = ''gram'', rm_conversionFactor = 1000, rm_unitCost = 18000\<rparr>,
     \<lparr>rm_id = ''raw-006'', rm_name = ''Daun Salam'', rm_category = ''Rempah'', rm_purchaseUnit = ''ikat'',
      rm_usageUnit = ''lembar'', rm_conversionFactor = 20, rm_unitCost = 3000\<rparr>,
     \<lparr>rm_id = ''raw-007'', rm_name = ''Teh Celup'', rm_category = ''Minuman'', rm_purchaseUnit = ''box'',
      rm_usageUnit = ''sachet'', rm_conversionFactor = 25, rm_unitCost = 8000\<rparr>,
     \<lparr>rm_id = ''raw-008'', rm_name = ''Gula Pasir'', rm_category = ''Bumbu'', rm_purchaseUnit = ''kg'',
      rm_usageUnit = ''gram'', rm_conversionFactor = 1000, rm_unitCost = 14000\<rparr>]"

definition mk_ing :: "string \<Rightarrow> string \<Rightarrow> string \<Rightarrow> rat \<Rightarrow> string \<Rightarrow> string \<Rightarrow> rat \<Rightarrow> rat \<Rightarrow> rat \<Rightarrow> ingredient" where
  "mk_ing i mid m q pu uu cf uc tc =
     \<lparr>ing_id = i, ing_materialId = mid, ing_material = m, ing_quantity = JNum q, ing_purchaseUnit = pu,
      ing_usageUnit = uu, ing_conversionFactor = cf, ing_unitCost = uc, ing_totalCost = tc\<rparr>"

text \<open>A multi-line template string: its lines joined by line feeds.\<close>

definition join_lines :: "string list \<Rightarrow> string" where
  "join_lines ls = concat (map (\<lambda>(k, l). (if k = 0 then [] else [CHR 0x0A]) @ l) (enumerate 0 ls))"

definition initial_recipes :: "recipe list" where
  "initial_recipes =
    [\<lparr>rc_id = Some ''recipe-001'', menuItemId = ''menu-001'', menuItem = ''Nasi Gudeg Jogja'',
      rc_category = ''Makanan Utama'', rc_description = ''Resep gudeg khas Jogja dengan cita rasa autentik'',
      servingSize = 1,
      ingredients = [mk_ing ''ing-001'' ''raw-001'' ''Beras Premium'' 150 ''kg'' ''gram'' 1000 12000 1800,
                     mk_ing ''ing-002'' ''raw-002'' ''Ayam Kampung'' 100 ''kg'' ''gram'' 1000 35000 3500,
                     mk_ing ''ing-003'' ''raw-003'' ''Nangka Muda'' 200 ''kg'' ''gram'' 1000 8000 1600,
                     mk_ing ''ing-004'' ''raw-004'' ''Santan Kelapa'' 100 ''liter'' ''ml'' 1000 15000 1500,
                     mk_ing ''ing-005'' ''raw-005'' ''Gula Merah'' 50 ''kg'' ''gram'' 1000 18000 900],
      ing_arr = 1,
      instructions =
        join_lines [''1. Cuci beras hingga bersih, masak menjadi nasi putih'', ''2. Potong ayam menjadi bagian-bagian kecil'', ''3. Rebus nangka muda hingga empuk'', ''4. Tumis bumbu halus hingga harum'', ''5. Masukkan ayam, masak hingga berubah warna'', ''6. Tambahkan nangka muda dan santan'', ''7. Masak dengan api kecil selama 2 jam'', ''8. Tambahkan gula merah, aduk rata'', ''9. Sajikan dengan nasi putih''],
      prepTime = JNum 30, cookTime = JNum 150, difficulty = ''sedang'', rc_totalCost = 9300,
      sellingPrice = 25000, profitMargin = 628/10, suggestedPrice = 23250,
      lastModified = ''2025-01-20T10:30:00Z''\<rparr>,
     \<lparr>rc_id = Some ''recipe-002'', menuItemId = ''menu-004'', menuItem = ''Es Teh Manis'',
      rc_category = ''Minuman'', rc_description = ''Es teh manis segar untuk menemani makanan'',
      servingSize = 1,
      ingredients = [mk_ing ''ing-006'' ''raw-007'' ''Teh Celup'' 1 ''box'' ''sachet'' 25 8000 320,
                     mk_ing ''ing-007'' ''raw-008'' ''Gula Pasir'' 20 ''kg'' ''gram'' 1000 14000 280],
      ing_arr = 2,
      instructions =
        join_lines [''1. Seduh teh celup dengan air panas 200ml'', ''2. Diamkan selama 3-5 menit'', ''3. Angkat teh celup, tambahkan gula pasir'', ''4. Aduk hingga gula larut'', ''5. Tambahkan es batu secukupnya'', ''6. Sajikan dalam gelas tinggi''],
      prepTime = JNum 5, cookTime = JNum 0, difficulty = ''mudah'', rc_totalCost = 600,
      sellingPrice = 5000, profitMargin = 88, suggestedPrice = 1500,
      lastModified = ''2025-01-22T14:15:00Z''\<rparr>]"

subsection \<open>The editor\<close>

definition blank_ingredient :: "nat \<Rightarrow> ingredient" where
  "blank_ingredient now =
     \<lparr>ing_id = show_nat now, ing_materialId = [], ing_material = [], ing_quantity = JStr [], ing_purchaseUnit = [],
      ing_usageUnit = [], ing_conversionFactor = 1, ing_unitCost = 0, ing_totalCost = 0\<rparr>"

text \<open>\<open>resetForm\<close>: the empty recipe with one empty ingredient.\<close>

definition empty_form :: "nat \<Rightarrow> recipe" where
  "empty_form now =
     \<lparr>rc_id = None, menuItemId = [], menuItem = [], rc_category = [], rc_description = [], servingSize = 1,
      ingredients = [blank_ingredient now], ing_arr = 0, instructions = [], prepTime = JStr [], cookTime = JStr [],
      difficulty = ''mudah'', rc_totalCost = 0, sellingPrice = 0, profitMargin = 0, suggestedPrice = 0,
      lastModified = []\<rparr>"

text \<open>The \<open>[recipe]\<close> effect's load branch: the recipe, with one empty ingredient if it has none.\<close>

definition load_recipe :: "recipe \<Rightarrow> nat \<Rightarrow> recipe" where
  "load_recipe r now =
     r\<lparr>ingredients := (if ingredients r \<noteq> [] then ingredients r else [blank_ingredient now])\<rparr>"

definition handleMenuItemChange :: "string \<Rightarrow> recipe \<Rightarrow> recipe" where
  "handleMenuItemChange v f =
     (case find (\<lambda>item. mi_id item = v) menuItems of None \<Rightarrow> f
      | Some item \<Rightarrow> f\<lparr>menuItemId := v, menuItem := mi_name item, rc_category := mi_category item,
                     sellingPrice := js_or (Some (mi_price item)) 0\<rparr>)"

datatype ing_field = IMaterialId | IQuantity

text \<open>
  \<open>handleIngredientChange(index, field, value)\<close>: a new object for the ingredient with the
  field set; a known material fills name, units, conversion factor and unit cost; a
  quantity change recomputes \<open>(quantity * unitCost) / conversionFactor\<close>.  Unit cost and
  conversion factor have no input (their fields are disabled), so only these two fields
  change.
\<close>

definition ingredient_cost :: "ingredient \<Rightarrow> rat" where
  "ingredient_cost i =
     js_or (js_parseFloat (ing_quantity i)) 0 * js_or (Some (ing_unitCost i)) 0 / js_or (Some (ing_conversionFactor i)) 1"

definition handleIngredientChange :: "nat \<Rightarrow> ing_field \<Rightarrow> string \<Rightarrow> ingredient list \<Rightarrow> ingredient list" where
  "handleIngredientChange index field v ings =
     (let i1 = (case field of IMaterialId \<Rightarrow> (ings ! index)\<lparr>ing_materialId := v\<rparr>
                | IQuantity \<Rightarrow> (ings ! index)\<lparr>ing_quantity := JStr v\<rparr>);
          i2 = (if field = IMaterialId
                then (case find (\<lambda>m. rm_id m = v) rawMaterials of None \<Rightarrow> i1
                      | Some m \<Rightarrow> i1\<lparr>ing_material := rm_name m, ing_purchaseUnit := rm_purchaseUnit m,
                                    ing_usageUnit := (if rm_usageUnit m \<noteq> [] then rm_usageUnit m else rm_purchaseUnit m),
                                    ing_conversionFactor := js_or (Some (rm_conversionFactor m)) 1,
                                    ing_unitCost := js_or (Some (rm_unitCost m)) 0\<rparr>)
                else i1);
          i3 = (if field = IQuantity then i2\<lparr>ing_totalCost := ingredient_cost i2\<rparr> else i2)
      in ings[index := i3])"

definition removeIngredient :: "nat \<Rightarrow> ingredient list \<Rightarrow> ingredient list" where
  "removeIngredient index ings =
     (if length ings > 1 then map snd (filter (\<lambda>(i, _). i \<noteq> index) (enumerate 0 ings)) else ings)"

text \<open>\<open>calculateTotalCost\<close>, the body of the recomputation effect.\<close>

definition calculateTotalCost :: "recipe \<Rightarrow> recipe" where
  "calculateTotalCost f =
     (let totalCost = js_sum (\<lambda>i. js_or (Some (ing_totalCost i)) 0) (ingredients f);
          sp = js_or (Some (sellingPrice f)) 0;
          margin = (if sp > 0 then (sp - totalCost) / sp * 100 else 0)
      in f\<lparr>rc_totalCost := totalCost, profitMargin := margin, suggestedPrice := totalCost * (5/2)\<rparr>)"

text \<open>\<open>validateForm\<close>: the keys of the error messages, in the order they are set.\<close>

definition validateForm :: "recipe \<Rightarrow> string list" where
  "validateForm f =
     (if menuItemId f = [] then [''menuItem''] else []) @
     (if js_trim (rc_description f) = [] then [''description''] else []) @
     (if servingSize f \<le> 0 then [''servingSize''] else []) @
     concat (map (\<lambda>(index, i).
        (if ing_materialId i = [] then [''ingredient_'' @ show_nat index @ ''_material''] else []) @
        (if \<not> js_truthy (ing_quantity i) \<or> (case js_parseFloat (ing_quantity i) of Some x \<Rightarrow> x \<le> 0 | None \<Rightarrow> False)
         then [''ingredient_'' @ show_nat index @ ''_quantity''] else []))
       (enumerate 0 (ingredients f))) @
     (if js_trim (instructions f) = [] then [''instructions''] else [])"

definition getProfitMarginColor :: "rat \<Rightarrow> band" where
  "getProfitMarginColor margin =
     (if margin \<ge> 60 then BandSuccess else if margin \<ge> 40 then BandWarning else BandError)"

datatype editor_event =
    MenuItemSel string | ServingInput string | DescInput string | PrepInput string | CookInput string
  | DifficultySel string | IngInput nat ing_field string | AddIng nat | RemoveIng nat
  | InstrInput string | PriceInput string | ResetBtn nat

text \<open>
  One input event of the editor, followed by the recomputation effect when its
  dependencies changed: every ingredient handler and the reset build a new ingredient
  list; the serving size is compared by value.  The selling price and the menu item are
  not dependencies.
\<close>

fun editor_input :: "recipe \<Rightarrow> editor_event \<Rightarrow> recipe \<times> bool" where
  "editor_input f (MenuItemSel v) = (handleMenuItemChange v f, False)"
| "editor_input f (ServingInput v) = (f\<lparr>servingSize := (case parseInt_str v of Some n \<Rightarrow> if n \<noteq> 0 then n else 1 | None \<Rightarrow> 1)\<rparr>, False)"
| "editor_input f (DescInput v) = (f\<lparr>rc_description := v\<rparr>, False)"
| "editor_input f (PrepInput v) = (f\<lparr>prepTime := JStr v\<rparr>, False)"
| "editor_input f (CookInput v) = (f\<lparr>cookTime := JStr v\<rparr>, False)"
| "editor_input f (DifficultySel v) = (f\<lparr>difficulty := v\<rparr>, False)"
| "editor_input f (IngInput index field v) =
     (if index < length (ingredients f) then (f\<lparr>ingredients := handleIngredientChange index field v (ingredients f)\<rparr>, True)
      else (f, False))"
| "editor_input f (AddIng now) = (f\<lparr>ingredients := ingredients f @ [blank_ingredient now]\<rparr>, True)"
| "editor_input f (RemoveIng index) =
     (if 1 < length (ingredients f) \<and> index < length (ingredients f)
      then (f\<lparr>ingredients := removeIngredient index (ingredients f)\<rparr>, True) else (f, False))"
| "editor_input f (InstrInput v) = (f\<lparr>instructions := v\<rparr>, False)"
| "editor_input f (PriceInput v) = (f\<lparr>sellingPrice := js_or (parseFloat_str v) 0\<rparr>, False)"
| "editor_input f (ResetBtn now) = (empty_form now, True)"

definition editor_step :: "recipe \<Rightarrow> editor_event \<Rightarrow> recipe" where
  "editor_step f e =
     (let (f', newList) = editor_input f e
      in if newList \<or> servingSize f' \<noteq> servingSize f then calculateTotalCost f' else f')"

subsection \<open>The cost analysis dialog and the list\<close>

definition calculateCostPerServing :: "recipe \<Rightarrow> rat" where
  "calculateCostPerServing r = rc_totalCost r / of_int (if servingSize r \<noteq> 0 then servingSize r else 1)"

definition calculateIngredientPercentage :: "recipe \<Rightarrow> rat \<Rightarrow> rat" where
  "calculateIngredientPercentage r ingredientCost =
     (if rc_totalCost r > 0 then ingredientCost / rc_totalCost r * 100 else 0)"

text \<open>
  \<open>getRecommendations\<close>, by the titles of the recommendations: low margin, high margin,
  and the most expensive ingredient above 30\% of the cost (the comparator
  \<open>b.totalCost - a.totalCost\<close> is consistent, so the stable sort is \<open>sort_key\<close>).
\<close>

definition getRecommendations :: "recipe \<Rightarrow> string list" where
  "getRecommendations r =
     (if profitMargin r < 40 then [''Margin Keuntungan Rendah''] else []) @
     (if profitMargin r > 80 then [''Margin Keuntungan Tinggi''] else []) @
     (case sort_key (\<lambda>i. - ing_totalCost i)
             (filter (\<lambda>i. calculateIngredientPercentage r (ing_totalCost i) > 30) (ingredients r)) of
        [] \<Rightarrow> [] | i # _ \<Rightarrow> [''Bahan Berbiaya Tinggi: '' @ ing_material i])"

text \<open>
  The dialog's ingredient table renders \<open>recipe.ingredients.sort((a, b) => b.totalCost -
  a.totalCost)\<close>: \<open>Array.prototype.sort\<close> sorts the array in place, and the dialog's
  recipe is the editor's \<open>formData\<close> object (\<open>onCostAnalysis(formData)\<close>), so rendering
  the dialog reorders the editor's own ingredient list.
\<close>

definition ing_cost_cmp :: "ingredient \<Rightarrow> ingredient \<Rightarrow> int" where
  "ing_cost_cmp a b =
     (let d = ing_totalCost b - ing_totalCost a in if d < 0 then -1 else if 0 < d then 1 else 0)"

definition sort_ingredients :: "recipe \<Rightarrow> recipe" where
  "sort_ingredients r = r\<lparr>ingredients := js_sort ing_cost_cmp (ingredients r)\<rparr>"

text \<open>The in-place sort as every holder of array \<open>a\<close> sees it.\<close>

definition share_sort :: "nat \<Rightarrow> recipe \<Rightarrow> recipe" where
  "share_sort a r = (if ing_arr r = a then sort_ingredients r else r)"

definition filteredRecipes :: "string \<Rightarrow> recipe list \<Rightarrow> recipe list" where
  "filteredRecipes searchTerm rs =
     filter (\<lambda>r. js_includes (js_lower (menuItem r)) (js_lower searchTerm) \<or>
                 (\<exists>i\<in>set (ingredients r). js_includes (js_lower (ing_material i)) (js_lower searchTerm))) rs"

subsection \<open>The page\<close>

record recipe_page =
  recipes :: "recipe list"
  selectedRecipe :: "recipe option"
  isLoading :: bool
  pending_saves :: "recipe list"
  formData :: recipe
  errors :: "string list"
  costAnalysisOpen :: bool
  analysisRecipe :: "recipe option"
  next_arr :: nat

definition recipe_init :: recipe_page where
  "recipe_init = \<lparr>recipes = initial_recipes, selectedRecipe = None, isLoading = False, pending_saves = [],
     formData = calculateTotalCost (empty_form 0), errors = [], costAnalysisOpen = False, analysisRecipe = None,
     next_arr = 3\<rparr>"

text \<open>
  The editor's \<open>[recipe]\<close> effect after a change of the selected recipe: load it (the
  errors of the previous form stay) or reset the form (errors cleared); the new ingredient
  list then triggers the recomputation.
\<close>

text \<open>The form gets a recipe whose ingredient list is a new array.\<close>

definition new_list :: "recipe \<Rightarrow> recipe_page \<Rightarrow> recipe_page" where
  "new_list f s = s\<lparr>formData := f\<lparr>ing_arr := next_arr s\<rparr>, next_arr := Suc (next_arr s)\<rparr>"

definition editor_sync :: "recipe option \<Rightarrow> nat \<Rightarrow> recipe_page \<Rightarrow> recipe_page" where
  "editor_sync old now s =
     (if selectedRecipe s = old then s else
      case selectedRecipe s of
        Some r \<Rightarrow> (if ingredients r \<noteq> [] then s\<lparr>formData := calculateTotalCost (load_recipe r now)\<rparr>
                  else new_list (calculateTotalCost (load_recipe r now)) s)
      | None \<Rightarrow> (new_list (calculateTotalCost (empty_form now)) s)\<lparr>errors := []\<rparr>)"

text \<open>\<open>handleSave\<close> of the editor and the first half of \<open>handleSaveRecipe\<close>.\<close>

definition handleSave :: "nat \<Rightarrow> string \<Rightarrow> recipe_page \<Rightarrow> recipe_page" where
  "handleSave now stamp s =
     (let errs = validateForm (formData s) in
      if errs = [] then
        (let s1 = s\<lparr>isLoading := True, pending_saves := pending_saves s @ [(formData s)\<lparr>lastModified := stamp\<rparr>]\<rparr>
         in if selectedRecipe s = None then (new_list (calculateTotalCost (empty_form now)) s1)\<lparr>errors := []\<rparr>
            else s1\<lparr>errors := []\<rparr>)
      else s\<lparr>errors := errs\<rparr>)"

text \<open>The timer of \<open>handleSaveRecipe\<close>: update by id, or add the new recipe and select it.\<close>

definition save_timer :: "nat \<Rightarrow> string \<Rightarrow> recipe_page \<Rightarrow> recipe_page" where
  "save_timer now stamp s =
     (case pending_saves s of [] \<Rightarrow> s
      | d # rest \<Rightarrow>
          (case rc_id d of
             Some rid \<Rightarrow> s\<lparr>recipes := map (\<lambda>r. if rc_id r = Some rid then d else r) (recipes s),
                          isLoading := False, pending_saves := rest\<rparr>
           | None \<Rightarrow> (let newRecipe = d\<lparr>rc_id := Some (''recipe-'' @ show_nat now), lastModified := stamp\<rparr>
                      in s\<lparr>recipes := newRecipe # recipes s, selectedRecipe := Some newRecipe,
                           isLoading := False, pending_saves := rest\<rparr>)))"

definition handleDeleteRecipe :: "string \<Rightarrow> bool \<Rightarrow> recipe_page \<Rightarrow> recipe_page" where
  "handleDeleteRecipe recipeId confirmed s =
     (if confirmed then
        s\<lparr>recipes := filter (\<lambda>r. rc_id r \<noteq> Some recipeId) (recipes s),
          selectedRecipe := (if map_option rc_id (selectedRecipe s) = Some (Some recipeId) then None else selectedRecipe s)\<rparr>
      else s)"

definition handleDuplicateRecipe :: "recipe \<Rightarrow> nat \<Rightarrow> string \<Rightarrow> recipe_page \<Rightarrow> recipe_page" where
  "handleDuplicateRecipe r now stamp s =
     (let dup = r\<lparr>rc_id := Some (''recipe-'' @ show_nat now), menuItem := menuItem r @ '' (Copy)'', lastModified := stamp\<rparr>
      in s\<lparr>recipes := dup # recipes s, selectedRecipe := Some dup\<rparr>)"

datatype recipe_event =
    SelectRecipe string | NewRecipe | DeleteRecipe string bool | DuplicateRecipe string nat string
  | EditorE editor_event | SaveClick nat string | SaveTimer nat string
  | OpenCostAnalysis | CloseCostAnalysis

definition find_recipe :: "string \<Rightarrow> recipe_page \<Rightarrow> recipe option" where
  "find_recipe rid s = find (\<lambda>r. rc_id r = Some rid) (recipes s)"

text \<open>
  One event on the page (\<open>recipe_step\<close> adds the editor's load effect).  The cost-analysis
  dialog covers the page while it is open; the timer fires regardless.  An editor input
  that builds a new ingredients array gives the form a fresh identity (\<open>new_list\<close>);
  opening the analysis sorts the form's array in place, so every holder of it changes.
\<close>

fun recipe_handle :: "recipe_page \<Rightarrow> recipe_event \<Rightarrow> recipe_page" where
  "recipe_handle s (SaveTimer now stamp) = save_timer now stamp s"
| "recipe_handle s CloseCostAnalysis = s\<lparr>costAnalysisOpen := False\<rparr>"
| "recipe_handle s e =
     (if costAnalysisOpen s then s else
      case e of
        SelectRecipe rid \<Rightarrow> (case find_recipe rid s of Some r \<Rightarrow> s\<lparr>selectedRecipe := Some r\<rparr> | None \<Rightarrow> s)
      | NewRecipe \<Rightarrow> s\<lparr>selectedRecipe := None\<rparr>
      | DeleteRecipe rid c \<Rightarrow> (if find_recipe rid s \<noteq> None then handleDeleteRecipe rid c s else s)
      | DuplicateRecipe rid now stamp \<Rightarrow>
          (case find_recipe rid s of Some r \<Rightarrow> handleDuplicateRecipe r now stamp s | None \<Rightarrow> s)
      | EditorE ee \<Rightarrow> (if snd (editor_input (formData s) ee) then new_list (editor_step (formData s) ee) s
                       else s\<lparr>formData := editor_step (formData s) ee\<rparr>)
      | SaveClick now stamp \<Rightarrow> handleSave now stamp s
      | OpenCostAnalysis \<Rightarrow> (let upd = share_sort (ing_arr (formData s))
                             in s\<lparr>costAnalysisOpen := True, analysisRecipe := Some (upd (formData s)),
                                  formData := upd (formData s), recipes := map upd (recipes s),
                                  selectedRecipe := map_option upd (selectedRecipe s),
                                  pending_saves := map upd (pending_saves s)\<rparr>)
      | _ \<Rightarrow> s)"

text \<open>
  The load effect depends on the \<open>recipe\<close> object.  The model compares the selected
  recipe by value, except after the cost analysis's in-place sort, which reorders the
  selected recipe's array but leaves the object the same, so the effect does not run.
\<close>

definition recipe_step :: "nat \<Rightarrow> recipe_page \<Rightarrow> recipe_event \<Rightarrow> recipe_page" where
  "recipe_step now s e =
     (if e = OpenCostAnalysis then recipe_handle s e else editor_sync (selectedRecipe s) now (recipe_handle s e))"

definition recipe_run :: "nat \<Rightarrow> recipe_page \<Rightarrow> recipe_event list \<Rightarrow> recipe_page" where
  "recipe_run now s es = foldl (recipe_step now) s es"

subsection \<open>The spec's RecipeCostEngine\<close>

record cost_result =
  cr_totalCost :: rat
  cr_costPerServing :: "rat option"
  cr_profitMarginPct :: rat
  cr_suggestedPrice :: rat

definition spec_cost :: "ingredient list \<Rightarrow> int \<Rightarrow> rat \<Rightarrow> cost_result" where
  "spec_cost ings serving price =
     (let total = sum_list (map (\<lambda>i. js_or (js_parseFloat (ing_quantity i)) 0 * ing_unitCost i / ing_conversionFactor i) ings)
      in \<lparr>cr_totalCost = total,
          cr_costPerServing = (if serving > 0 then Some (total / of_int serving) else None),
          cr_profitMarginPct = (if price > 0 then (price - total) / price * 100 else 0),
          cr_suggestedPrice = total * (5/2)\<rparr>)"

text \<open>
  Invariants: an ingredient whose stored cost is its computed cost, and a page whose
  recipes and pending saves all pass validation.
\<close>

definition ing_ok :: "ingredient \<Rightarrow> bool" where
  "ing_ok i = (ing_conversionFactor i \<noteq> 0 \<and> ing_totalCost i = ingredient_cost i)"

definition recipes_inv :: "recipe_page \<Rightarrow> bool" where
  "recipes_inv s = ((\<forall>r\<in>set (recipes s). validateForm r = []) \<and> (\<forall>d\<in>set (pending_saves s). validateForm d = []))"

subsection \<open>Properties\<close>

lemma calculateTotalCost_fields [simp]:
  "ingredients (calculateTotalCost f) = ingredients f"
  "sellingPrice (calculateTotalCost f) = sellingPrice f"
  "servingSize (calculateTotalCost f) = servingSize f"
  "ing_arr (calculateTotalCost f) = ing_arr f"
  by (simp_all add: calculateTotalCost_def Let_def)

lemma blank_ok [simp]: "ing_ok (blank_ingredient now)"
  by (simp add: ing_ok_def blank_ingredient_def ingredient_cost_def)

lemma set_removeIngredient: "set (removeIngredient i xs) \<subseteq> set xs"
proof -
  have "set (map snd (filter (\<lambda>(j, _). j \<noteq> i) (enumerate n xs))) \<subseteq> set xs" for n
    by (induction xs arbitrary: n) auto
  then show ?thesis by (auto simp: removeIngredient_def)
qed

lemma quantity_change_ok:
  "\<forall>i\<in>set ings. ing_ok i \<Longrightarrow> index < length ings \<Longrightarrow>
   \<forall>i\<in>set (handleIngredientChange index IQuantity v ings). ing_ok i"
  by (auto simp: handleIngredientChange_def Let_def ing_ok_def ingredient_cost_def dest!: subsetD [OF set_update_subset_insert])

lemma ing_ok_preserved:
  assumes "\<forall>i\<in>set (ingredients f). ing_ok i" and "\<forall>index v. e \<noteq> IngInput index IMaterialId v"
  shows "\<forall>i\<in>set (ingredients (editor_step f e)). ing_ok i"
proof (cases e)
  case (IngInput index field v)
  then show ?thesis using assms quantity_change_ok [OF assms(1)]
    by (cases field) (auto simp: editor_step_def Let_def)
next
  case (RemoveIng index)
  then show ?thesis using assms set_removeIngredient [of index "ingredients f"]
    by (auto simp: editor_step_def Let_def)
next
  case (ResetBtn now)
  then show ?thesis by (simp add: editor_step_def empty_form_def)
qed (use assms in \<open>auto simp: editor_step_def handleMenuItemChange_def Let_def split: option.splits\<close>)

lemma validateForm_meta [simp]:
  "validateForm (r\<lparr>lastModified := x\<rparr>) = validateForm r"
  "validateForm (r\<lparr>rc_id := y\<rparr>) = validateForm r"
  "validateForm (r\<lparr>menuItem := z\<rparr>) = validateForm r"
  by (simp_all add: validateForm_def)

lemma ing_errors_Nil:
  "(concat (map (\<lambda>(index, i). (if ing_materialId i = [] then [a index] else []) @ (if q i then [b index] else []))
            (enumerate n xs)) = []) = (\<forall>i\<in>set xs. ing_materialId i \<noteq> [] \<and> \<not> q i)"
  by (induction xs arbitrary: n) auto

lemma validateForm_sort: "(validateForm (sort_ingredients r) = []) = (validateForm r = [])"
  by (simp add: validateForm_def sort_ingredients_def ing_errors_Nil del: concat_eq_Nil_conv)

lemma valid_share_sort: "validateForm r = [] \<Longrightarrow> validateForm (share_sort a r) = []"
  by (simp add: share_sort_def validateForm_sort)

lemma new_list_fields [simp]:
  "recipes (new_list f s) = recipes s" "pending_saves (new_list f s) = pending_saves s"
  "selectedRecipe (new_list f s) = selectedRecipe s" "costAnalysisOpen (new_list f s) = costAnalysisOpen s"
  "errors (new_list f s) = errors s" "isLoading (new_list f s) = isLoading s"
  "analysisRecipe (new_list f s) = analysisRecipe s"
  by (simp_all add: new_list_def)

lemma editor_sync_inv [simp]:
  "recipes (editor_sync old now s) = recipes s \<and> pending_saves (editor_sync old now s) = pending_saves s"
  by (simp add: editor_sync_def split: option.splits)

lemma find_recipe_valid: "recipes_inv s \<Longrightarrow> find_recipe rid s = Some r \<Longrightarrow> validateForm r = []"
  unfolding recipes_inv_def find_recipe_def by (auto dest: find_SomeD)

lemma save_timer_inv: "recipes_inv s \<Longrightarrow> recipes_inv (save_timer now stamp s)"
  by (auto simp: recipes_inv_def save_timer_def Let_def split: list.splits option.splits)

lemma handleSave_inv: "recipes_inv s \<Longrightarrow> recipes_inv (handleSave now stamp s)"
  by (auto simp: recipes_inv_def handleSave_def Let_def)

lemma recipe_step_inv: "recipes_inv s \<Longrightarrow> recipes_inv (recipe_step now s e)"
proof -
  assume i: "recipes_inv s"
  have "recipes_inv (recipe_handle s e)"
  proof (cases e)
    case (DuplicateRecipe rid n stamp)
    then show ?thesis using i find_recipe_valid [OF i, of rid]
      by (auto simp: handleDuplicateRecipe_def recipes_inv_def Let_def split: option.splits)
  next
    case (SaveClick n stamp)
    then show ?thesis using i by (simp add: handleSave_inv)
  next
    case (SaveTimer n stamp)
    then show ?thesis using i by (simp add: save_timer_inv)
  next
    case (DeleteRecipe rid c)
    then show ?thesis using i by (auto simp: handleDeleteRecipe_def recipes_inv_def)
  next
    case OpenCostAnalysis
    then show ?thesis using i by (auto simp: recipes_inv_def Let_def valid_share_sort)
  qed (use i in \<open>auto simp: recipes_inv_def save_timer_inv handleSave_inv Let_def split: option.splits\<close>)
  then show ?thesis by (simp add: recipe_step_def recipes_inv_def)
qed

text \<open>
  C10: The selling price is not a dependency of the recomputation effect: typing a selling
  price, or choosing a menu item (which sets the selling price from the menu), leaves the
  displayed profit margin as it was, although the spec's RecipeCostEngine is to be
  recomputed whenever the selling price changes.
\<close>

theorem price_not_recomputed:
  "profitMargin (editor_step f (PriceInput v)) = profitMargin f \<and>
   sellingPrice (editor_step f (PriceInput v)) = js_or (parseFloat_str v) 0 \<and>
   profitMargin (editor_step f (MenuItemSel m)) = profitMargin f"
  by (simp add: editor_step_def handleMenuItemChange_def split: option.splits)

text \<open>
  C9: The recomputation implements the spec's RecipeCostEngine: when every ingredient's
  stored cost is its quantity times unit cost over conversion factor, the editor's total
  cost, profit margin and suggested price are the spec's.
\<close>

theorem recalc_refines_spec:
  assumes "\<forall>i\<in>set (ingredients f). ing_ok i"
  shows "rc_totalCost (calculateTotalCost f) = cr_totalCost (spec_cost (ingredients f) (servingSize f) (sellingPrice f)) \<and>
         profitMargin (calculateTotalCost f) = cr_profitMarginPct (spec_cost (ingredients f) (servingSize f) (sellingPrice f)) \<and>
         suggestedPrice (calculateTotalCost f) = cr_suggestedPrice (spec_cost (ingredients f) (servingSize f) (sellingPrice f))"
proof -
  have m: "map ing_totalCost (ingredients f) =
        map (\<lambda>i. js_or (js_parseFloat (ing_quantity i)) 0 * ing_unitCost i / ing_conversionFactor i) (ingredients f)"
    using assms by (auto simp: ing_ok_def ingredient_cost_def)
  show ?thesis by (simp add: calculateTotalCost_def spec_cost_def Let_def m)
qed

text \<open>
  Choosing an ingredient's material after typing its quantity does not recompute the
  ingredient's cost: on the new-recipe form, quantity 150 then Beras Premium leaves the
  total cost at 0 where the spec gives 1800.
\<close>

theorem material_choice_stale:
  "rc_totalCost (formData (recipe_run 5 recipe_init [EditorE (IngInput 0 IQuantity ''150''), EditorE (IngInput 0 IMaterialId ''raw-001'')])) = 0 \<and>
   cr_totalCost (spec_cost (ingredients (formData (recipe_run 5 recipe_init [EditorE (IngInput 0 IQuantity ''150''), EditorE (IngInput 0 IMaterialId ''raw-001'')]))) 1 0) = 1800"
  by code_simp

text \<open>
  C11: Every recipe in the page's list passes the editor's validation, on every run from the
  initial page: saves go through \<open>validateForm\<close>, duplicates copy valid recipes, and
  the timer stores only what was validated.
\<close>

theorem recipes_valid:
  "\<forall>r\<in>set (recipes (recipe_run now recipe_init es)). validateForm r = []"
proof -
  have "recipes_inv recipe_init"
    by (simp add: recipes_inv_def recipe_init_def initial_recipes_def) code_simp
  then have "recipes_inv (foldl (recipe_step now) recipe_init es)"
    by (induction es rule: rev_induct) (simp_all add: recipe_step_inv)
  then show ?thesis by (simp add: recipes_inv_def recipe_run_def)
qed

theorem recalc_refines_spec_witness:
  "rc_totalCost (calculateTotalCost (initial_recipes ! 0)) =
     cr_totalCost (spec_cost (ingredients (initial_recipes ! 0)) (servingSize (initial_recipes ! 0)) (sellingPrice (initial_recipes ! 0))) \<and>
   profitMargin (calculateTotalCost (initial_recipes ! 0)) =
     cr_profitMarginPct (spec_cost (ingredients (initial_recipes ! 0)) (servingSize (initial_recipes ! 0)) (sellingPrice (initial_recipes ! 0))) \<and>
   suggestedPrice (calculateTotalCost (initial_recipes ! 0)) =
     cr_suggestedPrice (spec_cost (ingredients (initial_recipes ! 0)) (servingSize (initial_recipes ! 0)) (sellingPrice (initial_recipes ! 0)))"
  by (rule recalc_refines_spec) (simp add: initial_recipes_def ing_ok_def ingredient_cost_def mk_ing_def)

theorem recipes_valid_witness:
  "validateForm (hd (recipes (recipe_run 5 recipe_init [DuplicateRecipe ''recipe-002'' 9 ''2025-02-01'']))) = []"
proof -
  have "recipes (recipe_run 5 recipe_init [DuplicateRecipe ''recipe-002'' 9 ''2025-02-01'']) \<noteq> []"
    by (simp add: recipe_run_def recipe_step_def recipe_init_def editor_sync_def find_recipe_def handleDuplicateRecipe_def
        Let_def initial_recipes_def split: option.splits)
  then show ?thesis using recipes_valid [of 5 "[DuplicateRecipe ''recipe-002'' 9 ''2025-02-01'']"] by simp
qed

end
