(* ===== verification/TestRecipe.thy ===== *)
theory TestRecipe
  imports Recipe
begin

text \<open>
  The recipe test dialog (src/src/pages/recipe-management/components/TestRecipeModal.jsx)
  and the page state that opens it (\<open>testRecipeOpen\<close>, \<open>testRecipe\<close>,
  \<open>handleTestRecipe\<close> and \<open>handleSubmitTest\<close> of pages/recipe-management/index.jsx).  The
  dialog stays mounted while closed, so its form survives closing; only a submit resets it.
  \<open>today\<close> is \<open>new Date().toISOString().split('T')[0]\<close> and \<open>now\<close> is \<open>Date.now()\<close>.
\<close>

record actual_time =
  at_prep :: string
  at_cook :: string

record test_ratings =
  taste :: int
  appearance :: int
  texture :: int
  aroma :: int
  overall :: int

record test_data =
  testerName :: string
  testDate :: string
  portionsTested :: int
  actualTime :: actual_time
  td_ratings :: test_ratings
  td_notes :: string
  issues :: "string list"
  td_suggestions :: string
  wouldRecommend :: bool

text \<open>The submitted result is \<open>{...testData, recipeId, recipeName, testId, submittedAt}\<close>.\<close>

record test_result = test_data +
  recipeId :: "string option"
  recipeName :: string
  testId :: nat
  submittedAt :: string

definition initial_test_data :: "string \<Rightarrow> test_data" where
  "initial_test_data today =
     \<lparr>testerName = [], testDate = today, portionsTested = 1, actualTime = \<lparr>at_prep = [], at_cook = []\<rparr>,
      td_ratings = \<lparr>taste = 5, appearance = 5, texture = 5, aroma = 5, overall = 5\<rparr>,
      td_notes = [], issues = [], td_suggestions = [], wouldRecommend = True\<rparr>"

definition commonIssues :: "string list" where
  "commonIssues =
    [''Terlalu asin'', ''Kurang bumbu'', ''Terlalu matang'', ''Kurang matang'', ''Tekstur tidak sesuai'',
     ''Waktu memasak tidak akurat'', ''Bahan sulit didapat'', ''Instruksi tidak jelas'']"

datatype rating_category = Taste | Appearance | Texture | Aroma | Overall

definition ratingLabels :: "(rating_category \<times> string) list" where
  "ratingLabels = [(Taste, ''Rasa''), (Appearance, ''Penampilan''), (Texture, ''Tekstur''), (Aroma, ''Aroma''),
                   (Overall, ''Keseluruhan'')]"

fun set_rating :: "rating_category \<Rightarrow> int \<Rightarrow> test_ratings \<Rightarrow> test_ratings" where
  "set_rating Taste v r = r\<lparr>taste := v\<rparr>"
| "set_rating Appearance v r = r\<lparr>appearance := v\<rparr>"
| "set_rating Texture v r = r\<lparr>texture := v\<rparr>"
| "set_rating Aroma v r = r\<lparr>aroma := v\<rparr>"
| "set_rating Overall v r = r\<lparr>overall := v\<rparr>"

definition rating_values :: "test_ratings \<Rightarrow> int list" where
  "rating_values r = [taste r, appearance r, texture r, aroma r, overall r]"

subsection \<open>Handlers\<close>

text \<open>A star's value goes through \<open>parseInt\<close>, which keeps an integer as it is.\<close>

definition handleRatingChange :: "rating_category \<Rightarrow> int \<Rightarrow> test_data \<Rightarrow> test_data" where
  "handleRatingChange category value prev = prev\<lparr>td_ratings := set_rating category value (td_ratings prev)\<rparr>"

text \<open>\<open>addIssue\<close> on the dialog's form and the issue input; it clears the input only when it adds.\<close>

definition addIssue :: "string \<Rightarrow> test_data \<times> string \<Rightarrow> test_data \<times> string" where
  "addIssue issue st =
     (if issue \<noteq> [] \<and> issue \<notin> set (issues (fst st))
      then ((fst st)\<lparr>issues := issues (fst st) @ [issue]\<rparr>, [])
      else st)"

definition removeIssue :: "string \<Rightarrow> test_data \<Rightarrow> test_data" where
  "removeIssue issueToRemove prev = prev\<lparr>issues := filter (\<lambda>issue. issue \<noteq> issueToRemove) (issues prev)\<rparr>"

text \<open>The portions input: \<open>parseInt(e.target.value) || 1\<close>.\<close>

definition portions_value :: "string \<Rightarrow> int" where
  "portions_value v = (case parseInt_str v of None \<Rightarrow> 1 | Some n \<Rightarrow> if n = 0 then 1 else n)"

definition averageRating :: "test_data \<Rightarrow> rat" where
  "averageRating td = of_int (sum_list (rating_values (td_ratings td))) / 5"

definition getRatingColor :: "rat \<Rightarrow> string" where
  "getRatingColor rating = (if 4 \<le> rating then ''text-success'' else if 3 \<le> rating then ''text-warning'' else ''text-error'')"

text \<open>The number of lit stars under the average: \<open>star <= Math.round(averageRating)\<close>.\<close>

definition average_stars :: "test_data \<Rightarrow> nat" where
  "average_stars td = length (filter (\<lambda>star. of_nat star \<le> \<lfloor>averageRating td + 1/2\<rfloor>) [1, 2, 3, 4, 5])"

definition make_test_result :: "test_data \<Rightarrow> recipe \<Rightarrow> nat \<Rightarrow> string \<Rightarrow> test_result" where
  "make_test_result td r now stamp =
     test_data.extend td (test_result.fields (rc_id r) (menuItem r) now stamp)"

subsection \<open>The dialog and its page state\<close>

record test_state =
  testRecipeOpen :: bool
  testRecipe :: "recipe option"
  testData :: test_data
  currentIssue :: string
  submitted :: "test_result list"

definition test_init :: "string \<Rightarrow> test_state" where
  "test_init today =
     \<lparr>testRecipeOpen = False, testRecipe = None, testData = initial_test_data today, currentIssue = [],
      submitted = []\<rparr>"

definition handleTestRecipe :: "recipe \<Rightarrow> test_state \<Rightarrow> test_state" where
  "handleTestRecipe r s = s\<lparr>testRecipe := Some r, testRecipeOpen := True\<rparr>"

definition handleSubmitTest :: "test_result \<Rightarrow> test_state \<Rightarrow> test_state" where
  "handleSubmitTest testResult s = s\<lparr>submitted := submitted s @ [testResult]\<rparr>"

text \<open>\<open>handleSubmit\<close>: hand the result to the page, close, reset the form.\<close>

definition test_handleSubmit :: "nat \<Rightarrow> string \<Rightarrow> string \<Rightarrow> recipe \<Rightarrow> test_state \<Rightarrow> test_state" where
  "test_handleSubmit now stamp today r s =
     (handleSubmitTest (make_test_result (testData s) r now stamp) s)\<lparr>testRecipeOpen := False,
        testData := initial_test_data today\<rparr>"

datatype test_event =
    CloseTest
  | TesterInput string
  | DateInput string
  | PortionsInput string
  | PrepInput string
  | CookInput string
  | StarClick rating_category nat
  | IssueInput string
  | IssueAdd
  | CommonIssue string
  | IssueRemove nat
  | NotesInput string
  | SuggestionsInput string
  | RecommendInput bool
  | SubmitTest nat string string

text \<open>
  One control of the shown dialog.  The close and cancel buttons both call \<open>onClose\<close>;
  a star button passes its number 1 to 5; an issue row's remove button passes that row's
  issue; the submit button is disabled while the tester's name is blank after trimming.
\<close>

fun dialog_step :: "recipe \<Rightarrow> test_state \<Rightarrow> test_event \<Rightarrow> test_state" where
  "dialog_step r s CloseTest = s\<lparr>testRecipeOpen := False\<rparr>"
| "dialog_step r s (TesterInput v) = s\<lparr>testData := (testData s)\<lparr>testerName := v\<rparr>\<rparr>"
| "dialog_step r s (DateInput v) = s\<lparr>testData := (testData s)\<lparr>testDate := v\<rparr>\<rparr>"
| "dialog_step r s (PortionsInput v) = s\<lparr>testData := (testData s)\<lparr>portionsTested := portions_value v\<rparr>\<rparr>"
| "dialog_step r s (PrepInput v) =
     s\<lparr>testData := (testData s)\<lparr>actualTime := (actualTime (testData s))\<lparr>at_prep := v\<rparr>\<rparr>\<rparr>"
| "dialog_step r s (CookInput v) =
     s\<lparr>testData := (testData s)\<lparr>actualTime := (actualTime (testData s))\<lparr>at_cook := v\<rparr>\<rparr>\<rparr>"
| "dialog_step r s (StarClick c star) =
     (if 1 \<le> star \<and> star \<le> 5 then s\<lparr>testData := handleRatingChange c (int star) (testData s)\<rparr> else s)"
| "dialog_step r s (IssueInput v) = s\<lparr>currentIssue := v\<rparr>"
| "dialog_step r s IssueAdd =
     (let (td, ci) = addIssue (currentIssue s) (testData s, currentIssue s) in s\<lparr>testData := td, currentIssue := ci\<rparr>)"
| "dialog_step r s (CommonIssue i) =
     (if i \<in> set commonIssues
      then (let (td, ci) = addIssue i (testData s, currentIssue s) in s\<lparr>testData := td, currentIssue := ci\<rparr>)
      else s)"
| "dialog_step r s (IssueRemove k) =
     (if k < length (issues (testData s)) then s\<lparr>testData := removeIssue (issues (testData s) ! k) (testData s)\<rparr> else s)"
| "dialog_step r s (NotesInput v) = s\<lparr>testData := (testData s)\<lparr>td_notes := v\<rparr>\<rparr>"
| "dialog_step r s (SuggestionsInput v) = s\<lparr>testData := (testData s)\<lparr>td_suggestions := v\<rparr>\<rparr>"
| "dialog_step r s (RecommendInput b) = s\<lparr>testData := (testData s)\<lparr>wouldRecommend := b\<rparr>\<rparr>"
| "dialog_step r s (SubmitTest now stamp today) =
     (if js_trim (testerName (testData s)) \<noteq> [] then test_handleSubmit now stamp today r s else s)"

text \<open>The dialog renders nothing unless \<open>isOpen && recipe\<close>.\<close>

definition test_visible :: "test_state \<Rightarrow> bool" where
  "test_visible s = (testRecipeOpen s \<and> testRecipe s \<noteq> None)"

definition test_step :: "test_state \<Rightarrow> test_event \<Rightarrow> test_state" where
  "test_step s e = (case (testRecipeOpen s, testRecipe s) of (True, Some r) \<Rightarrow> dialog_step r s e | _ \<Rightarrow> s)"

subsection \<open>The recipe page with its test dialog\<close>

datatype page_test_event = PageE recipe_event | TestBtn | TestE test_event

text \<open>
  The page and the dialog side by side.  The editor's \<open>Test Resep\<close> button, shown while a
  recipe is selected, opens the dialog on the editor's form (\<open>onTestRecipe(formData)\<close>).
  The shown dialog covers the page, as the cost-analysis dialog does; the save timer fires
  regardless.
\<close>

fun page_test_step :: "nat \<Rightarrow> recipe_page \<times> test_state \<Rightarrow> page_test_event \<Rightarrow> recipe_page \<times> test_state" where
  "page_test_step now (p, t) (PageE e) =
     (if test_visible t \<and> (case e of SaveTimer _ _ \<Rightarrow> False | _ \<Rightarrow> True) then (p, t) else (recipe_step now p e, t))"
| "page_test_step now (p, t) TestBtn =
     (if \<not> test_visible t \<and> \<not> costAnalysisOpen p \<and> selectedRecipe p \<noteq> None
      then (p, handleTestRecipe (formData p) t) else (p, t))"
| "page_test_step now (p, t) (TestE e) = (p, test_step t e)"

definition page_test_run :: "nat \<Rightarrow> recipe_page \<times> test_state \<Rightarrow> page_test_event list \<Rightarrow> recipe_page \<times> test_state" where
  "page_test_run now st es = foldl (page_test_step now) st es"

subsection \<open>The dialog's invariant\<close>

definition rating_ok :: "test_ratings \<Rightarrow> bool" where
  "rating_ok r = list_all (\<lambda>v. 1 \<le> v \<and> v \<le> 5) (rating_values r)"

definition issues_ok :: "string list \<Rightarrow> bool" where
  "issues_ok is = (distinct is \<and> [] \<notin> set is)"

definition test_inv :: "test_state \<Rightarrow> bool" where
  "test_inv t = (rating_ok (td_ratings (testData t)) \<and> issues_ok (issues (testData t)))"

lemma rating_ok_set_rating: "rating_ok r \<Longrightarrow> 1 \<le> v \<Longrightarrow> v \<le> 5 \<Longrightarrow> rating_ok (set_rating c v r)"
  by (cases c) (simp_all add: rating_ok_def rating_values_def)

lemma issues_addIssue:
  "issues_ok (issues (fst st)) \<Longrightarrow> issues_ok (issues (fst (addIssue i st)))"
  "td_ratings (fst (addIssue i st)) = td_ratings (fst st)"
  by (auto simp: addIssue_def issues_ok_def)

lemma issues_removeIssue: "issues_ok (issues td) \<Longrightarrow> issues_ok (issues (removeIssue i td))"
  by (simp add: removeIssue_def issues_ok_def)

lemma test_inv_initial [simp]: "test_inv (t\<lparr>testData := initial_test_data today\<rparr>)"
  by (simp add: test_inv_def initial_test_data_def rating_ok_def rating_values_def issues_ok_def)

lemma test_inv_init: "test_inv (test_init today)"
  using test_inv_initial [where t = "test_init today"] by (simp add: test_init_def)

lemma addIssue_step_inv:
  "test_inv s \<Longrightarrow> addIssue i (testData s, c) = (td, ci) \<Longrightarrow> test_inv (s\<lparr>testData := td, currentIssue := ci\<rparr>)"
  using issues_addIssue [where st = "(testData s, c)" and i = i] by (simp add: test_inv_def)

lemma dialog_step_inv: "test_inv s \<Longrightarrow> test_inv (dialog_step r s e)"
proof (cases e)
  case (StarClick c star)
  then show ?thesis if "test_inv s"
    using that rating_ok_set_rating [of "td_ratings (testData s)" "int star" c]
    by (simp add: test_inv_def handleRatingChange_def)
next
  case IssueAdd
  then show ?thesis if "test_inv s"
    using that addIssue_step_inv by (simp split: prod.split)
next
  case (CommonIssue i)
  then show ?thesis if "test_inv s"
    using that addIssue_step_inv by (simp split: prod.split)
next
  case (IssueRemove k)
  then show ?thesis if "test_inv s"
    using that issues_removeIssue by (simp add: test_inv_def removeIssue_def)
next
  case (SubmitTest now stamp today)
  then show ?thesis if "test_inv s"
    using that by (simp add: test_handleSubmit_def handleSubmitTest_def)
qed (simp_all add: test_inv_def)

lemma test_step_inv: "test_inv s \<Longrightarrow> test_inv (test_step s e)"
  by (simp add: test_step_def dialog_step_inv split: bool.split option.split)

lemma page_test_step_inv: "test_inv (snd st) \<Longrightarrow> test_inv (snd (page_test_step now st e))"
proof (cases e)
  case TestBtn
  then show ?thesis if "test_inv (snd st)" using that by (cases st) (simp add: handleTestRecipe_def test_inv_def)
qed (cases st; simp add: test_step_inv)+

lemma page_test_run_inv: "test_inv (snd st) \<Longrightarrow> test_inv (snd (page_test_run now st es))"
  unfolding page_test_run_def by (induction es arbitrary: st) (simp_all add: page_test_step_inv)

lemma averageRating_bounds: "rating_ok (td_ratings td) \<Longrightarrow> 1 \<le> averageRating td \<and> averageRating td \<le> 5"
  by (simp add: rating_ok_def rating_values_def averageRating_def)

lemma stars_count: "1 \<le> k \<Longrightarrow> k \<le> 5 \<Longrightarrow> length (filter (\<lambda>star. int star \<le> k) [1, 2, 3, 4, 5]) = nat k"
proof -
  assume "1 \<le> k" "k \<le> 5"
  then have "k \<in> {1, 2, 3, 4, 5}" by auto
  then show ?thesis by auto
qed

lemma page_events_closed:
  "\<not> test_visible t \<Longrightarrow> foldl (page_test_step now) (p, t) (map PageE es) = (recipe_run now p es, t)"
  unfolding recipe_run_def by (induction es arbitrary: p) simp_all

lemma test_close: "test_visible t \<Longrightarrow> page_test_step now (p, t) (TestE CloseTest) = (p, t\<lparr>testRecipeOpen := False\<rparr>)"
  by (auto simp: test_visible_def test_step_def)

lemma selectedRecipe_editor_sync: "selectedRecipe (editor_sync old now s) = selectedRecipe s"
  by (simp add: editor_sync_def split: option.split)

subsection \<open>Properties\<close>

text \<open>
  C29: Whatever the user does on the recipe page and in the test dialog after it mounts,
  every rating of the dialog's form is a whole number of stars from 1 to 5 and its list of
  issues has no duplicate and no empty entry.
\<close>

theorem test_run_inv: "test_inv (snd (page_test_run now (p, test_init today) es))"
  using page_test_run_inv [where st = "(p, test_init today)"] test_inv_init by simp

text \<open>
  The average shown under the ratings always lies between 1 and 5, and the number of
  lit stars beside it is its rounding, between 1 and 5.
\<close>

theorem average_rating_bounds:
  "let td = testData (snd (page_test_run now (p, test_init today) es))
   in 1 \<le> averageRating td \<and> averageRating td \<le> 5 \<and>
      average_stars td = nat \<lfloor>averageRating td + 1/2\<rfloor> \<and> 1 \<le> average_stars td \<and> average_stars td \<le> 5"
proof -
  define td where "td = testData (snd (page_test_run now (p, test_init today) es))"
  have "rating_ok (td_ratings td)"
    using page_test_run_inv [where st = "(p, test_init today)"] test_inv_init by (simp add: td_def test_inv_def)
  then have avg: "1 \<le> averageRating td" "averageRating td \<le> 5" using averageRating_bounds by blast+
  define k where "k = \<lfloor>averageRating td + 1/2\<rfloor>"
  have k: "1 \<le> k" "k \<le> 5" using avg unfolding k_def by linarith+
  then have stars: "average_stars td = nat k"
    unfolding average_stars_def k_def by (rule stars_count)
  have "1 \<le> nat k" "nat k \<le> 5" using k by simp_all
  with avg stars show ?thesis by (simp add: td_def [symmetric] k_def [symmetric])
qed

text \<open>
  Closing or cancelling the dialog keeps everything typed into it: after the user
  closes it, works on the page and opens it again, on this recipe or another one, the form
  and the pending issue text are the ones left behind, and the dialog now shows the
  editor's current recipe.
\<close>

theorem closed_dialog_keeps_form:
  assumes "test_visible t"
    and "page_test_run now (p, t) (TestE CloseTest # map PageE es @ [TestBtn]) = (p', t')"
  shows "testData t' = testData t \<and> currentIssue t' = currentIssue t \<and> p' = recipe_run now p es \<and>
         (selectedRecipe p' \<noteq> None \<and> \<not> costAnalysisOpen p' \<longrightarrow> test_visible t' \<and> testRecipe t' = Some (formData p'))"
proof -
  have closed: "\<not> test_visible (t\<lparr>testRecipeOpen := False\<rparr>)" by (simp add: test_visible_def)
  have "page_test_run now (p, t) (TestE CloseTest # map PageE es @ [TestBtn]) =
        page_test_step now (recipe_run now p es, t\<lparr>testRecipeOpen := False\<rparr>) TestBtn"
    unfolding page_test_run_def foldl_Cons foldl_append test_close [OF assms(1)] page_events_closed [OF closed]
    by simp
  with assms(2) closed show ?thesis
    by (auto simp: handleTestRecipe_def test_visible_def split: if_splits)
qed

theorem closed_dialog_keeps_form_witness:
  "let t = test_step (handleTestRecipe (initial_recipes ! 0) (test_init ''2024-01-15'')) (CommonIssue ''Terlalu asin'');
       p = recipe_init\<lparr>selectedRecipe := Some (initial_recipes ! 0)\<rparr>;
       st = page_test_run 0 (p, t) (TestE CloseTest # map PageE [SelectRecipe ''recipe-002''] @ [TestBtn])
   in test_visible t \<and> st = (fst st, snd st) \<and> issues (testData (snd st)) = [''Terlalu asin''] \<and>
      selectedRecipe (fst st) = Some (initial_recipes ! 1) \<and> testRecipe (snd st) = Some (formData (fst st))"
proof -
  define t where "t = test_step (handleTestRecipe (initial_recipes ! 0) (test_init ''2024-01-15'')) (CommonIssue ''Terlalu asin'')"
  define p where "p = recipe_init\<lparr>selectedRecipe := Some (initial_recipes ! 0)\<rparr>"
  define st where "st = page_test_run 0 (p, t) (TestE CloseTest # map PageE [SelectRecipe ''recipe-002''] @ [TestBtn])"
  have vis: "test_visible t"
    by (simp add: t_def test_visible_def test_step_def handleTestRecipe_def test_init_def addIssue_def split: prod.split)
  have iss: "issues (testData t) = [''Terlalu asin'']"
    by (simp add: t_def test_step_def handleTestRecipe_def test_init_def commonIssues_def addIssue_def initial_test_data_def)
  have sel: "selectedRecipe (recipe_run 0 p [SelectRecipe ''recipe-002'']) = Some (initial_recipes ! 1)"
    by (simp add: recipe_run_def recipe_step_def selectedRecipe_editor_sync p_def recipe_init_def find_recipe_def
        initial_recipes_def)
  have ca: "\<not> costAnalysisOpen (recipe_run 0 p [SelectRecipe ''recipe-002''])"
    by (simp add: recipe_run_def recipe_step_def editor_sync_def p_def recipe_init_def find_recipe_def
        split: option.split)
  note c = closed_dialog_keeps_form [OF vis, of 0 p "[SelectRecipe ''recipe-002'']" "fst st" "snd st", folded st_def]
  show ?thesis
    unfolding Let_def t_def [symmetric] p_def [symmetric] st_def [symmetric]
    using c sel ca iss vis by (simp add: prod_eq_iff)
qed

text \<open>
  An enabled submit hands the page one result, made of the form as typed plus the
  dialog recipe's id and name, closes the dialog and resets the form for the day; while the
  tester's name is blank the submit does nothing.
\<close>

theorem submit_hands_over_form:
  assumes "testRecipeOpen t" and "testRecipe t = Some r"
  shows "page_test_step now (p, t) (TestE (SubmitTest tid stamp today)) =
           (if js_trim (testerName (testData t)) \<noteq> []
            then (p, t\<lparr>testRecipeOpen := False, testData := initial_test_data today,
                        submitted := submitted t @ [make_test_result (testData t) r tid stamp]\<rparr>)
            else (p, t))
         \<and> test_data.truncate (make_test_result (testData t) r tid stamp) = testData t
         \<and> recipeId (make_test_result (testData t) r tid stamp) = rc_id r
         \<and> recipeName (make_test_result (testData t) r tid stamp) = menuItem r"
  using assms
  by (simp add: test_step_def test_handleSubmit_def handleSubmitTest_def make_test_result_def
      test_data.defs test_result.defs)

theorem submit_hands_over_form_witness:
  "let t = test_step (handleTestRecipe (initial_recipes ! 0) (test_init ''2024-01-15'')) (TesterInput ''Budi'')
   in testRecipeOpen t \<and> testRecipe t = Some (initial_recipes ! 0) \<and>
      submitted (snd (page_test_step 0 (recipe_init, t) (TestE (SubmitTest 7 ''2024-01-15T10:00:00.000Z'' ''2024-01-16''))))
        = [make_test_result (testData t) (initial_recipes ! 0) 7 ''2024-01-15T10:00:00.000Z''] \<and>
      testerName (testData t) = ''Budi''"
proof -
  define t where "t = test_step (handleTestRecipe (initial_recipes ! 0) (test_init ''2024-01-15'')) (TesterInput ''Budi'')"
  have o: "testRecipeOpen t" "testRecipe t = Some (initial_recipes ! 0)" "testerName (testData t) = ''Budi''"
    "submitted t = []"
    by (simp_all add: t_def test_step_def handleTestRecipe_def test_init_def)
  have "js_trim ''Budi'' \<noteq> []" by (simp add: js_trim_def js_space_def)
  with submit_hands_over_form [OF o(1,2), of 0 recipe_init 7 "''2024-01-15T10:00:00.000Z''" "''2024-01-16''"] o
  show ?thesis by (simp add: Let_def t_def [symmetric])
qed

text \<open>
  The portions field is \<open>parseInt(value) || 1\<close>: zero and text that is not a number become
  one, but a negative number is kept although the input says \<open>min="1"\<close>.
\<close>

theorem portions_below_min:
  "portions_value ''-3'' = -3 \<and> portions_value ''0'' = 1 \<and> portions_value [] = 1 \<and> portions_value ''2.5'' = 2"
  by (simp add: portions_value_def parseInt_str_def js_space_def is_digit_def digits_val_def)

end
