(* ===== verification/CostAnalysis.thy ===== *)
theory CostAnalysis
  imports Recipe
begin

text \<open>
  The cost analysis dialog (src/src/pages/recipe-management/components/CostAnalysisModal.jsx)
  beyond what Recipe holds (cost per serving, ingredient shares, recommendations, and the
  in-place sort of the editor's ingredients): the summary cards, \<open>formatPercentage\<close>, the
  margin colour and the three comparison prices with their margin labels.
\<close>

definition formatPercentage :: "rat \<Rightarrow> string" where
  "formatPercentage value = toFixed1 value @ ''%''"

text \<open>The margin card's colour.\<close>

definition margin_class :: "rat \<Rightarrow> string" where
  "margin_class m = (if 60 \<le> m then ''text-success'' else if 40 \<le> m then ''text-warning'' else ''text-error'')"

record summary_cards =
  sc_totalCost :: rat
  sc_costPerServing :: rat
  sc_sellingPrice :: rat
  sc_sellingPerServing :: rat
  sc_margin :: string
  sc_profit :: rat
  sc_suggested :: rat

definition summaryCards :: "recipe \<Rightarrow> summary_cards" where
  "summaryCards r =
     \<lparr>sc_totalCost = rc_totalCost r, sc_costPerServing = calculateCostPerServing r,
      sc_sellingPrice = sellingPrice r,
      sc_sellingPerServing = sellingPrice r / of_int (if servingSize r \<noteq> 0 then servingSize r else 1),
      sc_margin = formatPercentage (profitMargin r), sc_profit = sellingPrice r - rc_totalCost r,
      sc_suggested = suggestedPrice r\<rparr>"

text \<open>The comparison cards: price and the margin its label states, in percent.\<close>

definition price_comparison :: "recipe \<Rightarrow> (string \<times> rat \<times> rat) list" where
  "price_comparison r =
     [(''Harga Minimum'', rc_totalCost r * (6/5), 20), (''Harga Optimal'', rc_totalCost r * 2, 50),
      (''Harga Premium'', rc_totalCost r * 3, 67)]"

text \<open>The margin a price gives over a cost, as the editor computes it.\<close>

definition margin_at :: "rat \<Rightarrow> rat \<Rightarrow> rat" where
  "margin_at price cost = (if price > 0 then (price - cost) / price * 100 else 0)"

subsection \<open>What the dialog renders\<close>

datatype rec_type = RecWarning | RecSuccess | RecInfo

text \<open>A recommendation's action: the raise to a price (handed to \<open>formatCurrency\<close>), or a text.\<close>

datatype rec_action = ActRaise rat | ActText string

record recommendation =
  rec_type :: rec_type
  rec_title :: string
  rec_message :: string
  rec_action :: rec_action

text \<open>\<open>getRecommendations\<close> with the whole objects it pushes.\<close>

definition recommendations :: "recipe \<Rightarrow> recommendation list" where
  "recommendations r =
     (if profitMargin r < 40 then
        [\<lparr>rec_type = RecWarning, rec_title = ''Margin Keuntungan Rendah'',
          rec_message = ''Pertimbangkan untuk menaikkan harga jual atau mencari bahan dengan harga lebih murah.'',
          rec_action = ActRaise (rc_totalCost r * (5/2))\<rparr>] else []) @
     (if profitMargin r > 80 then
        [\<lparr>rec_type = RecSuccess, rec_title = ''Margin Keuntungan Tinggi'',
          rec_message = ''Margin keuntungan sangat baik. Pertimbangkan untuk meningkatkan kualitas bahan.'',
          rec_action = ActText ''Pertahankan strategi pricing saat ini''\<rparr>] else []) @
     (case js_sort ing_cost_cmp (filter (\<lambda>i. calculateIngredientPercentage r (ing_totalCost i) > 30) (ingredients r)) of
        [] \<Rightarrow> []
      | i # _ \<Rightarrow>
          [\<lparr>rec_type = RecInfo, rec_title = ''Bahan Berbiaya Tinggi'',
            rec_message = ing_material i @ '' menyumbang '' @
                          formatPercentage (calculateIngredientPercentage r (ing_totalCost i)) @ '' dari total biaya.'',
            rec_action = ActText ''Cari alternatif supplier atau bahan pengganti''\<rparr>])"

text \<open>A recommendation's frame, icon and icon colour.\<close>

fun rec_style :: "rec_type \<Rightarrow> string \<times> string \<times> string" where
  "rec_style RecWarning = (''bg-warning/10 border-warning/20'', ''AlertTriangle'', ''text-warning'')"
| "rec_style RecSuccess = (''bg-success/10 border-success/20'', ''CheckCircle'', ''text-success'')"
| "rec_style RecInfo = (''bg-primary/10 border-primary/20'', ''Info'', ''text-primary'')"

text \<open>A row of the ingredient table; the quantity is the value handed to \<open>parseFloat\<close>.\<close>

record ing_row =
  ir_material :: string
  ir_quantity :: jsval
  ir_unit :: string
  ir_unitCost :: rat
  ir_totalCost :: rat
  ir_percent :: rat

definition ing_row :: "recipe \<Rightarrow> ingredient \<Rightarrow> ing_row" where
  "ing_row r i =
     \<lparr>ir_material = ing_material i, ir_quantity = ing_quantity i, ir_unit = ing_usageUnit i,
      ir_unitCost = ing_unitCost i, ir_totalCost = ing_totalCost i,
      ir_percent = calculateIngredientPercentage r (ing_totalCost i)\<rparr>"

record analysis_view =
  av_subtitle :: string
  av_cards :: summary_cards
  av_rows :: "ing_row list"
  av_footer :: "rat \<times> string"
  av_recs :: "(recommendation \<times> string \<times> string \<times> string) list"
  av_comparison :: "(string \<times> rat \<times> rat) list"

text \<open>
  The dialog for a recipe.  The table renders the in-place sort (\<open>sort_ingredients\<close>);
  the footer shows the recipe's total and a fixed "100\%".
\<close>

definition analysis_view :: "recipe \<Rightarrow> analysis_view" where
  "analysis_view r =
     \<lparr>av_subtitle = menuItem r @ '' - '' @ rc_category r, av_cards = summaryCards r,
      av_rows = map (ing_row r) (ingredients (sort_ingredients r)), av_footer = (rc_totalCost r, ''100%''),
      av_recs = map (\<lambda>x. (x, rec_style (rec_type x))) (recommendations r),
      av_comparison = price_comparison r\<rparr>"

lemma digit_show [simp]: "d < 10 \<Longrightarrow> show_nat d = [char_of (48 + d)]"
  by (simp add: show_nat.simps)

lemma sum_list_share:
  "sum_list (map (\<lambda>i. f i / t * 100) xs) = sum_list (map f xs) / t * (100 :: rat)"
proof -
  have "(\<lambda>i. f i / t * 100) = (\<lambda>i. f i * (100 / t))" by (simp add: fun_eq_iff)
  then have "sum_list (map (\<lambda>i. f i / t * 100) xs) = sum_list (map f xs) * (100 / t)"
    by (simp only: sum_list_mult_const)
  also have "\<dots> = sum_list (map f xs) / t * 100" by simp
  finally show ?thesis .
qed

lemma sum_list_perm: "mset ys = mset xs \<Longrightarrow> sum_list (map f ys) = sum_list (map (f :: _ \<Rightarrow> _ :: comm_monoid_add) xs)"
proof -
  assume h: "mset ys = mset xs"
  have "sum_list (map f ys) = sum_mset (mset (map f ys))" by (rule sum_mset_sum_list [symmetric])
  also have "\<dots> = sum_mset (mset (map f xs))" using h by simp
  also have "\<dots> = sum_list (map f xs)" by (rule sum_mset_sum_list)
  finally show ?thesis .
qed

lemma ing_cost_cmp_key: "ing_cost_cmp = key_cmp (\<lambda>i. RevOrd (ing_totalCost i))"
  by (auto simp: fun_eq_iff ing_cost_cmp_def key_cmp_def Let_def)

lemma sort_ingredients_key:
  "ingredients (sort_ingredients r) = sort_key (\<lambda>i. RevOrd (ing_totalCost i)) (ingredients r)"
  by (simp add: sort_ingredients_def ing_cost_cmp_key js_sort_key_cmp)

lemma sorted_rev_ord_neg:
  "sorted (map (\<lambda>x. RevOrd (f x)) xs) \<longleftrightarrow> sorted (map (\<lambda>x. - f x :: rat) xs)"
  by (induction xs) auto

lemma recipe_step_open_analysis:
  "\<not> costAnalysisOpen s \<Longrightarrow>
   recipe_step now s OpenCostAnalysis =
     s\<lparr>costAnalysisOpen := True, analysisRecipe := Some (sort_ingredients (formData s)),
       formData := sort_ingredients (formData s), recipes := map (share_sort (ing_arr (formData s))) (recipes s),
       selectedRecipe := map_option (share_sort (ing_arr (formData s))) (selectedRecipe s),
       pending_saves := map (share_sort (ing_arr (formData s))) (pending_saves s)\<rparr>"
  by (simp add: recipe_step_def share_sort_def Let_def)

lemma share_sort_other: "ing_arr r \<noteq> a \<Longrightarrow> share_sort a r = r"
  by (simp add: share_sort_def)

lemma share_sort_same: "ing_arr r = a \<Longrightarrow> ingredients (share_sort a r) = sort_key (\<lambda>i. RevOrd (ing_totalCost i)) (ingredients r)"
  by (simp add: share_sort_def sort_ingredients_key)

subsection \<open>Properties\<close>

text \<open>
  C31: Opening the cost analysis sorts, in place, the ingredient array of the editor's
  form.  Afterwards the form lists the same ingredients by descending cost, ties in their
  old order, and a later save stores that order.  The array is shared: every recipe of the
  list, the selected recipe and every pending save that holds the same array (the recipe
  the form was loaded from, its duplicates and saved copies) is reordered with it, and
  recipes holding other arrays are unchanged.
\<close>

theorem analysis_sorts_editor:
  assumes "\<not> costAnalysisOpen s"
  shows "ingredients (formData (recipe_step now s OpenCostAnalysis)) =
           sort_key (\<lambda>i. RevOrd (ing_totalCost i)) (ingredients (formData s)) \<and>
         sorted (map (\<lambda>i. - ing_totalCost i) (ingredients (formData (recipe_step now s OpenCostAnalysis)))) \<and>
         mset (ingredients (formData (recipe_step now s OpenCostAnalysis))) = mset (ingredients (formData s)) \<and>
         analysisRecipe (recipe_step now s OpenCostAnalysis) = Some (formData (recipe_step now s OpenCostAnalysis)) \<and>
         recipes (recipe_step now s OpenCostAnalysis) = map (share_sort (ing_arr (formData s))) (recipes s) \<and>
         selectedRecipe (recipe_step now s OpenCostAnalysis) =
           map_option (share_sort (ing_arr (formData s))) (selectedRecipe s)"
proof -
  have "sorted (map (\<lambda>i. RevOrd (ing_totalCost i)) (sort_key (\<lambda>i. RevOrd (ing_totalCost i)) xs))" for xs
    by (rule sorted_sort_key)
  then have "sorted (map (\<lambda>i. - ing_totalCost i) (sort_key (\<lambda>i. RevOrd (ing_totalCost i)) xs))" for xs
    by (simp only: sorted_rev_ord_neg)
  then show ?thesis using assms by (simp add: recipe_step_open_analysis sort_ingredients_key)
qed

theorem analysis_sorts_editor_witness:
  "map ing_id (ingredients (hd (recipes (recipe_run 0 recipe_init [SelectRecipe ''recipe-001'', OpenCostAnalysis])))) =
     [''ing-002'', ''ing-001'', ''ing-003'', ''ing-004'', ''ing-005''] \<and>
   map_option (map ing_id \<circ> ingredients) (selectedRecipe (recipe_run 0 recipe_init [SelectRecipe ''recipe-001'', OpenCostAnalysis])) =
     Some [''ing-002'', ''ing-001'', ''ing-003'', ''ing-004'', ''ing-005''] \<and>
   recipes (recipe_run 0 recipe_init [SelectRecipe ''recipe-001'', OpenCostAnalysis]) ! 1 = initial_recipes ! 1"
proof -
  let ?s = "recipe_step 0 recipe_init (SelectRecipe ''recipe-001'')"
  have s: "\<not> costAnalysisOpen ?s" "ing_arr (formData ?s) = 1" "recipes ?s = initial_recipes"
    "selectedRecipe ?s = Some (initial_recipes ! 0)"
    by (simp_all add: recipe_step_def recipe_init_def find_recipe_def editor_sync_def load_recipe_def
        initial_recipes_def)
  have r: "recipe_run 0 recipe_init [SelectRecipe ''recipe-001'', OpenCostAnalysis] = recipe_step 0 ?s OpenCostAnalysis"
    by (simp add: recipe_run_def)
  have t: "recipes (recipe_step 0 ?s OpenCostAnalysis) = map (share_sort 1) initial_recipes"
    "selectedRecipe (recipe_step 0 ?s OpenCostAnalysis) = Some (share_sort 1 (initial_recipes ! 0))"
    using analysis_sorts_editor [OF s(1), of 0] s(2-4) by simp_all
  have a: "ing_arr (initial_recipes ! 0) = 1" "ing_arr (initial_recipes ! 1) = 2" "length initial_recipes = 2"
    by (simp_all add: initial_recipes_def)
  have h: "hd (map (share_sort 1) initial_recipes) = share_sort 1 (initial_recipes ! 0)"
    "map (share_sort 1) initial_recipes ! 1 = initial_recipes ! 1"
    using a by (simp_all add: hd_map hd_conv_nth [of initial_recipes] share_sort_other flip: length_greater_0_conv)
  have o: "map ing_id (sort_key (\<lambda>i. RevOrd (ing_totalCost i)) (ingredients (initial_recipes ! 0))) =
     [''ing-002'', ''ing-001'', ''ing-003'', ''ing-004'', ''ing-005'']"
    by (simp add: initial_recipes_def mk_ing_def)
  show ?thesis unfolding r t h using o share_sort_same [OF a(1)] by simp
qed

text \<open>
  The comparison cards' labels do not all match their prices.  For a positive cost the
  premium and optimal prices give the margins their labels state (67\%, shown as 66.7,
  and 50\%), and the suggested price gives the 60\% of its card, but the minimum price
  \<open>totalCost * 1.2\<close>, labelled "Margin 20\% (Break-even)", gives a margin of 16.7\% and
  is above cost, not at break-even.
\<close>

theorem comparison_labels:
  assumes "0 < rc_totalCost r"
  shows "map (\<lambda>(l, p, m). margin_at p (rc_totalCost r)) (price_comparison r) = [50/3, 50, 200/3] \<and>
         map (\<lambda>(l, p, m). formatPercentage (margin_at p (rc_totalCost r))) (price_comparison r) =
           [''16.7%'', ''50.0%'', ''66.7%''] \<and>
         map (\<lambda>(l, p, m). m) (price_comparison r) = [20, 50, 67] \<and>
         margin_at (suggestedPrice (calculateTotalCost r)) (rc_totalCost (calculateTotalCost r)) =
           (if 0 < rc_totalCost (calculateTotalCost r) then 60 else 0)"
proof -
  let ?c = "rc_totalCost r"
  have m: "margin_at (?c * (6/5)) ?c = 50/3" "margin_at (?c * 2) ?c = 50" "margin_at (?c * 3) ?c = 200/3"
    using assms by (simp_all add: margin_at_def field_simps)
  have f: "\<lfloor>(50/3 :: rat) * 10 + 1/2\<rfloor> = 167" "\<lfloor>(50 :: rat) * 10 + 1/2\<rfloor> = 500"
    "\<lfloor>(200/3 :: rat) * 10 + 1/2\<rfloor> = 667"
    by (simp_all add: floor_eq_iff)
  have d: "show_nat 16 = ''16''" "show_nat 50 = ''50''" "show_nat 66 = ''66''"
    "[char_of (48 + 7 :: nat)] = ''7''" "[char_of (48 + 0 :: nat)] = ''0''"
    by code_simp+
  have "formatPercentage (50/3) = ''16.7%''" "formatPercentage 50 = ''50.0%''" "formatPercentage (200/3) = ''66.7%''"
    using f d by (simp_all add: formatPercentage_def toFixed1_def Let_def)
  moreover have "margin_at (suggestedPrice (calculateTotalCost r)) (rc_totalCost (calculateTotalCost r)) =
           (if 0 < rc_totalCost (calculateTotalCost r) then 60 else 0)"
    by (simp add: margin_at_def calculateTotalCost_def Let_def field_simps)
  ultimately show ?thesis
    unfolding price_comparison_def list.map prod.case m by simp
qed

theorem comparison_labels_witness:
  "map (\<lambda>(l, p, m). margin_at p (rc_totalCost (initial_recipes ! 0))) (price_comparison (initial_recipes ! 0)) =
     [50/3, 50, 200/3]"
proof -
  have "0 < rc_totalCost (initial_recipes ! 0)" by (simp add: initial_recipes_def)
  from comparison_labels [OF this] show ?thesis by simp
qed

text \<open>
  C39: The shares in the ingredient table add up to the footer's fixed "100\%" when the recipe's
  total is the sum of its ingredients' costs and positive.
\<close>

theorem rows_shares_sum:
  assumes "rc_totalCost r = sum_list (map ing_totalCost (ingredients r))" "0 < rc_totalCost r"
  shows "sum_list (map ir_percent (av_rows (analysis_view r))) = 100 \<and> snd (av_footer (analysis_view r)) = ''100%''"
proof -
  have "map ir_percent (av_rows (analysis_view r)) =
        map (\<lambda>i. ing_totalCost i / rc_totalCost r * 100) (ingredients (sort_ingredients r))"
    using assms(2) by (simp add: analysis_view_def ing_row_def calculateIngredientPercentage_def)
  then have "sum_list (map ir_percent (av_rows (analysis_view r))) =
        sum_list (map (\<lambda>i. ing_totalCost i / rc_totalCost r * 100) (ingredients (sort_ingredients r)))"
    by (simp only:)
  also have "\<dots> = sum_list (map (\<lambda>i. ing_totalCost i / rc_totalCost r * 100) (ingredients r))"
    by (rule sum_list_perm) (simp add: sort_ingredients_key)
  also have "\<dots> = sum_list (map ing_totalCost (ingredients r)) / rc_totalCost r * 100"
    by (rule sum_list_share)
  finally show ?thesis using assms by (simp add: analysis_view_def)
qed

text \<open>
  The low-margin recommendation advises the price \<open>totalCost * 2.5\<close>, which gives the
  margin of 60\% the editor's suggested price aims at, out of the low band.
\<close>

theorem low_margin_advice:
  assumes "profitMargin r < 40" "0 < rc_totalCost r"
  shows "ActRaise (rc_totalCost r * (5/2)) \<in> rec_action ` set (recommendations r) \<and>
         margin_at (rc_totalCost r * (5/2)) (rc_totalCost r) = 60"
  using assms by (auto simp: recommendations_def margin_at_def field_simps)

theorem rows_shares_sum_witness:
  "sum_list (map ir_percent (av_rows (analysis_view (initial_recipes ! 0)))) = 100"
  using rows_shares_sum [of "initial_recipes ! 0"] by (simp add: initial_recipes_def mk_ing_def)

theorem low_margin_advice_witness:
  "ActRaise 23250 \<in> rec_action ` set (recommendations ((initial_recipes ! 0)\<lparr>profitMargin := 30\<rparr>))"
  using low_margin_advice [of "(initial_recipes ! 0)\<lparr>profitMargin := 30\<rparr>"] by (simp add: initial_recipes_def mk_ing_def)

end
