(* ===== verification/RecipeList.thy ===== *)
theory RecipeList
  imports Recipe
begin

text \<open>
  The recipe list (src/src/pages/recipe-management/components/RecipeList.jsx) and the
  page's view mode (index.jsx) on top of the page of Recipe.  The list holds its own
  state, the search term and the sort field, set to \<open>''\<close> and \<open>'name'\<close> whenever it
  mounts.  On a wide screen (\<open>window.innerWidth \<ge> 1024\<close>) the list and the editor are both on
  screen; on a narrow one the page shows the list when \<open>viewMode\<close> is \<open>'list'\<close> and the editor
  when it is \<open>'editor'\<close>, and selecting a recipe or pressing "Resep Baru" switches to the
  editor.  The width is a parameter of the model and does not change during a run.

  \<open>localeCompare\<close> is the runtime's collation (Intl), which the sources only call: it is a
  parameter \<open>lc\<close> of the model, and the theorems about the name order hold for every
  collation that compares strings by a key.
\<close>

subsection \<open>Sorting and display\<close>

definition recipe_cmp :: "(string \<Rightarrow> string \<Rightarrow> int) \<Rightarrow> string \<Rightarrow> recipe \<Rightarrow> recipe \<Rightarrow> int" where
  "recipe_cmp lc sortBy a b =
     (if sortBy = ''name'' then lc (menuItem a) (menuItem b)
      else if sortBy = ''cost'' then diff_cmp rc_totalCost a b
      else if sortBy = ''ingredients'' then diff_cmp (\<lambda>r. int (length (ingredients r))) a b
      else if sortBy = ''margin'' then diff_cmp profitMargin b a
      else 0)"

definition sortedRecipes :: "(string \<Rightarrow> string \<Rightarrow> int) \<Rightarrow> string \<Rightarrow> string \<Rightarrow> recipe list \<Rightarrow> recipe list" where
  "sortedRecipes lc sortBy searchTerm rs = js_sort (recipe_cmp lc sortBy) (filteredRecipes searchTerm rs)"

definition sort_options :: "string list" where
  "sort_options = [''name'', ''cost'', ''ingredients'', ''margin'']"

definition list_marginColor :: "rat \<Rightarrow> string" where
  "list_marginColor margin =
     (if margin \<ge> 60 then ''text-success'' else if margin \<ge> 40 then ''text-warning'' else ''text-error'')"

text \<open>
  A card of the list: the highlight compares \<open>selectedRecipe?.id\<close> with the recipe's id
  (\<open>undefined\<close> on both sides also counts as equal); the amounts are the numbers handed to
  \<open>formatCurrency\<close>; the modification line is shown when \<open>lastModified\<close> is not empty.
\<close>

record recipe_card =
  card_title :: string
  card_category :: string
  card_selected :: bool
  card_ingredients :: string
  card_cost :: rat
  card_price :: rat
  card_margin :: string
  card_marginColor :: string
  card_modified :: bool

definition card_of :: "recipe option \<Rightarrow> recipe \<Rightarrow> recipe_card" where
  "card_of sel r =
     \<lparr>card_title = menuItem r, card_category = rc_category r,
      card_selected = (Option.bind sel rc_id = rc_id r),
      card_ingredients = show_nat (length (ingredients r)) @ '' item'',
      card_cost = rc_totalCost r, card_price = sellingPrice r,
      card_margin = toFixed1 (profitMargin r) @ ''%'', card_marginColor = list_marginColor (profitMargin r),
      card_modified = (lastModified r \<noteq> [])\<rparr>"

record list_view =
  lv_count :: string
  lv_empty :: "string option"
  lv_clear :: bool
  lv_cards :: "recipe_card list"

definition list_view_of :: "(string \<Rightarrow> string \<Rightarrow> int) \<Rightarrow> recipe option \<Rightarrow> string \<Rightarrow> string \<Rightarrow> recipe list \<Rightarrow> list_view" where
  "list_view_of lc sel searchTerm sortBy rs =
     (let sr = sortedRecipes lc sortBy searchTerm rs in
      \<lparr>lv_count = show_nat (length sr) @ '' resep'',
       lv_empty = (if sr = [] then Some (if searchTerm \<noteq> [] then ''Tidak ada resep yang ditemukan'' else ''Belum ada resep'')
                   else None),
       lv_clear = (sr = [] \<and> searchTerm \<noteq> []),
       lv_cards = map (card_of sel) sr\<rparr>)"

subsection \<open>The list on the page\<close>

record recipe_list =
  rl_page :: recipe_page
  viewMode :: string
  rl_searchTerm :: string
  rl_sortBy :: string

definition list_defaults :: "recipe_list \<Rightarrow> recipe_list" where
  "list_defaults s = s\<lparr>rl_searchTerm := [], rl_sortBy := ''name''\<rparr>"

definition rl_init :: recipe_list where
  "rl_init = list_defaults \<lparr>rl_page = recipe_init, viewMode = ''split'', rl_searchTerm = [], rl_sortBy = ''name''\<rparr>"

definition list_shown :: "bool \<Rightarrow> recipe_list \<Rightarrow> bool" where
  "list_shown wide s = (wide \<or> viewMode s = ''list'')"

definition editor_shown :: "bool \<Rightarrow> recipe_list \<Rightarrow> bool" where
  "editor_shown wide s = (wide \<or> viewMode s = ''editor'')"

text \<open>The list's controls act while it is on screen and the cost-analysis dialog is closed.\<close>

definition list_active :: "bool \<Rightarrow> recipe_list \<Rightarrow> bool" where
  "list_active wide s = (list_shown wide s \<and> \<not> costAnalysisOpen (rl_page s))"

definition shown_recipes :: "(string \<Rightarrow> string \<Rightarrow> int) \<Rightarrow> recipe_list \<Rightarrow> recipe list" where
  "shown_recipes lc s = sortedRecipes lc (rl_sortBy s) (rl_searchTerm s) (recipes (rl_page s))"

definition rl_view :: "(string \<Rightarrow> string \<Rightarrow> int) \<Rightarrow> recipe_list \<Rightarrow> list_view" where
  "rl_view lc s = list_view_of lc (selectedRecipe (rl_page s)) (rl_searchTerm s) (rl_sortBy s) (recipes (rl_page s))"

text \<open>A change of the view mode that brings the list back mounts it afresh.\<close>

definition rl_remount :: "bool \<Rightarrow> recipe_list \<Rightarrow> recipe_list \<Rightarrow> recipe_list" where
  "rl_remount wide s s' = (if \<not> list_shown wide s \<and> list_shown wide s' then list_defaults s' else s')"

definition handleSelectRecipe :: "nat \<Rightarrow> bool \<Rightarrow> string \<Rightarrow> recipe_list \<Rightarrow> recipe_list" where
  "handleSelectRecipe now wide rid s =
     s\<lparr>rl_page := recipe_step now (rl_page s) (SelectRecipe rid), viewMode := (if wide then viewMode s else ''editor'')\<rparr>"

definition handleNewRecipe :: "nat \<Rightarrow> bool \<Rightarrow> recipe_list \<Rightarrow> recipe_list" where
  "handleNewRecipe now wide s =
     s\<lparr>rl_page := recipe_step now (rl_page s) NewRecipe, viewMode := (if wide then viewMode s else ''editor'')\<rparr>"

datatype list_event =
    SearchInput string | SortSelect string | ClearFilter
  | CardClick nat | DuplicateClick nat nat string | DeleteClick nat bool

datatype rl_event = ListE list_event | ViewListBtn | ViewEditorBtn | NewRecipeBtn | PageEv recipe_event

text \<open>The page's events that only the list and the header button raise, and the editor's.\<close>

fun list_owned :: "recipe_event \<Rightarrow> bool" where
  "list_owned (SelectRecipe rid) = True"
| "list_owned NewRecipe = True"
| "list_owned (DeleteRecipe rid c) = True"
| "list_owned (DuplicateRecipe rid t stamp) = True"
| "list_owned e = False"

fun editor_owned :: "recipe_event \<Rightarrow> bool" where
  "editor_owned (EditorE e) = True"
| "editor_owned (SaveClick t stamp) = True"
| "editor_owned OpenCostAnalysis = True"
| "editor_owned e = False"

text \<open>
  A click on the \<open>i\<close>-th card, or on its copy or delete button (which stop the click's
  propagation, so they do not select), hands the card's recipe to the page by its id.
\<close>

fun list_handle :: "nat \<Rightarrow> (string \<Rightarrow> string \<Rightarrow> int) \<Rightarrow> bool \<Rightarrow> recipe_list \<Rightarrow> list_event \<Rightarrow> recipe_list" where
  "list_handle now lc wide s (SearchInput v) = s\<lparr>rl_searchTerm := v\<rparr>"
| "list_handle now lc wide s (SortSelect v) = (if v \<in> set sort_options then s\<lparr>rl_sortBy := v\<rparr> else s)"
| "list_handle now lc wide s ClearFilter =
     (if shown_recipes lc s = [] \<and> rl_searchTerm s \<noteq> [] then s\<lparr>rl_searchTerm := []\<rparr> else s)"
| "list_handle now lc wide s (CardClick i) =
     (if i < length (shown_recipes lc s) then
        (case rc_id (shown_recipes lc s ! i) of
           Some rid \<Rightarrow> rl_remount wide s (handleSelectRecipe now wide rid s) | None \<Rightarrow> s)
      else s)"
| "list_handle now lc wide s (DuplicateClick i t stamp) =
     (if i < length (shown_recipes lc s) then
        (case rc_id (shown_recipes lc s ! i) of
           Some rid \<Rightarrow> s\<lparr>rl_page := recipe_step now (rl_page s) (DuplicateRecipe rid t stamp)\<rparr> | None \<Rightarrow> s)
      else s)"
| "list_handle now lc wide s (DeleteClick i c) =
     (if i < length (shown_recipes lc s) then
        (case rc_id (shown_recipes lc s ! i) of
           Some rid \<Rightarrow> s\<lparr>rl_page := recipe_step now (rl_page s) (DeleteRecipe rid c)\<rparr> | None \<Rightarrow> s)
      else s)"

text \<open>
  One event: a control of the list, one of the two view buttons (on a narrow screen only),
  the header's "Resep Baru", or another event of the page; the dialog covers the page
  while it is open, and the editor's controls act only while the editor is on screen.
\<close>

fun rl_step :: "nat \<Rightarrow> (string \<Rightarrow> string \<Rightarrow> int) \<Rightarrow> bool \<Rightarrow> recipe_list \<Rightarrow> rl_event \<Rightarrow> recipe_list" where
  "rl_step now lc wide s (ListE e) = (if list_active wide s then list_handle now lc wide s e else s)"
| "rl_step now lc wide s ViewListBtn =
     (if \<not> wide \<and> \<not> costAnalysisOpen (rl_page s) then rl_remount wide s (s\<lparr>viewMode := ''list''\<rparr>) else s)"
| "rl_step now lc wide s ViewEditorBtn =
     (if \<not> wide \<and> \<not> costAnalysisOpen (rl_page s) then s\<lparr>viewMode := ''editor''\<rparr> else s)"
| "rl_step now lc wide s NewRecipeBtn =
     (if \<not> costAnalysisOpen (rl_page s) then handleNewRecipe now wide s else s)"
| "rl_step now lc wide s (PageEv e) =
     (if list_owned e \<or> (editor_owned e \<and> \<not> editor_shown wide s) then s
      else s\<lparr>rl_page := recipe_step now (rl_page s) e\<rparr>)"

definition rl_run :: "nat \<Rightarrow> (string \<Rightarrow> string \<Rightarrow> int) \<Rightarrow> bool \<Rightarrow> recipe_list \<Rightarrow> rl_event list \<Rightarrow> recipe_list" where
  "rl_run now lc wide s es = foldl (rl_step now lc wide) s es"

subsection \<open>Properties\<close>

lemma recipe_cmp_modes:
  "recipe_cmp (key_cmp k) ''name'' = key_cmp (\<lambda>r. k (menuItem r))"
  "recipe_cmp lc ''cost'' = diff_cmp rc_totalCost"
  "recipe_cmp lc ''ingredients'' = diff_cmp (\<lambda>r. int (length (ingredients r)))"
  "recipe_cmp lc ''margin'' = key_cmp (\<lambda>r. RevOrd (profitMargin r))"
  by (simp_all add: fun_eq_iff recipe_cmp_def key_cmp_def diff_cmp_rev)

text \<open>
  C18: The list's sort is the stable sort by the chosen field: by the collation's key for the
  name (for a collation that compares by a key), by cost and by the number of ingredients
  ascending, and by profit margin descending; recipes with equal keys keep the order of the
  page's array.
\<close>

theorem sortedRecipes_keys:
  "sortedRecipes (key_cmp k) ''name'' q rs = sort_key (\<lambda>r. k (menuItem r)) (filteredRecipes q rs) \<and>
   sortedRecipes lc ''cost'' q rs = sort_key rc_totalCost (filteredRecipes q rs) \<and>
   sortedRecipes lc ''ingredients'' q rs = sort_key (\<lambda>r. length (ingredients r)) (filteredRecipes q rs) \<and>
   sortedRecipes lc ''margin'' q rs = sort_key (\<lambda>r. RevOrd (profitMargin r)) (filteredRecipes q rs)"
  by (simp add: sortedRecipes_def recipe_cmp_modes js_sort_key_cmp js_sort_diff_cmp sort_key_int)

lemma recipe_init_fixed:
  "recipe_step now recipe_init (SaveTimer t stamp) = recipe_init"
  "recipe_step now recipe_init CloseCostAnalysis = recipe_init"
  by (simp_all add: recipe_step_def save_timer_def editor_sync_def recipe_init_def)

lemma rl_init_fields [simp]:
  "rl_page rl_init = recipe_init" "viewMode rl_init = ''split''"
  by (simp_all add: rl_init_def list_defaults_def)

lemma narrow_init_step:
  assumes "e \<noteq> ViewListBtn" "e \<noteq> ViewEditorBtn" "e \<noteq> NewRecipeBtn"
  shows "rl_step now lc False rl_init e = rl_init"
proof (cases e)
  case (PageEv pe)
  then show ?thesis
    by (cases pe) (simp_all add: editor_shown_def recipe_init_fixed)
qed (use assms in \<open>simp_all add: list_active_def list_shown_def\<close>)

text \<open>
  C19: On a narrow screen the page starts in view mode \<open>'split'\<close>, which the narrow layout does
  not render: neither the list nor the editor is on screen, and nothing on the page can
  change until one of the view buttons or "Resep Baru" is pressed.
\<close>

theorem narrow_start_blank:
  "\<forall>e\<in>set es. e \<noteq> ViewListBtn \<and> e \<noteq> ViewEditorBtn \<and> e \<noteq> NewRecipeBtn \<Longrightarrow>
   rl_run now lc False rl_init es = rl_init \<and> \<not> list_shown False rl_init \<and> \<not> editor_shown False rl_init"
  by (simp add: rl_run_def foldl_fixed narrow_init_step list_shown_def editor_shown_def)


lemma editor_sync_selected [simp]: "selectedRecipe (editor_sync old now p) = selectedRecipe p"
  by (simp add: editor_sync_def split: option.splits)

lemma set_shown_recipes: "set (shown_recipes lc s) \<subseteq> set (recipes (rl_page s))"
proof -
  have "set (sortedRecipes lc b q rs) = set (filteredRecipes q rs)" for b q rs
    by (metis mset_js_sort set_mset_mset sortedRecipes_def)
  then show ?thesis by (auto simp: shown_recipes_def filteredRecipes_def)
qed

lemma rl_remount_page [simp]: "rl_page (rl_remount wide s s') = rl_page s'"
  by (simp add: rl_remount_def list_defaults_def)

lemma select_step:
  assumes "\<not> costAnalysisOpen p" "r \<in> set (recipes p)" "rc_id r = Some rid"
  obtains r' where "recipe_step now p (SelectRecipe rid) = editor_sync (selectedRecipe p) now (p\<lparr>selectedRecipe := Some r'\<rparr>)"
    "find_recipe rid p = Some r'" "rc_id r' = Some rid"
proof -
  obtain r' where f: "find_recipe rid p = Some r'"
    using assms(2,3) by (cases "find_recipe rid p") (auto simp: find_recipe_def find_None_iff)
  moreover have "rc_id r' = Some rid"
    using find_SomeD [OF f [unfolded find_recipe_def]] by simp
  moreover have "recipe_step now p (SelectRecipe rid) = editor_sync (selectedRecipe p) now (p\<lparr>selectedRecipe := Some r'\<rparr>)"
    using f assms(1) by (simp add: recipe_step_def)
  ultimately show ?thesis using that by blast
qed

text \<open>
  On a wide screen, a click on a shown card selects a recipe with the card's id, keeps the
  list as it was, and highlights the clicked card.
\<close>

theorem card_click_selects:
  assumes "list_active True s" "i < length (shown_recipes lc s)" "rc_id (shown_recipes lc s ! i) = Some rid"
  shows "shown_recipes lc (rl_step now lc True s (ListE (CardClick i))) = shown_recipes lc s \<and>
         card_selected (lv_cards (rl_view lc (rl_step now lc True s (ListE (CardClick i)))) ! i) \<and>
         map_option rc_id (selectedRecipe (rl_page (rl_step now lc True s (ListE (CardClick i))))) = Some (Some rid)"
proof -
  have r: "shown_recipes lc s ! i \<in> set (recipes (rl_page s))"
    using set_shown_recipes assms(2) nth_mem by blast
  have "\<not> costAnalysisOpen (rl_page s)" using assms(1) by (simp add: list_active_def)
  then obtain r' where st: "recipe_step now (rl_page s) (SelectRecipe rid) =
      editor_sync (selectedRecipe (rl_page s)) now ((rl_page s)\<lparr>selectedRecipe := Some r'\<rparr>)"
    and id: "rc_id r' = Some rid"
    using select_step r assms(3) by blast
  have s': "rl_step now lc True s (ListE (CardClick i)) =
      s\<lparr>rl_page := recipe_step now (rl_page s) (SelectRecipe rid)\<rparr>"
    using assms by (simp add: rl_remount_def list_shown_def handleSelectRecipe_def)
  show ?thesis
    using assms(2,3) id unfolding s' st
    by (simp add: shown_recipes_def rl_view_def list_view_of_def Let_def card_of_def)
qed

lemma filteredRecipes_all [simp]: "filteredRecipes [] rs = rs"
  by (simp add: filteredRecipes_def js_lower_def)

text \<open>
  "Hapus filter", shown when a search finds nothing, clears the search, and the list shows
  every recipe of the page again.
\<close>

theorem clear_filter_shows_all:
  assumes "list_active wide s" "lv_clear (rl_view lc s)"
  shows "rl_searchTerm (rl_step now lc wide s (ListE ClearFilter)) = [] \<and>
         mset (shown_recipes lc (rl_step now lc wide s (ListE ClearFilter))) = mset (recipes (rl_page s))"
  using assms by (simp add: rl_view_def list_view_of_def Let_def shown_recipes_def sortedRecipes_def)

lemma js_includes_append: "js_includes a t \<Longrightarrow> js_includes (a @ b) t"
proof (induction a)
  case (Cons c a)
  show ?case
  proof (cases "take (length t) (c # a) = t")
    case True
    then have "length t \<le> length (c # a)" by (metis length_take min.cobounded1)
    then have "take (length t) ((c # a) @ b) = t" using True by (simp del: append_Cons add: take_append)
    then show ?thesis by simp
  next
    case False
    then show ?thesis using Cons by simp
  qed
qed simp

text \<open>
  With distinct ids, the copy of a shown recipe is put first, named with " (Copy)", selected,
  and shown by the list under the same search: its name contains the original's.
\<close>

theorem duplicate_shown_selected:
  fixes now t :: nat and stamp :: string
  assumes "list_active wide s" "i < length (shown_recipes lc s)" "rc_id (shown_recipes lc s ! i) = Some rid"
    and "distinct (map rc_id (recipes (rl_page s)))"
  defines "s' \<equiv> rl_step now lc wide s (ListE (DuplicateClick i t stamp))"
  shows "menuItem (hd (recipes (rl_page s'))) = menuItem (shown_recipes lc s ! i) @ '' (Copy)'' \<and>
         hd (recipes (rl_page s')) \<in> set (shown_recipes lc s') \<and>
         selectedRecipe (rl_page s') = Some (hd (recipes (rl_page s')))"
proof -
  let ?r = "shown_recipes lc s ! i"
  have r: "?r \<in> set (filteredRecipes (rl_searchTerm s) (recipes (rl_page s)))"
    using assms(2) nth_mem [OF assms(2)] mset_js_sort set_mset_mset
    unfolding shown_recipes_def sortedRecipes_def by metis
  then have f: "find_recipe rid (rl_page s) = Some ?r"
    using find_distinct_key [OF assms(4), of ?r] assms(3) by (simp add: find_recipe_def filteredRecipes_def)
  define dup where "dup = ?r\<lparr>rc_id := Some (''recipe-'' @ show_nat t), menuItem := menuItem ?r @ '' (Copy)'', lastModified := stamp\<rparr>"
  have page: "recipes (rl_page s') = dup # recipes (rl_page s) \<and> selectedRecipe (rl_page s') = Some dup"
    using assms(1-3) f
    by (simp add: s'_def recipe_step_def list_active_def handleDuplicateRecipe_def dup_def Let_def)
  have "dup \<in> set (filteredRecipes (rl_searchTerm s) (dup # recipes (rl_page s)))"
    using r by (auto simp: filteredRecipes_def dup_def js_lower_def js_includes_append)
  moreover have "rl_searchTerm s' = rl_searchTerm s \<and> rl_sortBy s' = rl_sortBy s"
    using assms(1-3) by (simp add: s'_def)
  ultimately show ?thesis using page
    by (simp add: shown_recipes_def sortedRecipes_def dup_def flip: set_mset_mset)
qed

lemma shown_init: "shown_recipes (key_cmp id) rl_init = [initial_recipes ! 1, initial_recipes ! 0]"
  by code_simp

lemma recipe_init_fields [simp]: "costAnalysisOpen recipe_init = False" "recipes recipe_init = initial_recipes"
  by (simp_all add: recipe_init_def)

theorem narrow_start_blank_witness:
  "rl_run 0 (key_cmp id) False rl_init [ListE (SearchInput ''teh''), PageEv OpenCostAnalysis, PageEv (SaveTimer 1 ''t'')] = rl_init \<and>
   \<not> list_shown False rl_init"
  using narrow_start_blank [of "[ListE (SearchInput ''teh''), PageEv OpenCostAnalysis, PageEv (SaveTimer 1 ''t'')]" 0 "key_cmp id"]
  by simp

lemma wide_init_active: "list_active True rl_init"
  by (simp add: list_active_def list_shown_def)

lemma shown_init_first: "0 < length (shown_recipes (key_cmp id) rl_init)"
  "rc_id (shown_recipes (key_cmp id) rl_init ! 0) = Some ''recipe-002''"
  by (simp_all add: shown_init initial_recipes_def)

theorem card_click_selects_witness:
  "list_active True rl_init \<and> rc_id (shown_recipes (key_cmp id) rl_init ! 0) = Some ''recipe-002'' \<and>
   map_option rc_id (selectedRecipe (rl_page (rl_step 0 (key_cmp id) True rl_init (ListE (CardClick 0))))) =
     Some (Some ''recipe-002'') \<and>
   card_selected (lv_cards (rl_view (key_cmp id) (rl_step 0 (key_cmp id) True rl_init (ListE (CardClick 0)))) ! 0)"
  using card_click_selects [OF wide_init_active shown_init_first, of 0] wide_init_active shown_init_first(2)
  by blast

lemma no_zzz: "shown_recipes lc (rl_init\<lparr>rl_searchTerm := ''zzz''\<rparr>) = []"
proof -
  have "filteredRecipes ''zzz'' initial_recipes = []" by code_simp
  then show ?thesis by (simp add: shown_recipes_def sortedRecipes_def js_sort.simps)
qed

lemma zzz_clear: "list_active True (rl_init\<lparr>rl_searchTerm := ''zzz''\<rparr>)"
  "lv_clear (rl_view lc (rl_init\<lparr>rl_searchTerm := ''zzz''\<rparr>))"
  using no_zzz [of lc] by (simp_all add: list_active_def list_shown_def rl_view_def list_view_of_def shown_recipes_def)

theorem clear_filter_shows_all_witness:
  "lv_clear (rl_view (key_cmp id) (rl_init\<lparr>rl_searchTerm := ''zzz''\<rparr>)) \<and>
   mset (shown_recipes (key_cmp id) (rl_step 0 (key_cmp id) True (rl_init\<lparr>rl_searchTerm := ''zzz''\<rparr>) (ListE ClearFilter))) =
     mset initial_recipes"
  using clear_filter_shows_all [OF zzz_clear, of 0] zzz_clear(2) by simp

lemma init_ids_distinct: "distinct (map rc_id (recipes (rl_page rl_init)))"
  by (simp add: recipe_init_def initial_recipes_def)

theorem duplicate_shown_selected_witness:
  "distinct (map rc_id (recipes (rl_page rl_init))) \<and>
   menuItem (hd (recipes (rl_page (rl_step 0 (key_cmp id) True rl_init (ListE (DuplicateClick 0 7 ''t'')))))) =
     ''Es Teh Manis (Copy)''"
  using duplicate_shown_selected [OF wide_init_active shown_init_first init_ids_distinct, of 0 7 "''t''"]
    init_ids_distinct
  by (simp add: shown_init initial_recipes_def)
end
