(* ===== verification/Dashboard.thy ===== *)
theory Dashboard
  imports Prelude
begin

text \<open>
  The dashboard's own data and panels (src/src/pages/dashboard/index.jsx and
  components/SalesChart.jsx, TopItemsChart.jsx, RecentOrdersTable.jsx): the static metric
  cards, the sales chart with its range buttons, the top-items chart and the recent orders
  table.  All their data are constants of the components; the only state is the sales
  chart's \<open>timeRange\<close>.  The quick actions and the header clock are in Navigation.
\<close>

record metric =
  mt_value :: string
  mt_change :: string
  mt_changeType :: string

definition dashboardMetrics :: "(string \<times> metric) list" where
  "dashboardMetrics =
    [(''dailySales'', \<lparr>mt_value = ''Rp 4.580.000'', mt_change = ''+12.5%'', mt_changeType = ''increase''\<rparr>),
     (''orderCount'', \<lparr>mt_value = ''156'', mt_change = ''+8.2%'', mt_changeType = ''increase''\<rparr>),
     (''averageOrder'', \<lparr>mt_value = ''Rp 29.359'', mt_change = ''+3.1%'', mt_changeType = ''increase''\<rparr>),
     (''profitMargin'', \<lparr>mt_value = ''68.5%'', mt_change = ''-2.1%'', mt_changeType = ''decrease''\<rparr>)]"

subsection \<open>The sales chart\<close>

record sales_point =
  sp_date :: string
  sp_sales :: rat
  sp_orders :: nat

definition salesData :: "sales_point list" where
  "salesData =
    [\<lparr>sp_date = ''17/01'', sp_sales = 2400000, sp_orders = 45\<rparr>,
     \<lparr>sp_date = ''18/01'', sp_sales = 1800000, sp_orders = 32\<rparr>,
     \<lparr>sp_date = ''19/01'', sp_sales = 3200000, sp_orders = 58\<rparr>,
     \<lparr>sp_date = ''20/01'', sp_sales = 2800000, sp_orders = 49\<rparr>,
     \<lparr>sp_date = ''21/01'', sp_sales = 4100000, sp_orders = 72\<rparr>,
     \<lparr>sp_date = ''22/01'', sp_sales = 3600000, sp_orders = 64\<rparr>,
     \<lparr>sp_date = ''23/01'', sp_sales = 4500000, sp_orders = 81\<rparr>]"

datatype time_range = Range7d | Range30d | Range90d

record sales_chart =
  timeRange :: time_range

definition chart_init :: sales_chart where
  "chart_init = \<lparr>timeRange = Range7d\<rparr>"

text \<open>A range button: \<open>setTimeRange\<close>; its variant is \<open>default\<close> for the chosen range.\<close>

definition range_click :: "time_range \<Rightarrow> sales_chart \<Rightarrow> sales_chart" where
  "range_click r s = s\<lparr>timeRange := r\<rparr>"

definition range_variant :: "time_range \<Rightarrow> sales_chart \<Rightarrow> string" where
  "range_variant r s = (if timeRange s = r then ''default'' else ''outline'')"

text \<open>The plotted data: \<open><LineChart data={salesData}>\<close>, whatever the range.\<close>

definition chart_data :: "sales_chart \<Rightarrow> sales_point list" where
  "chart_data s = salesData"

text \<open>The y axis: \<open>(value / 1000000).toFixed(1) + 'M'\<close>.\<close>

definition yTick :: "rat \<Rightarrow> string" where
  "yTick value = toFixed1 (value / 1000000) @ ''M''"

definition chart_run :: "sales_chart \<Rightarrow> time_range list \<Rightarrow> sales_chart" where
  "chart_run s rs = foldl (\<lambda>s r. range_click r s) s rs"

subsection \<open>The top items chart\<close>

record top_item =
  ti_name :: string
  ti_value :: nat
  ti_sales :: rat
  ti_color :: string

definition topItems :: "top_item list" where
  "topItems =
    [\<lparr>ti_name = ''Nasi Gudeg'', ti_value = 35, ti_sales = 1250000, ti_color = ''#4299E1''\<rparr>,
     \<lparr>ti_name = ''Ayam Bakar'', ti_value = 25, ti_sales = 890000, ti_color = ''#48BB78''\<rparr>,
     \<lparr>ti_name = ''Soto Ayam'', ti_value = 20, ti_sales = 720000, ti_color = ''#ED8936''\<rparr>,
     \<lparr>ti_name = ''Gado-gado'', ti_value = 12, ti_sales = 430000, ti_color = ''#38B2AC''\<rparr>,
     \<lparr>ti_name = ''Lainnya'', ti_value = 8, ti_sales = 290000, ti_color = ''#718096''\<rparr>]"

text \<open>The legend's and tooltip's share text: \<open>`${value}%`\<close>.\<close>

definition share_label :: "top_item \<Rightarrow> string" where
  "share_label t = show_nat (ti_value t) @ ''%''"

subsection \<open>The recent orders table\<close>

record recent_order =
  ro_id :: string
  ro_table :: string
  ro_items :: "string list"
  ro_total :: rat
  ro_status :: string
  ro_time :: string
  ro_paymentMethod :: string

definition recentOrders :: "recent_order list" where
  "recentOrders =
    [\<lparr>ro_id = ''ORD-001'', ro_table = ''Meja 5'', ro_items = [''Nasi Gudeg'', ''Es Teh Manis''], ro_total = 45000,
      ro_status = ''completed'', ro_time = ''14:30'', ro_paymentMethod = ''cash''\<rparr>,
     \<lparr>ro_id = ''ORD-002'', ro_table = ''Meja 12'', ro_items = [''Ayam Bakar'', ''Nasi Putih'', ''Es Jeruk''],
      ro_total = 65000, ro_status = ''in-progress'', ro_time = ''14:25'', ro_paymentMethod = ''card''\<rparr>,
     \<lparr>ro_id = ''ORD-003'', ro_table = ''Takeaway'', ro_items = [''Soto Ayam'', ''Kerupuk''], ro_total = 35000,
      ro_status = ''ready'', ro_time = ''14:20'', ro_paymentMethod = ''digital''\<rparr>,
     \<lparr>ro_id = ''ORD-004'', ro_table = ''Meja 8'', ro_items = [''Gado-gado'', ''Es Teh Tawar''], ro_total = 28000,
      ro_status = ''new'', ro_time = ''14:15'', ro_paymentMethod = ''cash''\<rparr>,
     \<lparr>ro_id = ''ORD-005'', ro_table = ''Meja 3'', ro_items = [''Nasi Gudeg'', ''Ayam Bakar'', ''Es Jeruk''],
      ro_total = 85000, ro_status = ''completed'', ro_time = ''14:10'', ro_paymentMethod = ''card''\<rparr>]"

record status_badge =
  sb_label :: string
  sb_color :: string
  sb_icon :: string

definition statusConfig :: "(string \<times> status_badge) list" where
  "statusConfig =
    [(''new'', \<lparr>sb_label = ''Baru'', sb_color = ''bg-primary/20 text-primary'', sb_icon = ''Clock''\<rparr>),
     (''in-progress'', \<lparr>sb_label = ''Diproses'', sb_color = ''bg-warning/20 text-warning'', sb_icon = ''ChefHat''\<rparr>),
     (''ready'', \<lparr>sb_label = ''Siap'', sb_color = ''bg-success/20 text-success'', sb_icon = ''CheckCircle''\<rparr>),
     (''completed'', \<lparr>sb_label = ''Selesai'', sb_color = ''bg-muted text-muted-foreground'', sb_icon = ''Check''\<rparr>)]"

text \<open>\<open>statusConfig[status] || statusConfig['new']\<close>.\<close>

definition getStatusBadge :: "string \<Rightarrow> status_badge" where
  "getStatusBadge status =
     (case map_of statusConfig status of Some c \<Rightarrow> c
      | None \<Rightarrow> \<lparr>sb_label = ''Baru'', sb_color = ''bg-primary/20 text-primary'', sb_icon = ''Clock''\<rparr>)"

definition getPaymentIcon :: "string \<Rightarrow> string" where
  "getPaymentIcon method =
     (if method = ''cash'' then ''Banknote'' else if method = ''card'' then ''CreditCard''
      else if method = ''digital'' then ''Smartphone'' else ''DollarSign'')"

text \<open>The item column: \<open>{n} item{n > 1 ? 's' : ''}\<close>.\<close>

definition items_label :: "recent_order \<Rightarrow> string" where
  "items_label order =
     show_nat (length (ro_items order)) @ '' item'' @ (if length (ro_items order) > 1 then ''s'' else [])"

subsection \<open>Properties\<close>

text \<open>
  The range buttons only restyle themselves: after any clicks the highlighted button is the
  last range clicked (7 days before any click), and the chart still plots the same seven
  days.
\<close>

theorem range_buttons_cosmetic:
  "timeRange (chart_run chart_init rs) = (if rs = [] then Range7d else last rs) \<and>
   chart_data (chart_run chart_init rs) = salesData \<and> length (chart_data (chart_run chart_init rs)) = 7"
proof -
  have "timeRange (foldl (\<lambda>s r. range_click r s) s rs) = (if rs = [] then timeRange s else last rs)" for s
    by (induction rs arbitrary: s) (simp_all add: range_click_def)
  then show ?thesis by (simp add: chart_run_def chart_init_def chart_data_def salesData_def)
qed

text \<open>The y axis labels of the plotted sales.\<close>

theorem sales_ticks: "map (\<lambda>p. yTick (sp_sales p)) salesData = [''2.4M'', ''1.8M'', ''3.2M'', ''2.8M'', ''4.1M'', ''3.6M'', ''4.5M'']"
  by code_simp

text \<open>
  The top items' shares add up to 100 and each is its sales' share of the total, rounded to
  a whole percent (the subtitle says the chart is by number of orders).
\<close>

theorem top_item_shares:
  "sum_list (map ti_value topItems) = 100 \<and>
   map ti_value topItems =
     map (\<lambda>t. nat \<lfloor>100 * ti_sales t / sum_list (map ti_sales topItems) + 1/2\<rfloor>) topItems"
  by code_simp

text \<open>Every recent order's status has its own badge, and the payment icons.\<close>

theorem recent_order_badges:
  "map (\<lambda>r. sb_label (getStatusBadge (ro_status r))) recentOrders = [''Selesai'', ''Diproses'', ''Siap'', ''Baru'', ''Selesai''] \<and>
   map (\<lambda>r. getPaymentIcon (ro_paymentMethod r)) recentOrders =
     [''Banknote'', ''CreditCard'', ''Smartphone'', ''Banknote'', ''CreditCard''] \<and>
   sb_label (getStatusBadge ''cancelled'') = ''Baru''"
  by code_simp

end
