(* ===== verification/Navigation.thy ===== *)
theory Navigation
  imports Prelude
begin

text \<open>
  Navigation between the pages (src/src/Routes.jsx, components/ui/BreadcrumbNavigation.jsx,
  components/ui/PrimarySidebar.jsx, components/ui/GlobalHeader.jsx, and the navigating
  buttons of pages/dashboard/index.jsx and pages/point-of-sale-interface/index.jsx).  The
  dashboard, inventory, purchase-order and recipe pages each render the header, the sidebar
  and the breadcrumbs and own the \<open>sidebarOpen\<close> flag; the point of sale renders none of
  them.  A route change unmounts the page, so the new page starts with the sidebar closed,
  its submenu state fresh and the header's dropdowns closed.  \<open>wide\<close> is
  \<open>window.innerWidth >= 1024\<close>, where the sidebar is always shown.  The NotFound page is
  not part of the sources; it is given no controls.
\<close>

datatype page = PDashboard | PPos | PInventory | PPurchaseOrders | PRecipes | PNotFound

definition route :: "string \<Rightarrow> page" where
  "route path =
     (if path = ''/'' \<or> path = ''/dashboard'' then PDashboard
      else if path = ''/point-of-sale-interface'' then PPos
      else if path = ''/inventory-management'' then PInventory
      else if path = ''/purchase-orders'' then PPurchaseOrders
      else if path = ''/recipe-management'' then PRecipes
      else PNotFound)"

fun has_chrome :: "page \<Rightarrow> bool" where
  "has_chrome PPos = False"
| "has_chrome PNotFound = False"
| "has_chrome _ = True"

subsection \<open>Breadcrumbs\<close>

record route_info =
  ri_label :: string
  ri_icon :: string
  ri_parent :: "string option"

definition routeMap :: "(string \<times> route_info) list" where
  "routeMap =
    [(''/dashboard'', \<lparr>ri_label = ''Dashboard'', ri_icon = ''BarChart3'', ri_parent = None\<rparr>),
     (''/point-of-sale-interface'', \<lparr>ri_label = ''Point of Sale'', ri_icon = ''CreditCard'', ri_parent = None\<rparr>),
     (''/kitchen-display-system'', \<lparr>ri_label = ''Kitchen Display'', ri_icon = ''ChefHat'', ri_parent = None\<rparr>),
     (''/inventory-management'', \<lparr>ri_label = ''Inventory Management'', ri_icon = ''Boxes'', ri_parent = Some ''Inventory''\<rparr>),
     (''/recipe-management'', \<lparr>ri_label = ''Recipe Management'', ri_icon = ''BookOpen'', ri_parent = Some ''Inventory''\<rparr>),
     (''/purchase-orders'', \<lparr>ri_label = ''Purchase Orders'', ri_icon = ''ShoppingCart'', ri_parent = Some ''Inventory''\<rparr>)]"

record crumb =
  cr_label :: string
  cr_path :: "string option"
  cr_icon :: string
  cr_current :: bool

text \<open>The breadcrumbs of a path; \<open>None\<close> when the component renders nothing.\<close>

definition breadcrumbs :: "string \<Rightarrow> crumb list option" where
  "breadcrumbs pathname =
     (case map_of routeMap pathname of
        None \<Rightarrow> None
      | Some currentRoute \<Rightarrow>
          Some ((if pathname \<noteq> ''/dashboard''
                 then [\<lparr>cr_label = ''Dashboard'', cr_path = Some ''/dashboard'', cr_icon = ''BarChart3'', cr_current = False\<rparr>]
                 else []) @
                (case ri_parent currentRoute of
                   None \<Rightarrow> []
                 | Some p \<Rightarrow> [\<lparr>cr_label = p, cr_path = None, cr_icon = ''Package'', cr_current = False\<rparr>]) @
                [\<lparr>cr_label = ri_label currentRoute, cr_path = Some pathname, cr_icon = ri_icon currentRoute,
                  cr_current = True\<rparr>]))"

definition handleBreadcrumbClick :: "string option \<Rightarrow> string \<Rightarrow> string option" where
  "handleBreadcrumbClick path pathname =
     (case path of Some p \<Rightarrow> if p \<noteq> pathname then Some p else None | None \<Rightarrow> None)"

definition handleGoBack :: "crumb list \<Rightarrow> string" where
  "handleGoBack bs =
     (if 1 < length bs
      then (case cr_path (bs ! (length bs - 2)) of Some p \<Rightarrow> p | None \<Rightarrow> ''/dashboard'')
      else ''/dashboard'')"

subsection \<open>The sidebar\<close>

datatype nav_item =
  NavItem (ni_id: string) (ni_label: string) (ni_icon: string) (ni_path: "string option")
    (ni_description: string) (ni_submenu: "nav_item list option")

definition navigationItems :: "nav_item list" where
  "navigationItems =
    [NavItem ''dashboard'' ''Dashboard'' ''BarChart3'' (Some ''/dashboard'') ''Business analytics and overview'' None,
     NavItem ''pos'' ''Point of Sale'' ''CreditCard'' (Some ''/point-of-sale-interface'') ''Transaction processing interface'' None,
     NavItem ''kitchen'' ''Kitchen Display'' ''ChefHat'' (Some ''/kitchen-display-system'') ''Real-time order management'' None,
     NavItem ''inventory'' ''Inventory'' ''Package'' None ''Stock and supply management''
       (Some [NavItem ''inventory-management'' ''Stock Management'' ''Boxes'' (Some ''/inventory-management'')
                ''Track and manage inventory levels'' None,
              NavItem ''recipe-management'' ''Recipe Management'' ''BookOpen'' (Some ''/recipe-management'')
                ''Create and manage recipes'' None,
              NavItem ''purchase-orders'' ''Purchase Orders'' ''ShoppingCart'' (Some ''/purchase-orders'')
                ''Manage supplier orders'' None])]"

definition isActiveRoute :: "string \<Rightarrow> string option \<Rightarrow> bool" where
  "isActiveRoute pathname path = (path = Some pathname)"

definition isActiveParent :: "string \<Rightarrow> nav_item list option \<Rightarrow> bool" where
  "isActiveParent pathname submenu =
     (case submenu of None \<Rightarrow> False | Some items \<Rightarrow> list_ex (\<lambda>i. ni_path i = Some pathname) items)"

text \<open>\<open>toggleSubmenu\<close>: \<open>!prev[menuId]\<close>, where a missing entry is falsy.\<close>

definition toggleSubmenu :: "string \<Rightarrow> (string \<rightharpoonup> bool) \<Rightarrow> (string \<rightharpoonup> bool)" where
  "toggleSubmenu menuId prev = prev(menuId \<mapsto> \<not> (prev menuId = Some True))"

definition initial_expanded :: "string \<rightharpoonup> bool" where
  "initial_expanded = [''inventory'' \<mapsto> True]"

text \<open>The menu entries rendered: every top entry and the entries of expanded submenus.\<close>

definition visible_items :: "(string \<rightharpoonup> bool) \<Rightarrow> nav_item list" where
  "visible_items expanded =
     concat (map (\<lambda>i. i # (case ni_submenu i of
                              None \<Rightarrow> []
                            | Some sub \<Rightarrow> if expanded (ni_id i) = Some True then sub else []))
                 navigationItems)"

subsection \<open>The header\<close>

record header_notification =
  hn_id :: nat
  hn_type :: string
  hn_title :: string
  hn_message :: string
  hn_time :: string
  hn_unread :: bool

definition header_notifications :: "header_notification list" where
  "header_notifications =
    [\<lparr>hn_id = 1, hn_type = ''warning'', hn_title = ''Low Stock Alert'',
      hn_message = ''Tomatoes running low (5 units remaining)'', hn_time = ''2 minutes ago'', hn_unread = True\<rparr>,
     \<lparr>hn_id = 2, hn_type = ''success'', hn_title = ''Order Completed'',
      hn_message = ''Table 12 order has been served'', hn_time = ''5 minutes ago'', hn_unread = True\<rparr>,
     \<lparr>hn_id = 3, hn_type = ''error'', hn_title = ''Payment Failed'',
      hn_message = ''Credit card transaction declined for Order #1234'', hn_time = ''10 minutes ago'', hn_unread = False\<rparr>]"

definition header_unreadCount :: nat where
  "header_unreadCount = length (filter hn_unread header_notifications)"

definition header_notificationIcon :: "string \<Rightarrow> string" where
  "header_notificationIcon typ =
     (if typ = ''warning'' then ''AlertTriangle'' else if typ = ''success'' then ''CheckCircle''
      else if typ = ''error'' then ''XCircle'' else ''Bell'')"

definition header_notificationColor :: "string \<Rightarrow> string" where
  "header_notificationColor typ =
     (if typ = ''warning'' then ''text-warning'' else if typ = ''success'' then ''text-success''
      else if typ = ''error'' then ''text-error'' else ''text-muted-foreground'')"

subsection \<open>The application state and its events\<close>

record app_state =
  location :: string
  sidebarOpen :: bool
  expandedMenus :: "string \<rightharpoonup> bool"
  notificationOpen :: bool
  userMenuOpen :: bool
  console :: "string list"

text \<open>A page mounted at \<open>path\<close>, with the page-local state of its header and sidebar fresh.\<close>

definition app_mount :: "string \<Rightarrow> app_state \<Rightarrow> app_state" where
  "app_mount path s =
     s\<lparr>location := path, sidebarOpen := False, expandedMenus := initial_expanded,
       notificationOpen := False, userMenuOpen := False\<rparr>"

definition app_init :: "string \<Rightarrow> app_state" where
  "app_init path =
     \<lparr>location = path, sidebarOpen = False, expandedMenus = initial_expanded, notificationOpen = False,
      userMenuOpen = False, console = []\<rparr>"

text \<open>\<open>navigate(path)\<close>: the same path keeps the mounted page.\<close>

definition app_navigate :: "string \<Rightarrow> app_state \<Rightarrow> app_state" where
  "app_navigate path s = (if path = location s then s else app_mount path s)"

text \<open>The sidebar's \<open>handleNavigation\<close>: navigate, then close the sidebar on narrow screens.\<close>

definition handleNavigation :: "bool \<Rightarrow> string \<Rightarrow> app_state \<Rightarrow> app_state" where
  "handleNavigation wide path s =
     (let s' = app_navigate path s in if wide then s' else s'\<lparr>sidebarOpen := False\<rparr>)"

definition menu_click :: "bool \<Rightarrow> nav_item \<Rightarrow> app_state \<Rightarrow> app_state" where
  "menu_click wide item s =
     (if ni_submenu item \<noteq> None then s\<lparr>expandedMenus := toggleSubmenu (ni_id item) (expandedMenus s)\<rparr>
      else (case ni_path item of Some p \<Rightarrow> handleNavigation wide p s | None \<Rightarrow> s))"

definition handleNotificationClick :: "app_state \<Rightarrow> app_state" where
  "handleNotificationClick s = s\<lparr>notificationOpen := \<not> notificationOpen s, userMenuOpen := False\<rparr>"

definition handleUserMenuClick :: "app_state \<Rightarrow> app_state" where
  "handleUserMenuClick s = s\<lparr>userMenuOpen := \<not> userMenuOpen s, notificationOpen := False\<rparr>"

definition handleLogout :: "app_state \<Rightarrow> app_state" where
  "handleLogout s = s\<lparr>console := console s @ [''Logging out...'']\<rparr>"

definition handleQuickAction :: "string \<Rightarrow> app_state \<Rightarrow> app_state" where
  "handleQuickAction action s =
     (if action = ''new-order'' then app_navigate ''/point-of-sale-interface'' s
      else if action = ''kitchen-display'' then app_navigate ''/kitchen-display-system'' s
      else if action = ''inventory'' then app_navigate ''/inventory-management'' s
      else if action = ''reports'' then s\<lparr>console := console s @ [''Navigate to reports'']\<rparr>
      else s)"

datatype nav_event =
    MenuBtn | SidebarCloseBtn | SidebarOverlayClick | MenuItem string | QuickNewOrder | QuickReports
  | CrumbClick nat | BackBtn | BellBtn | UserBtn | OutsideClick | LogoutBtn
  | DashAction string | PosViewReports

text \<open>
  A click on a page with the header and sidebar.  While a dropdown is open the
  click-outside layer covers the page, so only it and the dropdown's own buttons react.
  The sidebar's controls are there when the screen is wide or the sidebar is open; the
  header's menu button is \<open>lg:hidden\<close>, so only a narrow screen has it.
\<close>

definition chrome_step :: "bool \<Rightarrow> app_state \<Rightarrow> nav_event \<Rightarrow> app_state" where
  "chrome_step wide s e =
     (if notificationOpen s \<or> userMenuOpen s then
        (case e of
           OutsideClick \<Rightarrow> s\<lparr>notificationOpen := False, userMenuOpen := False\<rparr>
         | LogoutBtn \<Rightarrow> (if userMenuOpen s then handleLogout s else s)
         | _ \<Rightarrow> s)
      else
        (case e of
           MenuBtn \<Rightarrow> (if wide then s else s\<lparr>sidebarOpen := \<not> sidebarOpen s\<rparr>)
         | SidebarCloseBtn \<Rightarrow> (if wide \<or> sidebarOpen s then s\<lparr>sidebarOpen := False\<rparr> else s)
         | SidebarOverlayClick \<Rightarrow> (if sidebarOpen s \<and> \<not> wide then s\<lparr>sidebarOpen := False\<rparr> else s)
         | MenuItem i \<Rightarrow>
             (if wide \<or> sidebarOpen s then
                (case find (\<lambda>item. ni_id item = i) (visible_items (expandedMenus s)) of
                   None \<Rightarrow> s
                 | Some item \<Rightarrow> menu_click wide item s)
              else s)
         | QuickNewOrder \<Rightarrow> (if wide \<or> sidebarOpen s then handleNavigation wide ''/point-of-sale-interface'' s else s)
         | QuickReports \<Rightarrow> (if wide \<or> sidebarOpen s then handleNavigation wide ''/dashboard'' s else s)
         | CrumbClick k \<Rightarrow>
             (case breadcrumbs (location s) of
                None \<Rightarrow> s
              | Some bs \<Rightarrow>
                  (if k < length bs \<and> \<not> cr_current (bs ! k)
                   then (case handleBreadcrumbClick (cr_path (bs ! k)) (location s) of
                           None \<Rightarrow> s
                         | Some p \<Rightarrow> app_navigate p s)
                   else s))
         | BackBtn \<Rightarrow>
             (case breadcrumbs (location s) of
                None \<Rightarrow> s
              | Some bs \<Rightarrow> (if 1 < length bs then app_navigate (handleGoBack bs) s else s))
         | BellBtn \<Rightarrow> handleNotificationClick s
         | UserBtn \<Rightarrow> handleUserMenuClick s
         | DashAction a \<Rightarrow> (if route (location s) = PDashboard then handleQuickAction a s else s)
         | _ \<Rightarrow> s))"

text \<open>
  One click.  The point of sale reacts only to its header's report button; NotFound to
  nothing.  The purchase-order page also listens for clicks on the document and, on a
  narrow screen with the sidebar open, closes it after the click's own handler.
\<close>

definition nav_step :: "bool \<Rightarrow> app_state \<Rightarrow> nav_event \<Rightarrow> app_state" where
  "nav_step wide s e =
     (if route (location s) = PPos then (if e = PosViewReports then app_navigate ''/dashboard'' s else s)
      else if has_chrome (route (location s)) then
        (let s' = chrome_step wide s e
         in if route (location s) = PPurchaseOrders \<and> sidebarOpen s \<and> \<not> wide \<and> location s' = location s
            then s'\<lparr>sidebarOpen := False\<rparr> else s')
      else s)"

definition nav_run :: "bool \<Rightarrow> app_state \<Rightarrow> nav_event list \<Rightarrow> app_state" where
  "nav_run wide s es = foldl (nav_step wide) s es"


subsection \<open>Invariant\<close>

definition nav_inv :: "app_state \<Rightarrow> bool" where
  "nav_inv s = (\<not> (notificationOpen s \<and> userMenuOpen s) \<and> (sidebarOpen s \<longrightarrow> has_chrome (route (location s))))"

subsection \<open>Lemmas and properties\<close>

lemma nav_inv_mount: "nav_inv (app_mount p s)"
  by (simp add: nav_inv_def app_mount_def)

lemma nav_inv_navigate: "nav_inv s \<Longrightarrow> nav_inv (app_navigate p s)"
  by (simp add: app_navigate_def nav_inv_mount)

lemma nav_inv_handleNavigation: "nav_inv s \<Longrightarrow> nav_inv (handleNavigation wide p s)"
  using nav_inv_navigate [of s p] by (simp add: handleNavigation_def Let_def nav_inv_def)

lemma nav_inv_upd:
  "nav_inv s \<Longrightarrow> has_chrome (route (location s)) \<Longrightarrow> nav_inv (s\<lparr>sidebarOpen := b\<rparr>)"
  "nav_inv s \<Longrightarrow> nav_inv (s\<lparr>expandedMenus := m\<rparr>)"
  "nav_inv s \<Longrightarrow> nav_inv (s\<lparr>console := c\<rparr>)"
  "nav_inv s \<Longrightarrow> nav_inv (s\<lparr>notificationOpen := False, userMenuOpen := False\<rparr>)"
  "nav_inv s \<Longrightarrow> nav_inv (handleNotificationClick s)"
  "nav_inv s \<Longrightarrow> nav_inv (handleUserMenuClick s)"
  by (simp_all add: nav_inv_def handleNotificationClick_def handleUserMenuClick_def)

lemma nav_inv_menu_click: "nav_inv s \<Longrightarrow> nav_inv (menu_click wide item s)"
  unfolding menu_click_def by (simp add: nav_inv_upd nav_inv_handleNavigation split: option.splits)

lemma nav_inv_quick: "nav_inv s \<Longrightarrow> nav_inv (handleQuickAction a s)"
  by (simp add: handleQuickAction_def nav_inv_navigate nav_inv_upd)

lemma chrome_step_inv:
  "nav_inv s \<Longrightarrow> has_chrome (route (location s)) \<Longrightarrow> nav_inv (chrome_step wide s e)"
  unfolding chrome_step_def
  by (cases e) (simp_all add: nav_inv_handleNavigation nav_inv_menu_click nav_inv_quick nav_inv_navigate
      nav_inv_upd handleLogout_def split: option.splits)

lemma nav_step_inv:
  assumes i: "nav_inv s"
  shows "nav_inv (nav_step wide s e)"
proof (cases "route (location s) = PPos")
  case True
  then show ?thesis using i by (simp add: nav_step_def nav_inv_navigate)
next
  case pos: False
  show ?thesis
  proof (cases "has_chrome (route (location s))")
    case True
    have "nav_inv (x\<lparr>sidebarOpen := False\<rparr>)" if "nav_inv x" for x using that by (simp add: nav_inv_def)
    then show ?thesis using pos True chrome_step_inv [OF i True] by (simp add: nav_step_def Let_def)
  next
    case False
    then show ?thesis using pos i by (simp add: nav_step_def)
  qed
qed

text \<open>
  C27: Across pages, on every run of clicks from any start: the two header dropdowns are
  never open together, and the sidebar is open only on a page that renders it (a route
  change remounts the page with the sidebar closed).
\<close>

theorem nav_run_inv:
  "\<not> (notificationOpen (nav_run wide (app_init p) es) \<and> userMenuOpen (nav_run wide (app_init p) es)) \<and>
   (sidebarOpen (nav_run wide (app_init p) es) \<longrightarrow> has_chrome (route (location (nav_run wide (app_init p) es))))"
proof -
  have "nav_inv (foldl (nav_step wide) (app_init p) es)"
  proof (induction es rule: rev_induct)
    case Nil then show ?case by (simp add: nav_inv_def app_init_def)
  next
    case (snoc e es) then show ?case by (simp add: nav_step_inv)
  qed
  then show ?thesis by (simp add: nav_run_def nav_inv_def)
qed

lemma notfound_step: "route (location s) = PNotFound \<Longrightarrow> nav_step wide s e = s"
  by (simp add: nav_step_def)

lemma notfound_run: "route (location s) = PNotFound \<Longrightarrow> nav_run wide s es = s"
  unfolding nav_run_def by (induction es) (simp_all add: notfound_step)

lemma kitchen_click: "nav_step True (app_init ''/dashboard'') (MenuItem ''kitchen'') = app_mount ''/kitchen-display-system'' (app_init ''/dashboard'')"
  by (simp add: nav_step_def chrome_step_def app_init_def route_def visible_items_def navigationItems_def
      initial_expanded_def menu_click_def handleNavigation_def app_navigate_def)

text \<open>
  The sidebar's Kitchen Display entry (like the dashboard's kitchen button) leads to a
  path that the breadcrumbs know but the route table does not: the page rendered there is
  NotFound, and no click changes anything afterwards.
\<close>

theorem kitchen_link_dead_end:
  "route (location (nav_step True (app_init ''/dashboard'') (MenuItem ''kitchen''))) = PNotFound \<and>
   breadcrumbs (location (nav_step True (app_init ''/dashboard'') (MenuItem ''kitchen''))) \<noteq> None \<and>
   nav_run wide (nav_step True (app_init ''/dashboard'') (MenuItem ''kitchen'')) es =
     nav_step True (app_init ''/dashboard'') (MenuItem ''kitchen'')"
proof -
  have r: "route (location (nav_step True (app_init ''/dashboard'') (MenuItem ''kitchen''))) = PNotFound"
    by (simp add: kitchen_click app_mount_def route_def)
  moreover have "breadcrumbs (location (nav_step True (app_init ''/dashboard'') (MenuItem ''kitchen''))) \<noteq> None"
    by (simp add: kitchen_click app_mount_def breadcrumbs_def routeMap_def)
  ultimately show ?thesis by (simp add: notfound_run)
qed

text \<open>
  The point of sale renders neither header nor sidebar: its only way out is the report
  button of its own header, to the dashboard.
\<close>

theorem pos_exit_only_dashboard:
  "route (location s) = PPos \<Longrightarrow> nav_step wide s e = s \<or> nav_step wide s e = app_mount ''/dashboard'' s"
  by (auto simp: nav_step_def app_navigate_def route_def)

text \<open>
  For every path with breadcrumbs, the last crumb is the current page and the only current
  one, and Back goes to the dashboard (the parent crumb has no path), never to the page
  the user came from.
\<close>

theorem back_goes_to_dashboard:
  "map_of routeMap p = Some r \<Longrightarrow>
   \<exists>bs. breadcrumbs p = Some bs \<and>
        last bs = \<lparr>cr_label = ri_label r, cr_path = Some p, cr_icon = ri_icon r, cr_current = True\<rparr> \<and>
        list_all (\<lambda>c. \<not> cr_current c) (butlast bs) \<and> handleGoBack bs = ''/dashboard''"
  by (auto simp: routeMap_def breadcrumbs_def handleGoBack_def split: if_splits)

text \<open>
  On the purchase-order page on a narrow screen, the document click listener closes the
  open sidebar after any click, so toggling the Inventory submenu also closes the sidebar.
\<close>

theorem po_sidebar_click_closes:
  "sidebarOpen (nav_run False (app_init ''/purchase-orders'') [MenuBtn]) \<and>
   \<not> sidebarOpen (nav_run False (app_init ''/purchase-orders'') [MenuBtn, MenuItem ''inventory'']) \<and>
   expandedMenus (nav_run False (app_init ''/purchase-orders'') [MenuBtn, MenuItem ''inventory'']) ''inventory'' = Some False"
  by (simp add: nav_run_def nav_step_def chrome_step_def app_init_def route_def visible_items_def
      navigationItems_def initial_expanded_def menu_click_def toggleSubmenu_def)

theorem nav_run_inv_witness:
  "sidebarOpen (nav_run False (app_init ''/inventory-management'') [MenuBtn]) \<and>
   has_chrome (route (location (nav_run False (app_init ''/inventory-management'') [MenuBtn])))"
proof -
  have "sidebarOpen (nav_run False (app_init ''/inventory-management'') [MenuBtn])"
    by (simp add: nav_run_def nav_step_def chrome_step_def app_init_def route_def)
  then show ?thesis using nav_run_inv [of False "''/inventory-management''" "[MenuBtn]"] by blast
qed

theorem pos_exit_only_dashboard_witness:
  "location (nav_step True (app_init ''/point-of-sale-interface'') PosViewReports) = ''/dashboard''"
proof -
  have "route (location (app_init ''/point-of-sale-interface'')) = PPos" by (simp add: app_init_def route_def)
  from pos_exit_only_dashboard [OF this, of True PosViewReports] show ?thesis
    by (auto simp: app_init_def app_mount_def nav_step_def route_def app_navigate_def)
qed

theorem back_goes_to_dashboard_witness:
  "handleGoBack (the (breadcrumbs ''/purchase-orders'')) = ''/dashboard''"
proof -
  have "map_of routeMap ''/purchase-orders'' =
        Some \<lparr>ri_label = ''Purchase Orders'', ri_icon = ''ShoppingCart'', ri_parent = Some ''Inventory''\<rparr>"
    by (simp add: routeMap_def)
  from back_goes_to_dashboard [OF this] show ?thesis by auto
qed


end
