(* ===== verification/DashboardPage.thy ===== *)
theory DashboardPage
  imports Dashboard Navigation
begin

text \<open>
  The dashboard page's own layout (src/src/pages/dashboard/index.jsx): the four metric
  cards built from \<open>dashboardMetrics\<close>, and the page's buttons, which all go through
  \<open>handleQuickAction\<close> (Navigation).  The MetricCard component is not in the repository;
  a card is the props the page hands it.
\<close>

record metric_card =
  mc_title :: string
  mc_metric :: metric
  mc_icon :: string
  mc_color :: string

definition metric_cards :: "metric_card list" where
  "metric_cards =
    (let m = (\<lambda>k. the (map_of dashboardMetrics k)) in
     [\<lparr>mc_title = ''Penjualan Hari Ini'', mc_metric = m ''dailySales'', mc_icon = ''DollarSign'', mc_color = ''success''\<rparr>,
      \<lparr>mc_title = ''Jumlah Pesanan'', mc_metric = m ''orderCount'', mc_icon = ''ShoppingBag'', mc_color = ''primary''\<rparr>,
      \<lparr>mc_title = ''Rata-rata Pesanan'', mc_metric = m ''averageOrder'', mc_icon = ''TrendingUp'', mc_color = ''warning''\<rparr>,
      \<lparr>mc_title = ''Margin Keuntungan'', mc_metric = m ''profitMargin'', mc_icon = ''Percent'', mc_color = ''error''\<rparr>])"

text \<open>The page's buttons in the order they are rendered: label and the action they hand to \<open>handleQuickAction\<close>.\<close>

definition header_buttons :: "(string \<times> string) list" where
  "header_buttons = [(''Lihat Laporan'', ''reports''), (''Pesanan Baru'', ''new-order'')]"

definition quick_access :: "(string \<times> string) list" where
  "quick_access =
    [(''POS'', ''new-order''), (''Dapur'', ''kitchen-display''), (''Inventori'', ''inventory''), (''Laporan'', ''reports'')]"

definition dashboard_buttons :: "(string \<times> string) list" where
  "dashboard_buttons = header_buttons @ quick_access"

subsection \<open>The recent orders table's rows\<close>

text \<open>The payment cell's text: \<open>cash\<close> is "Tunai", \<open>card\<close> "Kartu", anything else "Digital".\<close>

definition payment_label :: "string \<Rightarrow> string" where
  "payment_label method =
     (if method = ''cash'' then ''Tunai'' else if method = ''card'' then ''Kartu'' else ''Digital'')"

definition recent_headers :: "string list" where
  "recent_headers = [''ID Pesanan'', ''Meja/Lokasi'', ''Item'', ''Total'', ''Status'', ''Waktu'', ''Pembayaran'']"

record recent_row =
  rr_id :: string
  rr_table :: string
  rr_items :: string
  rr_count :: string
  rr_total :: rat
  rr_badge :: status_badge
  rr_time :: string
  rr_payment :: "string \<times> string"

definition recent_row :: "recent_order \<Rightarrow> recent_row" where
  "recent_row order =
     \<lparr>rr_id = ro_id order, rr_table = ro_table order, rr_items = js_join '', '' (ro_items order),
      rr_count = items_label order, rr_total = ro_total order, rr_badge = getStatusBadge (ro_status order),
      rr_time = ro_time order,
      rr_payment = (getPaymentIcon (ro_paymentMethod order), payment_label (ro_paymentMethod order))\<rparr>"

definition recent_rows :: "recent_row list" where
  "recent_rows = map recent_row recentOrders"

subsection \<open>Properties\<close>

text \<open>
  Where the dashboard's buttons lead: the two report buttons stay on the dashboard and only
  write to the console, "Dapur" leads to a path that no route serves (the NotFound page),
  and the others open the point of sale and the inventory.
\<close>

theorem dashboard_button_targets:
  "map (\<lambda>(l, a). route (location (handleQuickAction a (app_init ''/dashboard'')))) dashboard_buttons =
     [PDashboard, PPos, PPos, PNotFound, PInventory, PDashboard] \<and>
   map (\<lambda>(l, a). console (handleQuickAction a (app_init ''/dashboard''))) dashboard_buttons =
     [[''Navigate to reports''], [], [], [], [], [''Navigate to reports'']]"
  by (simp add: dashboard_buttons_def header_buttons_def quick_access_def handleQuickAction_def app_navigate_def app_mount_def app_init_def route_def)

text \<open>
  The metric cards show the mock metrics in the page's order, and the average order value
  is the daily sales divided by the order count, rounded to the rupiah.
\<close>

theorem metric_cards_consistent:
  "map (mt_value \<circ> mc_metric) metric_cards = [''Rp 4.580.000'', ''156'', ''Rp 29.359'', ''68.5%''] \<and>
   round (4580000 / 156 :: rat) = 29359"
proof -
  have "round (4580000 / 156 :: rat) = 29359"
    using floor_divide_of_int_eq [of 2290039 78, where 'a = rat] by (simp add: round_def)
  then show ?thesis by (simp add: metric_cards_def dashboardMetrics_def)
qed

text \<open>
  The rows of the recent orders table: items joined by commas, their count, and the
  payment cell for each order.
\<close>

theorem recent_rows_cells:
  "map (\<lambda>r. (rr_items r, rr_count r, rr_payment r)) recent_rows =
     [(''Nasi Gudeg, Es Teh Manis'', ''2 items'', (''Banknote'', ''Tunai'')),
      (''Ayam Bakar, Nasi Putih, Es Jeruk'', ''3 items'', (''CreditCard'', ''Kartu'')),
      (''Soto Ayam, Kerupuk'', ''2 items'', (''Smartphone'', ''Digital'')),
      (''Gado-gado, Es Teh Tawar'', ''2 items'', (''Banknote'', ''Tunai'')),
      (''Nasi Gudeg, Ayam Bakar, Es Jeruk'', ''3 items'', (''CreditCard'', ''Kartu''))]"
proof -
  have "show_nat (Suc (Suc 0)) = ''2''" "show_nat (Suc (Suc (Suc 0))) = ''3''" by code_simp+
  then show ?thesis
    by (simp add: recent_rows_def recent_row_def recentOrders_def items_label_def getPaymentIcon_def payment_label_def)
qed

text \<open>
  A payment method other than cash, card or digital is labelled "Digital" next to the
  generic money icon: the label and the icon of the payment cell disagree on it.
\<close>

theorem unknown_payment_labelled_digital:
  assumes "method \<notin> {''cash'', ''card'', ''digital''}"
  shows "getPaymentIcon method = ''DollarSign'' \<and> payment_label method = ''Digital'' \<and>
         getPaymentIcon ''digital'' = ''Smartphone''"
  using assms by (simp add: getPaymentIcon_def payment_label_def)

theorem unknown_payment_labelled_digital_witness:
  "getPaymentIcon ''qris'' = ''DollarSign'' \<and> payment_label ''qris'' = ''Digital''"
  using unknown_payment_labelled_digital [of "''qris''"] by simp

end
