(* ===== verification/Notifications.thy ===== *)
theory Notifications
  imports Prelude
begin

text \<open>
  The notification panel of the global header (src/src/components/ui/NotificationCenter.jsx):
  a list of notifications in component state, a simulated feed that every thirty seconds
  may put a new notification in front and keeps at most twenty, the per-notification and
  bulk actions, and the filter and sort of the displayed list.  The random choices of the
  feed are the event's arguments; times are milliseconds.
\<close>

record notification =
  n_id :: int
  n_type :: string
  n_category :: string
  n_title :: string
  n_message :: string
  n_timestamp :: int
  unread :: bool
  n_priority :: string

definition initial_notifications :: "int \<Rightarrow> notification list" where
  "initial_notifications t0 =
    [\<lparr>n_id = 1, n_type = ''warning'', n_category = ''inventory'', n_title = ''Low Stock Alert'',
      n_message = ''Tomatoes running low (5 units remaining)'', n_timestamp = t0 - 2 * 60 * 1000, unread = True,
      n_priority = ''high''\<rparr>,
     \<lparr>n_id = 2, n_type = ''success'', n_category = ''orders'', n_title = ''Order Completed'',
      n_message = ''Table 12 order has been served successfully'', n_timestamp = t0 - 5 * 60 * 1000, unread = True,
      n_priority = ''medium''\<rparr>,
     \<lparr>n_id = 3, n_type = ''error'', n_category = ''payment'', n_title = ''Payment Failed'',
      n_message = ''Credit card transaction declined for Order #1234'', n_timestamp = t0 - 10 * 60 * 1000, unread = False,
      n_priority = ''high''\<rparr>,
     \<lparr>n_id = 4, n_type = ''info'', n_category = ''system'', n_title = ''System Update'',
      n_message = ''POS system will be updated tonight at 2:00 AM'', n_timestamp = t0 - 30 * 60 * 1000, unread = False,
      n_priority = ''low''\<rparr>,
     \<lparr>n_id = 5, n_type = ''warning'', n_category = ''inventory'', n_title = ''Expiry Alert'',
      n_message = ''Dairy products expiring in 2 days'', n_timestamp = t0 - 45 * 60 * 1000, unread = True,
      n_priority = ''medium''\<rparr>]"

text \<open>
  The feed's tick: with the random draw above 0.7, a new unread notification with id and
  time \<open>Date.now()\<close> and the drawn type, category and priority goes in front of the first
  nineteen.
\<close>

definition push_notification :: "int \<Rightarrow> string \<Rightarrow> string \<Rightarrow> string \<Rightarrow> notification list \<Rightarrow> notification list" where
  "push_notification now typ cat prio prev =
     \<lparr>n_id = now, n_type = typ, n_category = cat, n_title = ''New Alert'',
      n_message = ''This is a simulated real-time notification'', n_timestamp = now, unread = True,
      n_priority = prio\<rparr> # take 19 prev"

definition getNotificationIcon :: "string \<Rightarrow> string" where
  "getNotificationIcon typ =
     (if typ = ''warning'' then ''AlertTriangle'' else if typ = ''success'' then ''CheckCircle''
      else if typ = ''error'' then ''XCircle'' else if typ = ''info'' then ''Info'' else ''Bell'')"

definition getCategoryIcon :: "string \<Rightarrow> string" where
  "getCategoryIcon cat =
     (if cat = ''inventory'' then ''Package'' else if cat = ''orders'' then ''ShoppingBag''
      else if cat = ''payment'' then ''CreditCard'' else if cat = ''system'' then ''Settings'' else ''Bell'')"

text \<open>\<open>formatTimestamp\<close>, with the floors of \<open>Math.floor\<close>.\<close>

definition formatTimestamp :: "int \<Rightarrow> int \<Rightarrow> string" where
  "formatTimestamp now ts =
     (let diff = now - ts; minutes = diff div 60000; hours = diff div 3600000; days = diff div 86400000
      in if minutes < 1 then ''Just now''
         else if minutes < 60 then show_nat (nat minutes) @ '' minutes ago''
         else if hours < 24 then show_nat (nat hours) @ '' hours ago''
         else show_nat (nat days) @ '' days ago'')"

definition filteredNotifications :: "string \<Rightarrow> notification list \<Rightarrow> notification list" where
  "filteredNotifications flt ns =
     filter (\<lambda>n. if flt = ''all'' then True else if flt = ''unread'' then unread n else n_category n = flt) ns"

definition priority_rank :: "string \<Rightarrow> int" where
  "priority_rank p = (if p = ''high'' then 3 else if p = ''medium'' then 2 else 1)"

text \<open>
  \<open>sortedNotifications\<close>: both comparators (\<open>b.timestamp - a.timestamp\<close>, the priority
  ranks' difference) are consistent, so the stable sort is \<open>sort_key\<close> on the negated key.
\<close>

definition sortedNotifications :: "string \<Rightarrow> notification list \<Rightarrow> notification list" where
  "sortedNotifications sortBy ns =
     (if sortBy = ''timestamp'' then sort_key (\<lambda>n. - n_timestamp n) ns
      else if sortBy = ''priority'' then sort_key (\<lambda>n. - priority_rank (n_priority n)) ns
      else ns)"

definition unreadCount :: "notification list \<Rightarrow> nat" where
  "unreadCount ns = length (filter unread ns)"

definition markAsRead :: "int \<Rightarrow> notification list \<Rightarrow> notification list" where
  "markAsRead nid prev = map_where (\<lambda>n. n_id n = nid) (\<lambda>n. n\<lparr>unread := False\<rparr>) prev"

definition markAllAsRead :: "notification list \<Rightarrow> notification list" where
  "markAllAsRead prev = map (\<lambda>n. n\<lparr>unread := False\<rparr>) prev"

definition deleteNotification :: "int \<Rightarrow> notification list \<Rightarrow> notification list" where
  "deleteNotification nid prev = filter (\<lambda>n. n_id n \<noteq> nid) prev"

record notif_state =
  notifications :: "notification list"
  n_filter :: string
  n_sortBy :: string

datatype notif_event =
    Tick int string string string | MarkRead int | MarkAll | DeleteN int | ClearAll
  | SetFilter string | SetSort string

text \<open>
  One event: the feed's tick, or a control of the open panel.  The per-notification
  buttons act on displayed notifications (the mark-read button only on unread ones); the
  bulk buttons are disabled when there is nothing to mark or to clear.
\<close>

fun notif_step :: "notif_state \<Rightarrow> notif_event \<Rightarrow> notif_state" where
  "notif_step s (Tick now typ cat prio) = s\<lparr>notifications := push_notification now typ cat prio (notifications s)\<rparr>"
| "notif_step s (MarkRead nid) =
     (if \<exists>n\<in>set (filteredNotifications (n_filter s) (notifications s)). n_id n = nid \<and> unread n
      then s\<lparr>notifications := markAsRead nid (notifications s)\<rparr> else s)"
| "notif_step s MarkAll =
     (if unreadCount (notifications s) \<noteq> 0 then s\<lparr>notifications := markAllAsRead (notifications s)\<rparr> else s)"
| "notif_step s (DeleteN nid) =
     (if \<exists>n\<in>set (filteredNotifications (n_filter s) (notifications s)). n_id n = nid
      then s\<lparr>notifications := deleteNotification nid (notifications s)\<rparr> else s)"
| "notif_step s ClearAll = (if notifications s \<noteq> [] then s\<lparr>notifications := []\<rparr> else s)"
| "notif_step s (SetFilter f) = s\<lparr>n_filter := f\<rparr>"
| "notif_step s (SetSort b) = s\<lparr>n_sortBy := b\<rparr>"

definition notif_init :: "int \<Rightarrow> notif_state" where
  "notif_init t0 = \<lparr>notifications = initial_notifications t0, n_filter = ''all'', n_sortBy = ''timestamp''\<rparr>"

definition notif_run :: "notif_state \<Rightarrow> notif_event list \<Rightarrow> notif_state" where
  "notif_run s es = foldl notif_step s es"

subsection \<open>Properties\<close>

lemma notif_step_length: "length (notifications s) \<le> 20 \<Longrightarrow> length (notifications (notif_step s e)) \<le> 20"
  by (cases e) (auto simp: push_notification_def markAsRead_def markAllAsRead_def deleteNotification_def
      intro: le_trans [OF length_filter_le])

text \<open>C28: The panel never holds more than twenty notifications, whatever the feed and the user do.\<close>

theorem notif_run_bound: "length (notifications (notif_run (notif_init t0) es)) \<le> 20"
proof -
  have "length (notifications (foldl notif_step s es)) \<le> 20" if "length (notifications s) \<le> 20" for s
    using that by (induction es arbitrary: s) (simp_all add: notif_step_length)
  then show ?thesis by (simp add: notif_run_def notif_init_def initial_notifications_def)
qed

text \<open>Marking all as read leaves no unread notification; marking one as read never adds one.\<close>

theorem markAllAsRead_count: "unreadCount (markAllAsRead ns) = 0"
  by (simp add: unreadCount_def markAllAsRead_def comp_def)

theorem markAsRead_count: "unreadCount (markAsRead nid ns) \<le> unreadCount ns"
proof (induction ns)
  case Nil then show ?case by (simp add: markAsRead_def unreadCount_def)
next
  case (Cons n ns) then show ?case by (simp add: markAsRead_def unreadCount_def)
qed

end
