(* ===== verification/Inventory.thy ===== *)
theory Inventory
  imports Stock JsSort
begin

text \<open>
  The inventory management page's data and table (src/src/pages/inventory-management/
  index.jsx, components/InventoryFilters.jsx and components/InventoryTable.jsx): the mock
  items, the filter of \<open>filteredAndSortedItems\<close> with its date range (the value of a date
  input and \<open>new Date\<close> on it), the sort comparator over the typed cell values, the sort
  toggle and the summary.  Times are milliseconds since the epoch; \<open>now\<close> is
  \<open>Date.now()\<close> when the page renders.
\<close>

record inv_item =
  ii_id :: nat
  ii_name :: string
  ii_category :: string
  ii_currentStock :: rat
  ii_unit :: string
  ii_supplier :: string
  ii_lastUpdated :: int
  ii_status :: string
  ii_unitPrice :: rat
  ii_value :: rat
  ii_minStock :: rat
  ii_maxStock :: rat

definition inventoryItems :: "int \<Rightarrow> inv_item list" where
  "inventoryItems now =
    [\<lparr>ii_id = 1, ii_name = ''Daging Sapi Premium'', ii_category = ''Daging'', ii_currentStock = 455/10,
      ii_unit = ''kg'', ii_supplier = ''PT Protein Prima'', ii_lastUpdated = now - 2 * 60 * 60 * 1000,
      ii_status = ''adequate'', ii_unitPrice = 120000, ii_value = 5460000, ii_minStock = 20, ii_maxStock = 100\<rparr>,
     \<lparr>ii_id = 2, ii_name = ''Tomat Segar'', ii_category = ''Sayuran'', ii_currentStock = 82/10,
      ii_unit = ''kg'', ii_supplier = ''Toko Sayur Berkah'', ii_lastUpdated = now - 30 * 60 * 1000,
      ii_status = ''low'', ii_unitPrice = 15000, ii_value = 123000, ii_minStock = 15, ii_maxStock = 50\<rparr>,
     \<lparr>ii_id = 3, ii_name = ''Bawang Merah'', ii_category = ''Sayuran'', ii_currentStock = 31/10,
      ii_unit = ''kg'', ii_supplier = ''CV Bahan Makanan Jaya'', ii_lastUpdated = now - 45 * 60 * 1000,
      ii_status = ''critical'', ii_unitPrice = 25000, ii_value = 77500, ii_minStock = 10, ii_maxStock = 30\<rparr>,
     \<lparr>ii_id = 4, ii_name = ''Beras Premium'', ii_category = ''Biji-bijian'', ii_currentStock = 125,
      ii_unit = ''kg'', ii_supplier = ''PT Segar Nusantara'', ii_lastUpdated = now - 24 * 60 * 60 * 1000,
      ii_status = ''adequate'', ii_unitPrice = 12000, ii_value = 1500000, ii_minStock = 50, ii_maxStock = 200\<rparr>,
     \<lparr>ii_id = 5, ii_name = ''Keju Mozzarella'', ii_category = ''Produk Susu'', ii_currentStock = 125/10,
      ii_unit = ''kg'', ii_supplier = ''UD Rempah Nusantara'', ii_lastUpdated = now - 6 * 60 * 60 * 1000,
      ii_status = ''low'', ii_unitPrice = 85000, ii_value = 1062500, ii_minStock = 15, ii_maxStock = 40\<rparr>,
     \<lparr>ii_id = 6, ii_name = ''Ikan Salmon'', ii_category = ''Makanan Laut'', ii_currentStock = 183/10,
      ii_unit = ''kg'', ii_supplier = ''PT Protein Prima'', ii_lastUpdated = now - 4 * 60 * 60 * 1000,
      ii_status = ''adequate'', ii_unitPrice = 180000, ii_value = 3294000, ii_minStock = 10, ii_maxStock = 30\<rparr>,
     \<lparr>ii_id = 7, ii_name = ''Cabai Merah'', ii_category = ''Sayuran'', ii_currentStock = 28/10,
      ii_unit = ''kg'', ii_supplier = ''Toko Sayur Berkah'', ii_lastUpdated = now - 1 * 60 * 60 * 1000,
      ii_status = ''critical'', ii_unitPrice = 35000, ii_value = 98000, ii_minStock = 8, ii_maxStock = 25\<rparr>,
     \<lparr>ii_id = 8, ii_name = ''Ayam Kampung'', ii_category = ''Daging'', ii_currentStock = 32,
      ii_unit = ''kg'', ii_supplier = ''CV Bahan Makanan Jaya'', ii_lastUpdated = now - 3 * 60 * 60 * 1000,
      ii_status = ''adequate'', ii_unitPrice = 45000, ii_value = 1440000, ii_minStock = 20, ii_maxStock = 60\<rparr>]"

subsection \<open>Filter controls\<close>

record inv_filters =
  fl_search :: string
  fl_category :: string
  fl_supplier :: string
  fl_status :: string
  fl_startDate :: string
  fl_endDate :: string
  fl_minValue :: string
  fl_maxValue :: string

definition empty_filters :: inv_filters where
  "empty_filters = \<lparr>fl_search = [], fl_category = [], fl_supplier = [], fl_status = [], fl_startDate = [],
     fl_endDate = [], fl_minValue = [], fl_maxValue = []\<rparr>"

text \<open>The options of the three selects, as (value, label).\<close>

definition inv_categories :: "(string \<times> string) list" where
  "inv_categories =
    [([], ''Semua Kategori''), (''vegetables'', ''Sayuran''), (''meat'', ''Daging''),
     (''seafood'', ''Makanan Laut''), (''dairy'', ''Produk Susu''), (''grains'', ''Biji-bijian''),
     (''spices'', ''Bumbu & Rempah''), (''beverages'', ''Minuman''), (''frozen'', ''Makanan Beku'')]"

definition inv_suppliers :: "(string \<times> string) list" where
  "inv_suppliers =
    [([], ''Semua Pemasok''), (''PT Segar Nusantara'', ''PT Segar Nusantara''),
     (''CV Bahan Makanan Jaya'', ''CV Bahan Makanan Jaya''), (''Toko Sayur Berkah'', ''Toko Sayur Berkah''),
     (''PT Protein Prima'', ''PT Protein Prima''), (''UD Rempah Nusantara'', ''UD Rempah Nusantara'')]"

definition stockStatuses :: "(string \<times> string) list" where
  "stockStatuses =
    [([], ''Semua Status''), (''adequate'', ''Stok Cukup''), (''low'', ''Stok Rendah''), (''critical'', ''Stok Kritis'')]"

definition bulkActions :: "string list" where
  "bulkActions = [''export'', ''update-prices'', ''adjust-stock'', ''generate-po'', ''delete'']"

definition hasActiveFilters :: "inv_filters \<Rightarrow> bool" where
  "hasActiveFilters f =
     list_ex (\<lambda>v. v \<noteq> []) [fl_search f, fl_category f, fl_supplier f, fl_status f, fl_startDate f,
                            fl_endDate f, fl_minValue f, fl_maxValue f]"

subsection \<open>Dates\<close>

text \<open>
  A date input's value is \<open>''''\<close> or \<open>YYYY-MM-DD\<close>; \<open>new Date\<close> reads the latter as UTC
  midnight.  \<open>days_from_civil\<close> is the proleptic Gregorian day number (0 on 1970-01-01).
\<close>

definition days_from_civil :: "int \<Rightarrow> int \<Rightarrow> int \<Rightarrow> int" where
  "days_from_civil y m d =
     (let y' = (if m \<le> 2 then y - 1 else y); era = y' div 400; yoe = y' - era * 400;
          mp = (if 2 < m then m - 3 else m + 9); doy = (153 * mp + 2) div 5 + d - 1;
          doe = yoe * 365 + yoe div 4 - yoe div 100 + doy
      in era * 146097 + doe - 719468)"

definition days_in_month :: "int \<Rightarrow> int \<Rightarrow> int" where
  "days_in_month y m =
     (if m = 2 then (if y mod 400 = 0 then 29 else if y mod 100 = 0 then 28 else if y mod 4 = 0 then 29 else 28)
      else if m = 4 \<or> m = 6 \<or> m = 9 \<or> m = 11 then 30 else 31)"

definition parse_date_only :: "string \<Rightarrow> int option" where
  "parse_date_only s =
     (if length s = 10 \<and> s ! 4 = CHR ''-'' \<and> s ! 7 = CHR ''-'' \<and>
         list_all is_digit (take 4 s @ take 2 (drop 5 s) @ drop 8 s)
      then (let y = int (digits_val (take 4 s)); m = int (digits_val (take 2 (drop 5 s)));
                d = int (digits_val (drop 8 s))
            in if 1 \<le> m \<and> m \<le> 12 \<and> 1 \<le> d \<and> d \<le> days_in_month y m
               then Some (days_from_civil y m d * 86400000) else None)
      else None)"

definition iso_date :: "nat \<Rightarrow> nat \<Rightarrow> nat \<Rightarrow> string" where
  "iso_date y m d =
     pad_start 4 CHR ''0'' (show_nat y) @ ''-'' @ pad_start 2 CHR ''0'' (show_nat m) @ ''-'' @
     pad_start 2 CHR ''0'' (show_nat d)"

definition valid_date :: "nat \<Rightarrow> nat \<Rightarrow> nat \<Rightarrow> bool" where
  "valid_date y m d = (y \<le> 9999 \<and> 1 \<le> m \<and> m \<le> 12 \<and> 1 \<le> d \<and> int d \<le> days_in_month (int y) (int m))"

subsection \<open>The filter\<close>

definition matches_filters :: "inv_filters \<Rightarrow> inv_item \<Rightarrow> bool" where
  "matches_filters f item =
     (let q = js_lower (fl_search f);
          matchesSearch = (js_includes (js_lower (ii_name item)) q \<or> js_includes (js_lower (ii_category item)) q);
          matchesCategory = (fl_category f = [] \<or> js_includes (js_lower (ii_category item)) (js_lower (fl_category f)));
          matchesSupplier = (fl_supplier f = [] \<or> ii_supplier item = fl_supplier f);
          matchesStatus = (fl_status f = [] \<or> ii_status item = fl_status f);
          matchesMinValue = (fl_minValue f = [] \<or>
                             (case parseFloat_str (fl_minValue f) of None \<Rightarrow> False | Some v \<Rightarrow> v \<le> ii_value item));
          matchesMaxValue = (fl_maxValue f = [] \<or>
                             (case parseFloat_str (fl_maxValue f) of None \<Rightarrow> False | Some v \<Rightarrow> ii_value item \<le> v));
          matchesDateRange =
            (if fl_startDate f \<noteq> [] \<and> fl_endDate f \<noteq> []
             then (case (parse_date_only (fl_startDate f), parse_date_only (fl_endDate f)) of
                     (Some a, Some b) \<Rightarrow> a \<le> ii_lastUpdated item \<and> ii_lastUpdated item \<le> b
                   | _ \<Rightarrow> False)
             else True)
      in matchesSearch \<and> matchesCategory \<and> matchesSupplier \<and> matchesStatus \<and>
         matchesMinValue \<and> matchesMaxValue \<and> matchesDateRange)"

subsection \<open>The sort\<close>

text \<open>
  The sortable columns (the keys the header buttons pass) and the direction.  A cell value
  is a string or a number (\<open>lastUpdated\<close> is a \<open>Date\<close>, which \<open><\<close> compares as a number);
  \<open>sort_val\<close> is ordered by the comparison of JavaScript's \<open><\<close> on two values of one column.
\<close>

datatype inv_col = ColName | ColCurrentStock | ColSupplier | ColLastUpdated | ColStatus | ColValue

datatype sort_dir = Asc | Desc

datatype sort_val = SStr string | SNum rat

instantiation sort_val :: linorder
begin

fun less_eq_sort_val :: "sort_val \<Rightarrow> sort_val \<Rightarrow> bool" where
  "less_eq_sort_val (SStr a) (SStr b) = (a \<le> b)"
| "less_eq_sort_val (SNum a) (SNum b) = (a \<le> b)"
| "less_eq_sort_val (SStr a) (SNum b) = True"
| "less_eq_sort_val (SNum a) (SStr b) = False"

definition less_sort_val :: "sort_val \<Rightarrow> sort_val \<Rightarrow> bool" where
  "less_sort_val x y = (x \<le> y \<and> \<not> y \<le> x)"

instance
proof
  fix x y z :: sort_val
  show "x < y \<longleftrightarrow> x \<le> y \<and> \<not> y \<le> x" by (simp add: less_sort_val_def)
  show "x \<le> x" by (cases x) simp_all
  show "x \<le> y \<Longrightarrow> y \<le> z \<Longrightarrow> x \<le> z" by (cases x; cases y; cases z) auto
  show "x \<le> y \<Longrightarrow> y \<le> x \<Longrightarrow> x = y" by (cases x; cases y) auto
  show "x \<le> y \<or> y \<le> x" by (cases x; cases y) auto
qed

end

text \<open>\<open>a[sortConfig.key]\<close>.\<close>

fun inv_field :: "inv_col \<Rightarrow> inv_item \<Rightarrow> sort_val" where
  "inv_field ColName i = SStr (ii_name i)"
| "inv_field ColCurrentStock i = SNum (ii_currentStock i)"
| "inv_field ColSupplier i = SStr (ii_supplier i)"
| "inv_field ColLastUpdated i = SNum (of_int (ii_lastUpdated i))"
| "inv_field ColStatus i = SStr (ii_status i)"
| "inv_field ColValue i = SNum (ii_value i)"

fun lower_val :: "sort_val \<Rightarrow> sort_val" where
  "lower_val (SStr s) = SStr (js_lower s)"
| "lower_val (SNum x) = SNum x"

text \<open>The comparator passed to \<open>filtered.sort\<close>: strings are lower-cased first.\<close>

definition inv_compare :: "inv_col \<Rightarrow> sort_dir \<Rightarrow> inv_item \<Rightarrow> inv_item \<Rightarrow> int" where
  "inv_compare key dir a b =
     (let (av, bv) = (case inv_field key a of
                        SStr x \<Rightarrow> (SStr (js_lower x), lower_val (inv_field key b))
                      | SNum x \<Rightarrow> (SNum x, inv_field key b))
      in if av < bv then (if dir = Asc then -1 else 1)
         else if bv < av then (if dir = Asc then 1 else -1)
         else 0)"

definition filteredAndSortedItems :: "int \<Rightarrow> inv_filters \<Rightarrow> inv_col \<Rightarrow> sort_dir \<Rightarrow> inv_item list" where
  "filteredAndSortedItems now f key dir =
     js_sort (inv_compare key dir) (filter (matches_filters f) (inventoryItems now))"

text \<open>\<open>handleSort\<close> and the header's sort icon.\<close>

definition handleSort :: "inv_col \<Rightarrow> inv_col \<times> sort_dir \<Rightarrow> inv_col \<times> sort_dir" where
  "handleSort key prev = (key, if fst prev = key \<and> snd prev = Asc then Desc else Asc)"

definition getSortIcon :: "inv_col \<times> sort_dir \<Rightarrow> inv_col \<Rightarrow> string" where
  "getSortIcon cfg column =
     (if fst cfg \<noteq> column then ''ArrowUpDown'' else if snd cfg = Asc then ''ArrowUp'' else ''ArrowDown'')"

subsection \<open>Summary\<close>

record summary_data =
  totalItems :: nat
  lowStockItems :: nat
  criticalStockItems :: nat
  totalValue :: rat

definition summaryData :: "int \<Rightarrow> summary_data" where
  "summaryData now =
     (let items = inventoryItems now
      in \<lparr>totalItems = length items,
          lowStockItems = length (filter (\<lambda>i. ii_status i = ''low'') items),
          criticalStockItems = length (filter (\<lambda>i. ii_status i = ''critical'') items),
          totalValue = js_sum ii_value items\<rparr>)"


subsection \<open>Display helpers of the table, the summary and the dialog\<close>

definition table_statusColor :: "string \<Rightarrow> string" where
  "table_statusColor status =
     (if status = ''adequate'' then ''text-success'' else if status = ''low'' then ''text-warning''
      else if status = ''critical'' then ''text-error'' else ''text-muted-foreground'')"

definition table_statusBg :: "string \<Rightarrow> string" where
  "table_statusBg status =
     (if status = ''adequate'' then ''bg-success/10'' else if status = ''low'' then ''bg-warning/10''
      else if status = ''critical'' then ''bg-error/10'' else ''bg-muted/10'')"

definition table_statusText :: "string \<Rightarrow> string" where
  "table_statusText status =
     (if status = ''adequate'' then ''Cukup'' else if status = ''low'' then ''Rendah''
      else if status = ''critical'' then ''Kritis'' else ''Normal'')"

definition modal_statusColor :: "string \<Rightarrow> string" where
  "modal_statusColor status =
     (if status = ''adequate'' then ''text-success bg-success/10'' else if status = ''low'' then ''text-warning bg-warning/10''
      else if status = ''critical'' then ''text-error bg-error/10'' else ''text-muted-foreground bg-muted/10'')"

definition modal_statusText :: "string \<Rightarrow> string" where
  "modal_statusText status =
     (if status = ''adequate'' then ''Stok Cukup'' else if status = ''low'' then ''Stok Rendah''
      else if status = ''critical'' then ''Stok Kritis'' else ''Normal'')"

record activity =
  act_id :: nat
  act_type :: string
  act_item :: string
  act_quantity :: int
  act_unit :: string
  act_timestamp :: int
  act_user :: string

definition recentActivities :: "int \<Rightarrow> activity list" where
  "recentActivities now =
    [\<lparr>act_id = 1, act_type = ''stock_in'', act_item = ''Daging Sapi Premium'', act_quantity = 50, act_unit = ''kg'',
      act_timestamp = now - 30 * 60 * 1000, act_user = ''Admin''\<rparr>,
     \<lparr>act_id = 2, act_type = ''stock_out'', act_item = ''Tomat Segar'', act_quantity = 15, act_unit = ''kg'',
      act_timestamp = now - 45 * 60 * 1000, act_user = ''Sistem POS''\<rparr>,
     \<lparr>act_id = 3, act_type = ''adjustment'', act_item = ''Bawang Merah'', act_quantity = -5, act_unit = ''kg'',
      act_timestamp = now - 60 * 60 * 1000, act_user = ''Manager''\<rparr>,
     \<lparr>act_id = 4, act_type = ''new_item'', act_item = ''Keju Mozzarella'', act_quantity = 20, act_unit = ''kg'',
      act_timestamp = now - 90 * 60 * 1000, act_user = ''Admin''\<rparr>]"

definition getActivityIcon :: "string \<Rightarrow> string" where
  "getActivityIcon typ =
     (if typ = ''stock_in'' then ''ArrowUp'' else if typ = ''stock_out'' then ''ArrowDown''
      else if typ = ''adjustment'' then ''Edit'' else if typ = ''new_item'' then ''Plus'' else ''Activity'')"

definition getActivityColor :: "string \<Rightarrow> string" where
  "getActivityColor typ =
     (if typ = ''stock_in'' then ''text-success'' else if typ = ''stock_out'' then ''text-warning''
      else if typ = ''adjustment'' then ''text-primary'' else if typ = ''new_item'' then ''text-accent''
      else ''text-muted-foreground'')"

definition getActivityLabel :: "string \<Rightarrow> string" where
  "getActivityLabel typ =
     (if typ = ''stock_in'' then ''Stok Masuk'' else if typ = ''stock_out'' then ''Stok Keluar''
      else if typ = ''adjustment'' then ''Penyesuaian'' else if typ = ''new_item'' then ''Item Baru'' else ''Aktivitas'')"

text \<open>
  The summary's \<open>formatTimestamp\<close>: a relative time, or (\<open>Inr\<close>) the timestamp handed to
  \<open>toLocaleDateString\<close>, whose locale formatting is not modelled.
\<close>

definition summary_formatTimestamp :: "int \<Rightarrow> int \<Rightarrow> string + int" where
  "summary_formatTimestamp now timestamp =
     (let diff = now - timestamp; minutes = diff div 60000; hours = diff div 3600000
      in if minutes < 1 then Inl ''Baru saja''
         else if minutes < 60 then Inl (show_int minutes @ '' menit lalu'')
         else if hours < 24 then Inl (show_int hours @ '' jam lalu'')
         else Inr timestamp)"

text \<open>\<open>" \<bullet> "\<close>: the bullet U+2022 in UTF-8 between two spaces.\<close>

definition bullet_sep :: string where
  "bullet_sep = [CHR '' '', char_of (226::nat), char_of (128::nat), char_of (162::nat), CHR '' '']"

text \<open>The second line of an activity: label, \<open>Math.abs(quantity)\<close>, unit and user.\<close>

definition activity_line :: "activity \<Rightarrow> string" where
  "activity_line a =
     getActivityLabel (act_type a) @ bullet_sep @ show_int \<bar>act_quantity a\<bar> @ '' '' @ act_unit a @ bullet_sep @ act_user a"

record stock_entry =
  se_id :: nat
  se_date :: int
  se_type :: string
  se_quantity :: int
  se_unit :: string
  se_reference :: string
  se_user :: string
  se_notes :: string

definition stockHistory :: "int \<Rightarrow> stock_entry list" where
  "stockHistory now =
    [\<lparr>se_id = 1, se_date = now - 24 * 60 * 60 * 1000, se_type = ''in'', se_quantity = 50, se_unit = ''kg'',
      se_reference = ''PO-2024-001'', se_user = ''Admin'', se_notes = ''Pembelian rutin mingguan''\<rparr>,
     \<lparr>se_id = 2, se_date = now - 2 * 24 * 60 * 60 * 1000, se_type = ''out'', se_quantity = -25, se_unit = ''kg'',
      se_reference = ''ORDER-12345'', se_user = ''Sistem POS'', se_notes = ''Penjualan otomatis''\<rparr>,
     \<lparr>se_id = 3, se_date = now - 3 * 24 * 60 * 60 * 1000, se_type = ''adjustment'', se_quantity = -2, se_unit = ''kg'',
      se_reference = ''ADJ-001'', se_user = ''Manager'', se_notes = ''Penyesuaian karena kerusakan''\<rparr>]"

text \<open>A history entry's label and its quantity line (\<open>+\<close> before positive quantities).\<close>

definition history_label :: "string \<Rightarrow> string" where
  "history_label typ = (if typ = ''in'' then ''Stok Masuk'' else if typ = ''out'' then ''Stok Keluar'' else ''Penyesuaian'')"

definition history_icon :: "string \<Rightarrow> string" where
  "history_icon typ = (if typ = ''in'' then ''ArrowUp'' else if typ = ''out'' then ''ArrowDown'' else ''Edit'')"

definition history_qty_line :: "stock_entry \<Rightarrow> string" where
  "history_qty_line e =
     (if 0 < se_quantity e then ''+'' else []) @ show_int (se_quantity e) @ '' '' @ se_unit e @ bullet_sep @ se_reference e"

text \<open>The key the comparator orders by: the cell value, lower-cased when it is a string.\<close>

definition inv_sort_key :: "inv_col \<Rightarrow> inv_item \<Rightarrow> sort_val" where
  "inv_sort_key key i = lower_val (inv_field key i)"

subsection \<open>Lemmas\<close>

lemma inv_compare_asc: "inv_compare key Asc = key_cmp (inv_sort_key key)"
  by (cases key) (simp_all add: fun_eq_iff inv_compare_def key_cmp_def inv_sort_key_def)

lemma inv_compare_desc: "inv_compare key Desc = key_cmp (\<lambda>i. RevOrd (inv_sort_key key i))"
  by (cases key) (auto simp: fun_eq_iff inv_compare_def key_cmp_def inv_sort_key_def)

lemma set_filteredAndSortedItems:
  "set (filteredAndSortedItems now f key dir) = set (filter (matches_filters f) (inventoryItems now))"
  by (simp add: filteredAndSortedItems_def flip: set_mset_mset)

lemma matches_empty_filters [simp]: "matches_filters empty_filters i"
  by (simp add: matches_filters_def empty_filters_def js_lower_def)

lemma category_never_matches:
  "c \<in> set (map fst inv_categories) \<Longrightarrow> c \<noteq> [] \<Longrightarrow> i \<in> set (inventoryItems now) \<Longrightarrow>
   \<not> js_includes (js_lower (ii_category i)) (js_lower c)"
  by (auto simp: inv_categories_def inventoryItems_def js_lower_def js_lower_char_def)

lemma parse_iso_date:
  assumes "valid_date y m d"
  shows "parse_date_only (iso_date y m d) = Some (days_from_civil (int y) (int m) (int d) * 86400000)"
proof -
  let ?Y = "pad_start 4 CHR ''0'' (show_nat y)" and ?M = "pad_start 2 CHR ''0'' (show_nat m)"
    and ?D = "pad_start 2 CHR ''0'' (show_nat d)"
  have dm: "days_in_month (int y) (int m) \<le> 31" by (simp add: days_in_month_def)
  have ly: "length ?Y = 4" using assms by (intro pad_show_length) (auto simp: valid_date_def)
  have lm: "length ?M = 2" using assms by (intro pad_show_length) (auto simp: valid_date_def)
  have ld: "length ?D = 2" using assms dm by (intro pad_show_length) (auto simp: valid_date_def)
  have s: "iso_date y m d = ?Y @ CHR ''-'' # ?M @ CHR ''-'' # ?D" by (simp add: iso_date_def)
  show ?thesis
    using assms ly lm ld unfolding s parse_date_only_def
    by (simp add: nth_append pad_show_val pad_show_digits valid_date_def)
qed

subsection \<open>Properties\<close>

text \<open>
  C12: The table's sort is the library's stable \<open>sort_key\<close> on the column's cell values
  (strings lower-cased): ascending, or descending through the reversed order \<open>rev_ord\<close>,
  rows with equal keys keeping the order of \<open>inventoryItems\<close> either way.
\<close>

theorem inv_sort_equiv:
  "filteredAndSortedItems now f key dir =
     (case dir of
        Asc \<Rightarrow> sort_key (inv_sort_key key) (filter (matches_filters f) (inventoryItems now))
      | Desc \<Rightarrow> sort_key (\<lambda>i. RevOrd (inv_sort_key key i)) (filter (matches_filters f) (inventoryItems now)))"
  by (cases dir) (simp_all add: filteredAndSortedItems_def inv_compare_asc inv_compare_desc js_sort_key_cmp)

text \<open>
  C15: Choosing any category in the filter bar empties the table: the options' values are
  English (\<open>vegetables\<close>, \<open>meat\<close>, ...) and the items' categories Indonesian
  (\<open>Sayuran\<close>, \<open>Daging\<close>, ...), so \<open>matchesCategory\<close> holds for no item, whatever the
  other filters and the sort.
\<close>

theorem category_filter_empty:
  assumes "c \<in> set (map fst inv_categories)" and "c \<noteq> []"
  shows "filteredAndSortedItems now (f\<lparr>fl_category := c\<rparr>) key dir = []"
proof -
  have "\<not> matches_filters (f\<lparr>fl_category := c\<rparr>) i" if "i \<in> set (inventoryItems now)" for i
    using category_never_matches [OF assms that] assms(2) by (simp add: matches_filters_def Let_def)
  then have "filter (matches_filters (f\<lparr>fl_category := c\<rparr>)) (inventoryItems now) = []"
    by (simp add: filter_empty_conv)
  then show ?thesis by (simp add: filteredAndSortedItems_def js_sort.simps)
qed

text \<open>
  A date input's value reads back as the day it shows: \<open>new Date\<close> on the
  \<open>YYYY-MM-DD\<close> string of a valid date is that day's UTC midnight.
\<close>

theorem iso_date_roundtrip:
  assumes "valid_date y m d"
  shows "parse_date_only (iso_date y m d) = Some (days_from_civil (int y) (int m) (int d) * 86400000)"
  using assms by (rule parse_iso_date)

text \<open>
  C26: The end date does not include its own day: with both dates set, an item updated on
  the end day after midnight UTC is filtered out, because the end date is read as that
  day's midnight.
\<close>

theorem end_date_excludes_day:
  assumes "valid_date y m d" and "fl_startDate f \<noteq> []" and "fl_endDate f = iso_date y m d"
    and "days_from_civil (int y) (int m) (int d) * 86400000 < ii_lastUpdated i"
  shows "i \<notin> set (filteredAndSortedItems now f key dir)"
proof
  assume "i \<in> set (filteredAndSortedItems now f key dir)"
  then have "matches_filters f i" by (simp add: set_filteredAndSortedItems)
  moreover have "iso_date y m d \<noteq> []" by (simp add: iso_date_def)
  ultimately show False using assms parse_iso_date [OF assms(1)]
    by (auto simp: matches_filters_def Let_def split: option.splits)
qed

text \<open>
  The stored statuses against the spec's classifier: the two items marked
  \<open>critical\<close> (3.1 of 10 kg, 2.8 of 8 kg) are at 31% and 35% of their minimum, which the
  spec calls LOW.
\<close>

theorem inventory_status_vs_spec:
  "map ii_status (inventoryItems now) =
     [''adequate'', ''low'', ''critical'', ''adequate'', ''low'', ''adequate'', ''critical'', ''adequate''] \<and>
   map (\<lambda>i. spec_classify (ii_currentStock i) (ii_minStock i)) (inventoryItems now) =
     [ADEQUATE, LOW, LOW, ADEQUATE, LOW, ADEQUATE, LOW, ADEQUATE]"
  by (simp add: inventoryItems_def spec_classify_def spec_percentage_def)

text \<open>The summary cards: eight items, two low, two critical, and the stored values add up.\<close>

theorem summaryData_values:
  "summaryData now = \<lparr>totalItems = 8, lowStockItems = 2, criticalStockItems = 2, totalValue = 13055000\<rparr> \<and>
   (\<forall>i\<in>set (inventoryItems now). ii_value i = ii_currentStock i * ii_unitPrice i)"
  by (simp add: summaryData_def inventoryItems_def)

theorem summary_times_at_render:
  "map (\<lambda>a. summary_formatTimestamp now (act_timestamp a)) (recentActivities now) =
     [Inl ''30 menit lalu'', Inl ''45 menit lalu'', Inl ''1 jam lalu'', Inl ''1 jam lalu''] \<and>
   map (\<lambda>e. take 3 (history_qty_line e)) (stockHistory now) = [''+50'', ''-25'', ''-2 '']"
proof -
  have "show_nat 30 = ''30'' \<and> show_nat 45 = ''45'' \<and> show_nat 1 = ''1'' \<and> show_nat 50 = ''50'' \<and>
        show_nat 25 = ''25'' \<and> show_nat 2 = ''2''" by code_simp
  then show ?thesis
    by (simp add: summary_formatTimestamp_def recentActivities_def stockHistory_def history_qty_line_def show_int_def)
qed

theorem category_filter_empty_witness:
  "filteredAndSortedItems 0 (empty_filters\<lparr>fl_category := ''vegetables''\<rparr>) ColName Asc = []"
  by (rule category_filter_empty) (simp_all add: inv_categories_def)

theorem iso_date_roundtrip_witness:
  "parse_date_only (iso_date 2024 1 15) = Some (days_from_civil 2024 1 15 * 86400000) \<and>
   days_from_civil 2024 1 15 = 19737"
  using iso_date_roundtrip [of 2024 1 15]
  by (simp add: valid_date_def days_in_month_def days_from_civil_def)

theorem end_date_excludes_day_witness:
  "inventoryItems 1705320000000 ! 1 \<notin>
     set (filteredAndSortedItems 1705320000000
           (empty_filters\<lparr>fl_startDate := iso_date 2024 1 1, fl_endDate := iso_date 2024 1 15\<rparr>) ColName Asc)"
  by (rule end_date_excludes_day [of 2024 1 15])
     (simp_all add: valid_date_def days_in_month_def iso_date_def empty_filters_def days_from_civil_def
       inventoryItems_def)

end
