(* ===== verification/InventoryPage.thy ===== *)
theory InventoryPage
  imports Inventory
begin

text \<open>
  The inventory management page as a state machine: the page's state
  (src/src/pages/inventory-management/index.jsx), the table's \<open>selectAll\<close> flag
  (components/InventoryTable.jsx), the uncontrolled bulk-action select and the filter
  controls (components/InventoryFilters.jsx), and the detail dialog's own state
  (components/ItemDetailModal.jsx), which stays mounted while closed.  Console output
  of the handlers is kept as logs; alerts are counted.
\<close>

text \<open>A value the dialog's form holds: a string, or the number \<open>parseFloat\<close> gave (\<open>None\<close> is NaN).\<close>

datatype fval = FStr string | FNum "rat option"

record inv_page =
  ip_now :: int
  selectedItems :: "nat list"
  selectedItem :: "inv_item option"
  modalOpen :: bool
  sortConfig :: "inv_col \<times> sort_dir"
  filters :: inv_filters
  selectAll :: bool
  bulkValue :: string
  bulk_log :: "(string \<times> nat list) list"
  alerts :: nat
  md_activeTab :: string
  editMode :: bool
  md_formData :: "string \<rightharpoonup> fval"
  saved :: "(string \<rightharpoonup> fval) list"

text \<open>
  At mount no item is selected, so the dialog's \<open>useState(item || {})\<close> starts from the
  empty object, and nothing sets it again.
\<close>

definition inv_init :: "int \<Rightarrow> inv_page" where
  "inv_init now =
     \<lparr>ip_now = now, selectedItems = [], selectedItem = None, modalOpen = False, sortConfig = (ColName, Asc),
      filters = empty_filters, selectAll = False, bulkValue = [], bulk_log = [], alerts = 0,
      md_activeTab = ''basic'', editMode = False, md_formData = Map.empty, saved = []\<rparr>"

definition displayed :: "inv_page \<Rightarrow> inv_item list" where
  "displayed s = filteredAndSortedItems (ip_now s) (filters s) (fst (sortConfig s)) (snd (sortConfig s))"

subsection \<open>Handlers of the page\<close>

definition inv_handleSort :: "inv_col \<Rightarrow> inv_page \<Rightarrow> inv_page" where
  "inv_handleSort key s = s\<lparr>sortConfig := handleSort key (sortConfig s)\<rparr>"

definition handleItemClick :: "inv_item \<Rightarrow> inv_page \<Rightarrow> inv_page" where
  "handleItemClick item s = s\<lparr>selectedItem := Some item, modalOpen := True\<rparr>"

definition handleModalClose :: "inv_page \<Rightarrow> inv_page" where
  "handleModalClose s = s\<lparr>modalOpen := False, selectedItem := None\<rparr>"

definition handleItemSave :: "(string \<rightharpoonup> fval) \<Rightarrow> inv_page \<Rightarrow> inv_page" where
  "handleItemSave updatedItem s = s\<lparr>saved := saved s @ [updatedItem]\<rparr>"

definition handleBulkAction :: "string \<Rightarrow> bool \<Rightarrow> inv_page \<Rightarrow> inv_page" where
  "handleBulkAction action confirmed s =
     (if selectedItems s = [] then s\<lparr>alerts := Suc (alerts s)\<rparr>
      else if action \<in> {''export'', ''update-prices'', ''adjust-stock'', ''generate-po''}
      then s\<lparr>bulk_log := bulk_log s @ [(action, selectedItems s)]\<rparr>
      else if action = ''delete''
      then (if confirmed then s\<lparr>bulk_log := bulk_log s @ [(action, selectedItems s)], selectedItems := []\<rparr> else s)
      else s)"

subsection \<open>Handlers of the table and the filter bar\<close>

definition table_handleSelectAll :: "bool \<Rightarrow> inv_page \<Rightarrow> inv_page" where
  "table_handleSelectAll checked s =
     s\<lparr>selectAll := checked, selectedItems := (if checked then map ii_id (displayed s) else [])\<rparr>"

definition table_handleItemSelect :: "nat \<Rightarrow> bool \<Rightarrow> inv_page \<Rightarrow> inv_page" where
  "table_handleItemSelect itemId checked s =
     (if checked then s\<lparr>selectedItems := selectedItems s @ [itemId]\<rparr>
      else s\<lparr>selectedItems := filter (\<lambda>i. i \<noteq> itemId) (selectedItems s), selectAll := False\<rparr>)"

datatype filter_key = KSearch | KCategory | KSupplier | KStatus | KStartDate | KEndDate | KMinValue | KMaxValue

fun set_filter :: "filter_key \<Rightarrow> string \<Rightarrow> inv_filters \<Rightarrow> inv_filters" where
  "set_filter KSearch v f = f\<lparr>fl_search := v\<rparr>"
| "set_filter KCategory v f = f\<lparr>fl_category := v\<rparr>"
| "set_filter KSupplier v f = f\<lparr>fl_supplier := v\<rparr>"
| "set_filter KStatus v f = f\<lparr>fl_status := v\<rparr>"
| "set_filter KStartDate v f = f\<lparr>fl_startDate := v\<rparr>"
| "set_filter KEndDate v f = f\<lparr>fl_endDate := v\<rparr>"
| "set_filter KMinValue v f = f\<lparr>fl_minValue := v\<rparr>"
| "set_filter KMaxValue v f = f\<lparr>fl_maxValue := v\<rparr>"

definition filter_handleChange :: "filter_key \<Rightarrow> string \<Rightarrow> inv_page \<Rightarrow> inv_page" where
  "filter_handleChange key value s = s\<lparr>filters := set_filter key value (filters s)\<rparr>"

subsection \<open>The detail dialog\<close>

text \<open>The inputs of the basic tab, and whether the input's value goes through \<open>parseFloat\<close>.\<close>

definition basic_fields :: "(string \<times> bool) list" where
  "basic_fields = [(''name'', False), (''category'', False), (''currentStock'', True), (''unit'', False),
                   (''minStock'', True), (''unitPrice'', True)]"

definition modal_tabs :: "string list" where
  "modal_tabs = [''basic'', ''history'', ''supplier'', ''analytics'']"

definition md_handleInputChange :: "string \<Rightarrow> fval \<Rightarrow> inv_page \<Rightarrow> inv_page" where
  "md_handleInputChange field value s = s\<lparr>md_formData := (md_formData s)(field \<mapsto> value)\<rparr>"

definition md_handleSave :: "inv_page \<Rightarrow> inv_page" where
  "md_handleSave s = (handleItemSave (md_formData s) s)\<lparr>editMode := False\<rparr>"

definition modal_visible :: "inv_page \<Rightarrow> bool" where
  "modal_visible s = (modalOpen s \<and> selectedItem s \<noteq> None)"

subsection \<open>Events\<close>

text \<open>
  The user's actions.  A date input yields \<open>''''\<close> or a valid date; a select yields one of
  its options; the bulk select fires only when the chosen option differs from the one it
  shows (it is uncontrolled and never reset).  While the dialog is visible its overlay
  covers the page.
\<close>

datatype inv_event =
    TextInput filter_key string
  | SelectInput filter_key string
  | DateInput filter_key "(nat \<times> nat \<times> nat) option"
  | ClearFiltersBtn
  | SortBtn inv_col
  | HeaderCheckbox
  | RowCheckbox nat
  | RowOpen nat
  | BulkSelect string bool
  | ModalX
  | ModalEditBtn
  | ModalCancelBtn
  | ModalSaveBtn
  | ModalTabBtn string
  | ModalInput string string

fun select_options :: "filter_key \<Rightarrow> string list" where
  "select_options KCategory = map fst inv_categories"
| "select_options KSupplier = map fst inv_suppliers"
| "select_options KStatus = map fst stockStatuses"
| "select_options _ = []"

fun date_value :: "(nat \<times> nat \<times> nat) option \<Rightarrow> string" where
  "date_value None = []"
| "date_value (Some (y, m, d)) = iso_date y m d"

fun date_ok :: "(nat \<times> nat \<times> nat) option \<Rightarrow> bool" where
  "date_ok None = True"
| "date_ok (Some (y, m, d)) = valid_date y m d"

fun page_step :: "inv_page \<Rightarrow> inv_event \<Rightarrow> inv_page" where
  "page_step s (TextInput k v) =
     (if k \<in> {KSearch, KMinValue, KMaxValue} then filter_handleChange k v s else s)"
| "page_step s (SelectInput k v) = (if v \<in> set (select_options k) then filter_handleChange k v s else s)"
| "page_step s (DateInput k d) =
     (if k \<in> {KStartDate, KEndDate} \<and> date_ok d then filter_handleChange k (date_value d) s else s)"
| "page_step s ClearFiltersBtn = (if hasActiveFilters (filters s) then s\<lparr>filters := empty_filters\<rparr> else s)"
| "page_step s (SortBtn key) = inv_handleSort key s"
| "page_step s HeaderCheckbox = table_handleSelectAll (\<not> selectAll s) s"
| "page_step s (RowCheckbox i) =
     (if i \<in> set (map ii_id (displayed s)) then table_handleItemSelect i (i \<notin> set (selectedItems s)) s else s)"
| "page_step s (RowOpen i) =
     (case find (\<lambda>item. ii_id item = i) (displayed s) of None \<Rightarrow> s | Some item \<Rightarrow> handleItemClick item s)"
| "page_step s (BulkSelect a c) =
     (if a \<in> set bulkActions \<and> a \<noteq> bulkValue s then handleBulkAction a c (s\<lparr>bulkValue := a\<rparr>) else s)"
| "page_step s _ = s"

fun modal_step :: "inv_page \<Rightarrow> inv_event \<Rightarrow> inv_page" where
  "modal_step s ModalX = handleModalClose s"
| "modal_step s ModalEditBtn = (if editMode s then s else s\<lparr>editMode := True\<rparr>)"
| "modal_step s ModalCancelBtn = (if editMode s then s\<lparr>editMode := False\<rparr> else s)"
| "modal_step s ModalSaveBtn = (if editMode s then md_handleSave s else s)"
| "modal_step s (ModalTabBtn t) = (if t \<in> set modal_tabs then s\<lparr>md_activeTab := t\<rparr> else s)"
| "modal_step s (ModalInput field v) =
     (if editMode s \<and> md_activeTab s = ''basic'' then
        (case map_of basic_fields field of
           None \<Rightarrow> s
         | Some numeric \<Rightarrow> md_handleInputChange field (if numeric then FNum (parseFloat_str v) else FStr v) s)
      else s)"
| "modal_step s _ = s"

definition inv_step :: "inv_page \<Rightarrow> inv_event \<Rightarrow> inv_page" where
  "inv_step s e = (if modal_visible s then modal_step s e else page_step s e)"

definition inv_run :: "inv_page \<Rightarrow> inv_event list \<Rightarrow> inv_page" where
  "inv_run s es = foldl inv_step s es"


subsection \<open>Invariants\<close>

fun is_num :: "fval \<Rightarrow> bool" where
  "is_num (FNum x) = True"
| "is_num (FStr x) = False"

text \<open>An object of the dialog's form: only inputs of the basic tab, each with its type.\<close>

definition form_ok :: "(string \<rightharpoonup> fval) \<Rightarrow> bool" where
  "form_ok obj = (\<forall>k v. obj k = Some v \<longrightarrow> map_of basic_fields k = Some (is_num v))"

definition md_inv :: "inv_page \<Rightarrow> bool" where
  "md_inv s = (form_ok (md_formData s) \<and> (\<forall>obj\<in>set (saved s). form_ok obj))"

definition item_ids :: "int \<Rightarrow> nat list" where
  "item_ids now = map ii_id (inventoryItems now)"

definition sel_inv :: "inv_page \<Rightarrow> bool" where
  "sel_inv s = (distinct (selectedItems s) \<and> set (selectedItems s) \<subseteq> set (item_ids (ip_now s)))"

subsection \<open>Lemmas\<close>

lemma item_ids_distinct: "distinct (item_ids now)"
  by (simp add: item_ids_def inventoryItems_def)

lemma displayed_ids:
  "distinct (map ii_id (displayed s)) \<and> set (map ii_id (displayed s)) \<subseteq> set (item_ids (ip_now s))"
proof -
  let ?xs = "filter (matches_filters (filters s)) (inventoryItems (ip_now s))"
  have m: "mset (map ii_id (displayed s)) = mset (map ii_id ?xs)"
    by (simp add: displayed_def filteredAndSortedItems_def)
  have "distinct (map ii_id ?xs)"
    using item_ids_distinct [of "ip_now s"] by (simp add: item_ids_def distinct_map_filter)
  moreover have "set (map ii_id ?xs) \<subseteq> set (item_ids (ip_now s))" by (auto simp: item_ids_def)
  ultimately show ?thesis using m by (metis mset_eq_imp_distinct_iff mset_eq_setD)
qed

lemma displayed_length:
  "length (displayed s) = length (filter (matches_filters (filters s)) (inventoryItems (ip_now s)))"
  by (metis displayed_def filteredAndSortedItems_def mset_js_sort size_mset)

lemma find_displayed:
  "find (\<lambda>item. ii_id item = i) (displayed s) =
   find (\<lambda>item. ii_id item = i) (filter (matches_filters (filters s)) (inventoryItems (ip_now s)))"
  by (rule find_key_perm) (simp_all add: displayed_def filteredAndSortedItems_def distinct_map_filter
      inventoryItems_def)

lemma page_step_sel: "sel_inv s \<Longrightarrow> sel_inv (page_step s e)"
proof (cases e)
  case HeaderCheckbox
  then show "sel_inv s \<Longrightarrow> ?thesis" using displayed_ids [of s]
    by (simp add: sel_inv_def table_handleSelectAll_def)
next
  case (RowCheckbox i)
  then show "sel_inv s \<Longrightarrow> ?thesis" using displayed_ids [of s]
    by (auto simp: sel_inv_def table_handleItemSelect_def)
next
  case (BulkSelect a c)
  then show "sel_inv s \<Longrightarrow> ?thesis"
    by (simp add: sel_inv_def handleBulkAction_def)
qed (auto simp: sel_inv_def filter_handleChange_def inv_handleSort_def handleItemClick_def split: option.splits)

lemma modal_step_keeps:
  "selectedItems (modal_step s e) = selectedItems s \<and> ip_now (modal_step s e) = ip_now s"
  by (cases e) (simp_all add: handleModalClose_def md_handleSave_def handleItemSave_def
      md_handleInputChange_def split: option.splits)

lemma page_step_keeps:
  "ip_now (page_step s e) = ip_now s \<and> md_formData (page_step s e) = md_formData s \<and> saved (page_step s e) = saved s"
  by (cases e) (simp_all add: filter_handleChange_def inv_handleSort_def table_handleSelectAll_def
      table_handleItemSelect_def handleItemClick_def handleBulkAction_def split: option.splits)

lemma inv_step_now: "ip_now (inv_step s e) = ip_now s"
  by (simp add: inv_step_def modal_step_keeps page_step_keeps)

lemma inv_run_now: "ip_now (foldl inv_step s es) = ip_now s"
  by (induction es arbitrary: s) (simp_all add: inv_step_now)

lemma inv_step_sel: "sel_inv s \<Longrightarrow> sel_inv (inv_step s e)"
  unfolding inv_step_def
  using page_step_sel [of s e] modal_step_keeps [of s e] by (simp add: sel_inv_def)

lemma form_ok_upd: "form_ok obj \<Longrightarrow> map_of basic_fields k = Some (is_num v) \<Longrightarrow> form_ok (obj(k \<mapsto> v))"
  by (simp add: form_ok_def)

lemma modal_step_md: "md_inv s \<Longrightarrow> md_inv (modal_step s e)"
  by (cases e) (auto simp: md_inv_def handleModalClose_def md_handleSave_def handleItemSave_def
      md_handleInputChange_def form_ok_upd split: option.splits)

lemma inv_step_md: "md_inv s \<Longrightarrow> md_inv (inv_step s e)"
  unfolding inv_step_def using modal_step_md [of s e] page_step_keeps [of s e] by (simp add: md_inv_def)

lemma inv_run_md: "md_inv (inv_run (inv_init now) es)"
  unfolding inv_run_def
proof (induction es rule: rev_induct)
  case Nil then show ?case by (simp add: md_inv_def inv_init_def form_ok_def)
next
  case (snoc e es) then show ?case by (simp add: inv_step_md)
qed

lemma parseFloat_12: "parseFloat_str ''12'' = Some 12"
proof -
  have "show_nat 12 = ''12''" by code_simp
  then show ?thesis using parseFloat_show [of 12] by simp
qed

lemma inv_run_snoc: "inv_run s (es @ [e]) = inv_step (inv_run s es) e"
  by (simp add: inv_run_def)

lemma run_open_edit:
  "md_formData (inv_run (inv_init 0) [RowOpen 1, ModalEditBtn]) = Map.empty \<and>
   saved (inv_run (inv_init 0) [RowOpen 1, ModalEditBtn]) = [] \<and>
   selectedItem (inv_run (inv_init 0) [RowOpen 1, ModalEditBtn]) = Some (inventoryItems 0 ! 0) \<and>
   modal_visible (inv_run (inv_init 0) [RowOpen 1, ModalEditBtn]) \<and>
   editMode (inv_run (inv_init 0) [RowOpen 1, ModalEditBtn]) \<and>
   md_activeTab (inv_run (inv_init 0) [RowOpen 1, ModalEditBtn]) = ''basic'' \<and>
   filters (inv_run (inv_init 0) [RowOpen 1, ModalEditBtn]) = empty_filters \<and>
   ip_now (inv_run (inv_init 0) [RowOpen 1, ModalEditBtn]) = 0"
  by (simp add: inv_run_def inv_step_def inv_init_def modal_visible_def find_displayed handleItemClick_def
      inventoryItems_def)

lemma run_check_all:
  "selectAll (inv_run (inv_init 0) [HeaderCheckbox]) \<and> selectedItems (inv_run (inv_init 0) [HeaderCheckbox]) \<noteq> [] \<and>
   \<not> modal_visible (inv_run (inv_init 0) [HeaderCheckbox]) \<and> bulkValue (inv_run (inv_init 0) [HeaderCheckbox]) = [] \<and>
   bulk_log (inv_run (inv_init 0) [HeaderCheckbox]) = []"
proof -
  have "length (displayed (inv_init 0)) = 8"
    by (simp add: displayed_length inv_init_def inventoryItems_def)
  then show ?thesis
    by (auto simp: inv_run_def inv_step_def inv_init_def modal_visible_def table_handleSelectAll_def)
qed

lemma search_zzz_hides_all: "displayed (s\<lparr>filters := empty_filters\<lparr>fl_search := ''zzz''\<rparr>, ip_now := 0\<rparr>) = []"
proof -
  have "filter (matches_filters (empty_filters\<lparr>fl_search := ''zzz''\<rparr>)) (inventoryItems 0) = []"
    by (simp add: matches_filters_def empty_filters_def inventoryItems_def js_lower_def js_lower_char_def)
  then show ?thesis by (simp add: displayed_def filteredAndSortedItems_def js_sort.simps)
qed

subsection \<open>Properties\<close>

text \<open>
  C13: The selection is always a duplicate-free list of ids of inventory items: the row
  checkbox adds an id only when it is not selected, and select-all takes the ids of the
  displayed rows, a permutation of a filter of the items.
\<close>

theorem selection_ids:
  "distinct (selectedItems (inv_run (inv_init now) es)) \<and>
   set (selectedItems (inv_run (inv_init now) es)) \<subseteq> set (map ii_id (inventoryItems now))"
proof -
  have "sel_inv (foldl inv_step (inv_init now) es)"
  proof (induction es rule: rev_induct)
    case Nil then show ?case by (simp add: sel_inv_def inv_init_def)
  next
    case (snoc e es) then show ?case by (simp add: inv_step_sel)
  qed
  then show ?thesis by (simp add: inv_run_def sel_inv_def item_ids_def inv_run_now inv_init_def)
qed

text \<open>
  C25: The dialog's form holds values of the right type: only inputs of the basic tab are
  keys, the stock and price fields hold numbers (what \<open>parseFloat\<close> gave, NaN included)
  and the others strings.
\<close>

theorem formData_typed:
  "md_formData (inv_run (inv_init now) es) k = Some v \<Longrightarrow> map_of basic_fields k = Some (is_num v)"
  using inv_run_md [of now es] by (simp add: md_inv_def form_ok_def)

text \<open>
  C14: What the dialog hands to \<open>onSave\<close> is never the edited item: its form starts as
  \<open>{}\<close> (no item is selected at mount) and is never reloaded, so a saved object holds only
  fields typed into the basic tab, never the item's \<open>id\<close>, supplier, status or value.
\<close>

theorem saved_fields_typed:
  "obj \<in> set (saved (inv_run (inv_init now) es)) \<Longrightarrow> dom obj \<subseteq> set (map fst basic_fields)"
  using inv_run_md [of now es] by (force simp: md_inv_def form_ok_def dest: map_of_SomeD)

text \<open>
  After a confirmed bulk delete the header checkbox still reads checked though nothing
  is selected, so the next click on it unchecks it and selects nothing; and the bulk menu,
  still showing "delete", cannot fire the same action again.
\<close>

theorem select_all_stale:
  assumes "\<not> modal_visible s" and "selectAll s" and "selectedItems s \<noteq> []" and "bulkValue s \<noteq> ''delete''"
  shows "selectAll (inv_step s (BulkSelect ''delete'' True)) \<and>
         selectedItems (inv_step s (BulkSelect ''delete'' True)) = [] \<and>
         selectedItems (inv_step (inv_step s (BulkSelect ''delete'' True)) HeaderCheckbox) = [] \<and>
         inv_step (inv_step s (BulkSelect ''delete'' True)) (BulkSelect ''delete'' c) = inv_step s (BulkSelect ''delete'' True)"
  using assms by (simp add: inv_step_def modal_visible_def handleBulkAction_def bulkActions_def table_handleSelectAll_def)

text \<open>
  Bulk actions act on the whole selection, rows hidden by the filter included: after
  any change of the search text the action is logged with the selection made before it.
\<close>

theorem bulk_acts_on_hidden:
  assumes "\<not> modal_visible s" and "selectedItems s \<noteq> []"
    and "a \<in> {''export'', ''update-prices'', ''adjust-stock'', ''generate-po''}" and "a \<noteq> bulkValue s"
  shows "bulk_log (inv_step (inv_step s (TextInput KSearch q)) (BulkSelect a c)) = bulk_log s @ [(a, selectedItems s)]"
  using assms by (auto simp: inv_step_def modal_visible_def handleBulkAction_def bulkActions_def filter_handleChange_def)

text \<open>
  Closing the dialog keeps its state: the next item opens on the same tab, in the same
  edit mode and with the form typed for the previous one.
\<close>

theorem modal_state_survives_close:
  assumes "modal_visible s" and "find (\<lambda>item. ii_id item = j) (displayed s) = Some item"
  shows "selectedItem (inv_step (inv_step s ModalX) (RowOpen j)) = Some item \<and>
         editMode (inv_step (inv_step s ModalX) (RowOpen j)) = editMode s \<and>
         md_formData (inv_step (inv_step s ModalX) (RowOpen j)) = md_formData s \<and>
         md_activeTab (inv_step (inv_step s ModalX) (RowOpen j)) = md_activeTab s"
proof -
  have "displayed (handleModalClose s) = displayed s" by (simp add: displayed_def handleModalClose_def)
  then show ?thesis using assms
    by (simp add: inv_step_def modal_visible_def handleModalClose_def handleItemClick_def)
qed

theorem formData_typed_witness:
  "md_formData (inv_run (inv_init 0) [RowOpen 1, ModalEditBtn, ModalInput ''currentStock'' ''12'']) ''currentStock'' =
     Some (FNum (Some 12)) \<and>
   map_of basic_fields ''currentStock'' = Some (is_num (FNum (Some 12)))"
proof -
  have "md_formData (inv_run (inv_init 0) [RowOpen 1, ModalEditBtn, ModalInput ''currentStock'' ''12'']) ''currentStock'' =
     Some (FNum (Some 12))"
    using run_open_edit inv_run_snoc [of "inv_init 0" "[RowOpen 1, ModalEditBtn]" "ModalInput ''currentStock'' ''12''"]
    by (simp add: inv_step_def modal_visible_def md_handleInputChange_def basic_fields_def parseFloat_12)
  then show ?thesis using formData_typed by blast
qed

theorem saved_fields_typed_witness:
  "saved (inv_run (inv_init 0) [RowOpen 1, ModalEditBtn, ModalSaveBtn]) = [Map.empty] \<and>
   dom (Map.empty :: string \<rightharpoonup> fval) \<subseteq> set (map fst basic_fields)"
proof -
  have "saved (inv_run (inv_init 0) [RowOpen 1, ModalEditBtn, ModalSaveBtn]) = [Map.empty]"
    using run_open_edit inv_run_snoc [of "inv_init 0" "[RowOpen 1, ModalEditBtn]" ModalSaveBtn]
    by (simp add: inv_step_def modal_visible_def md_handleSave_def handleItemSave_def)
  then show ?thesis using saved_fields_typed [of Map.empty 0 "[RowOpen 1, ModalEditBtn, ModalSaveBtn]"] by simp
qed

theorem select_all_stale_witness:
  "selectAll (inv_run (inv_init 0) [HeaderCheckbox, BulkSelect ''delete'' True]) \<and>
   selectedItems (inv_run (inv_init 0) [HeaderCheckbox, BulkSelect ''delete'' True]) = []"
  using select_all_stale [of "inv_run (inv_init 0) [HeaderCheckbox]" True] run_check_all
  by (simp add: inv_run_def)

theorem bulk_acts_on_hidden_witness:
  "bulk_log (inv_run (inv_init 0) [HeaderCheckbox, TextInput KSearch ''zzz'', BulkSelect ''export'' False]) =
     [(''export'', selectedItems (inv_run (inv_init 0) [HeaderCheckbox]))] \<and>
   selectedItems (inv_run (inv_init 0) [HeaderCheckbox]) \<noteq> [] \<and>
   displayed (inv_run (inv_init 0) [HeaderCheckbox, TextInput KSearch ''zzz'']) = []"
proof -
  have h: "\<not> modal_visible (inv_run (inv_init 0) [HeaderCheckbox])" "selectedItems (inv_run (inv_init 0) [HeaderCheckbox]) \<noteq> []"
    "bulkValue (inv_run (inv_init 0) [HeaderCheckbox]) = []" "bulk_log (inv_run (inv_init 0) [HeaderCheckbox]) = []"
    using run_check_all by simp_all
  have "inv_run (inv_init 0) [HeaderCheckbox, TextInput KSearch ''zzz''] =
        (inv_run (inv_init 0) [HeaderCheckbox])\<lparr>filters := empty_filters\<lparr>fl_search := ''zzz''\<rparr>, ip_now := 0\<rparr>"
    using h by (simp add: inv_run_def inv_step_def inv_init_def table_handleSelectAll_def filter_handleChange_def)
  then have "displayed (inv_run (inv_init 0) [HeaderCheckbox, TextInput KSearch ''zzz'']) = []"
    by (simp add: search_zzz_hides_all)
  then show ?thesis
    using bulk_acts_on_hidden [OF h(1) h(2), of "''export''" "''zzz''" False] h by (simp add: inv_run_def)
qed

theorem modal_state_survives_close_witness:
  "selectedItem (inv_step (inv_step (inv_run (inv_init 0) [RowOpen 1, ModalEditBtn]) ModalX) (RowOpen 2)) =
     Some (inventoryItems 0 ! 1) \<and>
   editMode (inv_step (inv_step (inv_run (inv_init 0) [RowOpen 1, ModalEditBtn]) ModalX) (RowOpen 2))"
proof -
  have "find (\<lambda>item. ii_id item = 2) (displayed (inv_run (inv_init 0) [RowOpen 1, ModalEditBtn])) =
        Some (inventoryItems 0 ! 1)"
    using run_open_edit by (simp add: find_displayed inventoryItems_def)
  then show ?thesis using modal_state_survives_close run_open_edit by blast
qed

end
