(* ===== verification/InventoryTableView.thy ===== *)
theory InventoryTableView
  imports InventoryPage
begin

text \<open>
  What the inventory table renders (src/src/pages/inventory-management/components/
  InventoryTable.jsx) for a state of InventoryPage's \<open>inv_page\<close>: the header with its
  select-all checkbox and sort buttons, one row per displayed item and the empty state.
  The clicks a row takes are InventoryPage's \<open>RowCheckbox\<close> and \<open>RowOpen\<close> events;
  \<open>formatDate\<close>, \<open>formatCurrency\<close> and \<open>toLocaleString\<close> (Intl) are not modelled, a cell
  holds the value handed to them.
\<close>

subsection \<open>The header\<close>

text \<open>A header cell: its label, and for a sortable column the key \<open>onSort\<close> gets and the icon.\<close>

record header_cell =
  hc_label :: string
  hc_sort :: "(inv_col \<times> string) option"

definition table_columns :: "(string \<times> inv_col option) list" where
  "table_columns =
     [(''Nama Bahan'', Some ColName), (''Stok Saat Ini'', Some ColCurrentStock), (''Satuan'', None),
      (''Pemasok'', Some ColSupplier), (''Terakhir Diperbarui'', Some ColLastUpdated),
      (''Status Stok'', Some ColStatus), (''Nilai (IDR)'', Some ColValue)]"

definition table_header :: "inv_col \<times> sort_dir \<Rightarrow> header_cell list" where
  "table_header cfg =
     map (\<lambda>(label, key). \<lparr>hc_label = label, hc_sort = map_option (\<lambda>k. (k, getSortIcon cfg k)) key\<rparr>) table_columns"

subsection \<open>The rows\<close>

record row_view =
  rv_id :: nat
  rv_checked :: bool
  rv_name :: string
  rv_category :: string
  rv_stock :: rat
  rv_unit :: string
  rv_supplier :: string
  rv_lastUpdated :: int
  rv_badge :: string
  rv_statusText :: string
  rv_value :: rat

definition row_view :: "nat list \<Rightarrow> inv_item \<Rightarrow> row_view" where
  "row_view selected item =
     \<lparr>rv_id = ii_id item, rv_checked = (ii_id item \<in> set selected), rv_name = ii_name item,
      rv_category = ii_category item, rv_stock = ii_currentStock item, rv_unit = ii_unit item,
      rv_supplier = ii_supplier item, rv_lastUpdated = ii_lastUpdated item,
      rv_badge = table_statusBg (ii_status item) @ '' '' @ table_statusColor (ii_status item),
      rv_statusText = table_statusText (ii_status item), rv_value = ii_value item\<rparr>"

text \<open>
  Where a row is clicked: the row itself, the checkbox, the padding of the checkbox cell
  (its \<open>stopPropagation\<close> swallows the click), the actions button, or the padding of the
  actions cell.  The event the click is, if any.
\<close>

datatype row_target = RowBody | CheckInput | CheckCellPad | ActionsBtn | ActionsCellPad

fun row_click :: "nat \<Rightarrow> row_target \<Rightarrow> inv_event option" where
  "row_click i RowBody = Some (RowOpen i)"
| "row_click i CheckInput = Some (RowCheckbox i)"
| "row_click i ActionsBtn = Some (RowOpen i)"
| "row_click i _ = None"

subsection \<open>The table\<close>

record table_view =
  tv_selectAll :: bool
  tv_header :: "header_cell list"
  tv_rows :: "row_view list"
  tv_empty :: "(string \<times> string) option"

definition table_view :: "inv_page \<Rightarrow> table_view" where
  "table_view s =
     (let items = displayed s in
      \<lparr>tv_selectAll = selectAll s, tv_header = table_header (sortConfig s),
       tv_rows = map (row_view (selectedItems s)) items,
       tv_empty = (if items = [] then Some (''Tidak Ada Data Inventori'',
                     ''Belum ada bahan baku yang ditambahkan ke sistem inventori.'') else None)\<rparr>)"

text \<open>A click in row \<open>i\<close> of the table: the event it is, taken by the page.\<close>

definition table_click :: "inv_page \<Rightarrow> nat \<Rightarrow> row_target \<Rightarrow> inv_page" where
  "table_click s i target = (case row_click i target of None \<Rightarrow> s | Some e \<Rightarrow> inv_step s e)"

subsection \<open>Properties\<close>

lemma table_view_fields [simp]:
  "tv_rows (table_view s) = map (row_view (selectedItems s)) (displayed s)"
  "tv_selectAll (table_view s) = selectAll s"
  "tv_empty (table_view s) = (if displayed s = [] then Some (''Tidak Ada Data Inventori'',
                     ''Belum ada bahan baku yang ditambahkan ke sistem inventori.'') else None)"
  by (simp_all add: table_view_def Let_def)

lemma row_view_checked_map: "map rv_checked (map (row_view sel) xs) = map (\<lambda>i. ii_id i \<in> set sel) xs"
  by (simp add: row_view_def)

lemma find_row:
  "distinct (map ii_id xs) \<Longrightarrow> x \<in> set xs \<Longrightarrow> find (\<lambda>r. rv_id r = ii_id x) (map (row_view sel) xs) = Some (row_view sel x)"
  by (induction xs) (auto simp: row_view_def)

lemma displayed_sel_upd [simp]:
  "displayed (s\<lparr>selectedItems := a\<rparr>) = displayed s"
  "displayed (s\<lparr>selectAll := b, selectedItems := a\<rparr>) = displayed s"
  "displayed (s\<lparr>selectedItems := a, selectAll := b\<rparr>) = displayed s"
  "displayed (s\<lparr>selectAll := b\<rparr>) = displayed s"
  by (simp_all add: displayed_def)

lemma set_displayed: "set (displayed s) = {i \<in> set (inventoryItems (ip_now s)). matches_filters (filters s) i}"
  by (metis displayed_def filteredAndSortedItems_def mset_js_sort set_mset_mset set_filter)

text \<open>
  Whatever the sort configuration, exactly one header button shows a direction arrow, the
  one of the sort key, pointing the sort's way; the unit column alone has no sort button.
\<close>

theorem sort_header_marks_key:
  "filter (\<lambda>(k, ic). ic \<noteq> ''ArrowUpDown'') (List.map_filter hc_sort (table_header cfg)) =
     [(fst cfg, if snd cfg = Asc then ''ArrowUp'' else ''ArrowDown'')] \<and>
   map hc_label (filter (\<lambda>c. hc_sort c = None) (table_header cfg)) = [''Satuan'']"
proof -
  obtain k d where "cfg = (k, d)" by fastforce
  then show ?thesis
    by (cases k; cases d) (simp_all add: table_header_def table_columns_def getSortIcon_def map_filter_simps)
qed

text \<open>
  C37: A click on the checkbox of a displayed row flips that row's tick and changes nothing else
  of the row.
\<close>

theorem row_checkbox_toggles:
  assumes "\<not> modal_visible s" "x \<in> set (displayed s)"
  shows "find (\<lambda>r. rv_id r = ii_id x) (tv_rows (table_view (table_click s (ii_id x) CheckInput))) =
           Some ((row_view (selectedItems s) x)\<lparr>rv_checked := ii_id x \<notin> set (selectedItems s)\<rparr>)"
proof -
  let ?s' = "table_handleItemSelect (ii_id x) (ii_id x \<notin> set (selectedItems s)) s"
  have step: "table_click s (ii_id x) CheckInput = ?s'"
    using assms by (simp add: table_click_def inv_step_def)
  have "displayed ?s' = displayed s" by (simp add: table_handleItemSelect_def)
  then have "find (\<lambda>r. rv_id r = ii_id x) (tv_rows (table_view ?s')) = Some (row_view (selectedItems ?s') x)"
    using find_row [OF conjunct1 [OF displayed_ids [of s]] assms(2)] by simp
  then show ?thesis
    by (simp add: step) (auto simp: row_view_def table_handleItemSelect_def)
qed

text \<open>
  A click on the header checkbox flips it and ticks every displayed row, or clears every
  tick, keeping the rows and their order.
\<close>

theorem header_checkbox_rows:
  assumes "\<not> modal_visible s"
  shows "tv_selectAll (table_view (inv_step s HeaderCheckbox)) = (\<not> selectAll s) \<and>
         map rv_checked (tv_rows (table_view (inv_step s HeaderCheckbox))) = replicate (length (displayed s)) (\<not> selectAll s) \<and>
         map rv_id (tv_rows (table_view (inv_step s HeaderCheckbox))) = map rv_id (tv_rows (table_view s))"
proof -
  have "map (\<lambda>i. ii_id i \<in> set (map ii_id (displayed s))) (displayed s) = map (\<lambda>_. True) (displayed s)"
    by (rule map_cong) simp_all
  then show ?thesis
    using assms by (simp add: inv_step_def table_handleSelectAll_def row_view_checked_map map_replicate_const
      del: set_map) (simp add: row_view_def comp_def map_replicate_const)
qed

text \<open>
  A click on a displayed row, or on its actions button, opens the detail dialog for that
  item (the checkbox cell's padding and the actions cell's padding do nothing).
\<close>

theorem row_opens_dialog:
  assumes "\<not> modal_visible s" "x \<in> set (displayed s)" "target \<in> {RowBody, ActionsBtn}"
  shows "modal_visible (table_click s (ii_id x) target) \<and> selectedItem (table_click s (ii_id x) target) = Some x"
proof -
  have "find (\<lambda>item. ii_id item = ii_id x) (displayed s) = Some x"
    using find_distinct_key [OF conjunct1 [OF displayed_ids [of s]] assms(2)] .
  then show ?thesis using assms by (auto simp: table_click_def inv_step_def handleItemClick_def modal_visible_def)
qed

text \<open>
  When the filters hide every item, the table shows the empty state, which says that no
  ingredient has been added yet, while the inventory holds eight.
\<close>

theorem filtered_empty_state:
  "tv_empty (table_view (inv_run (inv_init now) [TextInput KSearch ''zzz''])) =
     Some (''Tidak Ada Data Inventori'', ''Belum ada bahan baku yang ditambahkan ke sistem inventori.'') \<and>
   length (inventoryItems now) = 8"
proof -
  have "filter (matches_filters (empty_filters\<lparr>fl_search := ''zzz''\<rparr>)) (inventoryItems now) = []"
    by (simp add: matches_filters_def empty_filters_def inventoryItems_def js_lower_def js_lower_char_def)
  then show ?thesis
    by (simp add: inv_run_def inv_step_def inv_init_def modal_visible_def filter_handleChange_def
        displayed_def filteredAndSortedItems_def js_sort.simps inventoryItems_def)
qed

lemma displayed_init_0: "inventoryItems 0 ! 0 \<in> set (displayed (inv_init 0)) \<and> ii_id (inventoryItems 0 ! 0) = 1"
  by (simp add: set_displayed inv_init_def) (simp add: inventoryItems_def)

theorem row_checkbox_toggles_witness:
  "find (\<lambda>r. rv_id r = 1) (tv_rows (table_view (table_click (inv_init 0) 1 CheckInput))) =
     Some ((row_view [] (inventoryItems 0 ! 0))\<lparr>rv_checked := True\<rparr>)"
  using row_checkbox_toggles [of "inv_init 0" "inventoryItems 0 ! 0"] displayed_init_0
  by (simp add: inv_init_def modal_visible_def)

theorem header_checkbox_rows_witness:
  "tv_selectAll (table_view (inv_step (inv_init 0) HeaderCheckbox)) \<and>
   map rv_checked (tv_rows (table_view (inv_step (inv_init 0) HeaderCheckbox))) = replicate 8 True"
proof -
  have "length (displayed (inv_init 0)) = 8"
    by (simp add: displayed_length inv_init_def inventoryItems_def)
  then show ?thesis
    using header_checkbox_rows [of "inv_init 0"] by (simp add: inv_init_def modal_visible_def)
qed

theorem row_opens_dialog_witness:
  "modal_visible (table_click (inv_init 0) 1 ActionsBtn) \<and>
   selectedItem (table_click (inv_init 0) 1 ActionsBtn) = Some (inventoryItems 0 ! 0)"
  using row_opens_dialog [of "inv_init 0" "inventoryItems 0 ! 0" ActionsBtn] displayed_init_0
  by (simp add: inv_init_def modal_visible_def)

end
