(* ===== verification/ItemDialogView.thy ===== *)
theory ItemDialogView
  imports InventoryPage
begin

text \<open>
  What the item detail dialog renders (src/src/pages/inventory-management/components/
  ItemDetailModal.jsx) for a state of InventoryPage's \<open>inv_page\<close>: its header buttons,
  its tabs and the content of the active tab.  The clicks on these elements are
  InventoryPage's \<open>Modal...\<close> events; \<open>formatCurrency\<close> and \<open>formatDate\<close> (Intl) are not
  modelled, a cell holds the value handed to them.
\<close>

subsection \<open>The basic tab\<close>

text \<open>An input of the basic tab: label, field, the value it shows (\<open>None\<close> is \<open>undefined\<close>) and \<open>disabled\<close>.\<close>

record dialog_input =
  di_label :: string
  di_field :: string
  di_value :: "fval option"
  di_disabled :: bool

definition input_labels :: "(string \<times> string) list" where
  "input_labels =
     [(''Nama Bahan'', ''name''), (''Kategori'', ''category''), (''Stok Saat Ini'', ''currentStock''),
      (''Satuan'', ''unit''), (''Stok Minimum'', ''minStock''), (''Harga per Unit (IDR)'', ''unitPrice'')]"

text \<open>\<open>item[field]\<close> for the fields of the basic tab.\<close>

definition item_field :: "inv_item \<Rightarrow> string \<Rightarrow> fval option" where
  "item_field item field =
     (if field = ''name'' then Some (FStr (ii_name item))
      else if field = ''category'' then Some (FStr (ii_category item))
      else if field = ''currentStock'' then Some (FNum (Some (ii_currentStock item)))
      else if field = ''unit'' then Some (FStr (ii_unit item))
      else if field = ''minStock'' then Some (FNum (Some (ii_minStock item)))
      else if field = ''unitPrice'' then Some (FNum (Some (ii_unitPrice item)))
      else None)"

text \<open>\<open>value={editMode ? formData.f : item.f}\<close>, \<open>disabled={!editMode}\<close>.\<close>

definition basic_inputs :: "bool \<Rightarrow> (string \<rightharpoonup> fval) \<Rightarrow> inv_item \<Rightarrow> dialog_input list" where
  "basic_inputs edit formData item =
     map (\<lambda>(label, field). \<lparr>di_label = label, di_field = field,
                            di_value = (if edit then formData field else item_field item field),
                            di_disabled = (\<not> edit)\<rparr>) input_labels"

subsection \<open>The history and analytics tabs\<close>

record history_view =
  hv_tone :: string
  hv_icon :: string
  hv_label :: string
  hv_date :: int
  hv_qty :: string
  hv_note :: string

definition history_tone :: "string \<Rightarrow> string" where
  "history_tone typ =
     (if typ = ''in'' then ''bg-success/20 text-success'' else if typ = ''out'' then ''bg-warning/20 text-warning''
      else ''bg-primary/20 text-primary'')"

definition history_view :: "stock_entry \<Rightarrow> history_view" where
  "history_view e =
     \<lparr>hv_tone = history_tone (se_type e), hv_icon = history_icon (se_type e), hv_label = history_label (se_type e),
      hv_date = se_date e, hv_qty = history_qty_line e, hv_note = se_notes e @ bullet_sep @ ''oleh '' @ se_user e\<rparr>"

record usage_analytics =
  ua_dailyAverage :: rat
  ua_weeklyTrend :: string
  ua_monthlyUsage :: nat
  ua_predictedRunOut :: int
  ua_topRecipes :: "(string \<times> nat \<times> nat) list"

definition usageAnalytics :: "int \<Rightarrow> usage_analytics" where
  "usageAnalytics now =
     \<lparr>ua_dailyAverage = 85 / 10, ua_weeklyTrend = ''+12%'', ua_monthlyUsage = 255,
      ua_predictedRunOut = now + 7 * 24 * 60 * 60 * 1000,
      ua_topRecipes = [(''Nasi Gudeg Spesial'', 45, 35), (''Ayam Bakar Bumbu Rujak'', 32, 25),
                       (''Soto Ayam Lamongan'', 28, 22)]\<rparr>"

subsection \<open>The dialog\<close>

text \<open>
  The content of a tab: the basic tab's inputs, status badge (classes, text), value and
  update time; the history entries; the supplier's name and average price; the analytics
  cards (daily, weekly, monthly, run-out text) and the top recipes.
\<close>

datatype tab_content =
    BasicInfo "dialog_input list" "string \<times> string" rat int
  | StockHistoryTab "history_view list"
  | SupplierInfo string rat
  | AnalyticsTab rat string nat string "(string \<times> nat \<times> nat) list"

definition tab_contents :: "int \<Rightarrow> string \<Rightarrow> bool \<Rightarrow> (string \<rightharpoonup> fval) \<Rightarrow> inv_item \<Rightarrow> tab_content list" where
  "tab_contents now tab edit formData item =
     (if tab = ''basic'' then [BasicInfo (basic_inputs edit formData item)
                                 (modal_statusColor (ii_status item), modal_statusText (ii_status item))
                                 (ii_value item) (ii_lastUpdated item)] else []) @
     (if tab = ''history'' then [StockHistoryTab (map history_view (stockHistory now))] else []) @
     (if tab = ''supplier'' then [SupplierInfo (ii_supplier item) (ii_unitPrice item)] else []) @
     (if tab = ''analytics'' then
        (let ua = usageAnalytics now in
         [AnalyticsTab (ua_dailyAverage ua) (ua_weeklyTrend ua) (ua_monthlyUsage ua) ''7 hari'' (ua_topRecipes ua)])
      else [])"

datatype dialog_button = EditB | CancelB | SaveB | CloseB


record dialog_view =
  dv_title :: string
  dv_subtitle :: string
  dv_buttons :: "dialog_button list"
  dv_tabs :: "(string \<times> bool) list"
  dv_content :: "tab_content list"

text \<open>The tabs' labels, in the order of \<open>modal_tabs\<close>.\<close>

definition tab_labels :: "string list" where
  "tab_labels = [''Info Dasar'', ''Riwayat Stok'', ''Pemasok'', ''Analitik'']"

text \<open>\<open>if (!isOpen || !item) return null\<close>, otherwise the dialog for the selected item.\<close>

definition item_dialog :: "inv_page \<Rightarrow> dialog_view option" where
  "item_dialog s =
     (case selectedItem s of
        None \<Rightarrow> None
      | Some item \<Rightarrow>
          if \<not> modalOpen s then None
          else Some \<lparr>dv_title = ii_name item, dv_subtitle = ii_category item,
                     dv_buttons = (if \<not> editMode s then [EditB] else [CancelB, SaveB]) @ [CloseB],
                     dv_tabs = map (\<lambda>(t, l). (l, md_activeTab s = t)) (zip modal_tabs tab_labels),
                     dv_content = tab_contents (ip_now s) (md_activeTab s) (editMode s) (md_formData s) item\<rparr>)"

text \<open>The inputs the dialog shows, for stating what the basic tab renders.\<close>

definition shown_inputs :: "dialog_view option \<Rightarrow> dialog_input list" where
  "shown_inputs v =
     (case v of None \<Rightarrow> [] | Some d \<Rightarrow> concat (map (\<lambda>c. case c of BasicInfo ins b x t \<Rightarrow> ins | _ \<Rightarrow> []) (dv_content d)))"

subsection \<open>Properties\<close>

lemma page_step_tab: "md_activeTab (page_step s e) = md_activeTab s \<and> editMode (page_step s e) = editMode s"
  by (cases e) (simp_all add: filter_handleChange_def inv_handleSort_def table_handleSelectAll_def
      table_handleItemSelect_def handleItemClick_def handleBulkAction_def split: option.splits)

lemma inv_step_tab: "md_activeTab s \<in> set modal_tabs \<Longrightarrow> md_activeTab (inv_step s e) \<in> set modal_tabs"
  unfolding inv_step_def using page_step_tab [of s e]
  by (cases e) (auto simp: handleModalClose_def md_handleSave_def handleItemSave_def md_handleInputChange_def
      split: option.splits)

lemma inv_run_tab: "md_activeTab (inv_run (inv_init now) es) \<in> set modal_tabs"
  unfolding inv_run_def
proof (induction es rule: rev_induct)
  case Nil then show ?case by (simp add: inv_init_def modal_tabs_def)
next
  case (snoc e es) then show ?case by (simp add: inv_step_tab)
qed


text \<open>
  In every state the page reaches, an open dialog shows exactly one tab as active and
  the content of exactly one tab.
\<close>

theorem one_tab_shown:
  assumes "item_dialog (inv_run (inv_init now) es) = Some v"
  shows "length (dv_content v) = 1 \<and> length (filter snd (dv_tabs v)) = 1"
proof -
  have "md_activeTab (inv_run (inv_init now) es) \<in> set modal_tabs" by (rule inv_run_tab)
  then show ?thesis using assms
    by (auto simp: item_dialog_def modal_tabs_def tab_labels_def tab_contents_def Let_def split: option.splits if_splits)
qed

text \<open>
  Opened on the first item, the basic tab shows the item's values; after Edit, its six
  inputs are enabled but show \<open>undefined\<close>, since the form was never loaded from the item.
\<close>

theorem edit_shows_blank_inputs:
  "map di_value (shown_inputs (item_dialog (inv_run (inv_init 0) [RowOpen 1]))) =
     [Some (FStr ''Daging Sapi Premium''), Some (FStr ''Daging''), Some (FNum (Some (455 / 10))), Some (FStr ''kg''),
      Some (FNum (Some 20)), Some (FNum (Some 120000))] \<and>
   map di_value (shown_inputs (item_dialog (inv_run (inv_init 0) [RowOpen 1, ModalEditBtn]))) = replicate 6 None \<and>
   map di_disabled (shown_inputs (item_dialog (inv_run (inv_init 0) [RowOpen 1, ModalEditBtn]))) = replicate 6 False"
  by (simp add: shown_inputs_def item_dialog_def inv_run_def inv_step_def inv_init_def modal_visible_def
      find_displayed handleItemClick_def inventoryItems_def tab_contents_def basic_inputs_def input_labels_def
      item_field_def eval_nat_numeral)


theorem one_tab_shown_witness:
  "item_dialog (inv_run (inv_init 0) [RowOpen 1, ModalTabBtn ''history'']) \<noteq> None \<and>
   length (dv_content (the (item_dialog (inv_run (inv_init 0) [RowOpen 1, ModalTabBtn ''history''])))) = 1"
proof -
  obtain v where v: "item_dialog (inv_run (inv_init 0) [RowOpen 1, ModalTabBtn ''history'']) = Some v"
    by (simp add: item_dialog_def inv_run_def inv_step_def inv_init_def modal_visible_def find_displayed
        handleItemClick_def inventoryItems_def modal_tabs_def)
  show ?thesis using one_tab_shown [OF v] v by simp
qed

end
