(* ===== verification/InventorySummary.thy ===== *)
theory InventorySummary
  imports Inventory
begin

text \<open>
  The inventory page's summary panel
  (src/src/pages/inventory-management/components/InventorySummary.jsx) for the page's
  \<open>summaryData\<close>: the four cards, the stock-alert box and the panel's buttons.  A card's
  value is the number handed to \<open>toLocaleString('id-ID')\<close> or to \<open>formatCurrency\<close> (Intl,
  not modelled).  The page's \<open>onAddItem\<close> and \<open>onGeneratePO\<close> only write to the console;
  the panel's other buttons have no handler.
\<close>

datatype card_value = CountValue nat | MoneyValue rat

record summary_card =
  sc_title :: string
  sc_value :: card_value
  sc_icon :: string
  sc_color :: string
  sc_bgColor :: string
  sc_description :: string

definition inv_summaryCards :: "summary_data \<Rightarrow> summary_card list" where
  "inv_summaryCards d =
    [\<lparr>sc_title = ''Total Item'', sc_value = CountValue (totalItems d), sc_icon = ''Package'',
      sc_color = ''text-primary'', sc_bgColor = ''bg-primary/10'', sc_description = ''Bahan baku terdaftar''\<rparr>,
     \<lparr>sc_title = ''Stok Rendah'', sc_value = CountValue (lowStockItems d), sc_icon = ''AlertTriangle'',
      sc_color = ''text-warning'', sc_bgColor = ''bg-warning/10'', sc_description = ''Item perlu diisi ulang''\<rparr>,
     \<lparr>sc_title = ''Stok Kritis'', sc_value = CountValue (criticalStockItems d), sc_icon = ''AlertCircle'',
      sc_color = ''text-error'', sc_bgColor = ''bg-error/10'', sc_description = ''Item segera habis''\<rparr>,
     \<lparr>sc_title = ''Total Nilai'', sc_value = MoneyValue (totalValue d), sc_icon = ''DollarSign'',
      sc_color = ''text-success'', sc_bgColor = ''bg-success/10'', sc_description = ''Nilai inventori saat ini''\<rparr>]"

text \<open>The stock-alert box: the badge \<open>lowStockItems + criticalStockItems\<close> and its two rows.\<close>

record stock_alert_box =
  sa_badge :: string
  sa_rows :: "(string \<times> string) list"

definition stock_alert_box :: "summary_data \<Rightarrow> stock_alert_box" where
  "stock_alert_box d =
     \<lparr>sa_badge = show_nat (lowStockItems d + criticalStockItems d) @ '' Item'',
      sa_rows = [(''Stok Rendah'', show_nat (lowStockItems d) @ '' item''),
                 (''Stok Kritis'', show_nat (criticalStockItems d) @ '' item'')]\<rparr>"

datatype summary_button =
    AddItemBtn | GeneratePOBtn | ExportBtn | RefreshActivitiesBtn | AllActivitiesBtn | LowStockPOBtn

text \<open>What a click on a button of the panel does: the console line the page's handler writes.\<close>

fun summary_click :: "summary_button \<Rightarrow> string option" where
  "summary_click AddItemBtn = Some ''Adding new item''"
| "summary_click GeneratePOBtn = Some ''Generating purchase order''"
| "summary_click b = None"

subsection \<open>Properties\<close>

text \<open>
  The panel of the page: eight items, two low and two critical by their stored status, and
  the stock-alert box counts four; none of its buttons creates an item or a purchase order.
\<close>

theorem summary_panel:
  "map sc_value (inv_summaryCards (summaryData now)) =
     [CountValue 8, CountValue 2, CountValue 2, MoneyValue 13055000] \<and>
   sa_badge (stock_alert_box (summaryData now)) = ''4 Item'' \<and>
   set (map summary_click [AddItemBtn, GeneratePOBtn, ExportBtn, RefreshActivitiesBtn, AllActivitiesBtn, LowStockPOBtn])
     = {Some ''Adding new item'', Some ''Generating purchase order'', None}"
proof -
  have d: "summaryData now = \<lparr>totalItems = 8, lowStockItems = 2, criticalStockItems = 2, totalValue = 13055000\<rparr>"
    by (simp add: summaryData_def inventoryItems_def)
  have "show_nat 4 = ''4''" by code_simp
  then show ?thesis by (simp add: d inv_summaryCards_def stock_alert_box_def insert_commute)
qed

end
