(* ===== verification/NavigationView.thy ===== *)
theory NavigationView
  imports Navigation
begin

text \<open>
  What the shared navigation widgets render (src/src/components/ui/PrimarySidebar.jsx's
  \<open>renderMenuItem\<close>, BreadcrumbNavigation.jsx's list and page actions), for the
  location and the submenu state of Navigation's \<open>app_state\<close>.  The clicks on these
  elements are Navigation's \<open>MenuItem\<close>, \<open>CrumbClick\<close> and \<open>BackBtn\<close> events; the
  breadcrumbs' page-action buttons have no handler.
\<close>

subsection \<open>The sidebar's entries\<close>

datatype item_look = LookActive | LookParent | LookPlain

text \<open>\<open>renderMenuItem\<close>'s class choice: active, parent of the active route, or plain.\<close>

definition item_look :: "string \<Rightarrow> bool \<Rightarrow> nav_item \<Rightarrow> item_look" where
  "item_look pathname isSubmenuItem item =
     (let hasSubmenu = (ni_submenu item \<noteq> None \<and> \<not> isSubmenuItem)
      in if isActiveRoute pathname (ni_path item) then LookActive
         else if hasSubmenu \<and> isActiveParent pathname (ni_submenu item) then LookParent else LookPlain)"

record entry_view =
  ev_label :: string
  ev_icon :: string
  ev_title :: string
  ev_look :: item_look
  ev_sub :: bool
  ev_chevron :: "bool option"

definition entry_of :: "string \<Rightarrow> (string \<rightharpoonup> bool) \<Rightarrow> bool \<Rightarrow> nav_item \<Rightarrow> entry_view" where
  "entry_of pathname expanded isSubmenuItem item =
     \<lparr>ev_label = ni_label item, ev_icon = ni_icon item, ev_title = ni_description item,
      ev_look = item_look pathname isSubmenuItem item, ev_sub = isSubmenuItem,
      ev_chevron = (if ni_submenu item \<noteq> None \<and> \<not> isSubmenuItem
                    then Some (expanded (ni_id item) = Some True) else None)\<rparr>"

text \<open>The entries in the order they are rendered, submenus of expanded entries after their parent.\<close>

definition render_entries :: "string \<Rightarrow> (string \<rightharpoonup> bool) \<Rightarrow> entry_view list" where
  "render_entries pathname expanded =
     concat (map (\<lambda>i. entry_of pathname expanded False i #
                      (case ni_submenu i of
                         None \<Rightarrow> []
                       | Some sub \<Rightarrow> if expanded (ni_id i) = Some True then map (entry_of pathname expanded True) sub else []))
                 navigationItems)"

text \<open>The highlighted entries, with their looks.\<close>

definition highlighted :: "entry_view list \<Rightarrow> (string \<times> item_look) list" where
  "highlighted vs = map (\<lambda>v. (ev_label v, ev_look v)) (filter (\<lambda>v. ev_look v \<noteq> LookPlain) vs)"

text \<open>The sidebar's two quick actions: label and the path handed to \<open>handleNavigation\<close>.\<close>

definition sidebar_quick_actions :: "(string \<times> string) list" where
  "sidebar_quick_actions = [(''New Order'', ''/point-of-sale-interface''), (''View Reports'', ''/dashboard'')]"

subsection \<open>The breadcrumb bar\<close>

datatype crumb_look = CrumbCurrent | CrumbLink string | CrumbDisabled

text \<open>A crumb is a plain label when current, otherwise a button, disabled without a path.\<close>

definition crumb_look :: "crumb \<Rightarrow> crumb_look" where
  "crumb_look c =
     (if cr_current c then CrumbCurrent else case cr_path c of Some p \<Rightarrow> CrumbLink p | None \<Rightarrow> CrumbDisabled)"

record crumb_bar =
  cb_back :: bool
  cb_items :: "(string \<times> string \<times> crumb_look) list"
  cb_actions :: "string list"

text \<open>The page actions rendered for a path: labels of buttons without \<open>onClick\<close>.\<close>

definition page_actions :: "string \<Rightarrow> string list" where
  "page_actions pathname =
     (if pathname = ''/inventory-management'' then [''Export'', ''Add Item'']
      else if pathname = ''/recipe-management'' then [''Import Recipes'', ''New Recipe'']
      else if pathname = ''/purchase-orders'' then [''Generate Report'', ''Create Order'']
      else if pathname = ''/point-of-sale-interface'' then [''Print Receipt'', ''Process Payment'']
      else if pathname = ''/kitchen-display-system'' then [''Refresh Orders'', ''Mark Ready'']
      else [])"

definition crumb_bar :: "string \<Rightarrow> crumb_bar option" where
  "crumb_bar pathname =
     map_option (\<lambda>bs. \<lparr>cb_back = 1 < length bs,
                        cb_items = map (\<lambda>c. (cr_label c, cr_icon c, crumb_look c)) bs,
                        cb_actions = page_actions pathname\<rparr>)
       (breadcrumbs pathname)"

subsection \<open>Properties\<close>

lemma render_entries_visible: "map ev_label (render_entries p e) = map ni_label (visible_items e)"
  by (simp add: render_entries_def visible_items_def navigationItems_def entry_of_def split: option.splits)

text \<open>
  On each page with the sidebar, the highlighted entries: the page's own entry is active
  (shown only while its submenu is expanded), and the Inventory entry is marked as the
  parent of an inventory page even while collapsed.
\<close>

theorem sidebar_highlight:
  "highlighted (render_entries ''/dashboard'' e) = [(''Dashboard'', LookActive)] \<and>
   highlighted (render_entries ''/recipe-management'' e) =
     [(''Inventory'', LookParent)] @ (if e ''inventory'' = Some True then [(''Recipe Management'', LookActive)] else []) \<and>
   highlighted (render_entries ''/inventory-management'' e) =
     [(''Inventory'', LookParent)] @ (if e ''inventory'' = Some True then [(''Stock Management'', LookActive)] else []) \<and>
   highlighted (render_entries ''/purchase-orders'' e) =
     [(''Inventory'', LookParent)] @ (if e ''inventory'' = Some True then [(''Purchase Orders'', LookActive)] else [])"
  by (cases "e ''inventory'' = Some True")
     (simp_all add: highlighted_def render_entries_def navigationItems_def entry_of_def item_look_def
        isActiveRoute_def isActiveParent_def)

text \<open>
  The breadcrumb bar of the purchase-order page: Back, a link to the dashboard, the
  disabled "Inventory" crumb and the current page; its two action buttons do nothing.
\<close>

theorem purchase_orders_crumbs:
  "crumb_bar ''/purchase-orders'' =
     Some \<lparr>cb_back = True,
           cb_items = [(''Dashboard'', ''BarChart3'', CrumbLink ''/dashboard''), (''Inventory'', ''Package'', CrumbDisabled),
                       (''Purchase Orders'', ''ShoppingCart'', CrumbCurrent)],
           cb_actions = [''Generate Report'', ''Create Order'']\<rparr>"
  by (simp add: crumb_bar_def breadcrumbs_def routeMap_def crumb_look_def page_actions_def)

end
