(* ===== verification/Spec2Isabelle.thy ===== *)
theory Spec2Isabelle
  imports CartView POSCatalog Kitchen KitchenScreen KitchenPanel POWizard POTable OrderDetails TestRecipe CostAnalysis RecipeList Dashboard DashboardPage Notifications InventoryPage InventoryTableView ItemDialogView InventorySummary Navigation NavigationView
begin

text \<open>
  \<^bold>\<open>A verification library for gourmet_pos.\<close>

  The repository is the React front end of a restaurant point of sale: a POS checkout page,
  an inventory page, purchase orders with reorder suggestions, recipe costing, a dashboard,
  a kitchen display and the shared navigation and notification widgets.  All data is mock
  data held in component state; every behaviour is a handler that replaces a piece of React
  state (\<open>setX(prev => ...)\<close>) or a value derived from state during rendering.  The
  library models each page's state as a record, each handler as a function from the old
  state to the new one, each derived value as a function of the state, and each page's UI
  as a datatype of events with a step function whose guards are what the page renders
  (a button that is not rendered or is disabled cannot be clicked).  Runs are \<open>foldl\<close>
  of the step over a list of events.  JavaScript numbers are exact rationals
  (\<open>money = rat\<close>), so floating-point rounding is not modelled; divisions by zero, which
  JavaScript turns into \<open>Infinity\<close> or \<open>NaN\<close>, are the type \<open>jsnum\<close>, and
  \<open>parseFloat\<close> returns \<open>None\<close> for NaN.  Effects that React runs after a render
  (\<open>useEffect\<close>) are applied inside the step that triggers them; a timer or an
  \<open>await\<close> splits a handler into a start and a later event.

  \<^bold>\<open>Theories and what they model\<close> (paths under src/src/).
  \<^item> \<open>Prelude\<close>: \<open>jsnum\<close>, \<open>js_div\<close>, \<open>js_round\<close>, \<open>js_or\<close> (\<open>parseFloat(v) || d\<close>),
    \<open>js_sum\<close> (\<open>reduce\<close>), \<open>map_where\<close>, \<open>js_lower\<close>, \<open>js_includes\<close>, \<open>js_trim\<close>,
    \<open>parseFloat_str\<close>, \<open>parseInt_str\<close>, \<open>show_nat\<close>, \<open>show_int\<close>, \<open>pad_start\<close>,
    \<open>toFixed1\<close> (\<open>toFixed(1)\<close>), \<open>js_rem\<close> (\<open>%\<close> on integers), and the shared list,
    digit-string and \<open>find\<close> lemmas.
  \<^item> \<open>JsSort\<close>: \<open>Array.prototype.sort\<close> (stable since ES2019) as the merge sort
    \<open>js_sort\<close> over a comparator returning an integer, defined by well-founded recursion
    on the length; a comparator built from a key (\<open>key_cmp\<close>) sorts as the library's
    \<open>sort_key\<close>, and \<open>rev_ord\<close> (an instantiation of \<open>linorder\<close>) gives descending orders.
  \<^item> \<open>Cart\<close> (pages/point-of-sale-interface/index.jsx, ShoppingCart.jsx, ProductGrid.jsx):
    catalogue, cart lines, the page's cart handlers, the cart buttons as \<open>cart_step\<close>; the
    well-formedness invariant and the refinement to a bag of counts.
  \<^item> \<open>Pricing\<close> (ShoppingCart.jsx): subtotal, PPN 11\%, service 5\%, total; refinement of
    the spec's PricingCalculator.
  \<^item> \<open>Payment\<close> (ShoppingCart.jsx, PaymentModal.jsx): change, the process-button guard,
    the dialog's state, \<open>canProcessPayment\<close>, card-number formatting with its round trip,
    and refinement of the spec's PaymentReconciler.
  \<^item> \<open>POS\<close> (pages/point-of-sale-interface/index.jsx): the page composing cart, totals and
    dialog; the dialog's confirm split at its two-second \<open>await\<close> (\<open>PaymentDone\<close>).
    Invariants: cash receipts are covered, at most one payment is in flight.
  \<^item> \<open>CartView\<close> (ShoppingCart.jsx): what the cart renders for a POS state
    (\<open>cart_view\<close>: count, lines, summary, methods, cash input and change, process button).
    Lemmas: the process button is enabled exactly when its click acts; the change is
    never shown red; the count counts lines.
  \<^item> \<open>Stock\<close> (dashboard LowStockAlert.jsx, ReorderSuggestions.jsx bands): percentages with
    the division at \<open>minStock = 0\<close>, bar colour and width; the spec's classifier.
  \<^item> \<open>Kitchen\<close> (kitchen-display-system OrderCard.jsx, StatusColumn.jsx, dashboard
    KitchenStatus.jsx): the status flow as the \<open>inductive\<close> relation \<open>kds_step\<close> with
    monotonicity, reachability of completion and the frozen final state; progress and timers.
  \<^item> \<open>KitchenScreen\<close> (kitchen-display-system StatusColumn.jsx, KitchenHeader.jsx, which
    no page renders): the column as a function of its props, the header's refresh button as
    the state machine \<open>kh_step\<close> over \<open>isRefreshing\<close>, unsettled \<open>onRefresh\<close> promises
    and pending timers, with the inductive set \<open>kh_reach\<close> of its reachable states; whether
    a loading Button takes clicks is the parameter \<open>blocks\<close> (Button is not in the
    sources).  Lemmas: one refresh in flight at most with a blocking button (rule
    induction); a rejected \<open>onRefresh\<close> leaves the button loading for good.
  \<^item> \<open>KitchenPanel\<close> (dashboard KitchenStatus.jsx): the panel's fixed counters and one
    \<open>panel_row\<close> per active order (priority and status configuration, items joined by
    \<open>js_join\<close>, bar and width).  Lemmas: the overdue marks agree; the counters disagree
    with the listed orders.
  \<^item> \<open>Reorder\<close> (purchase-orders ReorderSuggestions.jsx): selection of suggestions and its
    invariant; the spec's ReorderAdvisor.
  \<^item> \<open>PurchaseOrders\<close> (pages/purchase-orders/*): the page with an explicit store of item
    objects (\<open>po_store\<close>), because the order form edits the very objects the order list
    holds; the form, the dialog, orders from suggestions grouped by supplier, the PO-number
    scheme and the table's (inconsistent) comparator; \<open>po_step\<close> over all events.
  \<^item> \<open>POTable\<close> (purchase-orders/components/OrdersTable.jsx, OrderDetailsModal.jsx): the
    table's own state (sort, status filter, defaults on remount) as a layer \<open>tb_step\<close>
    over \<open>po_step\<close> whose row buttons act only on shown rows.  Lemma: editing any shown
    order and saving overwrites its status, delivered and cancelled included.
  \<^item> \<open>OrderDetails\<close> (purchase-orders/components/OrderDetailsModal.jsx): the dialog's
    view of \<open>selectedOrder\<close> (badge, item rows read from the store, history, summary,
    buttons) and its clicks, which are exactly the page's \<open>ModalEdit\<close>/\<open>ModalDelete\<close>
    steps.  Lemmas, over every run of \<open>po_step\<close> (via \<open>orders_all\<close>): the shown summary
    adds up, and no order ever becomes confirmed or delivered; a saved draft is shown as
    sent; the mock orders' rows do not add up to their subtotals.
  \<^item> \<open>POWizard\<close> (CreateOrderForm.jsx's \<open>currentStep\<close>): the order form's three steps
    as a layer \<open>wz_step\<close> over \<open>po_step\<close>, with the screen width a parameter of the run.
    Lemma: on narrow screens the unguarded review send only sees complete forms (an
    invariant of the layer).  On wide screens the layer is the page itself.
  \<^item> \<open>Recipe\<close> (pages/recipe-management/*): the editor with its two effects (reload on
    selection, recompute on ingredient or serving changes), validation, the one-second save
    timer as a pending queue, cost analysis; refinement of the spec's RecipeCostEngine.
    JS array identity of the ingredient lists is part of the state: each recipe carries
    the identity \<open>ing_arr\<close> of its array, the page a counter \<open>next_arr\<close> for fresh
    arrays (\<open>new_list\<close>, where the editor copies, spreads or filters), and the load
    effect keeps the list recipe's own array, as RecipeEditor.jsx line 52 does.
  \<^item> \<open>CostAnalysis\<close> (recipe-management/components/CostAnalysisModal.jsx): the summary
    cards, \<open>toFixed(1)\<close> percentages, the margin colour and the comparison prices.  The
    dialog's in-place \<open>ingredients.sort\<close> is part of Recipe's \<open>OpenCostAnalysis\<close> event
    (\<open>share_sort\<close>): it reorders every holder of the editor's array, the form, the list
    recipe it was loaded from, the selection and queued saves.  Lemmas: opening the
    analysis reorders those by descending cost and leaves recipes with other arrays
    alone; the minimum price's margin label is wrong.
    The rendered dialog is \<open>analysis_view\<close> (table rows, whole \<open>recommendations\<close>);
    lemmas: the rows' shares add up to the footer's 100\% when the total is the sum of
    the ingredients, and the low-margin advice \<open>totalCost * 2.5\<close> gives a 60\% margin.
  \<^item> \<open>RecipeList\<close> (recipe-management/components/RecipeList.jsx and the page's
    \<open>viewMode\<close>): the list's search and sort state (reset when the list mounts), its
    comparator sort through \<open>js_sort\<close> with the runtime collation \<open>localeCompare\<close> as the
    parameter \<open>lc\<close>, the cards, and \<open>rl_step\<close> over \<open>recipe_step\<close> with the screen width
    a parameter.  Lemmas: each sort mode is \<open>sort_key\<close> on its field; a click selects
    and highlights the card; "Hapus filter" restores the
    list; a copy stays shown; on a narrow screen the page starts blank.
  \<^item> \<open>TestRecipe\<close> (recipe-management/components/TestRecipeModal.jsx, the page's
    \<open>handleTestRecipe\<close> and \<open>handleSubmitTest\<close>, the editor's Test Resep button): the
    always-mounted test dialog (\<open>test_state\<close>, \<open>dialog_step\<close>) beside the recipe page
    (\<open>page_test_step\<close>, which blocks page events while the dialog covers the page).  Lemmas:
    ratings stay 1 to 5 and issues distinct, the shown average lies in [1, 5], closing keeps
    the typed form for the next recipe, submit hands over form plus recipe and resets.
  \<^item> \<open>Notifications\<close> (components/ui/NotificationCenter.jsx): the panel, its simulated feed,
    actions, filter and sort; at most twenty notifications.
  \<^item> \<open>Inventory\<close> (pages/inventory-management/index.jsx, InventoryFilters.jsx,
    InventoryTable.jsx, InventorySummary.jsx, ItemDetailModal.jsx): items, the filter with
    its date range (a date input's value read by \<open>new Date\<close>: \<open>parse_date_only\<close>,
    \<open>days_from_civil\<close>), the comparator over typed cell values (\<open>sort_val\<close>, an
    instantiation of \<open>linorder\<close>), summary and display helpers.  Lemmas: the table's sort is
    \<open>sort_key\<close>; date round trip; category and end-date behaviour; statuses against the spec.
  \<^item> \<open>InventorySummary\<close> (inventory-management/components/InventorySummary.jsx): the
    summary cards, the stock-alert box and what each of the panel's buttons does.
  \<^item> \<open>InventoryPage\<close>: the page, the table's \<open>selectAll\<close>, the uncontrolled bulk
    select and the always-mounted detail dialog as one state machine \<open>inv_step\<close>.  Lemmas:
    the selection invariant, the type of the dialog's form, what Save hands on, and the
    stale states after bulk delete and after closing the dialog.
  \<^item> \<open>InventoryTableView\<close> (inventory-management/components/InventoryTable.jsx): what
    the table renders for a page state (\<open>table_view\<close>: header with sort buttons and icons,
    one \<open>row_view\<close> per displayed item, the empty state) and where a click in a row goes
    (\<open>row_click\<close>, \<open>table_click\<close>).  Lemmas: one arrow on the sort key's button, a
    checkbox click flips its row's tick, the header checkbox ticks or clears all rows, a row
    or its actions button opens the dialog, and the empty state's text under a filter.
  \<^item> \<open>ItemDialogView\<close> (inventory-management/components/ItemDetailModal.jsx): what the
    item dialog renders for a page state (\<open>item_dialog\<close>: header buttons, tabs, the active
    tab's \<open>tab_contents\<close>).  Lemmas: the buttons shown are exactly those whose click
    changes the state, one tab is active and shown in every reachable state, and the
    inputs of edit mode show \<open>undefined\<close>.
  \<^item> \<open>Navigation\<close> (Routes.jsx, components/ui/BreadcrumbNavigation.jsx,
    PrimarySidebar.jsx, GlobalHeader.jsx, the dashboard's quick actions and the point of
    sale's report button): routes, breadcrumbs and Back, the sidebar with its submenu, the
    header's dropdowns, as one step \<open>nav_step\<close> over an application state in which a
    route change remounts the page.  Lemmas: dropdowns exclusive and the sidebar open only
    where rendered; the kitchen link is a dead end.  The header's menu button is
    \<open>lg:hidden\<close>, so it toggles the sidebar only on a narrow screen.
  \<^item> \<open>NavigationView\<close> (PrimarySidebar.jsx's \<open>renderMenuItem\<close>, BreadcrumbNavigation.jsx's
    list and page actions): what the widgets render for a location and submenu state.
    Lemmas: the rendered entries are the clickable ones; the highlighted entries per page;
    the purchase-order breadcrumb bar and its handler-less actions.
  \<^item> \<open>POSCatalog\<close> (point-of-sale index.jsx, CategorySidebar.jsx, ProductGrid.jsx,
    POSHeader.jsx): the selected category and search, the grid's add with its highlight,
    the header's shift timer, alert buttons and its rendered right-hand side
    (\<open>pos_header_view\<close>), as \<open>catalog_step\<close> around \<open>pos_step\<close>.
    Lemmas: the shift timer's hours and minutes; the sidebar's item counts are wrong and
    Snack is empty.
  \<^item> \<open>Dashboard\<close> (pages/dashboard/index.jsx, components/SalesChart.jsx,
    TopItemsChart.jsx, RecentOrdersTable.jsx): the static metrics, the sales chart with its
    range state, the top items and the recent orders' badges.  Lemmas: the range buttons
    do not change the plotted data; the shares are revenue shares; the badges and icons.
  \<^item> \<open>DashboardPage\<close> (pages/dashboard/index.jsx): the metric cards built from the
    page's metrics and the page's six buttons through \<open>handleQuickAction\<close>.  Lemma: where
    each button leads ("Dapur" to NotFound, the report buttons nowhere).  Also the rows
    of RecentOrdersTable.jsx (\<open>recent_row\<close>), whose payment cell labels an unknown
    method "Digital".
  \<^item> \<open>Spec2Isabelle\<close>: this overview and the cash checkout across Cart, Pricing, Payment and
    POS.

  \<^bold>\<open>Bounds and fuel.\<close>  No loop of the source can run forever: handlers are straight-line
  code over finite lists, so every definition is a total \<open>fun\<close>, \<open>primrec\<close> or
  \<open>definition\<close>, and \<open>js_sort\<close> a \<open>function\<close> with a termination proof; no fuel is needed.
  Timers are events, so "eventually" is a statement about runs that contain the event.

  \<^bold>\<open>Not modelled.\<close>  The NotFound page and the other imported modules missing from the
  sources (AppIcon, Button, ErrorBoundary), the kitchen header's clock and the dashboard's footer clock,
  handlers that only log beyond the console lines recorded (the inventory page's auto-refresh; the test dialog's \<open>handleSubmitTest\<close> is modelled as the list
  of results it receives), JSX markup and styling, and \<open>Intl\<close> formatting of currency
  and dates (\<open>toLocaleString\<close> in the headers), the recharts drawing and the layout toggles
  (mobile cart overlay, sidebar width) beyond those modelled.  Array sorts use a consistent comparator except in the purchase-order table,
  where only the comparator is modelled.
\<close>

section \<open>Properties across components\<close>

text \<open>
  C1: A cash checkout at the point of sale does what it says.  From any page state where
  the dialog is closed, nothing is in flight, the cart is not empty and its process button
  is enabled, the sequence "process, choose cash, type an amount of at least the total,
  confirm, wait" records exactly one new receipt: the cart's lines at a total of subtotal
  plus tax plus service charge, paid in cash with the typed amount and change amount minus
  total; the cart is then empty and the dialog closed.  This composes the cart (Cart), the
  totals (Pricing), the dialog (Payment) and the page (POS).
\<close>

theorem pos_checkout_cash:
  assumes "\<not> showPaymentModal s" and "cartItems s \<noteq> []" and "pending s = None"
    and "\<not> m_processing (modal s)"
    and "\<not> cart_process_disabled (cart_paymentMethod s) (cart_customerMoney s) (total (cart_totals (cartItems s)))"
    and "total (cart_totals (cartItems s)) \<le> v"
  shows "\<exists>d. receipts (pos_run s [CartProcess, ModalMethod Cash, ModalMoney (Some v), ModalConfirm, PaymentDone now])
               = receipts s @ [d] \<and>
             pd_items d = cartItems s \<and> pd_total d = total (cart_totals (cartItems s)) \<and>
             pd_paymentMethod d = Cash \<and> pd_customerMoney d = v \<and>
             pd_change d = Some (v - total (cart_totals (cartItems s))) \<and>
             cartItems (pos_run s [CartProcess, ModalMethod Cash, ModalMoney (Some v), ModalConfirm, PaymentDone now]) = [] \<and>
             \<not> showPaymentModal (pos_run s [CartProcess, ModalMethod Cash, ModalMoney (Some v), ModalConfirm, PaymentDone now])"
  using assms
  by (simp add: pos_run_def cart_handleProcessPayment_def pos_handleProcessPayment_def
      canProcessPayment_def modal_confirm_start_def modal_confirm_finish_def pos_handleConfirmPayment_def
      modal_payment_data_def modal_change_def Let_def)

theorem pos_checkout_cash_witness:
  "\<exists>d. receipts (pos_run (pos_run pos_init [CartUI (SelectProduct (all_products ! 0)), CartMethod Qris])
          [CartProcess, ModalMethod Cash, ModalMoney (Some 30000), ModalConfirm, PaymentDone 1]) = [d] \<and>
       pd_change d = Some 1000"
proof -
  let ?s = "pos_run pos_init [CartUI (SelectProduct (all_products ! 0)), CartMethod Qris]"
  have h1: "\<not> showPaymentModal ?s" and h2: "cartItems ?s \<noteq> []" and h3: "pending ?s = None"
    and h4: "\<not> m_processing (modal ?s)"
    and h5: "\<not> cart_process_disabled (cart_paymentMethod ?s) (cart_customerMoney ?s) (total (cart_totals (cartItems ?s)))"
    and h6: "total (cart_totals (cartItems ?s)) \<le> 30000"
    and t: "total (cart_totals (cartItems ?s)) = 29000" and r: "receipts ?s = []"
    by (simp_all add: pos_eval)
  show ?thesis using pos_checkout_cash [OF h1 h2 h3 h4 h5 h6, of 1] t r by auto
qed

end
